theory Spec2Isabelle
  imports Complex_Main
begin

section \<open>Data model\<close>

text \<open>
  The wrappers of \<^verbatim>\<open>mmg2d.c\<close>, \<^verbatim>\<open>mmg3d.c\<close> and \<^verbatim>\<open>mmgs.c\<close> keep pairs of native
  pointers in three static tables of \<^verbatim>\<open>MAX_HANDLES\<close> entries and hand out the index of
  an entry as the handle. Pointers are addresses, with \<open>0\<close> for the null pointer; a
  \<^verbatim>\<open>double\<close> is a \<open>real\<close> (the wrappers pass doubles through and never compute with
  them). A C \<^verbatim>\<open>int\<close> is an \<open>int\<close>, and where the wrappers compute with one (the byte count
  of an allocation, the counter of the loop over the elements) the wrap-around of the
  32-bit arithmetic is written out.
\<close>

type_synonym ptr = nat

abbreviation NULL :: ptr where
  "NULL \<equiv> 0"

abbreviation MAX_HANDLES :: nat where
  "MAX_HANDLES \<equiv> 64"

text \<open>
  \<^verbatim>\<open>typedef struct { MMG5_pMesh mesh; MMG5_pSol sol; int active; }\<close>: the three files
  declare the same struct under the names \<^verbatim>\<open>HandleEntry2D\<close>, \<^verbatim>\<open>HandleEntry\<close> and
  \<^verbatim>\<open>HandleEntryS\<close>.
\<close>

record HandleEntry =
  mesh :: ptr
  sol :: ptr
  active :: int

definition zero_entry :: HandleEntry where
  "zero_entry = \<lparr>mesh = NULL, sol = NULL, active = 0\<rparr>"

subsection \<open>Machine integers\<close>

text \<open>
  The target is wasm32. An \<^verbatim>\<open>int\<close> and an \<^verbatim>\<open>MMG5_int\<close> are 32 bits wide (the files assert
  \<^verbatim>\<open>sizeof(MMG5_int) == sizeof(int32_t)\<close>) and take 4 bytes, a \<^verbatim>\<open>size_t\<close> is 32 bits wide,
  and a \<^verbatim>\<open>double\<close> takes 8 bytes. \<open>int32 n\<close> is what a 32-bit signed variable holds when
  the exact result of an operation is \<open>n\<close>, and \<open>size_t n\<close> is \<open>n\<close> converted to
  \<^verbatim>\<open>size_t\<close>: both wrap around modulo \<open>2 ^ 32\<close>. In \<^verbatim>\<open>count * sizeof(type)\<close> the count is
  converted to \<^verbatim>\<open>size_t\<close> and the product is taken there, so the byte count is the
  \<open>size_t\<close> of the exact product of the count and the size; a count that is itself a
  product such as \<^verbatim>\<open>2 * np\<close> is computed as an \<^verbatim>\<open>int\<close> before.
\<close>

definition int32 :: "int \<Rightarrow> int" where
  "int32 n = (n + 2 ^ 31) mod 2 ^ 32 - 2 ^ 31"

definition size_t :: "int \<Rightarrow> nat" where
  "size_t n = nat (n mod 2 ^ 32)"

subsection \<open>The C heap\<close>

text \<open>
  A block of the heap is a list of cells, one for each element; a cell that was never
  written is \<open>Uninit\<close>. The heap is the list of the live blocks with their addresses.
  Whether a call of \<^verbatim>\<open>malloc\<close> succeeds is the environment's choice: it is the first
  argument of \<open>malloc\<close>. A successful call returns an address that is neither null nor
  the address of a live block. \<open>malloc ok elem bytes\<close> is \<^verbatim>\<open>(type*)malloc(bytes)\<close> with
  \<open>elem\<close> for \<^verbatim>\<open>sizeof(type)\<close>: a block of \<open>bytes\<close> bytes has room for \<open>bytes div elem\<close>
  elements.
\<close>

datatype cell = Uninit | D real | I32 int

type_synonym heap = "(ptr \<times> cell list) list"

definition highest :: "heap \<Rightarrow> ptr" where
  "highest h = foldr (\<lambda>b m. max (fst b) m) h 0"

definition fresh :: "heap \<Rightarrow> ptr" where
  "fresh h = Suc (highest h)"

definition malloc :: "bool \<Rightarrow> nat \<Rightarrow> nat \<Rightarrow> heap \<Rightarrow> ptr \<times> heap" where
  "malloc ok elem bytes h =
     (if ok then (fresh h, (fresh h, replicate (bytes div elem) Uninit) # h) else (NULL, h))"

text \<open>\<^verbatim>\<open>free(NULL)\<close> does nothing.\<close>

definition free :: "ptr \<Rightarrow> heap \<Rightarrow> heap" where
  "free p h = (if p = NULL then h else filter (\<lambda>b. fst b \<noteq> p) h)"

text \<open>The library filling an output buffer it was given: it overwrites the first cells.\<close>

definition poke :: "ptr \<Rightarrow> cell list \<Rightarrow> heap \<Rightarrow> heap" where
  "poke p xs h = map (\<lambda>b. if fst b = p then (fst b, xs @ drop (length xs) (snd b)) else b) h"

definition block_at :: "heap \<Rightarrow> ptr \<Rightarrow> cell list option" where
  "block_at h p = map_of h p"

text \<open>
  The assignment \<^verbatim>\<open>p[i] = v\<close> is defined when \<open>p\<close> is the address of a live block and
  \<open>i\<close> is the index of one of its elements: \<open>in_block\<close> says so, and then \<open>store\<close> is the
  assignment.
\<close>

definition in_block :: "heap \<Rightarrow> ptr \<Rightarrow> int \<Rightarrow> bool" where
  "in_block h p i =
     (case block_at h p of None \<Rightarrow> False | Some c \<Rightarrow> 0 \<le> i \<and> nat i < length c)"

definition store :: "ptr \<Rightarrow> nat \<Rightarrow> cell \<Rightarrow> heap \<Rightarrow> heap" where
  "store p i v h = map (\<lambda>b. if fst b = p then (fst b, (snd b)[i := v]) else b) h"

subsection \<open>The external library\<close>

text \<open>
  The MMG library is not part of the wrappers: each wrapper is a function of the
  library's primitives, given as a record of functions over the library's own memory
  \<open>'k\<close> (the native meshes and solutions, and the file system). A primitive that
  changes an instance returns the new memory with its result; a \<^verbatim>\<open>Get_\<close> primitive
  only reads, and returns its result with what it writes through its output
  parameters. An array the caller passes in is the list of its elements (\<open>None\<close> for a
  null \<^verbatim>\<open>refs\<close>). The library never touches the wrappers' tables (they are
  \<^verbatim>\<open>static\<close>) nor the blocks the wrappers allocate, except to fill them.
\<close>

record 'k MMG2D =
  MMG2D_Init_mesh :: "'k \<Rightarrow> (int \<times> ptr \<times> ptr) \<times> 'k"
  MMG2D_Init_parameters :: "ptr \<Rightarrow> 'k \<Rightarrow> 'k"
  MMG2D_Free_all :: "ptr \<Rightarrow> ptr \<Rightarrow> 'k \<Rightarrow> 'k"
  MMG2D_Set_meshSize :: "ptr \<Rightarrow> int \<Rightarrow> int \<Rightarrow> int \<Rightarrow> int \<Rightarrow> 'k \<Rightarrow> int \<times> 'k"
  MMG2D_Get_meshSize :: "ptr \<Rightarrow> 'k \<Rightarrow> int \<times> int \<times> int \<times> int \<times> int"
  MMG2D_Set_vertex :: "ptr \<Rightarrow> real \<Rightarrow> real \<Rightarrow> int \<Rightarrow> int \<Rightarrow> 'k \<Rightarrow> int \<times> 'k"
  MMG2D_Set_vertices :: "ptr \<Rightarrow> real list \<Rightarrow> int list option \<Rightarrow> 'k \<Rightarrow> int \<times> 'k"
  MMG2D_Get_vertices :: "ptr \<Rightarrow> 'k \<Rightarrow> int \<times> real list \<times> int list \<times> int list \<times> int list"
  MMG2D_Set_triangle :: "ptr \<Rightarrow> int \<Rightarrow> int \<Rightarrow> int \<Rightarrow> int \<Rightarrow> int \<Rightarrow> 'k \<Rightarrow> int \<times> 'k"
  MMG2D_Set_triangles :: "ptr \<Rightarrow> int list \<Rightarrow> int list option \<Rightarrow> 'k \<Rightarrow> int \<times> 'k"
  MMG2D_Get_triangles :: "ptr \<Rightarrow> 'k \<Rightarrow> int \<times> int list \<times> int list \<times> int list"
  MMG2D_Set_edge :: "ptr \<Rightarrow> int \<Rightarrow> int \<Rightarrow> int \<Rightarrow> int \<Rightarrow> 'k \<Rightarrow> int \<times> 'k"
  MMG2D_Set_edges :: "ptr \<Rightarrow> int list \<Rightarrow> int list option \<Rightarrow> 'k \<Rightarrow> int \<times> 'k"
  MMG2D_Get_edges :: "ptr \<Rightarrow> 'k \<Rightarrow> int \<times> int list \<times> int list \<times> int list \<times> int list"
  MMG2D_Set_iparameter :: "ptr \<Rightarrow> ptr \<Rightarrow> int \<Rightarrow> int \<Rightarrow> 'k \<Rightarrow> int \<times> 'k"
  MMG2D_Set_dparameter :: "ptr \<Rightarrow> ptr \<Rightarrow> int \<Rightarrow> real \<Rightarrow> 'k \<Rightarrow> int \<times> 'k"
  MMG2D_Set_solSize :: "ptr \<Rightarrow> ptr \<Rightarrow> int \<Rightarrow> int \<Rightarrow> int \<Rightarrow> 'k \<Rightarrow> int \<times> 'k"
  MMG2D_Get_solSize :: "ptr \<Rightarrow> ptr \<Rightarrow> 'k \<Rightarrow> int \<times> int \<times> int \<times> int"
  MMG2D_Set_scalarSols :: "ptr \<Rightarrow> real list \<Rightarrow> 'k \<Rightarrow> int \<times> 'k"
  MMG2D_Get_scalarSols :: "ptr \<Rightarrow> 'k \<Rightarrow> int \<times> real list"
  MMG2D_Set_tensorSols :: "ptr \<Rightarrow> real list \<Rightarrow> 'k \<Rightarrow> int \<times> 'k"
  MMG2D_Get_tensorSols :: "ptr \<Rightarrow> 'k \<Rightarrow> int \<times> real list"
  MMG2D_mmg2dlib :: "ptr \<Rightarrow> ptr \<Rightarrow> 'k \<Rightarrow> int \<times> 'k"
  MMG2D_loadMesh :: "ptr \<Rightarrow> string \<Rightarrow> 'k \<Rightarrow> int \<times> 'k"
  MMG2D_saveMesh :: "ptr \<Rightarrow> string \<Rightarrow> 'k \<Rightarrow> int \<times> 'k"
  MMG2D_loadSol :: "ptr \<Rightarrow> ptr \<Rightarrow> string \<Rightarrow> 'k \<Rightarrow> int \<times> 'k"
  MMG2D_saveSol :: "ptr \<Rightarrow> ptr \<Rightarrow> string \<Rightarrow> 'k \<Rightarrow> int \<times> 'k"
  MMG2D_Get_triangleQuality :: "ptr \<Rightarrow> ptr \<Rightarrow> int \<Rightarrow> 'k \<Rightarrow> real"

record 'k MMG3D =
  MMG3D_Init_mesh :: "'k \<Rightarrow> (int \<times> ptr \<times> ptr) \<times> 'k"
  MMG3D_Init_parameters :: "ptr \<Rightarrow> 'k \<Rightarrow> 'k"
  MMG3D_Free_all :: "ptr \<Rightarrow> ptr \<Rightarrow> 'k \<Rightarrow> 'k"
  MMG3D_Set_meshSize :: "ptr \<Rightarrow> int \<Rightarrow> int \<Rightarrow> int \<Rightarrow> int \<Rightarrow> int \<Rightarrow> int \<Rightarrow> 'k \<Rightarrow> int \<times> 'k"
  MMG3D_Get_meshSize :: "ptr \<Rightarrow> 'k \<Rightarrow> int \<times> int \<times> int \<times> int \<times> int \<times> int \<times> int"
  MMG3D_Set_vertex :: "ptr \<Rightarrow> real \<Rightarrow> real \<Rightarrow> real \<Rightarrow> int \<Rightarrow> int \<Rightarrow> 'k \<Rightarrow> int \<times> 'k"
  MMG3D_Set_vertices :: "ptr \<Rightarrow> real list \<Rightarrow> int list option \<Rightarrow> 'k \<Rightarrow> int \<times> 'k"
  MMG3D_Get_vertices :: "ptr \<Rightarrow> 'k \<Rightarrow> int \<times> real list \<times> int list \<times> int list \<times> int list"
  MMG3D_Set_tetrahedron :: "ptr \<Rightarrow> int \<Rightarrow> int \<Rightarrow> int \<Rightarrow> int \<Rightarrow> int \<Rightarrow> int \<Rightarrow> 'k \<Rightarrow> int \<times> 'k"
  MMG3D_Set_tetrahedra :: "ptr \<Rightarrow> int list \<Rightarrow> int list option \<Rightarrow> 'k \<Rightarrow> int \<times> 'k"
  MMG3D_Get_tetrahedra :: "ptr \<Rightarrow> 'k \<Rightarrow> int \<times> int list \<times> int list \<times> int list"
  MMG3D_Set_triangle :: "ptr \<Rightarrow> int \<Rightarrow> int \<Rightarrow> int \<Rightarrow> int \<Rightarrow> int \<Rightarrow> 'k \<Rightarrow> int \<times> 'k"
  MMG3D_Set_triangles :: "ptr \<Rightarrow> int list \<Rightarrow> int list option \<Rightarrow> 'k \<Rightarrow> int \<times> 'k"
  MMG3D_Get_triangles :: "ptr \<Rightarrow> 'k \<Rightarrow> int \<times> int list \<times> int list \<times> int list"
  MMG3D_Set_iparameter :: "ptr \<Rightarrow> ptr \<Rightarrow> int \<Rightarrow> int \<Rightarrow> 'k \<Rightarrow> int \<times> 'k"
  MMG3D_Set_dparameter :: "ptr \<Rightarrow> ptr \<Rightarrow> int \<Rightarrow> real \<Rightarrow> 'k \<Rightarrow> int \<times> 'k"
  MMG3D_Set_solSize :: "ptr \<Rightarrow> ptr \<Rightarrow> int \<Rightarrow> int \<Rightarrow> int \<Rightarrow> 'k \<Rightarrow> int \<times> 'k"
  MMG3D_Get_solSize :: "ptr \<Rightarrow> ptr \<Rightarrow> 'k \<Rightarrow> int \<times> int \<times> int \<times> int"
  MMG3D_Set_scalarSols :: "ptr \<Rightarrow> real list \<Rightarrow> 'k \<Rightarrow> int \<times> 'k"
  MMG3D_Get_scalarSols :: "ptr \<Rightarrow> 'k \<Rightarrow> int \<times> real list"
  MMG3D_Set_tensorSols :: "ptr \<Rightarrow> real list \<Rightarrow> 'k \<Rightarrow> int \<times> 'k"
  MMG3D_Get_tensorSols :: "ptr \<Rightarrow> 'k \<Rightarrow> int \<times> real list"
  MMG3D_mmg3dlib :: "ptr \<Rightarrow> ptr \<Rightarrow> 'k \<Rightarrow> int \<times> 'k"
  MMG3D_loadMesh :: "ptr \<Rightarrow> string \<Rightarrow> 'k \<Rightarrow> int \<times> 'k"
  MMG3D_saveMesh :: "ptr \<Rightarrow> string \<Rightarrow> 'k \<Rightarrow> int \<times> 'k"
  MMG3D_loadSol :: "ptr \<Rightarrow> ptr \<Rightarrow> string \<Rightarrow> 'k \<Rightarrow> int \<times> 'k"
  MMG3D_saveSol :: "ptr \<Rightarrow> ptr \<Rightarrow> string \<Rightarrow> 'k \<Rightarrow> int \<times> 'k"
  MMG3D_Get_tetrahedronQuality :: "ptr \<Rightarrow> ptr \<Rightarrow> int \<Rightarrow> 'k \<Rightarrow> real"

record 'k MMGS =
  MMGS_Init_mesh :: "'k \<Rightarrow> (int \<times> ptr \<times> ptr) \<times> 'k"
  MMGS_Init_parameters :: "ptr \<Rightarrow> 'k \<Rightarrow> 'k"
  MMGS_Free_all :: "ptr \<Rightarrow> ptr \<Rightarrow> 'k \<Rightarrow> 'k"
  MMGS_Set_meshSize :: "ptr \<Rightarrow> int \<Rightarrow> int \<Rightarrow> int \<Rightarrow> 'k \<Rightarrow> int \<times> 'k"
  MMGS_Get_meshSize :: "ptr \<Rightarrow> 'k \<Rightarrow> int \<times> int \<times> int \<times> int"
  MMGS_Set_vertex :: "ptr \<Rightarrow> real \<Rightarrow> real \<Rightarrow> real \<Rightarrow> int \<Rightarrow> int \<Rightarrow> 'k \<Rightarrow> int \<times> 'k"
  MMGS_Set_vertices :: "ptr \<Rightarrow> real list \<Rightarrow> int list option \<Rightarrow> 'k \<Rightarrow> int \<times> 'k"
  MMGS_Get_vertices :: "ptr \<Rightarrow> 'k \<Rightarrow> int \<times> real list \<times> int list \<times> int list \<times> int list"
  MMGS_Set_triangle :: "ptr \<Rightarrow> int \<Rightarrow> int \<Rightarrow> int \<Rightarrow> int \<Rightarrow> int \<Rightarrow> 'k \<Rightarrow> int \<times> 'k"
  MMGS_Set_triangles :: "ptr \<Rightarrow> int list \<Rightarrow> int list option \<Rightarrow> 'k \<Rightarrow> int \<times> 'k"
  MMGS_Get_triangles :: "ptr \<Rightarrow> 'k \<Rightarrow> int \<times> int list \<times> int list \<times> int list"
  MMGS_Set_edge :: "ptr \<Rightarrow> int \<Rightarrow> int \<Rightarrow> int \<Rightarrow> int \<Rightarrow> 'k \<Rightarrow> int \<times> 'k"
  MMGS_Set_edges :: "ptr \<Rightarrow> int list \<Rightarrow> int list option \<Rightarrow> 'k \<Rightarrow> int \<times> 'k"
  MMGS_Get_edges :: "ptr \<Rightarrow> 'k \<Rightarrow> int \<times> int list \<times> int list \<times> int list \<times> int list"
  MMGS_Set_iparameter :: "ptr \<Rightarrow> ptr \<Rightarrow> int \<Rightarrow> int \<Rightarrow> 'k \<Rightarrow> int \<times> 'k"
  MMGS_Set_dparameter :: "ptr \<Rightarrow> ptr \<Rightarrow> int \<Rightarrow> real \<Rightarrow> 'k \<Rightarrow> int \<times> 'k"
  MMGS_Set_solSize :: "ptr \<Rightarrow> ptr \<Rightarrow> int \<Rightarrow> int \<Rightarrow> int \<Rightarrow> 'k \<Rightarrow> int \<times> 'k"
  MMGS_Get_solSize :: "ptr \<Rightarrow> ptr \<Rightarrow> 'k \<Rightarrow> int \<times> int \<times> int \<times> int"
  MMGS_Set_scalarSols :: "ptr \<Rightarrow> real list \<Rightarrow> 'k \<Rightarrow> int \<times> 'k"
  MMGS_Get_scalarSols :: "ptr \<Rightarrow> 'k \<Rightarrow> int \<times> real list"
  MMGS_Set_tensorSols :: "ptr \<Rightarrow> real list \<Rightarrow> 'k \<Rightarrow> int \<times> 'k"
  MMGS_Get_tensorSols :: "ptr \<Rightarrow> 'k \<Rightarrow> int \<times> real list"
  MMGS_mmgslib :: "ptr \<Rightarrow> ptr \<Rightarrow> 'k \<Rightarrow> int \<times> 'k"
  MMGS_loadMesh :: "ptr \<Rightarrow> string \<Rightarrow> 'k \<Rightarrow> int \<times> 'k"
  MMGS_saveMesh :: "ptr \<Rightarrow> string \<Rightarrow> 'k \<Rightarrow> int \<times> 'k"
  MMGS_loadSol :: "ptr \<Rightarrow> ptr \<Rightarrow> string \<Rightarrow> 'k \<Rightarrow> int \<times> 'k"
  MMGS_saveSol :: "ptr \<Rightarrow> ptr \<Rightarrow> string \<Rightarrow> 'k \<Rightarrow> int \<times> 'k"
  MMGS_Get_triangleQuality :: "ptr \<Rightarrow> ptr \<Rightarrow> int \<Rightarrow> 'k \<Rightarrow> real"

subsection \<open>The program state\<close>

text \<open>
  The static variables of the three files, the heap, and the memory of the library.
  \<open>fault\<close> is set once the program has written outside of the blocks of the heap: from
  there on its behaviour is undefined, and what the model says of it has no meaning.
\<close>

record 'k world =
  g_handles_2d :: "HandleEntry list"
  g_initialized_2d :: int
  g_handles :: "HandleEntry list"
  g_initialized :: int
  g_handles_s :: "HandleEntry list"
  g_initialized_s :: int
  heap :: heap
  fault :: bool
  native :: 'k

text \<open>Static storage is zero-initialised: the state when the program starts.\<close>

definition world0 :: "'k \<Rightarrow> 'k world" where
  "world0 k =
     \<lparr>g_handles_2d = replicate MAX_HANDLES zero_entry, g_initialized_2d = 0,
      g_handles = replicate MAX_HANDLES zero_entry, g_initialized = 0,
      g_handles_s = replicate MAX_HANDLES zero_entry, g_initialized_s = 0,
      heap = [], fault = False, native = k\<rparr>"

section \<open>The wrappers\<close>

subsection \<open>Shared shapes\<close>

text \<open>
  The two loops over a table are the same in the three files, and they only read the
  table:
  \<^verbatim>\<open>for (int i = 0; i < MAX_HANDLES; i++) if (!t[i].active) return i; return -1;\<close>
\<close>

function find_free_loop :: "nat \<Rightarrow> HandleEntry list \<Rightarrow> int" where
  "find_free_loop i t =
     (if i < MAX_HANDLES
      then (if active (t ! i) = 0 then int i else find_free_loop (Suc i) t)
      else - 1)"
  by pat_completeness auto
termination
  by (relation "measure (\<lambda>(i, t). MAX_HANDLES - i)") auto

text \<open>
  \<^verbatim>\<open>for (int i = 0; i < MAX_HANDLES; i++) if (!t[i].active) count++; return count;\<close>
\<close>

function available_loop :: "nat \<Rightarrow> int \<Rightarrow> HandleEntry list \<Rightarrow> int" where
  "available_loop i count t =
     (if i < MAX_HANDLES
      then available_loop (Suc i) (if active (t ! i) = 0 then count + 1 else count) t
      else count)"
  by pat_completeness auto
termination
  by (relation "measure (\<lambda>(i, count, t). MAX_HANDLES - i)") auto

text \<open>
  \<^verbatim>\<open>if (out_count) *out_count = 0; return NULL;\<close> An output parameter is the cell it
  points to, \<open>None\<close> when the pointer is null; a function returns the cell as it
  leaves it.
\<close>

definition fail_with_count :: "int option \<Rightarrow> ptr \<times> int option" where
  "fail_with_count out_count = (NULL, map_option (\<lambda>_. 0) out_count)"

text \<open>
  \<^verbatim>\<open>for (MMG5_int k = 1; k <= n; k++) qualities[k - 1] = Get_quality(mesh, sol, k);\<close>
  with \<open>q k\<close> for the library's answer at \<open>k\<close>. The counter is a 32-bit integer. The loop
  gives the heap it leaves, or \<open>None\<close> when an assignment falls outside of the block: the
  behaviour of the program is undefined from there on, and the loop of the model stops.
\<close>

function qualities_loop :: "(int \<Rightarrow> real) \<Rightarrow> ptr \<Rightarrow> int \<Rightarrow> int \<Rightarrow> heap \<Rightarrow> heap option" where
  "qualities_loop q p k n h =
     (if k \<le> n
      then if in_block h p (int32 (k - 1))
           then qualities_loop q p (int32 (k + 1)) n (store p (nat (int32 (k - 1))) (D (q k)) h)
           else None
      else Some h)"
  by pat_completeness auto
termination
proof (relation "measure (\<lambda>(q, p, k, n, h).
          if k < - 2147483648 \<or> 2147483648 \<le> k then 4294967298
          else if 1 \<le> k then nat (2147483650 - k)
          else if k = - 2147483648 then 1 else 0)")
  show "wf (measure (\<lambda>(q, p, k, n, h).
          if k < - 2147483648 \<or> 2147483648 \<le> k then 4294967298
          else if 1 \<le> k then nat (2147483650 - k)
          else if k = - 2147483648 then 1 else 0))" by simp
next
  fix q :: "int \<Rightarrow> real" and p :: ptr and k n :: int and h :: heap
  assume "k \<le> n" and "in_block h p (int32 (k - 1))"
  then have nn: "0 \<le> int32 (k - 1)"
    by (simp add: in_block_def split: option.splits)
  have lo: "- 2147483648 \<le> int32 (k + 1)" and hi: "int32 (k + 1) < 2147483648"
    by (simp_all add: int32_def)
  have step: "- 2147483648 \<le> k + 1 \<Longrightarrow> k + 1 < 2147483648 \<Longrightarrow> int32 (k + 1) = k + 1"
    by (simp add: int32_def)
  have top: "k = 2147483647 \<Longrightarrow> int32 (k + 1) = - 2147483648"
    by (simp add: int32_def)
  have neg: "- 2147483648 < k \<Longrightarrow> k \<le> 0 \<Longrightarrow> int32 (k - 1) = k - 1"
    by (simp add: int32_def)
  from nn neg have inside: "\<not> (- 2147483648 < k \<and> k \<le> 0)" by auto
  show "((q, p, int32 (k + 1), n, store p (nat (int32 (k - 1))) (D (q k)) h), (q, p, k, n, h))
        \<in> measure (\<lambda>(q, p, k, n, h).
          if k < - 2147483648 \<or> 2147483648 \<le> k then 4294967298
          else if 1 \<le> k then nat (2147483650 - k)
          else if k = - 2147483648 then 1 else 0)"
    using lo hi step top inside by (cases "k = 2147483647") auto
qed

subsection \<open>mmg2d.c\<close>

definition ensure_initialized_2d :: "'k world \<Rightarrow> 'k world" where
  "ensure_initialized_2d w =
     (if g_initialized_2d w = 0
      then w\<lparr>g_handles_2d := replicate MAX_HANDLES zero_entry, g_initialized_2d := 1\<rparr>
      else w)"

definition find_free_handle_2d :: "'k world \<Rightarrow> int \<times> 'k world" where
  "find_free_handle_2d w0 =
     (let w = ensure_initialized_2d w0 in (find_free_loop 0 (g_handles_2d w), w))"

definition validate_handle_2d :: "int \<Rightarrow> 'k world \<Rightarrow> int \<times> 'k world" where
  "validate_handle_2d handle w0 =
     (let w = ensure_initialized_2d w0 in
      if handle < 0 \<or> handle \<ge> int MAX_HANDLES then (0, w)
      else (active (g_handles_2d w ! nat handle), w))"

definition mmg2d_get_available_handles :: "'k world \<Rightarrow> int \<times> 'k world" where
  "mmg2d_get_available_handles w0 =
     (let w = ensure_initialized_2d w0 in (available_loop 0 0 (g_handles_2d w), w))"

definition mmg2d_get_max_handles :: "'k world \<Rightarrow> int \<times> 'k world" where
  "mmg2d_get_max_handles w = (int MAX_HANDLES, w)"

definition mmg2d_init :: "'k MMG2D \<Rightarrow> 'k world \<Rightarrow> int \<times> 'k world" where
  "mmg2d_init K w0 =
     (let (handle, w) = find_free_handle_2d w0 in
      if handle < 0 then (- 1, w)
      else
        let ((result, mesh', sol'), k) = MMG2D_Init_mesh K (native w) in
        if result \<noteq> 1 \<or> mesh' = NULL then (- 1, w\<lparr>native := k\<rparr>)
        else
          (handle,
           w\<lparr>native := MMG2D_Init_parameters K mesh' k,
             g_handles_2d := (g_handles_2d w)[nat handle := \<lparr>mesh = mesh', sol = sol', active = 1\<rparr>]\<rparr>))"

definition mmg2d_free :: "'k MMG2D \<Rightarrow> int \<Rightarrow> 'k world \<Rightarrow> int \<times> 'k world" where
  "mmg2d_free K handle w0 =
     (let (v, w) = validate_handle_2d handle w0 in
      if v = 0 then (0, w)
      else
        let e = g_handles_2d w ! nat handle in
        (1,
         w\<lparr>native := MMG2D_Free_all K (mesh e) (sol e) (native w),
           g_handles_2d := (g_handles_2d w)[nat handle := \<lparr>mesh = NULL, sol = NULL, active = 0\<rparr>]\<rparr>))"

definition mmg2d_set_mesh_size :: "'k MMG2D \<Rightarrow> int \<Rightarrow> int \<Rightarrow> int \<Rightarrow> int \<Rightarrow> int \<Rightarrow> 'k world \<Rightarrow> int \<times> 'k world" where
  "mmg2d_set_mesh_size K handle np nt nquad na w0 =
     (let (v, w) = validate_handle_2d handle w0 in
      if v = 0 then (0, w)
      else
        let e = g_handles_2d w ! nat handle;
            (r, k) = MMG2D_Set_meshSize K (mesh e) np nt nquad na (native w)
        in (r, w\<lparr>native := k\<rparr>))"

definition mmg2d_get_mesh_size :: "'k MMG2D \<Rightarrow> int \<Rightarrow> int option \<Rightarrow> int option \<Rightarrow> int option \<Rightarrow> int option \<Rightarrow> 'k world \<Rightarrow> (int \<times> int option \<times> int option \<times> int option \<times> int option) \<times> 'k world" where
  "mmg2d_get_mesh_size K handle np nt nquad na w0 =
     (let (v, w) = validate_handle_2d handle w0 in
      if v = 0 then ((0, np, nt, nquad, na), w)
      else
        let e = g_handles_2d w ! nat handle;
            (result, np', nt', nquad', na') = MMG2D_Get_meshSize K (mesh e) (native w)
        in if result = 1 then ((result, map_option (\<lambda>_. np') np, map_option (\<lambda>_. nt') nt, map_option (\<lambda>_. nquad') nquad, map_option (\<lambda>_. na') na), w) else ((result, np, nt, nquad, na), w))"

definition mmg2d_set_vertex :: "'k MMG2D \<Rightarrow> int \<Rightarrow> real \<Rightarrow> real \<Rightarrow> int \<Rightarrow> int \<Rightarrow> 'k world \<Rightarrow> int \<times> 'k world" where
  "mmg2d_set_vertex K handle x y ref pos w0 =
     (let (v, w) = validate_handle_2d handle w0 in
      if v = 0 then (0, w)
      else
        let e = g_handles_2d w ! nat handle;
            (r, k) = MMG2D_Set_vertex K (mesh e) x y ref pos (native w)
        in (r, w\<lparr>native := k\<rparr>))"

definition mmg2d_set_vertices :: "'k MMG2D \<Rightarrow> int \<Rightarrow> real list \<Rightarrow> int list option \<Rightarrow> 'k world \<Rightarrow> int \<times> 'k world" where
  "mmg2d_set_vertices K handle vertices refs w0 =
     (let (v, w) = validate_handle_2d handle w0 in
      if v = 0 then (0, w)
      else
        let e = g_handles_2d w ! nat handle;
            (r, k) = MMG2D_Set_vertices K (mesh e) vertices refs (native w)
        in (r, w\<lparr>native := k\<rparr>))"

definition mmg2d_get_vertices ::
  "'k MMG2D \<Rightarrow> bool \<Rightarrow> bool \<Rightarrow> bool \<Rightarrow> bool \<Rightarrow> int \<Rightarrow> int option \<Rightarrow> 'k world \<Rightarrow> (ptr \<times> int option) \<times> 'k world" where
  "mmg2d_get_vertices K a1 a2 a3 a4 handle out_count w0 =
     (let (v, w) = validate_handle_2d handle w0 in
      if v = 0 then (fail_with_count out_count, w)
      else
        let m = mesh (g_handles_2d w ! nat handle);
            (r, np, nt, nquad, na) = MMG2D_Get_meshSize K m (native w)
        in
        if r \<noteq> 1 then (fail_with_count out_count, w)
        else if np = 0 then (fail_with_count out_count, w)
        else
          let (vertices, h1) = malloc a1 8 (size_t (int32 (2 * np) * 8)) (heap w) in
          if vertices = NULL
          then (fail_with_count out_count, w\<lparr>heap := free NULL (free NULL (free NULL (free vertices h1)))\<rparr>)
          else
          let (refs, h2) = malloc a2 4 (size_t (np * 4)) h1 in
          if refs = NULL
          then (fail_with_count out_count, w\<lparr>heap := free NULL (free NULL (free refs (free vertices h2)))\<rparr>)
          else
          let (corners, h3) = malloc a3 4 (size_t (np * 4)) h2 in
          if corners = NULL
          then (fail_with_count out_count, w\<lparr>heap := free NULL (free corners (free refs (free vertices h3)))\<rparr>)
          else
          let (required, h4) = malloc a4 4 (size_t (np * 4)) h3 in
          if required = NULL
          then (fail_with_count out_count, w\<lparr>heap := free required (free corners (free refs (free vertices h4)))\<rparr>)
          else
          let (result, vertices', refs', corners', required') = MMG2D_Get_vertices K m (native w);
              h5 = poke required (map I32 required') (poke corners (map I32 corners') (poke refs (map I32 refs') (poke vertices (map D vertices') h4)));
              h6 = free required (free corners (free refs h5))
          in
          if result \<noteq> 1 then (fail_with_count out_count, w\<lparr>heap := free vertices h6\<rparr>)
          else ((vertices, map_option (\<lambda>_. np) out_count), w\<lparr>heap := h6\<rparr>))"

definition mmg2d_set_triangle :: "'k MMG2D \<Rightarrow> int \<Rightarrow> int \<Rightarrow> int \<Rightarrow> int \<Rightarrow> int \<Rightarrow> int \<Rightarrow> 'k world \<Rightarrow> int \<times> 'k world" where
  "mmg2d_set_triangle K handle v0 v1 v2 ref pos w0 =
     (let (v, w) = validate_handle_2d handle w0 in
      if v = 0 then (0, w)
      else
        let e = g_handles_2d w ! nat handle;
            (r, k) = MMG2D_Set_triangle K (mesh e) v0 v1 v2 ref pos (native w)
        in (r, w\<lparr>native := k\<rparr>))"

definition mmg2d_set_triangles :: "'k MMG2D \<Rightarrow> int \<Rightarrow> int list \<Rightarrow> int list option \<Rightarrow> 'k world \<Rightarrow> int \<times> 'k world" where
  "mmg2d_set_triangles K handle tria refs w0 =
     (let (v, w) = validate_handle_2d handle w0 in
      if v = 0 then (0, w)
      else
        let e = g_handles_2d w ! nat handle;
            (r, k) = MMG2D_Set_triangles K (mesh e) tria refs (native w)
        in (r, w\<lparr>native := k\<rparr>))"

definition mmg2d_get_triangles ::
  "'k MMG2D \<Rightarrow> bool \<Rightarrow> bool \<Rightarrow> bool \<Rightarrow> int \<Rightarrow> int option \<Rightarrow> 'k world \<Rightarrow> (ptr \<times> int option) \<times> 'k world" where
  "mmg2d_get_triangles K a1 a2 a3 handle out_count w0 =
     (let (v, w) = validate_handle_2d handle w0 in
      if v = 0 then (fail_with_count out_count, w)
      else
        let m = mesh (g_handles_2d w ! nat handle);
            (r, np, nt, nquad, na) = MMG2D_Get_meshSize K m (native w)
        in
        if r \<noteq> 1 then (fail_with_count out_count, w)
        else if nt = 0 then (fail_with_count out_count, w)
        else
          let (tria, h1) = malloc a1 4 (size_t (int32 (3 * nt) * 4)) (heap w) in
          if tria = NULL
          then (fail_with_count out_count, w\<lparr>heap := free NULL (free NULL (free tria h1))\<rparr>)
          else
          let (refs, h2) = malloc a2 4 (size_t (nt * 4)) h1 in
          if refs = NULL
          then (fail_with_count out_count, w\<lparr>heap := free NULL (free refs (free tria h2))\<rparr>)
          else
          let (required, h3) = malloc a3 4 (size_t (nt * 4)) h2 in
          if required = NULL
          then (fail_with_count out_count, w\<lparr>heap := free required (free refs (free tria h3))\<rparr>)
          else
          let (result, tria', refs', required') = MMG2D_Get_triangles K m (native w);
              h4 = poke required (map I32 required') (poke refs (map I32 refs') (poke tria (map I32 tria') h3));
              h5 = free required (free refs h4)
          in
          if result \<noteq> 1 then (fail_with_count out_count, w\<lparr>heap := free tria h5\<rparr>)
          else ((tria, map_option (\<lambda>_. nt) out_count), w\<lparr>heap := h5\<rparr>))"

definition mmg2d_set_edge :: "'k MMG2D \<Rightarrow> int \<Rightarrow> int \<Rightarrow> int \<Rightarrow> int \<Rightarrow> int \<Rightarrow> 'k world \<Rightarrow> int \<times> 'k world" where
  "mmg2d_set_edge K handle v0 v1 ref pos w0 =
     (let (v, w) = validate_handle_2d handle w0 in
      if v = 0 then (0, w)
      else
        let e = g_handles_2d w ! nat handle;
            (r, k) = MMG2D_Set_edge K (mesh e) v0 v1 ref pos (native w)
        in (r, w\<lparr>native := k\<rparr>))"

definition mmg2d_set_edges :: "'k MMG2D \<Rightarrow> int \<Rightarrow> int list \<Rightarrow> int list option \<Rightarrow> 'k world \<Rightarrow> int \<times> 'k world" where
  "mmg2d_set_edges K handle edges refs w0 =
     (let (v, w) = validate_handle_2d handle w0 in
      if v = 0 then (0, w)
      else
        let e = g_handles_2d w ! nat handle;
            (r, k) = MMG2D_Set_edges K (mesh e) edges refs (native w)
        in (r, w\<lparr>native := k\<rparr>))"

definition mmg2d_get_edges ::
  "'k MMG2D \<Rightarrow> bool \<Rightarrow> bool \<Rightarrow> bool \<Rightarrow> bool \<Rightarrow> int \<Rightarrow> int option \<Rightarrow> 'k world \<Rightarrow> (ptr \<times> int option) \<times> 'k world" where
  "mmg2d_get_edges K a1 a2 a3 a4 handle out_count w0 =
     (let (v, w) = validate_handle_2d handle w0 in
      if v = 0 then (fail_with_count out_count, w)
      else
        let m = mesh (g_handles_2d w ! nat handle);
            (r, np, nt, nquad, na) = MMG2D_Get_meshSize K m (native w)
        in
        if r \<noteq> 1 then (fail_with_count out_count, w)
        else if na = 0 then (fail_with_count out_count, w)
        else
          let (edges, h1) = malloc a1 4 (size_t (int32 (2 * na) * 4)) (heap w) in
          if edges = NULL
          then (fail_with_count out_count, w\<lparr>heap := free NULL (free NULL (free NULL (free edges h1)))\<rparr>)
          else
          let (refs, h2) = malloc a2 4 (size_t (na * 4)) h1 in
          if refs = NULL
          then (fail_with_count out_count, w\<lparr>heap := free NULL (free NULL (free refs (free edges h2)))\<rparr>)
          else
          let (ridges, h3) = malloc a3 4 (size_t (na * 4)) h2 in
          if ridges = NULL
          then (fail_with_count out_count, w\<lparr>heap := free NULL (free ridges (free refs (free edges h3)))\<rparr>)
          else
          let (required, h4) = malloc a4 4 (size_t (na * 4)) h3 in
          if required = NULL
          then (fail_with_count out_count, w\<lparr>heap := free required (free ridges (free refs (free edges h4)))\<rparr>)
          else
          let (result, edges', refs', ridges', required') = MMG2D_Get_edges K m (native w);
              h5 = poke required (map I32 required') (poke ridges (map I32 ridges') (poke refs (map I32 refs') (poke edges (map I32 edges') h4)));
              h6 = free required (free ridges (free refs h5))
          in
          if result \<noteq> 1 then (fail_with_count out_count, w\<lparr>heap := free edges h6\<rparr>)
          else ((edges, map_option (\<lambda>_. na) out_count), w\<lparr>heap := h6\<rparr>))"

definition mmg2d_set_iparameter :: "'k MMG2D \<Rightarrow> int \<Rightarrow> int \<Rightarrow> int \<Rightarrow> 'k world \<Rightarrow> int \<times> 'k world" where
  "mmg2d_set_iparameter K handle iparam val w0 =
     (let (v, w) = validate_handle_2d handle w0 in
      if v = 0 then (0, w)
      else
        let e = g_handles_2d w ! nat handle;
            (r, k) = MMG2D_Set_iparameter K (mesh e) (sol e) iparam val (native w)
        in (r, w\<lparr>native := k\<rparr>))"

definition mmg2d_set_dparameter :: "'k MMG2D \<Rightarrow> int \<Rightarrow> int \<Rightarrow> real \<Rightarrow> 'k world \<Rightarrow> int \<times> 'k world" where
  "mmg2d_set_dparameter K handle dparam val w0 =
     (let (v, w) = validate_handle_2d handle w0 in
      if v = 0 then (0, w)
      else
        let e = g_handles_2d w ! nat handle;
            (r, k) = MMG2D_Set_dparameter K (mesh e) (sol e) dparam val (native w)
        in (r, w\<lparr>native := k\<rparr>))"

definition mmg2d_set_sol_size :: "'k MMG2D \<Rightarrow> int \<Rightarrow> int \<Rightarrow> int \<Rightarrow> int \<Rightarrow> 'k world \<Rightarrow> int \<times> 'k world" where
  "mmg2d_set_sol_size K handle typEntity np typSol w0 =
     (let (v, w) = validate_handle_2d handle w0 in
      if v = 0 then (0, w)
      else
        let e = g_handles_2d w ! nat handle;
            (r, k) = MMG2D_Set_solSize K (mesh e) (sol e) typEntity np typSol (native w)
        in (r, w\<lparr>native := k\<rparr>))"

definition mmg2d_get_sol_size :: "'k MMG2D \<Rightarrow> int \<Rightarrow> int option \<Rightarrow> int option \<Rightarrow> int option \<Rightarrow> 'k world \<Rightarrow> (int \<times> int option \<times> int option \<times> int option) \<times> 'k world" where
  "mmg2d_get_sol_size K handle typEntity np typSol w0 =
     (let (v, w) = validate_handle_2d handle w0 in
      if v = 0 then ((0, typEntity, np, typSol), w)
      else
        let e = g_handles_2d w ! nat handle;
            (result, typEntity', np', typSol') = MMG2D_Get_solSize K (mesh e) (sol e) (native w)
        in if result = 1 then ((result, map_option (\<lambda>_. typEntity') typEntity, map_option (\<lambda>_. np') np, map_option (\<lambda>_. typSol') typSol), w) else ((result, typEntity, np, typSol), w))"

definition mmg2d_set_scalar_sols :: "'k MMG2D \<Rightarrow> int \<Rightarrow> real list \<Rightarrow> 'k world \<Rightarrow> int \<times> 'k world" where
  "mmg2d_set_scalar_sols K handle values w0 =
     (let (v, w) = validate_handle_2d handle w0 in
      if v = 0 then (0, w)
      else
        let e = g_handles_2d w ! nat handle;
            (r, k) = MMG2D_Set_scalarSols K (sol e) values (native w)
        in (r, w\<lparr>native := k\<rparr>))"

definition mmg2d_get_scalar_sols ::
  "'k MMG2D \<Rightarrow> bool \<Rightarrow> int \<Rightarrow> int option \<Rightarrow> 'k world \<Rightarrow> (ptr \<times> int option) \<times> 'k world" where
  "mmg2d_get_scalar_sols K a1 handle out_count w0 =
     (let (v, w) = validate_handle_2d handle w0 in
      if v = 0 then ((NULL, map_option (\<lambda>_. 0) out_count), w)
      else
        let e = g_handles_2d w ! nat handle;
            (r, typEntity, np, typSol) = MMG2D_Get_solSize K (mesh e) (sol e) (native w)
        in
        if r \<noteq> 1 then ((NULL, map_option (\<lambda>_. 0) out_count), w)
        else if np = 0 \<or> typSol \<noteq> 1 then ((NULL, map_option (\<lambda>_. 0) out_count), w)
        else
          let (values, h1) = malloc a1 8 (size_t (np * 8)) (heap w) in
          if values = NULL then ((NULL, map_option (\<lambda>_. 0) out_count), w\<lparr>heap := h1\<rparr>)
          else
            let (result, values') = MMG2D_Get_scalarSols K (sol e) (native w);
                h2 = poke values (map D values') h1
            in
            if result \<noteq> 1
            then ((NULL, map_option (\<lambda>_. 0) out_count), w\<lparr>heap := free values h2\<rparr>)
            else ((values, map_option (\<lambda>_. np) out_count), w\<lparr>heap := h2\<rparr>))"

definition mmg2d_set_tensor_sols :: "'k MMG2D \<Rightarrow> int \<Rightarrow> real list \<Rightarrow> 'k world \<Rightarrow> int \<times> 'k world" where
  "mmg2d_set_tensor_sols K handle values w0 =
     (let (v, w) = validate_handle_2d handle w0 in
      if v = 0 then (0, w)
      else
        let e = g_handles_2d w ! nat handle;
            (r, k) = MMG2D_Set_tensorSols K (sol e) values (native w)
        in (r, w\<lparr>native := k\<rparr>))"

definition mmg2d_get_tensor_sols ::
  "'k MMG2D \<Rightarrow> bool \<Rightarrow> int \<Rightarrow> int option \<Rightarrow> 'k world \<Rightarrow> (ptr \<times> int option) \<times> 'k world" where
  "mmg2d_get_tensor_sols K a1 handle out_count w0 =
     (let (v, w) = validate_handle_2d handle w0 in
      if v = 0 then ((NULL, map_option (\<lambda>_. 0) out_count), w)
      else
        let e = g_handles_2d w ! nat handle;
            (r, typEntity, np, typSol) = MMG2D_Get_solSize K (mesh e) (sol e) (native w)
        in
        if r \<noteq> 1 then ((NULL, map_option (\<lambda>_. 0) out_count), w)
        else if np = 0 \<or> typSol \<noteq> 3 then ((NULL, map_option (\<lambda>_. 0) out_count), w)
        else
          let (values, h1) = malloc a1 8 (size_t (int32 (np * 3) * 8)) (heap w) in
          if values = NULL then ((NULL, map_option (\<lambda>_. 0) out_count), w\<lparr>heap := h1\<rparr>)
          else
            let (result, values') = MMG2D_Get_tensorSols K (sol e) (native w);
                h2 = poke values (map D values') h1
            in
            if result \<noteq> 1
            then ((NULL, map_option (\<lambda>_. 0) out_count), w\<lparr>heap := free values h2\<rparr>)
            else ((values, map_option (\<lambda>_. np) out_count), w\<lparr>heap := h2\<rparr>))"

definition mmg2d_remesh :: "'k MMG2D \<Rightarrow> int \<Rightarrow> 'k world \<Rightarrow> int \<times> 'k world" where
  "mmg2d_remesh K handle w0 =
     (let (v, w) = validate_handle_2d handle w0 in
      if v = 0 then (- 1, w)
      else
        let e = g_handles_2d w ! nat handle;
            (r, k) = MMG2D_mmg2dlib K (mesh e) (sol e) (native w)
        in (r, w\<lparr>native := k\<rparr>))"

definition mmg2d_free_array :: "ptr \<Rightarrow> 'k world \<Rightarrow> unit \<times> 'k world" where
  "mmg2d_free_array p w = ((), if p \<noteq> NULL then w\<lparr>heap := free p (heap w)\<rparr> else w)"

definition mmg2d_load_mesh :: "'k MMG2D \<Rightarrow> int \<Rightarrow> string \<Rightarrow> 'k world \<Rightarrow> int \<times> 'k world" where
  "mmg2d_load_mesh K handle filename w0 =
     (let (v, w) = validate_handle_2d handle w0 in
      if v = 0 then (0, w)
      else
        let e = g_handles_2d w ! nat handle;
            (r, k) = MMG2D_loadMesh K (mesh e) filename (native w)
        in (r, w\<lparr>native := k\<rparr>))"

definition mmg2d_save_mesh :: "'k MMG2D \<Rightarrow> int \<Rightarrow> string \<Rightarrow> 'k world \<Rightarrow> int \<times> 'k world" where
  "mmg2d_save_mesh K handle filename w0 =
     (let (v, w) = validate_handle_2d handle w0 in
      if v = 0 then (0, w)
      else
        let e = g_handles_2d w ! nat handle;
            (r, k) = MMG2D_saveMesh K (mesh e) filename (native w)
        in (r, w\<lparr>native := k\<rparr>))"

definition mmg2d_load_sol :: "'k MMG2D \<Rightarrow> int \<Rightarrow> string \<Rightarrow> 'k world \<Rightarrow> int \<times> 'k world" where
  "mmg2d_load_sol K handle filename w0 =
     (let (v, w) = validate_handle_2d handle w0 in
      if v = 0 then (0, w)
      else
        let e = g_handles_2d w ! nat handle;
            (r, k) = MMG2D_loadSol K (mesh e) (sol e) filename (native w)
        in (r, w\<lparr>native := k\<rparr>))"

definition mmg2d_save_sol :: "'k MMG2D \<Rightarrow> int \<Rightarrow> string \<Rightarrow> 'k world \<Rightarrow> int \<times> 'k world" where
  "mmg2d_save_sol K handle filename w0 =
     (let (v, w) = validate_handle_2d handle w0 in
      if v = 0 then (0, w)
      else
        let e = g_handles_2d w ! nat handle;
            (r, k) = MMG2D_saveSol K (mesh e) (sol e) filename (native w)
        in (r, w\<lparr>native := k\<rparr>))"

definition mmg2d_get_triangle_quality :: "'k MMG2D \<Rightarrow> int \<Rightarrow> int \<Rightarrow> 'k world \<Rightarrow> real \<times> 'k world" where
  "mmg2d_get_triangle_quality K handle k w0 =
     (let (v, w) = validate_handle_2d handle w0 in
      if v = 0 then (0, w)
      else
        let e = g_handles_2d w ! nat handle in
        (MMG2D_Get_triangleQuality K (mesh e) (sol e) k (native w), w))"

definition mmg2d_get_triangles_qualities ::
  "'k MMG2D \<Rightarrow> bool \<Rightarrow> int \<Rightarrow> int option \<Rightarrow> 'k world \<Rightarrow> (ptr \<times> int option) \<times> 'k world" where
  "mmg2d_get_triangles_qualities K a1 handle out_count w0 =
     (let (v, w) = validate_handle_2d handle w0 in
      if v = 0 then ((NULL, map_option (\<lambda>_. 0) out_count), w)
      else
        let e = g_handles_2d w ! nat handle;
            (r, np, nt, nquad, na) = MMG2D_Get_meshSize K (mesh e) (native w)
        in
        if r \<noteq> 1 then ((NULL, map_option (\<lambda>_. 0) out_count), w)
        else if nt = 0 then ((NULL, map_option (\<lambda>_. 0) out_count), w)
        else
          let (qualities, h1) = malloc a1 8 (size_t (nt * 8)) (heap w) in
          if qualities = NULL then ((NULL, map_option (\<lambda>_. 0) out_count), w\<lparr>heap := h1\<rparr>)
          else
            case qualities_loop
                   (\<lambda>k. MMG2D_Get_triangleQuality K (mesh e) (sol e) k (native w)) qualities 1 nt h1 of
              None \<Rightarrow> ((qualities, map_option (\<lambda>_. nt) out_count), w\<lparr>heap := h1, fault := True\<rparr>)
            | Some h2 \<Rightarrow> ((qualities, map_option (\<lambda>_. nt) out_count), w\<lparr>heap := h2\<rparr>))"

subsection \<open>mmg3d.c\<close>

definition ensure_initialized :: "'k world \<Rightarrow> 'k world" where
  "ensure_initialized w =
     (if g_initialized w = 0
      then w\<lparr>g_handles := replicate MAX_HANDLES zero_entry, g_initialized := 1\<rparr>
      else w)"

definition find_free_handle :: "'k world \<Rightarrow> int \<times> 'k world" where
  "find_free_handle w0 =
     (let w = ensure_initialized w0 in (find_free_loop 0 (g_handles w), w))"

definition validate_handle :: "int \<Rightarrow> 'k world \<Rightarrow> int \<times> 'k world" where
  "validate_handle handle w0 =
     (let w = ensure_initialized w0 in
      if handle < 0 \<or> handle \<ge> int MAX_HANDLES then (0, w)
      else (active (g_handles w ! nat handle), w))"

definition mmg3d_get_available_handles :: "'k world \<Rightarrow> int \<times> 'k world" where
  "mmg3d_get_available_handles w0 =
     (let w = ensure_initialized w0 in (available_loop 0 0 (g_handles w), w))"

definition mmg3d_get_max_handles :: "'k world \<Rightarrow> int \<times> 'k world" where
  "mmg3d_get_max_handles w = (int MAX_HANDLES, w)"

definition mmg3d_init :: "'k MMG3D \<Rightarrow> 'k world \<Rightarrow> int \<times> 'k world" where
  "mmg3d_init K w0 =
     (let (handle, w) = find_free_handle w0 in
      if handle < 0 then (- 1, w)
      else
        let ((result, mesh', sol'), k) = MMG3D_Init_mesh K (native w) in
        if result \<noteq> 1 \<or> mesh' = NULL then (- 1, w\<lparr>native := k\<rparr>)
        else
          (handle,
           w\<lparr>native := MMG3D_Init_parameters K mesh' k,
             g_handles := (g_handles w)[nat handle := \<lparr>mesh = mesh', sol = sol', active = 1\<rparr>]\<rparr>))"

definition mmg3d_free :: "'k MMG3D \<Rightarrow> int \<Rightarrow> 'k world \<Rightarrow> int \<times> 'k world" where
  "mmg3d_free K handle w0 =
     (let (v, w) = validate_handle handle w0 in
      if v = 0 then (0, w)
      else
        let e = g_handles w ! nat handle in
        (1,
         w\<lparr>native := MMG3D_Free_all K (mesh e) (sol e) (native w),
           g_handles := (g_handles w)[nat handle := \<lparr>mesh = NULL, sol = NULL, active = 0\<rparr>]\<rparr>))"

definition mmg3d_set_mesh_size :: "'k MMG3D \<Rightarrow> int \<Rightarrow> int \<Rightarrow> int \<Rightarrow> int \<Rightarrow> int \<Rightarrow> int \<Rightarrow> int \<Rightarrow> 'k world \<Rightarrow> int \<times> 'k world" where
  "mmg3d_set_mesh_size K handle np ne nprism nt nquad na w0 =
     (let (v, w) = validate_handle handle w0 in
      if v = 0 then (0, w)
      else
        let e = g_handles w ! nat handle;
            (r, k) = MMG3D_Set_meshSize K (mesh e) np ne nprism nt nquad na (native w)
        in (r, w\<lparr>native := k\<rparr>))"

definition mmg3d_get_mesh_size :: "'k MMG3D \<Rightarrow> int \<Rightarrow> int option \<Rightarrow> int option \<Rightarrow> int option \<Rightarrow> int option \<Rightarrow> int option \<Rightarrow> int option \<Rightarrow> 'k world \<Rightarrow> (int \<times> int option \<times> int option \<times> int option \<times> int option \<times> int option \<times> int option) \<times> 'k world" where
  "mmg3d_get_mesh_size K handle np ne nprism nt nquad na w0 =
     (let (v, w) = validate_handle handle w0 in
      if v = 0 then ((0, np, ne, nprism, nt, nquad, na), w)
      else
        let e = g_handles w ! nat handle;
            (result, np', ne', nprism', nt', nquad', na') = MMG3D_Get_meshSize K (mesh e) (native w)
        in if result = 1 then ((result, map_option (\<lambda>_. np') np, map_option (\<lambda>_. ne') ne, map_option (\<lambda>_. nprism') nprism, map_option (\<lambda>_. nt') nt, map_option (\<lambda>_. nquad') nquad, map_option (\<lambda>_. na') na), w) else ((result, np, ne, nprism, nt, nquad, na), w))"

definition mmg3d_set_vertex :: "'k MMG3D \<Rightarrow> int \<Rightarrow> real \<Rightarrow> real \<Rightarrow> real \<Rightarrow> int \<Rightarrow> int \<Rightarrow> 'k world \<Rightarrow> int \<times> 'k world" where
  "mmg3d_set_vertex K handle x y z ref pos w0 =
     (let (v, w) = validate_handle handle w0 in
      if v = 0 then (0, w)
      else
        let e = g_handles w ! nat handle;
            (r, k) = MMG3D_Set_vertex K (mesh e) x y z ref pos (native w)
        in (r, w\<lparr>native := k\<rparr>))"

definition mmg3d_set_vertices :: "'k MMG3D \<Rightarrow> int \<Rightarrow> real list \<Rightarrow> int list option \<Rightarrow> 'k world \<Rightarrow> int \<times> 'k world" where
  "mmg3d_set_vertices K handle vertices refs w0 =
     (let (v, w) = validate_handle handle w0 in
      if v = 0 then (0, w)
      else
        let e = g_handles w ! nat handle;
            (r, k) = MMG3D_Set_vertices K (mesh e) vertices refs (native w)
        in (r, w\<lparr>native := k\<rparr>))"

definition mmg3d_get_vertices ::
  "'k MMG3D \<Rightarrow> bool \<Rightarrow> bool \<Rightarrow> bool \<Rightarrow> bool \<Rightarrow> int \<Rightarrow> int option \<Rightarrow> 'k world \<Rightarrow> (ptr \<times> int option) \<times> 'k world" where
  "mmg3d_get_vertices K a1 a2 a3 a4 handle out_count w0 =
     (let (v, w) = validate_handle handle w0 in
      if v = 0 then ((NULL, map_option (\<lambda>_. 0) out_count), w)
      else
        let m = mesh (g_handles w ! nat handle);
            (r, np, ne, nprism, nt, nquad, na) = MMG3D_Get_meshSize K m (native w)
        in
        if r \<noteq> 1 then ((NULL, map_option (\<lambda>_. 0) out_count), w)
        else if np = 0 then ((NULL, map_option (\<lambda>_. 0) out_count), w)
        else
          let (vertices, h1) = malloc a1 8 (size_t (int32 (3 * np) * 8)) (heap w) in
          if vertices = NULL then ((NULL, map_option (\<lambda>_. 0) out_count), w\<lparr>heap := h1\<rparr>)
          else
          let (refs, h2) = malloc a2 4 (size_t (np * 4)) h1;
              (corners, h3) = malloc a3 4 (size_t (np * 4)) h2;
              (required, h4) = malloc a4 4 (size_t (np * 4)) h3 in
          if refs = NULL \<or> corners = NULL \<or> required = NULL
          then ((NULL, map_option (\<lambda>_. 0) out_count), w\<lparr>heap := free required (free corners (free refs (free vertices h4)))\<rparr>)
          else
          let (result, vertices', refs', corners', required') = MMG3D_Get_vertices K m (native w);
              h5 = poke required (map I32 required') (poke corners (map I32 corners') (poke refs (map I32 refs') (poke vertices (map D vertices') h4)));
              h6 = free required (free corners (free refs h5))
          in
          if result \<noteq> 1 then ((NULL, map_option (\<lambda>_. 0) out_count), w\<lparr>heap := free vertices h6\<rparr>)
          else ((vertices, map_option (\<lambda>_. np) out_count), w\<lparr>heap := h6\<rparr>))"

definition mmg3d_set_tetrahedron :: "'k MMG3D \<Rightarrow> int \<Rightarrow> int \<Rightarrow> int \<Rightarrow> int \<Rightarrow> int \<Rightarrow> int \<Rightarrow> int \<Rightarrow> 'k world \<Rightarrow> int \<times> 'k world" where
  "mmg3d_set_tetrahedron K handle v0 v1 v2 v3 ref pos w0 =
     (let (v, w) = validate_handle handle w0 in
      if v = 0 then (0, w)
      else
        let e = g_handles w ! nat handle;
            (r, k) = MMG3D_Set_tetrahedron K (mesh e) v0 v1 v2 v3 ref pos (native w)
        in (r, w\<lparr>native := k\<rparr>))"

definition mmg3d_set_tetrahedra :: "'k MMG3D \<Rightarrow> int \<Rightarrow> int list \<Rightarrow> int list option \<Rightarrow> 'k world \<Rightarrow> int \<times> 'k world" where
  "mmg3d_set_tetrahedra K handle tetra refs w0 =
     (let (v, w) = validate_handle handle w0 in
      if v = 0 then (0, w)
      else
        let e = g_handles w ! nat handle;
            (r, k) = MMG3D_Set_tetrahedra K (mesh e) tetra refs (native w)
        in (r, w\<lparr>native := k\<rparr>))"

definition mmg3d_get_tetrahedra ::
  "'k MMG3D \<Rightarrow> bool \<Rightarrow> bool \<Rightarrow> bool \<Rightarrow> int \<Rightarrow> int option \<Rightarrow> 'k world \<Rightarrow> (ptr \<times> int option) \<times> 'k world" where
  "mmg3d_get_tetrahedra K a1 a2 a3 handle out_count w0 =
     (let (v, w) = validate_handle handle w0 in
      if v = 0 then ((NULL, map_option (\<lambda>_. 0) out_count), w)
      else
        let m = mesh (g_handles w ! nat handle);
            (r, np, ne, nprism, nt, nquad, na) = MMG3D_Get_meshSize K m (native w)
        in
        if r \<noteq> 1 then ((NULL, map_option (\<lambda>_. 0) out_count), w)
        else if ne = 0 then ((NULL, map_option (\<lambda>_. 0) out_count), w)
        else
          let (tetra, h1) = malloc a1 4 (size_t (int32 (4 * ne) * 4)) (heap w) in
          if tetra = NULL then ((NULL, map_option (\<lambda>_. 0) out_count), w\<lparr>heap := h1\<rparr>)
          else
          let (refs, h2) = malloc a2 4 (size_t (ne * 4)) h1;
              (required, h3) = malloc a3 4 (size_t (ne * 4)) h2 in
          if refs = NULL \<or> required = NULL
          then ((NULL, map_option (\<lambda>_. 0) out_count), w\<lparr>heap := free required (free refs (free tetra h3))\<rparr>)
          else
          let (result, tetra', refs', required') = MMG3D_Get_tetrahedra K m (native w);
              h4 = poke required (map I32 required') (poke refs (map I32 refs') (poke tetra (map I32 tetra') h3));
              h5 = free required (free refs h4)
          in
          if result \<noteq> 1 then ((NULL, map_option (\<lambda>_. 0) out_count), w\<lparr>heap := free tetra h5\<rparr>)
          else ((tetra, map_option (\<lambda>_. ne) out_count), w\<lparr>heap := h5\<rparr>))"

definition mmg3d_set_triangle :: "'k MMG3D \<Rightarrow> int \<Rightarrow> int \<Rightarrow> int \<Rightarrow> int \<Rightarrow> int \<Rightarrow> int \<Rightarrow> 'k world \<Rightarrow> int \<times> 'k world" where
  "mmg3d_set_triangle K handle v0 v1 v2 ref pos w0 =
     (let (v, w) = validate_handle handle w0 in
      if v = 0 then (0, w)
      else
        let e = g_handles w ! nat handle;
            (r, k) = MMG3D_Set_triangle K (mesh e) v0 v1 v2 ref pos (native w)
        in (r, w\<lparr>native := k\<rparr>))"

definition mmg3d_set_triangles :: "'k MMG3D \<Rightarrow> int \<Rightarrow> int list \<Rightarrow> int list option \<Rightarrow> 'k world \<Rightarrow> int \<times> 'k world" where
  "mmg3d_set_triangles K handle tria refs w0 =
     (let (v, w) = validate_handle handle w0 in
      if v = 0 then (0, w)
      else
        let e = g_handles w ! nat handle;
            (r, k) = MMG3D_Set_triangles K (mesh e) tria refs (native w)
        in (r, w\<lparr>native := k\<rparr>))"

definition mmg3d_get_triangles ::
  "'k MMG3D \<Rightarrow> bool \<Rightarrow> bool \<Rightarrow> bool \<Rightarrow> int \<Rightarrow> int option \<Rightarrow> 'k world \<Rightarrow> (ptr \<times> int option) \<times> 'k world" where
  "mmg3d_get_triangles K a1 a2 a3 handle out_count w0 =
     (let (v, w) = validate_handle handle w0 in
      if v = 0 then ((NULL, map_option (\<lambda>_. 0) out_count), w)
      else
        let m = mesh (g_handles w ! nat handle);
            (r, np, ne, nprism, nt, nquad, na) = MMG3D_Get_meshSize K m (native w)
        in
        if r \<noteq> 1 then ((NULL, map_option (\<lambda>_. 0) out_count), w)
        else if nt = 0 then ((NULL, map_option (\<lambda>_. 0) out_count), w)
        else
          let (tria, h1) = malloc a1 4 (size_t (int32 (3 * nt) * 4)) (heap w) in
          if tria = NULL then ((NULL, map_option (\<lambda>_. 0) out_count), w\<lparr>heap := h1\<rparr>)
          else
          let (refs, h2) = malloc a2 4 (size_t (nt * 4)) h1;
              (required, h3) = malloc a3 4 (size_t (nt * 4)) h2 in
          if refs = NULL \<or> required = NULL
          then ((NULL, map_option (\<lambda>_. 0) out_count), w\<lparr>heap := free required (free refs (free tria h3))\<rparr>)
          else
          let (result, tria', refs', required') = MMG3D_Get_triangles K m (native w);
              h4 = poke required (map I32 required') (poke refs (map I32 refs') (poke tria (map I32 tria') h3));
              h5 = free required (free refs h4)
          in
          if result \<noteq> 1 then ((NULL, map_option (\<lambda>_. 0) out_count), w\<lparr>heap := free tria h5\<rparr>)
          else ((tria, map_option (\<lambda>_. nt) out_count), w\<lparr>heap := h5\<rparr>))"

definition mmg3d_set_iparameter :: "'k MMG3D \<Rightarrow> int \<Rightarrow> int \<Rightarrow> int \<Rightarrow> 'k world \<Rightarrow> int \<times> 'k world" where
  "mmg3d_set_iparameter K handle iparam val w0 =
     (let (v, w) = validate_handle handle w0 in
      if v = 0 then (0, w)
      else
        let e = g_handles w ! nat handle;
            (r, k) = MMG3D_Set_iparameter K (mesh e) (sol e) iparam val (native w)
        in (r, w\<lparr>native := k\<rparr>))"

definition mmg3d_set_dparameter :: "'k MMG3D \<Rightarrow> int \<Rightarrow> int \<Rightarrow> real \<Rightarrow> 'k world \<Rightarrow> int \<times> 'k world" where
  "mmg3d_set_dparameter K handle dparam val w0 =
     (let (v, w) = validate_handle handle w0 in
      if v = 0 then (0, w)
      else
        let e = g_handles w ! nat handle;
            (r, k) = MMG3D_Set_dparameter K (mesh e) (sol e) dparam val (native w)
        in (r, w\<lparr>native := k\<rparr>))"

definition mmg3d_set_sol_size :: "'k MMG3D \<Rightarrow> int \<Rightarrow> int \<Rightarrow> int \<Rightarrow> int \<Rightarrow> 'k world \<Rightarrow> int \<times> 'k world" where
  "mmg3d_set_sol_size K handle typEntity np typSol w0 =
     (let (v, w) = validate_handle handle w0 in
      if v = 0 then (0, w)
      else
        let e = g_handles w ! nat handle;
            (r, k) = MMG3D_Set_solSize K (mesh e) (sol e) typEntity np typSol (native w)
        in (r, w\<lparr>native := k\<rparr>))"

definition mmg3d_get_sol_size :: "'k MMG3D \<Rightarrow> int \<Rightarrow> int option \<Rightarrow> int option \<Rightarrow> int option \<Rightarrow> 'k world \<Rightarrow> (int \<times> int option \<times> int option \<times> int option) \<times> 'k world" where
  "mmg3d_get_sol_size K handle typEntity np typSol w0 =
     (let (v, w) = validate_handle handle w0 in
      if v = 0 then ((0, typEntity, np, typSol), w)
      else
        let e = g_handles w ! nat handle;
            (result, typEntity', np', typSol') = MMG3D_Get_solSize K (mesh e) (sol e) (native w)
        in if result = 1 then ((result, map_option (\<lambda>_. typEntity') typEntity, map_option (\<lambda>_. np') np, map_option (\<lambda>_. typSol') typSol), w) else ((result, typEntity, np, typSol), w))"

definition mmg3d_set_scalar_sols :: "'k MMG3D \<Rightarrow> int \<Rightarrow> real list \<Rightarrow> 'k world \<Rightarrow> int \<times> 'k world" where
  "mmg3d_set_scalar_sols K handle values w0 =
     (let (v, w) = validate_handle handle w0 in
      if v = 0 then (0, w)
      else
        let e = g_handles w ! nat handle;
            (r, k) = MMG3D_Set_scalarSols K (sol e) values (native w)
        in (r, w\<lparr>native := k\<rparr>))"

definition mmg3d_get_scalar_sols ::
  "'k MMG3D \<Rightarrow> bool \<Rightarrow> int \<Rightarrow> int option \<Rightarrow> 'k world \<Rightarrow> (ptr \<times> int option) \<times> 'k world" where
  "mmg3d_get_scalar_sols K a1 handle out_count w0 =
     (let (v, w) = validate_handle handle w0 in
      if v = 0 then ((NULL, map_option (\<lambda>_. 0) out_count), w)
      else
        let e = g_handles w ! nat handle;
            (r, typEntity, np, typSol) = MMG3D_Get_solSize K (mesh e) (sol e) (native w)
        in
        if r \<noteq> 1 then ((NULL, map_option (\<lambda>_. 0) out_count), w)
        else if np = 0 \<or> typSol \<noteq> 1 then ((NULL, map_option (\<lambda>_. 0) out_count), w)
        else
          let (values, h1) = malloc a1 8 (size_t (np * 8)) (heap w) in
          if values = NULL then ((NULL, map_option (\<lambda>_. 0) out_count), w\<lparr>heap := h1\<rparr>)
          else
            let (result, values') = MMG3D_Get_scalarSols K (sol e) (native w);
                h2 = poke values (map D values') h1
            in
            if result \<noteq> 1
            then ((NULL, map_option (\<lambda>_. 0) out_count), w\<lparr>heap := free values h2\<rparr>)
            else ((values, map_option (\<lambda>_. np) out_count), w\<lparr>heap := h2\<rparr>))"

definition mmg3d_set_tensor_sols :: "'k MMG3D \<Rightarrow> int \<Rightarrow> real list \<Rightarrow> 'k world \<Rightarrow> int \<times> 'k world" where
  "mmg3d_set_tensor_sols K handle values w0 =
     (let (v, w) = validate_handle handle w0 in
      if v = 0 then (0, w)
      else
        let e = g_handles w ! nat handle;
            (r, k) = MMG3D_Set_tensorSols K (sol e) values (native w)
        in (r, w\<lparr>native := k\<rparr>))"

definition mmg3d_get_tensor_sols ::
  "'k MMG3D \<Rightarrow> bool \<Rightarrow> int \<Rightarrow> int option \<Rightarrow> 'k world \<Rightarrow> (ptr \<times> int option) \<times> 'k world" where
  "mmg3d_get_tensor_sols K a1 handle out_count w0 =
     (let (v, w) = validate_handle handle w0 in
      if v = 0 then ((NULL, map_option (\<lambda>_. 0) out_count), w)
      else
        let e = g_handles w ! nat handle;
            (r, typEntity, np, typSol) = MMG3D_Get_solSize K (mesh e) (sol e) (native w)
        in
        if r \<noteq> 1 then ((NULL, map_option (\<lambda>_. 0) out_count), w)
        else if np = 0 \<or> typSol \<noteq> 3 then ((NULL, map_option (\<lambda>_. 0) out_count), w)
        else
          let (values, h1) = malloc a1 8 (size_t (int32 (np * 6) * 8)) (heap w) in
          if values = NULL then ((NULL, map_option (\<lambda>_. 0) out_count), w\<lparr>heap := h1\<rparr>)
          else
            let (result, values') = MMG3D_Get_tensorSols K (sol e) (native w);
                h2 = poke values (map D values') h1
            in
            if result \<noteq> 1
            then ((NULL, map_option (\<lambda>_. 0) out_count), w\<lparr>heap := free values h2\<rparr>)
            else ((values, map_option (\<lambda>_. np) out_count), w\<lparr>heap := h2\<rparr>))"

definition mmg3d_remesh :: "'k MMG3D \<Rightarrow> int \<Rightarrow> 'k world \<Rightarrow> int \<times> 'k world" where
  "mmg3d_remesh K handle w0 =
     (let (v, w) = validate_handle handle w0 in
      if v = 0 then (- 1, w)
      else
        let e = g_handles w ! nat handle;
            (r, k) = MMG3D_mmg3dlib K (mesh e) (sol e) (native w)
        in (r, w\<lparr>native := k\<rparr>))"

definition mmg3d_free_array :: "ptr \<Rightarrow> 'k world \<Rightarrow> unit \<times> 'k world" where
  "mmg3d_free_array p w = ((), if p \<noteq> NULL then w\<lparr>heap := free p (heap w)\<rparr> else w)"

definition mmg3d_load_mesh :: "'k MMG3D \<Rightarrow> int \<Rightarrow> string \<Rightarrow> 'k world \<Rightarrow> int \<times> 'k world" where
  "mmg3d_load_mesh K handle filename w0 =
     (let (v, w) = validate_handle handle w0 in
      if v = 0 then (0, w)
      else
        let e = g_handles w ! nat handle;
            (r, k) = MMG3D_loadMesh K (mesh e) filename (native w)
        in (r, w\<lparr>native := k\<rparr>))"

definition mmg3d_save_mesh :: "'k MMG3D \<Rightarrow> int \<Rightarrow> string \<Rightarrow> 'k world \<Rightarrow> int \<times> 'k world" where
  "mmg3d_save_mesh K handle filename w0 =
     (let (v, w) = validate_handle handle w0 in
      if v = 0 then (0, w)
      else
        let e = g_handles w ! nat handle;
            (r, k) = MMG3D_saveMesh K (mesh e) filename (native w)
        in (r, w\<lparr>native := k\<rparr>))"

definition mmg3d_load_sol :: "'k MMG3D \<Rightarrow> int \<Rightarrow> string \<Rightarrow> 'k world \<Rightarrow> int \<times> 'k world" where
  "mmg3d_load_sol K handle filename w0 =
     (let (v, w) = validate_handle handle w0 in
      if v = 0 then (0, w)
      else
        let e = g_handles w ! nat handle;
            (r, k) = MMG3D_loadSol K (mesh e) (sol e) filename (native w)
        in (r, w\<lparr>native := k\<rparr>))"

definition mmg3d_save_sol :: "'k MMG3D \<Rightarrow> int \<Rightarrow> string \<Rightarrow> 'k world \<Rightarrow> int \<times> 'k world" where
  "mmg3d_save_sol K handle filename w0 =
     (let (v, w) = validate_handle handle w0 in
      if v = 0 then (0, w)
      else
        let e = g_handles w ! nat handle;
            (r, k) = MMG3D_saveSol K (mesh e) (sol e) filename (native w)
        in (r, w\<lparr>native := k\<rparr>))"

definition mmg3d_get_tetrahedron_quality :: "'k MMG3D \<Rightarrow> int \<Rightarrow> int \<Rightarrow> 'k world \<Rightarrow> real \<times> 'k world" where
  "mmg3d_get_tetrahedron_quality K handle k w0 =
     (let (v, w) = validate_handle handle w0 in
      if v = 0 then (0, w)
      else
        let e = g_handles w ! nat handle in
        (MMG3D_Get_tetrahedronQuality K (mesh e) (sol e) k (native w), w))"

definition mmg3d_get_tetrahedra_qualities ::
  "'k MMG3D \<Rightarrow> bool \<Rightarrow> int \<Rightarrow> int option \<Rightarrow> 'k world \<Rightarrow> (ptr \<times> int option) \<times> 'k world" where
  "mmg3d_get_tetrahedra_qualities K a1 handle out_count w0 =
     (let (v, w) = validate_handle handle w0 in
      if v = 0 then ((NULL, map_option (\<lambda>_. 0) out_count), w)
      else
        let e = g_handles w ! nat handle;
            (r, np, ne, nprism, nt, nquad, na) = MMG3D_Get_meshSize K (mesh e) (native w)
        in
        if r \<noteq> 1 then ((NULL, map_option (\<lambda>_. 0) out_count), w)
        else if ne = 0 then ((NULL, map_option (\<lambda>_. 0) out_count), w)
        else
          let (qualities, h1) = malloc a1 8 (size_t (ne * 8)) (heap w) in
          if qualities = NULL then ((NULL, map_option (\<lambda>_. 0) out_count), w\<lparr>heap := h1\<rparr>)
          else
            case qualities_loop
                   (\<lambda>k. MMG3D_Get_tetrahedronQuality K (mesh e) (sol e) k (native w)) qualities 1 ne h1 of
              None \<Rightarrow> ((qualities, map_option (\<lambda>_. ne) out_count), w\<lparr>heap := h1, fault := True\<rparr>)
            | Some h2 \<Rightarrow> ((qualities, map_option (\<lambda>_. ne) out_count), w\<lparr>heap := h2\<rparr>))"

subsection \<open>mmgs.c\<close>

definition ensure_initialized_s :: "'k world \<Rightarrow> 'k world" where
  "ensure_initialized_s w =
     (if g_initialized_s w = 0
      then w\<lparr>g_handles_s := replicate MAX_HANDLES zero_entry, g_initialized_s := 1\<rparr>
      else w)"

definition find_free_handle_s :: "'k world \<Rightarrow> int \<times> 'k world" where
  "find_free_handle_s w0 =
     (let w = ensure_initialized_s w0 in (find_free_loop 0 (g_handles_s w), w))"

definition validate_handle_s :: "int \<Rightarrow> 'k world \<Rightarrow> int \<times> 'k world" where
  "validate_handle_s handle w0 =
     (let w = ensure_initialized_s w0 in
      if handle < 0 \<or> handle \<ge> int MAX_HANDLES then (0, w)
      else (active (g_handles_s w ! nat handle), w))"

definition mmgs_get_available_handles :: "'k world \<Rightarrow> int \<times> 'k world" where
  "mmgs_get_available_handles w0 =
     (let w = ensure_initialized_s w0 in (available_loop 0 0 (g_handles_s w), w))"

definition mmgs_get_max_handles :: "'k world \<Rightarrow> int \<times> 'k world" where
  "mmgs_get_max_handles w = (int MAX_HANDLES, w)"

definition mmgs_init :: "'k MMGS \<Rightarrow> 'k world \<Rightarrow> int \<times> 'k world" where
  "mmgs_init K w0 =
     (let (handle, w) = find_free_handle_s w0 in
      if handle < 0 then (- 1, w)
      else
        let ((result, mesh', sol'), k) = MMGS_Init_mesh K (native w) in
        if result \<noteq> 1 \<or> mesh' = NULL then (- 1, w\<lparr>native := k\<rparr>)
        else
          (handle,
           w\<lparr>native := MMGS_Init_parameters K mesh' k,
             g_handles_s := (g_handles_s w)[nat handle := \<lparr>mesh = mesh', sol = sol', active = 1\<rparr>]\<rparr>))"

definition mmgs_free :: "'k MMGS \<Rightarrow> int \<Rightarrow> 'k world \<Rightarrow> int \<times> 'k world" where
  "mmgs_free K handle w0 =
     (let (v, w) = validate_handle_s handle w0 in
      if v = 0 then (0, w)
      else
        let e = g_handles_s w ! nat handle in
        (1,
         w\<lparr>native := MMGS_Free_all K (mesh e) (sol e) (native w),
           g_handles_s := (g_handles_s w)[nat handle := \<lparr>mesh = NULL, sol = NULL, active = 0\<rparr>]\<rparr>))"

definition mmgs_set_mesh_size :: "'k MMGS \<Rightarrow> int \<Rightarrow> int \<Rightarrow> int \<Rightarrow> int \<Rightarrow> 'k world \<Rightarrow> int \<times> 'k world" where
  "mmgs_set_mesh_size K handle np nt na w0 =
     (let (v, w) = validate_handle_s handle w0 in
      if v = 0 then (0, w)
      else
        let e = g_handles_s w ! nat handle;
            (r, k) = MMGS_Set_meshSize K (mesh e) np nt na (native w)
        in (r, w\<lparr>native := k\<rparr>))"

definition mmgs_get_mesh_size :: "'k MMGS \<Rightarrow> int \<Rightarrow> int option \<Rightarrow> int option \<Rightarrow> int option \<Rightarrow> 'k world \<Rightarrow> (int \<times> int option \<times> int option \<times> int option) \<times> 'k world" where
  "mmgs_get_mesh_size K handle np nt na w0 =
     (let (v, w) = validate_handle_s handle w0 in
      if v = 0 then ((0, np, nt, na), w)
      else
        let e = g_handles_s w ! nat handle;
            (result, np', nt', na') = MMGS_Get_meshSize K (mesh e) (native w)
        in if result = 1 then ((result, map_option (\<lambda>_. np') np, map_option (\<lambda>_. nt') nt, map_option (\<lambda>_. na') na), w) else ((result, np, nt, na), w))"

definition mmgs_set_vertex :: "'k MMGS \<Rightarrow> int \<Rightarrow> real \<Rightarrow> real \<Rightarrow> real \<Rightarrow> int \<Rightarrow> int \<Rightarrow> 'k world \<Rightarrow> int \<times> 'k world" where
  "mmgs_set_vertex K handle x y z ref pos w0 =
     (let (v, w) = validate_handle_s handle w0 in
      if v = 0 then (0, w)
      else
        let e = g_handles_s w ! nat handle;
            (r, k) = MMGS_Set_vertex K (mesh e) x y z ref pos (native w)
        in (r, w\<lparr>native := k\<rparr>))"

definition mmgs_set_vertices :: "'k MMGS \<Rightarrow> int \<Rightarrow> real list \<Rightarrow> int list option \<Rightarrow> 'k world \<Rightarrow> int \<times> 'k world" where
  "mmgs_set_vertices K handle vertices refs w0 =
     (let (v, w) = validate_handle_s handle w0 in
      if v = 0 then (0, w)
      else
        let e = g_handles_s w ! nat handle;
            (r, k) = MMGS_Set_vertices K (mesh e) vertices refs (native w)
        in (r, w\<lparr>native := k\<rparr>))"

definition mmgs_get_vertices ::
  "'k MMGS \<Rightarrow> bool \<Rightarrow> bool \<Rightarrow> bool \<Rightarrow> bool \<Rightarrow> int \<Rightarrow> int option \<Rightarrow> 'k world \<Rightarrow> (ptr \<times> int option) \<times> 'k world" where
  "mmgs_get_vertices K a1 a2 a3 a4 handle out_count w0 =
     (let (v, w) = validate_handle_s handle w0 in
      if v = 0 then (fail_with_count out_count, w)
      else
        let m = mesh (g_handles_s w ! nat handle);
            (r, np, nt, na) = MMGS_Get_meshSize K m (native w)
        in
        if r \<noteq> 1 then (fail_with_count out_count, w)
        else if np = 0 then (fail_with_count out_count, w)
        else
          let (vertices, h1) = malloc a1 8 (size_t (int32 (3 * np) * 8)) (heap w) in
          if vertices = NULL
          then (fail_with_count out_count, w\<lparr>heap := free NULL (free NULL (free NULL (free vertices h1)))\<rparr>)
          else
          let (refs, h2) = malloc a2 4 (size_t (np * 4)) h1 in
          if refs = NULL
          then (fail_with_count out_count, w\<lparr>heap := free NULL (free NULL (free refs (free vertices h2)))\<rparr>)
          else
          let (corners, h3) = malloc a3 4 (size_t (np * 4)) h2 in
          if corners = NULL
          then (fail_with_count out_count, w\<lparr>heap := free NULL (free corners (free refs (free vertices h3)))\<rparr>)
          else
          let (required, h4) = malloc a4 4 (size_t (np * 4)) h3 in
          if required = NULL
          then (fail_with_count out_count, w\<lparr>heap := free required (free corners (free refs (free vertices h4)))\<rparr>)
          else
          let (result, vertices', refs', corners', required') = MMGS_Get_vertices K m (native w);
              h5 = poke required (map I32 required') (poke corners (map I32 corners') (poke refs (map I32 refs') (poke vertices (map D vertices') h4)));
              h6 = free required (free corners (free refs h5))
          in
          if result \<noteq> 1 then (fail_with_count out_count, w\<lparr>heap := free vertices h6\<rparr>)
          else ((vertices, map_option (\<lambda>_. np) out_count), w\<lparr>heap := h6\<rparr>))"

definition mmgs_set_triangle :: "'k MMGS \<Rightarrow> int \<Rightarrow> int \<Rightarrow> int \<Rightarrow> int \<Rightarrow> int \<Rightarrow> int \<Rightarrow> 'k world \<Rightarrow> int \<times> 'k world" where
  "mmgs_set_triangle K handle v0 v1 v2 ref pos w0 =
     (let (v, w) = validate_handle_s handle w0 in
      if v = 0 then (0, w)
      else
        let e = g_handles_s w ! nat handle;
            (r, k) = MMGS_Set_triangle K (mesh e) v0 v1 v2 ref pos (native w)
        in (r, w\<lparr>native := k\<rparr>))"

definition mmgs_set_triangles :: "'k MMGS \<Rightarrow> int \<Rightarrow> int list \<Rightarrow> int list option \<Rightarrow> 'k world \<Rightarrow> int \<times> 'k world" where
  "mmgs_set_triangles K handle tria refs w0 =
     (let (v, w) = validate_handle_s handle w0 in
      if v = 0 then (0, w)
      else
        let e = g_handles_s w ! nat handle;
            (r, k) = MMGS_Set_triangles K (mesh e) tria refs (native w)
        in (r, w\<lparr>native := k\<rparr>))"

definition mmgs_get_triangles ::
  "'k MMGS \<Rightarrow> bool \<Rightarrow> bool \<Rightarrow> bool \<Rightarrow> int \<Rightarrow> int option \<Rightarrow> 'k world \<Rightarrow> (ptr \<times> int option) \<times> 'k world" where
  "mmgs_get_triangles K a1 a2 a3 handle out_count w0 =
     (let (v, w) = validate_handle_s handle w0 in
      if v = 0 then (fail_with_count out_count, w)
      else
        let m = mesh (g_handles_s w ! nat handle);
            (r, np, nt, na) = MMGS_Get_meshSize K m (native w)
        in
        if r \<noteq> 1 then (fail_with_count out_count, w)
        else if nt = 0 then (fail_with_count out_count, w)
        else
          let (tria, h1) = malloc a1 4 (size_t (int32 (3 * nt) * 4)) (heap w) in
          if tria = NULL
          then (fail_with_count out_count, w\<lparr>heap := free NULL (free NULL (free tria h1))\<rparr>)
          else
          let (refs, h2) = malloc a2 4 (size_t (nt * 4)) h1 in
          if refs = NULL
          then (fail_with_count out_count, w\<lparr>heap := free NULL (free refs (free tria h2))\<rparr>)
          else
          let (required, h3) = malloc a3 4 (size_t (nt * 4)) h2 in
          if required = NULL
          then (fail_with_count out_count, w\<lparr>heap := free required (free refs (free tria h3))\<rparr>)
          else
          let (result, tria', refs', required') = MMGS_Get_triangles K m (native w);
              h4 = poke required (map I32 required') (poke refs (map I32 refs') (poke tria (map I32 tria') h3));
              h5 = free required (free refs h4)
          in
          if result \<noteq> 1 then (fail_with_count out_count, w\<lparr>heap := free tria h5\<rparr>)
          else ((tria, map_option (\<lambda>_. nt) out_count), w\<lparr>heap := h5\<rparr>))"

definition mmgs_set_edge :: "'k MMGS \<Rightarrow> int \<Rightarrow> int \<Rightarrow> int \<Rightarrow> int \<Rightarrow> int \<Rightarrow> 'k world \<Rightarrow> int \<times> 'k world" where
  "mmgs_set_edge K handle v0 v1 ref pos w0 =
     (let (v, w) = validate_handle_s handle w0 in
      if v = 0 then (0, w)
      else
        let e = g_handles_s w ! nat handle;
            (r, k) = MMGS_Set_edge K (mesh e) v0 v1 ref pos (native w)
        in (r, w\<lparr>native := k\<rparr>))"

definition mmgs_set_edges :: "'k MMGS \<Rightarrow> int \<Rightarrow> int list \<Rightarrow> int list option \<Rightarrow> 'k world \<Rightarrow> int \<times> 'k world" where
  "mmgs_set_edges K handle edges refs w0 =
     (let (v, w) = validate_handle_s handle w0 in
      if v = 0 then (0, w)
      else
        let e = g_handles_s w ! nat handle;
            (r, k) = MMGS_Set_edges K (mesh e) edges refs (native w)
        in (r, w\<lparr>native := k\<rparr>))"

definition mmgs_get_edges ::
  "'k MMGS \<Rightarrow> bool \<Rightarrow> bool \<Rightarrow> bool \<Rightarrow> bool \<Rightarrow> int \<Rightarrow> int option \<Rightarrow> 'k world \<Rightarrow> (ptr \<times> int option) \<times> 'k world" where
  "mmgs_get_edges K a1 a2 a3 a4 handle out_count w0 =
     (let (v, w) = validate_handle_s handle w0 in
      if v = 0 then (fail_with_count out_count, w)
      else
        let m = mesh (g_handles_s w ! nat handle);
            (r, np, nt, na) = MMGS_Get_meshSize K m (native w)
        in
        if r \<noteq> 1 then (fail_with_count out_count, w)
        else if na = 0 then (fail_with_count out_count, w)
        else
          let (edges, h1) = malloc a1 4 (size_t (int32 (2 * na) * 4)) (heap w) in
          if edges = NULL
          then (fail_with_count out_count, w\<lparr>heap := free NULL (free NULL (free NULL (free edges h1)))\<rparr>)
          else
          let (refs, h2) = malloc a2 4 (size_t (na * 4)) h1 in
          if refs = NULL
          then (fail_with_count out_count, w\<lparr>heap := free NULL (free NULL (free refs (free edges h2)))\<rparr>)
          else
          let (ridges, h3) = malloc a3 4 (size_t (na * 4)) h2 in
          if ridges = NULL
          then (fail_with_count out_count, w\<lparr>heap := free NULL (free ridges (free refs (free edges h3)))\<rparr>)
          else
          let (required, h4) = malloc a4 4 (size_t (na * 4)) h3 in
          if required = NULL
          then (fail_with_count out_count, w\<lparr>heap := free required (free ridges (free refs (free edges h4)))\<rparr>)
          else
          let (result, edges', refs', ridges', required') = MMGS_Get_edges K m (native w);
              h5 = poke required (map I32 required') (poke ridges (map I32 ridges') (poke refs (map I32 refs') (poke edges (map I32 edges') h4)));
              h6 = free required (free ridges (free refs h5))
          in
          if result \<noteq> 1 then (fail_with_count out_count, w\<lparr>heap := free edges h6\<rparr>)
          else ((edges, map_option (\<lambda>_. na) out_count), w\<lparr>heap := h6\<rparr>))"

definition mmgs_set_iparameter :: "'k MMGS \<Rightarrow> int \<Rightarrow> int \<Rightarrow> int \<Rightarrow> 'k world \<Rightarrow> int \<times> 'k world" where
  "mmgs_set_iparameter K handle iparam val w0 =
     (let (v, w) = validate_handle_s handle w0 in
      if v = 0 then (0, w)
      else
        let e = g_handles_s w ! nat handle;
            (r, k) = MMGS_Set_iparameter K (mesh e) (sol e) iparam val (native w)
        in (r, w\<lparr>native := k\<rparr>))"

definition mmgs_set_dparameter :: "'k MMGS \<Rightarrow> int \<Rightarrow> int \<Rightarrow> real \<Rightarrow> 'k world \<Rightarrow> int \<times> 'k world" where
  "mmgs_set_dparameter K handle dparam val w0 =
     (let (v, w) = validate_handle_s handle w0 in
      if v = 0 then (0, w)
      else
        let e = g_handles_s w ! nat handle;
            (r, k) = MMGS_Set_dparameter K (mesh e) (sol e) dparam val (native w)
        in (r, w\<lparr>native := k\<rparr>))"

definition mmgs_set_sol_size :: "'k MMGS \<Rightarrow> int \<Rightarrow> int \<Rightarrow> int \<Rightarrow> int \<Rightarrow> 'k world \<Rightarrow> int \<times> 'k world" where
  "mmgs_set_sol_size K handle typEntity np typSol w0 =
     (let (v, w) = validate_handle_s handle w0 in
      if v = 0 then (0, w)
      else
        let e = g_handles_s w ! nat handle;
            (r, k) = MMGS_Set_solSize K (mesh e) (sol e) typEntity np typSol (native w)
        in (r, w\<lparr>native := k\<rparr>))"

definition mmgs_get_sol_size :: "'k MMGS \<Rightarrow> int \<Rightarrow> int option \<Rightarrow> int option \<Rightarrow> int option \<Rightarrow> 'k world \<Rightarrow> (int \<times> int option \<times> int option \<times> int option) \<times> 'k world" where
  "mmgs_get_sol_size K handle typEntity np typSol w0 =
     (let (v, w) = validate_handle_s handle w0 in
      if v = 0 then ((0, typEntity, np, typSol), w)
      else
        let e = g_handles_s w ! nat handle;
            (result, typEntity', np', typSol') = MMGS_Get_solSize K (mesh e) (sol e) (native w)
        in if result = 1 then ((result, map_option (\<lambda>_. typEntity') typEntity, map_option (\<lambda>_. np') np, map_option (\<lambda>_. typSol') typSol), w) else ((result, typEntity, np, typSol), w))"

definition mmgs_set_scalar_sols :: "'k MMGS \<Rightarrow> int \<Rightarrow> real list \<Rightarrow> 'k world \<Rightarrow> int \<times> 'k world" where
  "mmgs_set_scalar_sols K handle values w0 =
     (let (v, w) = validate_handle_s handle w0 in
      if v = 0 then (0, w)
      else
        let e = g_handles_s w ! nat handle;
            (r, k) = MMGS_Set_scalarSols K (sol e) values (native w)
        in (r, w\<lparr>native := k\<rparr>))"

definition mmgs_get_scalar_sols ::
  "'k MMGS \<Rightarrow> bool \<Rightarrow> int \<Rightarrow> int option \<Rightarrow> 'k world \<Rightarrow> (ptr \<times> int option) \<times> 'k world" where
  "mmgs_get_scalar_sols K a1 handle out_count w0 =
     (let (v, w) = validate_handle_s handle w0 in
      if v = 0 then ((NULL, map_option (\<lambda>_. 0) out_count), w)
      else
        let e = g_handles_s w ! nat handle;
            (r, typEntity, np, typSol) = MMGS_Get_solSize K (mesh e) (sol e) (native w)
        in
        if r \<noteq> 1 then ((NULL, map_option (\<lambda>_. 0) out_count), w)
        else if np = 0 \<or> typSol \<noteq> 1 then ((NULL, map_option (\<lambda>_. 0) out_count), w)
        else
          let (values, h1) = malloc a1 8 (size_t (np * 8)) (heap w) in
          if values = NULL then ((NULL, map_option (\<lambda>_. 0) out_count), w\<lparr>heap := h1\<rparr>)
          else
            let (result, values') = MMGS_Get_scalarSols K (sol e) (native w);
                h2 = poke values (map D values') h1
            in
            if result \<noteq> 1
            then ((NULL, map_option (\<lambda>_. 0) out_count), w\<lparr>heap := free values h2\<rparr>)
            else ((values, map_option (\<lambda>_. np) out_count), w\<lparr>heap := h2\<rparr>))"

definition mmgs_set_tensor_sols :: "'k MMGS \<Rightarrow> int \<Rightarrow> real list \<Rightarrow> 'k world \<Rightarrow> int \<times> 'k world" where
  "mmgs_set_tensor_sols K handle values w0 =
     (let (v, w) = validate_handle_s handle w0 in
      if v = 0 then (0, w)
      else
        let e = g_handles_s w ! nat handle;
            (r, k) = MMGS_Set_tensorSols K (sol e) values (native w)
        in (r, w\<lparr>native := k\<rparr>))"

definition mmgs_get_tensor_sols ::
  "'k MMGS \<Rightarrow> bool \<Rightarrow> int \<Rightarrow> int option \<Rightarrow> 'k world \<Rightarrow> (ptr \<times> int option) \<times> 'k world" where
  "mmgs_get_tensor_sols K a1 handle out_count w0 =
     (let (v, w) = validate_handle_s handle w0 in
      if v = 0 then ((NULL, map_option (\<lambda>_. 0) out_count), w)
      else
        let e = g_handles_s w ! nat handle;
            (r, typEntity, np, typSol) = MMGS_Get_solSize K (mesh e) (sol e) (native w)
        in
        if r \<noteq> 1 then ((NULL, map_option (\<lambda>_. 0) out_count), w)
        else if np = 0 \<or> typSol \<noteq> 3 then ((NULL, map_option (\<lambda>_. 0) out_count), w)
        else
          let (values, h1) = malloc a1 8 (size_t (int32 (np * 6) * 8)) (heap w) in
          if values = NULL then ((NULL, map_option (\<lambda>_. 0) out_count), w\<lparr>heap := h1\<rparr>)
          else
            let (result, values') = MMGS_Get_tensorSols K (sol e) (native w);
                h2 = poke values (map D values') h1
            in
            if result \<noteq> 1
            then ((NULL, map_option (\<lambda>_. 0) out_count), w\<lparr>heap := free values h2\<rparr>)
            else ((values, map_option (\<lambda>_. np) out_count), w\<lparr>heap := h2\<rparr>))"

definition mmgs_remesh :: "'k MMGS \<Rightarrow> int \<Rightarrow> 'k world \<Rightarrow> int \<times> 'k world" where
  "mmgs_remesh K handle w0 =
     (let (v, w) = validate_handle_s handle w0 in
      if v = 0 then (- 1, w)
      else
        let e = g_handles_s w ! nat handle;
            (r, k) = MMGS_mmgslib K (mesh e) (sol e) (native w)
        in (r, w\<lparr>native := k\<rparr>))"

definition mmgs_free_array :: "ptr \<Rightarrow> 'k world \<Rightarrow> unit \<times> 'k world" where
  "mmgs_free_array p w = ((), if p \<noteq> NULL then w\<lparr>heap := free p (heap w)\<rparr> else w)"

definition mmgs_load_mesh :: "'k MMGS \<Rightarrow> int \<Rightarrow> string \<Rightarrow> 'k world \<Rightarrow> int \<times> 'k world" where
  "mmgs_load_mesh K handle filename w0 =
     (let (v, w) = validate_handle_s handle w0 in
      if v = 0 then (0, w)
      else
        let e = g_handles_s w ! nat handle;
            (r, k) = MMGS_loadMesh K (mesh e) filename (native w)
        in (r, w\<lparr>native := k\<rparr>))"

definition mmgs_save_mesh :: "'k MMGS \<Rightarrow> int \<Rightarrow> string \<Rightarrow> 'k world \<Rightarrow> int \<times> 'k world" where
  "mmgs_save_mesh K handle filename w0 =
     (let (v, w) = validate_handle_s handle w0 in
      if v = 0 then (0, w)
      else
        let e = g_handles_s w ! nat handle;
            (r, k) = MMGS_saveMesh K (mesh e) filename (native w)
        in (r, w\<lparr>native := k\<rparr>))"

definition mmgs_load_sol :: "'k MMGS \<Rightarrow> int \<Rightarrow> string \<Rightarrow> 'k world \<Rightarrow> int \<times> 'k world" where
  "mmgs_load_sol K handle filename w0 =
     (let (v, w) = validate_handle_s handle w0 in
      if v = 0 then (0, w)
      else
        let e = g_handles_s w ! nat handle;
            (r, k) = MMGS_loadSol K (mesh e) (sol e) filename (native w)
        in (r, w\<lparr>native := k\<rparr>))"

definition mmgs_save_sol :: "'k MMGS \<Rightarrow> int \<Rightarrow> string \<Rightarrow> 'k world \<Rightarrow> int \<times> 'k world" where
  "mmgs_save_sol K handle filename w0 =
     (let (v, w) = validate_handle_s handle w0 in
      if v = 0 then (0, w)
      else
        let e = g_handles_s w ! nat handle;
            (r, k) = MMGS_saveSol K (mesh e) (sol e) filename (native w)
        in (r, w\<lparr>native := k\<rparr>))"

definition mmgs_get_triangle_quality :: "'k MMGS \<Rightarrow> int \<Rightarrow> int \<Rightarrow> 'k world \<Rightarrow> real \<times> 'k world" where
  "mmgs_get_triangle_quality K handle k w0 =
     (let (v, w) = validate_handle_s handle w0 in
      if v = 0 then (0, w)
      else
        let e = g_handles_s w ! nat handle in
        (MMGS_Get_triangleQuality K (mesh e) (sol e) k (native w), w))"

definition mmgs_get_triangles_qualities ::
  "'k MMGS \<Rightarrow> bool \<Rightarrow> int \<Rightarrow> int option \<Rightarrow> 'k world \<Rightarrow> (ptr \<times> int option) \<times> 'k world" where
  "mmgs_get_triangles_qualities K a1 handle out_count w0 =
     (let (v, w) = validate_handle_s handle w0 in
      if v = 0 then ((NULL, map_option (\<lambda>_. 0) out_count), w)
      else
        let e = g_handles_s w ! nat handle;
            (r, np, nt, na) = MMGS_Get_meshSize K (mesh e) (native w)
        in
        if r \<noteq> 1 then ((NULL, map_option (\<lambda>_. 0) out_count), w)
        else if nt = 0 then ((NULL, map_option (\<lambda>_. 0) out_count), w)
        else
          let (qualities, h1) = malloc a1 8 (size_t (nt * 8)) (heap w) in
          if qualities = NULL then ((NULL, map_option (\<lambda>_. 0) out_count), w\<lparr>heap := h1\<rparr>)
          else
            case qualities_loop
                   (\<lambda>k. MMGS_Get_triangleQuality K (mesh e) (sol e) k (native w)) qualities 1 nt h1 of
              None \<Rightarrow> ((qualities, map_option (\<lambda>_. nt) out_count), w\<lparr>heap := h1, fault := True\<rparr>)
            | Some h2 \<Rightarrow> ((qualities, map_option (\<lambda>_. nt) out_count), w\<lparr>heap := h2\<rparr>))"

section \<open>Notions used by the properties\<close>

text \<open>
  A state the program can be in: each table has its 64 entries, its flag is 0 or 1, and
  a table that was never used is still the zeroed memory the program starts with.
\<close>

definition table_ok :: "HandleEntry list \<Rightarrow> int \<Rightarrow> bool" where
  "table_ok t ini =
     (length t = MAX_HANDLES \<and> (ini = 0 \<or> ini = 1) \<and>
      (ini = 0 \<longrightarrow> t = replicate MAX_HANDLES zero_entry))"

definition wf_world :: "'k world \<Rightarrow> bool" where
  "wf_world w =
     (table_ok (g_handles_2d w) (g_initialized_2d w) \<and>
      table_ok (g_handles w) (g_initialized w) \<and>
      table_ok (g_handles_s w) (g_initialized_s w))"

text \<open>A handle is active when it is the index of a slot whose flag is set.\<close>

definition is_active_2d :: "'k world \<Rightarrow> int \<Rightarrow> bool" where
  "is_active_2d w h = (0 \<le> h \<and> h < int MAX_HANDLES \<and> active (g_handles_2d w ! nat h) \<noteq> 0)"

definition is_active_3d :: "'k world \<Rightarrow> int \<Rightarrow> bool" where
  "is_active_3d w h = (0 \<le> h \<and> h < int MAX_HANDLES \<and> active (g_handles w ! nat h) \<noteq> 0)"

definition is_active_s :: "'k world \<Rightarrow> int \<Rightarrow> bool" where
  "is_active_s w h = (0 \<le> h \<and> h < int MAX_HANDLES \<and> active (g_handles_s w ! nat h) \<noteq> 0)"

definition active_count :: "HandleEntry list \<Rightarrow> nat" where
  "active_count t = length (filter (\<lambda>e. active e \<noteq> 0) t)"

text \<open>What the planar, the volumetric and the surface file do not own.\<close>

definition others_2d :: "'k world \<Rightarrow> HandleEntry list \<times> int \<times> HandleEntry list \<times> int" where
  "others_2d w = (g_handles w, g_initialized w, g_handles_s w, g_initialized_s w)"

definition others_3d :: "'k world \<Rightarrow> HandleEntry list \<times> int \<times> HandleEntry list \<times> int" where
  "others_3d w = (g_handles_2d w, g_initialized_2d w, g_handles_s w, g_initialized_s w)"

definition others_s :: "'k world \<Rightarrow> HandleEntry list \<times> int \<times> HandleEntry list \<times> int" where
  "others_s w = (g_handles_2d w, g_initialized_2d w, g_handles w, g_initialized w)"

text \<open>Sequences of \<^verbatim>\<open>init\<close> and \<^verbatim>\<open>free\<close> calls of the three files, with what each returned.\<close>

datatype call = Init2D | Free2D int | Init3D | Free3D int | InitS | FreeS int

fun step :: "'k MMG2D \<Rightarrow> 'k MMG3D \<Rightarrow> 'k MMGS \<Rightarrow> call \<Rightarrow> 'k world \<Rightarrow> int \<times> 'k world" where
  "step Kp Kv Ks Init2D w = mmg2d_init Kp w"
| "step Kp Kv Ks (Free2D h) w = mmg2d_free Kp h w"
| "step Kp Kv Ks Init3D w = mmg3d_init Kv w"
| "step Kp Kv Ks (Free3D h) w = mmg3d_free Kv h w"
| "step Kp Kv Ks InitS w = mmgs_init Ks w"
| "step Kp Kv Ks (FreeS h) w = mmgs_free Ks h w"

fun run :: "'k MMG2D \<Rightarrow> 'k MMG3D \<Rightarrow> 'k MMGS \<Rightarrow> call list \<Rightarrow> 'k world \<Rightarrow> int list \<times> 'k world" where
  "run Kp Kv Ks [] w = ([], w)"
| "run Kp Kv Ks (c # cs) w =
     (let (r, w1) = step Kp Kv Ks c w; (rs, w2) = run Kp Kv Ks cs w1 in (r # rs, w2))"

text \<open>
  Libraries to evaluate the wrappers on. Their memory is the number of constructions
  asked for so far; the first construction fails, the later ones succeed; every mesh
  holds \<open>n\<close> entities of each kind and a solution of type \<open>t\<close>; the quality of element
  \<open>k\<close> is \<open>1 / 2\<close> for an even \<open>k\<close> and \<open>1\<close> for an odd one.
\<close>

definition demo_2d :: "int \<Rightarrow> int \<Rightarrow> nat MMG2D" where
  "demo_2d n t =
     \<lparr>MMG2D_Init_mesh = (\<lambda>k. if k = 0 then ((0, NULL, NULL), Suc k) else ((1, 2 * k, 2 * k + 1), Suc k)),
      MMG2D_Init_parameters = (\<lambda>m k. k),
      MMG2D_Free_all = (\<lambda>m s k. k),
      MMG2D_Set_meshSize = (\<lambda>_ _ _ _ _ k. (1, k)),
      MMG2D_Get_meshSize = (\<lambda>m k. (1, n, n, n, n)),
      MMG2D_Set_vertex = (\<lambda>_ _ _ _ _ k. (1, k)),
      MMG2D_Set_vertices = (\<lambda>_ _ _ k. (1, k)),
      MMG2D_Get_vertices = (\<lambda>m k. (1, [], [], [], [])),
      MMG2D_Set_triangle = (\<lambda>_ _ _ _ _ _ k. (1, k)),
      MMG2D_Set_triangles = (\<lambda>_ _ _ k. (1, k)),
      MMG2D_Get_triangles = (\<lambda>m k. (1, [], [], [])),
      MMG2D_Set_edge = (\<lambda>_ _ _ _ _ k. (1, k)),
      MMG2D_Set_edges = (\<lambda>_ _ _ k. (1, k)),
      MMG2D_Get_edges = (\<lambda>m k. (1, [], [], [], [])),
      MMG2D_Set_iparameter = (\<lambda>_ _ _ _ k. (1, k)),
      MMG2D_Set_dparameter = (\<lambda>_ _ _ _ k. (1, k)),
      MMG2D_Set_solSize = (\<lambda>_ _ _ _ _ k. (1, k)),
      MMG2D_Get_solSize = (\<lambda>m s k. (1, 1, n, t)),
      MMG2D_Set_scalarSols = (\<lambda>_ _ k. (1, k)),
      MMG2D_Get_scalarSols = (\<lambda>s k. (1, [])),
      MMG2D_Set_tensorSols = (\<lambda>_ _ k. (1, k)),
      MMG2D_Get_tensorSols = (\<lambda>s k. (1, [])),
      MMG2D_mmg2dlib = (\<lambda>_ _ k. (0, k)),
      MMG2D_loadMesh = (\<lambda>_ _ k. (1, k)),
      MMG2D_saveMesh = (\<lambda>_ _ k. (1, k)),
      MMG2D_loadSol = (\<lambda>_ _ _ k. (1, k)),
      MMG2D_saveSol = (\<lambda>_ _ _ k. (1, k)),
      MMG2D_Get_triangleQuality = (\<lambda>m s i k. if even i then 1 / 2 else 1)\<rparr>"

definition demo_3d :: "int \<Rightarrow> int \<Rightarrow> nat MMG3D" where
  "demo_3d n t =
     \<lparr>MMG3D_Init_mesh = (\<lambda>k. if k = 0 then ((0, NULL, NULL), Suc k) else ((1, 2 * k, 2 * k + 1), Suc k)),
      MMG3D_Init_parameters = (\<lambda>m k. k),
      MMG3D_Free_all = (\<lambda>m s k. k),
      MMG3D_Set_meshSize = (\<lambda>_ _ _ _ _ _ _ k. (1, k)),
      MMG3D_Get_meshSize = (\<lambda>m k. (1, n, n, n, n, n, n)),
      MMG3D_Set_vertex = (\<lambda>_ _ _ _ _ _ k. (1, k)),
      MMG3D_Set_vertices = (\<lambda>_ _ _ k. (1, k)),
      MMG3D_Get_vertices = (\<lambda>m k. (1, [], [], [], [])),
      MMG3D_Set_tetrahedron = (\<lambda>_ _ _ _ _ _ _ k. (1, k)),
      MMG3D_Set_tetrahedra = (\<lambda>_ _ _ k. (1, k)),
      MMG3D_Get_tetrahedra = (\<lambda>m k. (1, [], [], [])),
      MMG3D_Set_triangle = (\<lambda>_ _ _ _ _ _ k. (1, k)),
      MMG3D_Set_triangles = (\<lambda>_ _ _ k. (1, k)),
      MMG3D_Get_triangles = (\<lambda>m k. (1, [], [], [])),
      MMG3D_Set_iparameter = (\<lambda>_ _ _ _ k. (1, k)),
      MMG3D_Set_dparameter = (\<lambda>_ _ _ _ k. (1, k)),
      MMG3D_Set_solSize = (\<lambda>_ _ _ _ _ k. (1, k)),
      MMG3D_Get_solSize = (\<lambda>m s k. (1, 1, n, t)),
      MMG3D_Set_scalarSols = (\<lambda>_ _ k. (1, k)),
      MMG3D_Get_scalarSols = (\<lambda>s k. (1, [])),
      MMG3D_Set_tensorSols = (\<lambda>_ _ k. (1, k)),
      MMG3D_Get_tensorSols = (\<lambda>s k. (1, [])),
      MMG3D_mmg3dlib = (\<lambda>_ _ k. (0, k)),
      MMG3D_loadMesh = (\<lambda>_ _ k. (1, k)),
      MMG3D_saveMesh = (\<lambda>_ _ k. (1, k)),
      MMG3D_loadSol = (\<lambda>_ _ _ k. (1, k)),
      MMG3D_saveSol = (\<lambda>_ _ _ k. (1, k)),
      MMG3D_Get_tetrahedronQuality = (\<lambda>m s i k. if even i then 1 / 2 else 1)\<rparr>"

definition demo_s :: "int \<Rightarrow> int \<Rightarrow> nat MMGS" where
  "demo_s n t =
     \<lparr>MMGS_Init_mesh = (\<lambda>k. if k = 0 then ((0, NULL, NULL), Suc k) else ((1, 2 * k, 2 * k + 1), Suc k)),
      MMGS_Init_parameters = (\<lambda>m k. k),
      MMGS_Free_all = (\<lambda>m s k. k),
      MMGS_Set_meshSize = (\<lambda>_ _ _ _ k. (1, k)),
      MMGS_Get_meshSize = (\<lambda>m k. (1, n, n, n)),
      MMGS_Set_vertex = (\<lambda>_ _ _ _ _ _ k. (1, k)),
      MMGS_Set_vertices = (\<lambda>_ _ _ k. (1, k)),
      MMGS_Get_vertices = (\<lambda>m k. (1, [], [], [], [])),
      MMGS_Set_triangle = (\<lambda>_ _ _ _ _ _ k. (1, k)),
      MMGS_Set_triangles = (\<lambda>_ _ _ k. (1, k)),
      MMGS_Get_triangles = (\<lambda>m k. (1, [], [], [])),
      MMGS_Set_edge = (\<lambda>_ _ _ _ _ k. (1, k)),
      MMGS_Set_edges = (\<lambda>_ _ _ k. (1, k)),
      MMGS_Get_edges = (\<lambda>m k. (1, [], [], [], [])),
      MMGS_Set_iparameter = (\<lambda>_ _ _ _ k. (1, k)),
      MMGS_Set_dparameter = (\<lambda>_ _ _ _ k. (1, k)),
      MMGS_Set_solSize = (\<lambda>_ _ _ _ _ k. (1, k)),
      MMGS_Get_solSize = (\<lambda>m s k. (1, 1, n, t)),
      MMGS_Set_scalarSols = (\<lambda>_ _ k. (1, k)),
      MMGS_Get_scalarSols = (\<lambda>s k. (1, [])),
      MMGS_Set_tensorSols = (\<lambda>_ _ k. (1, k)),
      MMGS_Get_tensorSols = (\<lambda>s k. (1, [])),
      MMGS_mmgslib = (\<lambda>_ _ k. (0, k)),
      MMGS_loadMesh = (\<lambda>_ _ k. (1, k)),
      MMGS_saveMesh = (\<lambda>_ _ k. (1, k)),
      MMGS_loadSol = (\<lambda>_ _ _ k. (1, k)),
      MMGS_saveSol = (\<lambda>_ _ _ k. (1, k)),
      MMGS_Get_triangleQuality = (\<lambda>m s i k. if even i then 1 / 2 else 1)\<rparr>"

text \<open>A state in which each file holds one instance, under handle 0.\<close>

definition demo_world :: "nat world" where
  "demo_world =
     snd (run (demo_2d 2 1) (demo_3d 2 1) (demo_s 2 1) [Init2D, Init3D, InitS] (world0 1))"

text \<open>A state in which the planar, volumetric and surface tables have two free slots left.\<close>

definition busy_entry :: HandleEntry where
  "busy_entry = \<lparr>mesh = 8, sol = 9, active = 1\<rparr>"

definition nearly_full_world :: "nat world" where
  "nearly_full_world =
     \<lparr>g_handles_2d = replicate 62 busy_entry @ replicate 2 zero_entry, g_initialized_2d = 1,
      g_handles = replicate 62 busy_entry @ replicate 2 zero_entry, g_initialized = 1,
      g_handles_s = replicate 62 busy_entry @ replicate 2 zero_entry, g_initialized_s = 1,
      heap = [], fault = False, native = 1\<rparr>"

text \<open>The state after two more instances were created in each file: the tables are full.\<close>

definition full_world :: "nat world" where
  "full_world =
     snd (run (demo_2d 2 1) (demo_3d 2 1) (demo_s 2 1)
            [Init2D, Init2D, Init3D, Init3D, InitS, InitS] nearly_full_world)"

text \<open>The state after 64 calls of the planar \<^verbatim>\<open>init\<close> from the state the program starts in,
  with a library whose first construction fails: the slots 0 to 62 are taken.\<close>

definition filled_world :: "nat world" where
  "filled_world =
     (world0 0)\<lparr>g_handles_2d :=
         map (\<lambda>i. \<lparr>mesh = 2 * i + 2, sol = 2 * i + 3, active = 1\<rparr>) [0..<63] @ [zero_entry],
       g_initialized_2d := 1, native := 64\<rparr>"

text \<open>
  A call of an entry point of \<^verbatim>\<open>mmg2d.c\<close>, of \<^verbatim>\<open>mmg3d.c\<close> and of \<^verbatim>\<open>mmgs.c\<close>, with its arguments
  (for a function that allocates, the first arguments say which allocations succeed),
  and the state a call leaves.
\<close>

datatype op_2d =
    Get_available_handles_2d
  | Get_max_handles_2d
  | Init_2d
  | Free_2d int
  | Set_mesh_size_2d int int int int int
  | Get_mesh_size_2d int "int option" "int option" "int option" "int option"
  | Set_vertex_2d int real real int int
  | Set_vertices_2d int "real list" "int list option"
  | Get_vertices_2d bool bool bool bool int "int option"
  | Set_triangle_2d int int int int int int
  | Set_triangles_2d int "int list" "int list option"
  | Get_triangles_2d bool bool bool int "int option"
  | Set_edge_2d int int int int int
  | Set_edges_2d int "int list" "int list option"
  | Get_edges_2d bool bool bool bool int "int option"
  | Set_iparameter_2d int int int
  | Set_dparameter_2d int int real
  | Set_sol_size_2d int int int int
  | Get_sol_size_2d int "int option" "int option" "int option"
  | Set_scalar_sols_2d int "real list"
  | Get_scalar_sols_2d bool int "int option"
  | Set_tensor_sols_2d int "real list"
  | Get_tensor_sols_2d bool int "int option"
  | Remesh_2d int
  | Free_array_2d ptr
  | Load_mesh_2d int string
  | Save_mesh_2d int string
  | Load_sol_2d int string
  | Save_sol_2d int string
  | Get_triangle_quality_2d int int
  | Get_triangles_qualities_2d bool int "int option"

datatype op_3d =
    Get_available_handles_3d
  | Get_max_handles_3d
  | Init_3d
  | Free_3d int
  | Set_mesh_size_3d int int int int int int int
  | Get_mesh_size_3d int "int option" "int option" "int option" "int option" "int option" "int option"
  | Set_vertex_3d int real real real int int
  | Set_vertices_3d int "real list" "int list option"
  | Get_vertices_3d bool bool bool bool int "int option"
  | Set_tetrahedron_3d int int int int int int int
  | Set_tetrahedra_3d int "int list" "int list option"
  | Get_tetrahedra_3d bool bool bool int "int option"
  | Set_triangle_3d int int int int int int
  | Set_triangles_3d int "int list" "int list option"
  | Get_triangles_3d bool bool bool int "int option"
  | Set_iparameter_3d int int int
  | Set_dparameter_3d int int real
  | Set_sol_size_3d int int int int
  | Get_sol_size_3d int "int option" "int option" "int option"
  | Set_scalar_sols_3d int "real list"
  | Get_scalar_sols_3d bool int "int option"
  | Set_tensor_sols_3d int "real list"
  | Get_tensor_sols_3d bool int "int option"
  | Remesh_3d int
  | Free_array_3d ptr
  | Load_mesh_3d int string
  | Save_mesh_3d int string
  | Load_sol_3d int string
  | Save_sol_3d int string
  | Get_tetrahedron_quality_3d int int
  | Get_tetrahedra_qualities_3d bool int "int option"

datatype op_s =
    Get_available_handles_s
  | Get_max_handles_s
  | Init_s
  | Free_s int
  | Set_mesh_size_s int int int int
  | Get_mesh_size_s int "int option" "int option" "int option"
  | Set_vertex_s int real real real int int
  | Set_vertices_s int "real list" "int list option"
  | Get_vertices_s bool bool bool bool int "int option"
  | Set_triangle_s int int int int int int
  | Set_triangles_s int "int list" "int list option"
  | Get_triangles_s bool bool bool int "int option"
  | Set_edge_s int int int int int
  | Set_edges_s int "int list" "int list option"
  | Get_edges_s bool bool bool bool int "int option"
  | Set_iparameter_s int int int
  | Set_dparameter_s int int real
  | Set_sol_size_s int int int int
  | Get_sol_size_s int "int option" "int option" "int option"
  | Set_scalar_sols_s int "real list"
  | Get_scalar_sols_s bool int "int option"
  | Set_tensor_sols_s int "real list"
  | Get_tensor_sols_s bool int "int option"
  | Remesh_s int
  | Free_array_s ptr
  | Load_mesh_s int string
  | Save_mesh_s int string
  | Load_sol_s int string
  | Save_sol_s int string
  | Get_triangle_quality_s int int
  | Get_triangles_qualities_s bool int "int option"

fun exec_2d :: "'k MMG2D \<Rightarrow> op_2d \<Rightarrow> 'k world \<Rightarrow> 'k world" where
  "exec_2d Kp Get_available_handles_2d w = snd (mmg2d_get_available_handles w)"
| "exec_2d Kp Get_max_handles_2d w = snd (mmg2d_get_max_handles w)"
| "exec_2d Kp Init_2d w = snd (mmg2d_init Kp w)"
| "exec_2d Kp (Free_2d h) w = snd (mmg2d_free Kp h w)"
| "exec_2d Kp (Set_mesh_size_2d h ia ib ic iu) w = snd (mmg2d_set_mesh_size Kp h ia ib ic iu w)"
| "exec_2d Kp (Get_mesh_size_2d h oa ob oc ou) w = snd (mmg2d_get_mesh_size Kp h oa ob oc ou w)"
| "exec_2d Kp (Set_vertex_2d h xa xb ia ib) w = snd (mmg2d_set_vertex Kp h xa xb ia ib w)"
| "exec_2d Kp (Set_vertices_2d h xs ro) w = snd (mmg2d_set_vertices Kp h xs ro w)"
| "exec_2d Kp (Get_vertices_2d fa fb fc fd h out) w = snd (mmg2d_get_vertices Kp fa fb fc fd h out w)"
| "exec_2d Kp (Set_triangle_2d h ia ib ic iu iv) w = snd (mmg2d_set_triangle Kp h ia ib ic iu iv w)"
| "exec_2d Kp (Set_triangles_2d h js ro) w = snd (mmg2d_set_triangles Kp h js ro w)"
| "exec_2d Kp (Get_triangles_2d fa fb fc h out) w = snd (mmg2d_get_triangles Kp fa fb fc h out w)"
| "exec_2d Kp (Set_edge_2d h ia ib ic iu) w = snd (mmg2d_set_edge Kp h ia ib ic iu w)"
| "exec_2d Kp (Set_edges_2d h js ro) w = snd (mmg2d_set_edges Kp h js ro w)"
| "exec_2d Kp (Get_edges_2d fa fb fc fd h out) w = snd (mmg2d_get_edges Kp fa fb fc fd h out w)"
| "exec_2d Kp (Set_iparameter_2d h ia ib) w = snd (mmg2d_set_iparameter Kp h ia ib w)"
| "exec_2d Kp (Set_dparameter_2d h ia xa) w = snd (mmg2d_set_dparameter Kp h ia xa w)"
| "exec_2d Kp (Set_sol_size_2d h ia ib ic) w = snd (mmg2d_set_sol_size Kp h ia ib ic w)"
| "exec_2d Kp (Get_sol_size_2d h oa ob oc) w = snd (mmg2d_get_sol_size Kp h oa ob oc w)"
| "exec_2d Kp (Set_scalar_sols_2d h xs) w = snd (mmg2d_set_scalar_sols Kp h xs w)"
| "exec_2d Kp (Get_scalar_sols_2d fa h out) w = snd (mmg2d_get_scalar_sols Kp fa h out w)"
| "exec_2d Kp (Set_tensor_sols_2d h xs) w = snd (mmg2d_set_tensor_sols Kp h xs w)"
| "exec_2d Kp (Get_tensor_sols_2d fa h out) w = snd (mmg2d_get_tensor_sols Kp fa h out w)"
| "exec_2d Kp (Remesh_2d h) w = snd (mmg2d_remesh Kp h w)"
| "exec_2d Kp (Free_array_2d p) w = snd (mmg2d_free_array p w)"
| "exec_2d Kp (Load_mesh_2d h fname) w = snd (mmg2d_load_mesh Kp h fname w)"
| "exec_2d Kp (Save_mesh_2d h fname) w = snd (mmg2d_save_mesh Kp h fname w)"
| "exec_2d Kp (Load_sol_2d h fname) w = snd (mmg2d_load_sol Kp h fname w)"
| "exec_2d Kp (Save_sol_2d h fname) w = snd (mmg2d_save_sol Kp h fname w)"
| "exec_2d Kp (Get_triangle_quality_2d h k) w = snd (mmg2d_get_triangle_quality Kp h k w)"
| "exec_2d Kp (Get_triangles_qualities_2d fa h out) w = snd (mmg2d_get_triangles_qualities Kp fa h out w)"

fun exec_3d :: "'k MMG3D \<Rightarrow> op_3d \<Rightarrow> 'k world \<Rightarrow> 'k world" where
  "exec_3d Kv Get_available_handles_3d w = snd (mmg3d_get_available_handles w)"
| "exec_3d Kv Get_max_handles_3d w = snd (mmg3d_get_max_handles w)"
| "exec_3d Kv Init_3d w = snd (mmg3d_init Kv w)"
| "exec_3d Kv (Free_3d h) w = snd (mmg3d_free Kv h w)"
| "exec_3d Kv (Set_mesh_size_3d h ia ib ic iu iv iw) w = snd (mmg3d_set_mesh_size Kv h ia ib ic iu iv iw w)"
| "exec_3d Kv (Get_mesh_size_3d h oa ob oc ou ov ow) w = snd (mmg3d_get_mesh_size Kv h oa ob oc ou ov ow w)"
| "exec_3d Kv (Set_vertex_3d h xa xb xc ia ib) w = snd (mmg3d_set_vertex Kv h xa xb xc ia ib w)"
| "exec_3d Kv (Set_vertices_3d h xs ro) w = snd (mmg3d_set_vertices Kv h xs ro w)"
| "exec_3d Kv (Get_vertices_3d fa fb fc fd h out) w = snd (mmg3d_get_vertices Kv fa fb fc fd h out w)"
| "exec_3d Kv (Set_tetrahedron_3d h ia ib ic iu iv iw) w = snd (mmg3d_set_tetrahedron Kv h ia ib ic iu iv iw w)"
| "exec_3d Kv (Set_tetrahedra_3d h js ro) w = snd (mmg3d_set_tetrahedra Kv h js ro w)"
| "exec_3d Kv (Get_tetrahedra_3d fa fb fc h out) w = snd (mmg3d_get_tetrahedra Kv fa fb fc h out w)"
| "exec_3d Kv (Set_triangle_3d h ia ib ic iu iv) w = snd (mmg3d_set_triangle Kv h ia ib ic iu iv w)"
| "exec_3d Kv (Set_triangles_3d h js ro) w = snd (mmg3d_set_triangles Kv h js ro w)"
| "exec_3d Kv (Get_triangles_3d fa fb fc h out) w = snd (mmg3d_get_triangles Kv fa fb fc h out w)"
| "exec_3d Kv (Set_iparameter_3d h ia ib) w = snd (mmg3d_set_iparameter Kv h ia ib w)"
| "exec_3d Kv (Set_dparameter_3d h ia xa) w = snd (mmg3d_set_dparameter Kv h ia xa w)"
| "exec_3d Kv (Set_sol_size_3d h ia ib ic) w = snd (mmg3d_set_sol_size Kv h ia ib ic w)"
| "exec_3d Kv (Get_sol_size_3d h oa ob oc) w = snd (mmg3d_get_sol_size Kv h oa ob oc w)"
| "exec_3d Kv (Set_scalar_sols_3d h xs) w = snd (mmg3d_set_scalar_sols Kv h xs w)"
| "exec_3d Kv (Get_scalar_sols_3d fa h out) w = snd (mmg3d_get_scalar_sols Kv fa h out w)"
| "exec_3d Kv (Set_tensor_sols_3d h xs) w = snd (mmg3d_set_tensor_sols Kv h xs w)"
| "exec_3d Kv (Get_tensor_sols_3d fa h out) w = snd (mmg3d_get_tensor_sols Kv fa h out w)"
| "exec_3d Kv (Remesh_3d h) w = snd (mmg3d_remesh Kv h w)"
| "exec_3d Kv (Free_array_3d p) w = snd (mmg3d_free_array p w)"
| "exec_3d Kv (Load_mesh_3d h fname) w = snd (mmg3d_load_mesh Kv h fname w)"
| "exec_3d Kv (Save_mesh_3d h fname) w = snd (mmg3d_save_mesh Kv h fname w)"
| "exec_3d Kv (Load_sol_3d h fname) w = snd (mmg3d_load_sol Kv h fname w)"
| "exec_3d Kv (Save_sol_3d h fname) w = snd (mmg3d_save_sol Kv h fname w)"
| "exec_3d Kv (Get_tetrahedron_quality_3d h k) w = snd (mmg3d_get_tetrahedron_quality Kv h k w)"
| "exec_3d Kv (Get_tetrahedra_qualities_3d fa h out) w = snd (mmg3d_get_tetrahedra_qualities Kv fa h out w)"

fun exec_s :: "'k MMGS \<Rightarrow> op_s \<Rightarrow> 'k world \<Rightarrow> 'k world" where
  "exec_s Ks Get_available_handles_s w = snd (mmgs_get_available_handles w)"
| "exec_s Ks Get_max_handles_s w = snd (mmgs_get_max_handles w)"
| "exec_s Ks Init_s w = snd (mmgs_init Ks w)"
| "exec_s Ks (Free_s h) w = snd (mmgs_free Ks h w)"
| "exec_s Ks (Set_mesh_size_s h ia ib ic) w = snd (mmgs_set_mesh_size Ks h ia ib ic w)"
| "exec_s Ks (Get_mesh_size_s h oa ob oc) w = snd (mmgs_get_mesh_size Ks h oa ob oc w)"
| "exec_s Ks (Set_vertex_s h xa xb xc ia ib) w = snd (mmgs_set_vertex Ks h xa xb xc ia ib w)"
| "exec_s Ks (Set_vertices_s h xs ro) w = snd (mmgs_set_vertices Ks h xs ro w)"
| "exec_s Ks (Get_vertices_s fa fb fc fd h out) w = snd (mmgs_get_vertices Ks fa fb fc fd h out w)"
| "exec_s Ks (Set_triangle_s h ia ib ic iu iv) w = snd (mmgs_set_triangle Ks h ia ib ic iu iv w)"
| "exec_s Ks (Set_triangles_s h js ro) w = snd (mmgs_set_triangles Ks h js ro w)"
| "exec_s Ks (Get_triangles_s fa fb fc h out) w = snd (mmgs_get_triangles Ks fa fb fc h out w)"
| "exec_s Ks (Set_edge_s h ia ib ic iu) w = snd (mmgs_set_edge Ks h ia ib ic iu w)"
| "exec_s Ks (Set_edges_s h js ro) w = snd (mmgs_set_edges Ks h js ro w)"
| "exec_s Ks (Get_edges_s fa fb fc fd h out) w = snd (mmgs_get_edges Ks fa fb fc fd h out w)"
| "exec_s Ks (Set_iparameter_s h ia ib) w = snd (mmgs_set_iparameter Ks h ia ib w)"
| "exec_s Ks (Set_dparameter_s h ia xa) w = snd (mmgs_set_dparameter Ks h ia xa w)"
| "exec_s Ks (Set_sol_size_s h ia ib ic) w = snd (mmgs_set_sol_size Ks h ia ib ic w)"
| "exec_s Ks (Get_sol_size_s h oa ob oc) w = snd (mmgs_get_sol_size Ks h oa ob oc w)"
| "exec_s Ks (Set_scalar_sols_s h xs) w = snd (mmgs_set_scalar_sols Ks h xs w)"
| "exec_s Ks (Get_scalar_sols_s fa h out) w = snd (mmgs_get_scalar_sols Ks fa h out w)"
| "exec_s Ks (Set_tensor_sols_s h xs) w = snd (mmgs_set_tensor_sols Ks h xs w)"
| "exec_s Ks (Get_tensor_sols_s fa h out) w = snd (mmgs_get_tensor_sols Ks fa h out w)"
| "exec_s Ks (Remesh_s h) w = snd (mmgs_remesh Ks h w)"
| "exec_s Ks (Free_array_s p) w = snd (mmgs_free_array p w)"
| "exec_s Ks (Load_mesh_s h fname) w = snd (mmgs_load_mesh Ks h fname w)"
| "exec_s Ks (Save_mesh_s h fname) w = snd (mmgs_save_mesh Ks h fname w)"
| "exec_s Ks (Load_sol_s h fname) w = snd (mmgs_load_sol Ks h fname w)"
| "exec_s Ks (Save_sol_s h fname) w = snd (mmgs_save_sol Ks h fname w)"
| "exec_s Ks (Get_triangle_quality_s h k) w = snd (mmgs_get_triangle_quality Ks h k w)"
| "exec_s Ks (Get_triangles_qualities_s fa h out) w = snd (mmgs_get_triangles_qualities Ks fa h out w)"

text \<open>Sequences of calls of the entry points of the three files.\<close>

datatype entry = In_2d op_2d | In_3d op_3d | In_s op_s

fun exec :: "'k MMG2D \<Rightarrow> 'k MMG3D \<Rightarrow> 'k MMGS \<Rightarrow> entry \<Rightarrow> 'k world \<Rightarrow> 'k world" where
  "exec Kp Kv Ks (In_2d c) w = exec_2d Kp c w"
| "exec Kp Kv Ks (In_3d c) w = exec_3d Kv c w"
| "exec Kp Kv Ks (In_s c) w = exec_s Ks c w"

fun exec_all :: "'k MMG2D \<Rightarrow> 'k MMG3D \<Rightarrow> 'k MMGS \<Rightarrow> entry list \<Rightarrow> 'k world \<Rightarrow> 'k world" where
  "exec_all Kp Kv Ks [] w = w"
| "exec_all Kp Kv Ks (c # cs) w = exec_all Kp Kv Ks cs (exec Kp Kv Ks c w)"

text \<open>The static variables of the three files.\<close>

definition statics ::
  "'k world \<Rightarrow> (HandleEntry list \<times> int) \<times> (HandleEntry list \<times> int) \<times> (HandleEntry list \<times> int)" where
  "statics w =
     ((g_handles_2d w, g_initialized_2d w), (g_handles w, g_initialized w),
      (g_handles_s w, g_initialized_s w))"

section \<open>Facts about the shared parts\<close>

declare find_free_loop.simps [simp del]
declare available_loop.simps [simp del]
declare qualities_loop.simps [simp del]

subsection \<open>The loops over a table\<close>

lemma find_free_loop_bounds:
  "find_free_loop i t = - 1 \<or> (int i \<le> find_free_loop i t \<and> find_free_loop i t < int MAX_HANDLES)"
proof (induction i t rule: find_free_loop.induct)
  case (1 i t)
  show ?case
  proof (cases "i < MAX_HANDLES \<and> active (t ! i) \<noteq> 0")
    case True
    then have "find_free_loop i t = find_free_loop (Suc i) t"
      by (subst find_free_loop.simps) simp
    with 1 True show ?thesis by auto
  next
    case False
    then show ?thesis by (subst (1 2 3) find_free_loop.simps) auto
  qed
qed

lemma find_free_loop_none:
  "(find_free_loop i t = - 1) = (\<forall>j. i \<le> j \<and> j < MAX_HANDLES \<longrightarrow> active (t ! j) \<noteq> 0)"
proof (induction i t rule: find_free_loop.induct)
  case (1 i t)
  show ?case
  proof (cases "i < MAX_HANDLES")
    case False
    then show ?thesis by (subst find_free_loop.simps) auto
  next
    case True
    show ?thesis
    proof (cases "active (t ! i) = 0")
      case z: True
      with True show ?thesis by (subst find_free_loop.simps) auto
    next
      case nz: False
      have eq: "find_free_loop i t = find_free_loop (Suc i) t"
        using True nz by (subst find_free_loop.simps) simp
      have "(\<forall>j. i \<le> j \<and> j < MAX_HANDLES \<longrightarrow> active (t ! j) \<noteq> 0) =
            (\<forall>j. Suc i \<le> j \<and> j < MAX_HANDLES \<longrightarrow> active (t ! j) \<noteq> 0)"
        using nz by (metis Suc_leI le_neq_implies_less Suc_leD)
      with 1 True nz eq show ?thesis by simp
    qed
  qed
qed

lemma find_free_loop_first:
  "0 \<le> find_free_loop i t \<Longrightarrow>
     active (t ! nat (find_free_loop i t)) = 0 \<and>
     (\<forall>j. i \<le> j \<and> j < nat (find_free_loop i t) \<longrightarrow> active (t ! j) \<noteq> 0)"
proof (induction i t rule: find_free_loop.induct)
  case (1 i t)
  show ?case
  proof (cases "i < MAX_HANDLES")
    case False
    then have "find_free_loop i t = - 1" by (subst find_free_loop.simps) auto
    with 1 show ?thesis by simp
  next
    case True
    show ?thesis
    proof (cases "active (t ! i) = 0")
      case z: True
      with True have "find_free_loop i t = int i" by (subst find_free_loop.simps) auto
      with z show ?thesis by simp
    next
      case nz: False
      have eq: "find_free_loop i t = find_free_loop (Suc i) t"
        using True nz by (subst find_free_loop.simps) simp
      from 1 True nz eq have ih: "active (t ! nat (find_free_loop i t)) = 0 \<and>
         (\<forall>j. Suc i \<le> j \<and> j < nat (find_free_loop i t) \<longrightarrow> active (t ! j) \<noteq> 0)"
        by simp
      then show ?thesis using nz by (metis Suc_leI le_neq_implies_less)
    qed
  qed
qed

lemma find_free_loop_nonneg: "(0 \<le> find_free_loop 0 t) = (find_free_loop 0 t \<noteq> - 1)"
  using find_free_loop_bounds [of 0 t] by auto

lemma find_free_loop_neg: "(find_free_loop 0 t < 0) = (find_free_loop 0 t = - 1)"
  using find_free_loop_bounds [of 0 t] by auto

text \<open>The slot found depends on which slots are inactive, and on nothing else.\<close>

lemma find_free_loop_flags:
  "\<forall>j < MAX_HANDLES. (active (t ! j) = 0) = (active (u ! j) = 0) \<Longrightarrow>
   find_free_loop i t = find_free_loop i u"
proof (induction i t rule: find_free_loop.induct)
  case (1 i t)
  show ?case
  proof (cases "i < MAX_HANDLES")
    case False
    then show ?thesis by (subst (1 2) find_free_loop.simps) simp
  next
    case True
    with "1.prems" have same: "(active (t ! i) = 0) = (active (u ! i) = 0)" by simp
    show ?thesis
    proof (cases "active (t ! i) = 0")
      case z: True
      with True same show ?thesis by (subst (1 2) find_free_loop.simps) simp
    next
      case nz: False
      with 1 True have "find_free_loop (Suc i) t = find_free_loop (Suc i) u" by simp
      with True nz same show ?thesis by (subst (1 2) find_free_loop.simps) simp
    qed
  qed
qed

lemma available_loop_count:
  "length t = MAX_HANDLES \<Longrightarrow>
   available_loop i c t = c + int (length (filter (\<lambda>e. active e = 0) (drop i t)))"
proof (induction i c t rule: available_loop.induct)
  case (1 i c t)
  show ?case
  proof (cases "i < MAX_HANDLES")
    case False
    with 1 show ?thesis by (subst available_loop.simps) simp
  next
    case True
    then have d: "drop i t = t ! i # drop (Suc i) t"
      using 1(2) by (simp add: Cons_nth_drop_Suc)
    show ?thesis
      using 1 True by (subst available_loop.simps) (simp add: d)
  qed
qed

lemma available_plus_active:
  "length t = MAX_HANDLES \<Longrightarrow> available_loop 0 0 t + int (active_count t) = int MAX_HANDLES"
  using sum_length_filter_compl [of "\<lambda>e. active e = 0" t]
  by (simp add: available_loop_count active_count_def)

lemma active_count_le: "active_count t \<le> length t"
  by (simp add: active_count_def)

lemma available_zero_iff:
  "length t = MAX_HANDLES \<Longrightarrow> (available_loop 0 0 t = 0) = (find_free_loop 0 t = - 1)"
proof -
  assume len: "length t = MAX_HANDLES"
  have "(filter (\<lambda>e. active e = 0) t = []) = (\<forall>j. j < MAX_HANDLES \<longrightarrow> active (t ! j) \<noteq> 0)"
    using len by (auto simp add: filter_empty_conv all_set_conv_all_nth)
  with len show ?thesis
    by (simp add: available_loop_count find_free_loop_none)
qed

lemma active_count_update_new:
  assumes "i < length t" and "active (t ! i) = 0" and "active e \<noteq> 0"
  shows "active_count (t[i := e]) = Suc (active_count t)"
proof -
  have t: "t = take i t @ t ! i # drop (Suc i) t"
    using assms(1) by (simp add: id_take_nth_drop)
  have u: "t[i := e] = take i t @ e # drop (Suc i) t"
    using assms(1) by (simp add: upd_conv_take_nth_drop)
  have "active_count (t[i := e]) =
        active_count (take i t) + 1 + active_count (drop (Suc i) t)"
    unfolding u using assms(3) by (simp add: active_count_def)
  moreover have "active_count t =
        active_count (take i t) + active_count (drop (Suc i) t)"
    using assms(2) by (subst t) (simp add: active_count_def)
  ultimately show ?thesis by simp
qed

subsection \<open>The heap\<close>

lemma highest_Cons [simp]: "highest h \<le> p \<Longrightarrow> highest ((p, c) # h) = p"
  by (simp add: highest_def max_absorb1)

lemma highest_ge: "b \<in> set h \<Longrightarrow> fst b \<le> highest h"
  by (induction h) (auto simp add: highest_def)

lemma filter_above_highest: "highest h < p \<Longrightarrow> filter (\<lambda>b. fst b \<noteq> p) h = h"
  by (rule filter_True) (use highest_ge in fastforce)

lemma free_above_highest [simp]: "highest h < p \<Longrightarrow> free p h = h"
  by (simp add: free_def filter_above_highest)

lemma free_NULL [simp]: "free NULL h = h"
  by (simp add: free_def)

lemma free_Cons [simp]:
  "p \<noteq> NULL \<Longrightarrow> free p ((q, c) # h) = (if q = p then free p h else (q, c) # free p h)"
  by (simp add: free_def)

lemma poke_above_highest [simp]: "highest h < p \<Longrightarrow> poke p xs h = h"
  unfolding poke_def by (rule map_idI) (use highest_ge in fastforce)

lemma poke_Cons [simp]:
  "poke p xs ((q, c) # h) =
     (if q = p then (q, xs @ drop (length xs) c) else (q, c)) # poke p xs h"
  by (simp add: poke_def)

lemma store_above_highest [simp]: "highest h < p \<Longrightarrow> store p i v h = h"
  unfolding store_def by (rule map_idI) (use highest_ge in fastforce)

lemma store_Cons [simp]:
  "store p i v ((q, c) # h) = (if q = p then (q, c[i := v]) else (q, c)) # store p i v h"
  by (simp add: store_def)

lemma malloc_fail [simp]: "malloc False e n h = (NULL, h)"
  by (simp add: malloc_def)

lemma malloc_ok [simp]:
  "malloc True e n h = (Suc (highest h), (Suc (highest h), replicate (n div e) Uninit) # h)"
  by (simp add: malloc_def fresh_def)

text \<open>An address \<^verbatim>\<open>malloc\<close> returns is not null and is not the address of a live block.\<close>

lemma fresh_not_NULL: "fresh h \<noteq> NULL"
  by (simp add: fresh_def)

lemma block_at_fresh: "block_at h (fresh h) = None"
proof -
  have "fresh h \<notin> fst ` set h"
    using highest_ge [of _ h] by (fastforce simp add: fresh_def)
  then show ?thesis by (simp add: block_at_def map_of_eq_None_iff)
qed

subsection \<open>Machine integers\<close>

lemma int32_id: "- 2147483648 \<le> n \<Longrightarrow> n < 2147483648 \<Longrightarrow> int32 n = n"
  by (simp add: int32_def)

lemma size_t_id: "0 \<le> n \<Longrightarrow> n < 4294967296 \<Longrightarrow> size_t n = nat n"
  by (simp add: size_t_def)

text \<open>The room for doubles in a block whose byte count did not wrap around.\<close>

lemma size_t_doubles: "0 \<le> n \<Longrightarrow> n * 8 < 4294967296 \<Longrightarrow> size_t (n * 8) div 8 = nat n"
  by (simp add: size_t_id nat_mult_distrib)

subsection \<open>The loop that fills the buffer of qualities\<close>

lemma in_block_Cons: "in_block ((p, c) # h) p i = (0 \<le> i \<and> nat i < length c)"
  by (simp add: in_block_def block_at_def)

lemma qualities_loop_block:
  "highest h < p \<Longrightarrow> 1 \<le> k \<Longrightarrow> length c = nat n \<Longrightarrow> n < 2147483647 \<Longrightarrow>
   qualities_loop q p k n ((p, c) # h) =
     Some ((p, take (nat (k - 1)) c @ map (\<lambda>j. D (q j)) [k..n]) # h)"
proof (induction q p k n "(p, c) # h" arbitrary: c rule: qualities_loop.induct)
  case (1 q p k n)
  show ?case
  proof (cases "k \<le> n")
    case False
    with 1(2-) show ?thesis by (subst qualities_loop.simps) simp
  next
    case True
    let ?c = "c[nat (k - 1) := D (q k)]"
    have idx: "int32 (k - 1) = k - 1" and nxt: "int32 (k + 1) = k + 1"
      using 1(3,5) True by (simp_all add: int32_id)
    have lt: "nat (k - 1) < length c" using 1(3,4) True by simp
    have inb: "in_block ((p, c) # h) p (int32 (k - 1))"
      using 1(3) lt by (simp add: idx in_block_Cons)
    have st: "store p (nat (int32 (k - 1))) (D (q k)) ((p, c) # h) = (p, ?c) # h"
      using 1(2) by (simp add: idx)
    have ih: "qualities_loop q p (k + 1) n ((p, ?c) # h) =
              Some ((p, take (nat k) ?c @ map (\<lambda>j. D (q j)) [k + 1..n]) # h)"
      using 1(1) [OF True inb st] 1(2-) True by (simp add: nxt)
    have tk: "take (nat k) ?c = take (nat (k - 1)) c @ [D (q k)]"
    proof -
      have "nat k = Suc (nat (k - 1))" using 1(3) by simp
      then show ?thesis using lt by (simp add: take_Suc_conv_app_nth)
    qed
    have up: "[k..n] = k # [k + 1..n]" using True by (simp add: upto_rec1)
    show ?thesis
      using 1(2) inb by (subst qualities_loop.simps) (simp add: True idx nxt ih tk up)
  qed
qed

lemma qualities_loop_fresh:
  "0 < n \<Longrightarrow> n < 2147483647 \<Longrightarrow>
   qualities_loop q (Suc (highest h)) 1 n ((Suc (highest h), replicate (nat n) Uninit) # h) =
     Some ((Suc (highest h), map (\<lambda>j. D (q j)) [1..n]) # h)"
  by (simp add: qualities_loop_block)

text \<open>A block with room for fewer than \<open>n\<close> elements: an assignment of the loop is outside of it.\<close>

lemma qualities_loop_short:
  "highest h < p \<Longrightarrow> 1 \<le> k \<Longrightarrow> nat (k - 1) \<le> length c \<Longrightarrow> int (length c) < n \<Longrightarrow>
   length c < 536870912 \<Longrightarrow>
   qualities_loop q p k n ((p, c) # h) = None"
proof (induction q p k n "(p, c) # h" arbitrary: c rule: qualities_loop.induct)
  case (1 q p k n)
  have kn: "k \<le> n" using 1(3,4,5) by linarith
  have idx: "int32 (k - 1) = k - 1" and nxt: "int32 (k + 1) = k + 1"
    using 1(3,4,6) by (simp_all add: int32_id)
  show ?case
  proof (cases "nat (k - 1) < length c")
    case False
    then show ?thesis
      by (subst qualities_loop.simps) (simp add: kn idx in_block_Cons)
  next
    case True
    let ?c = "c[nat (k - 1) := D (q k)]"
    have inb: "in_block ((p, c) # h) p (int32 (k - 1))"
      using 1(3) True by (simp add: idx in_block_Cons)
    have st: "store p (nat (int32 (k - 1))) (D (q k)) ((p, c) # h) = (p, ?c) # h"
      using 1(2) by (simp add: idx)
    have ih: "qualities_loop q p (k + 1) n ((p, ?c) # h) = None"
      using 1(1) [OF kn inb st] 1(2,3,5,6) True by (simp add: nxt)
    show ?thesis
      using 1(2) inb by (subst qualities_loop.simps) (simp add: kn idx nxt ih)
  qed
qed

text \<open>The block of a byte count that wrapped around is too small.\<close>

lemma qualities_loop_wrapped:
  assumes "4294967296 \<le> n * 8"
  shows "qualities_loop q (Suc (highest h)) 1 n
           ((Suc (highest h), replicate (size_t (n * 8) div 8) Uninit) # h) = None"
proof -
  have "size_t (n * 8) < 4294967296" by (simp add: size_t_def)
  then have small: "size_t (n * 8) div 8 < 536870912" by simp
  with assms have "int (size_t (n * 8) div 8) < n" by linarith
  with small show ?thesis by (simp add: qualities_loop_short)
qed

text \<open>A block with no room at all: the first assignment of the loop is outside of it.\<close>

lemma qualities_loop_overrun:
  "1 \<le> n \<Longrightarrow> qualities_loop q p 1 n ((p, []) # h) = None"
  by (subst qualities_loop.simps) (simp add: in_block_Cons)

lemma upto_nth_from_one: "1 \<le> k \<Longrightarrow> k \<le> n \<Longrightarrow> [1..n] ! nat (k - 1) = k"
  by (simp add: nth_upto)

section \<open>Facts about the wrappers\<close>

subsection \<open>mmg2d.c: the table\<close>

lemma ensure_initialized_2d_wf:
  "wf_world w \<Longrightarrow> ensure_initialized_2d w = w\<lparr>g_initialized_2d := 1\<rparr>"
  by (auto simp add: wf_world_def table_ok_def ensure_initialized_2d_def)

lemma wf_world_flag_2d: "wf_world w \<Longrightarrow> wf_world (w\<lparr>g_initialized_2d := 1\<rparr>)"
  by (simp add: wf_world_def table_ok_def)

lemma validate_handle_2d_wf:
  "wf_world w \<Longrightarrow>
   validate_handle_2d h w =
     (if is_active_2d w h then active (g_handles_2d w ! nat h) else 0, w\<lparr>g_initialized_2d := 1\<rparr>)"
  by (auto simp add: validate_handle_2d_def ensure_initialized_2d_wf is_active_2d_def Let_def)

lemma validate_handle_2d_inactive:
  "wf_world w \<Longrightarrow> \<not> is_active_2d w h \<Longrightarrow> validate_handle_2d h w = (0, w\<lparr>g_initialized_2d := 1\<rparr>)"
  by (simp add: validate_handle_2d_wf)

lemma validate_handle_2d_iff:
  "wf_world w \<Longrightarrow> (fst (validate_handle_2d h w) \<noteq> 0) = is_active_2d w h"
  by (simp add: validate_handle_2d_wf is_active_2d_def)

lemma validate_handle_2d_snd [simp]: "snd (validate_handle_2d h w) = ensure_initialized_2d w"
  by (simp add: validate_handle_2d_def Let_def)

lemma find_free_handle_2d_snd [simp]: "snd (find_free_handle_2d w) = ensure_initialized_2d w"
  by (simp add: find_free_handle_2d_def Let_def)

lemma find_free_handle_2d_wf:
  "wf_world w \<Longrightarrow> find_free_handle_2d w = (find_free_loop 0 (g_handles_2d w), w\<lparr>g_initialized_2d := 1\<rparr>)"
  by (simp add: find_free_handle_2d_def ensure_initialized_2d_wf Let_def)

lemma others_2d_simps [simp]:
  "others_2d (w\<lparr>heap := hp\<rparr>) = others_2d w"
  "others_2d (w\<lparr>fault := b\<rparr>) = others_2d w"
  "others_2d (w\<lparr>native := k\<rparr>) = others_2d w"
  "others_2d (w\<lparr>g_handles_2d := t\<rparr>) = others_2d w"
  "others_2d (w\<lparr>g_initialized_2d := i\<rparr>) = others_2d w"
  "others_2d (ensure_initialized_2d w) = others_2d w"
  by (simp_all add: others_2d_def ensure_initialized_2d_def)

lemma mmg2d_get_available_handles_wf:
  "wf_world w \<Longrightarrow>
   mmg2d_get_available_handles w = (available_loop 0 0 (g_handles_2d w), w\<lparr>g_initialized_2d := 1\<rparr>)"
  by (simp add: mmg2d_get_available_handles_def ensure_initialized_2d_wf Let_def)

lemma mmg2d_get_available_handles_frame:
  "others_2d (snd (mmg2d_get_available_handles w)) = others_2d w"
  by (simp add: mmg2d_get_available_handles_def Let_def)

lemma mmg2d_get_max_handles_frame:
  "others_2d (snd (mmg2d_get_max_handles w)) = others_2d w"
  by (simp add: mmg2d_get_max_handles_def)

lemma mmg2d_init_wf:
  "wf_world w \<Longrightarrow>
   mmg2d_init K w =
     (let f = find_free_loop 0 (g_handles_2d w);
          r = fst (fst (MMG2D_Init_mesh K (native w)));
          m = fst (snd (fst (MMG2D_Init_mesh K (native w))));
          s = snd (snd (fst (MMG2D_Init_mesh K (native w))));
          k = snd (MMG2D_Init_mesh K (native w))
      in if f < 0 then (- 1, w\<lparr>g_initialized_2d := 1\<rparr>)
         else if r \<noteq> 1 \<or> m = NULL then (- 1, w\<lparr>g_initialized_2d := 1, native := k\<rparr>)
         else (f, w\<lparr>g_initialized_2d := 1, native := MMG2D_Init_parameters K m k,
                    g_handles_2d := (g_handles_2d w)[nat f := \<lparr>mesh = m, sol = s, active = 1\<rparr>]\<rparr>))"
  by (simp add: mmg2d_init_def find_free_handle_2d_wf Let_def split: prod.splits)

lemma mmg2d_init_frame: "others_2d (snd (mmg2d_init K w)) = others_2d w"
  unfolding mmg2d_init_def Let_def case_prod_beta by simp

lemma mmg2d_free_inactive:
  "wf_world w \<Longrightarrow> \<not> is_active_2d w h \<Longrightarrow> mmg2d_free K h w = (0, w\<lparr>g_initialized_2d := 1\<rparr>)"
  by (simp add: mmg2d_free_def validate_handle_2d_inactive)

lemma mmg2d_free_active:
  "wf_world w \<Longrightarrow> is_active_2d w h \<Longrightarrow>
   mmg2d_free K h w =
     (1, w\<lparr>g_initialized_2d := 1,
           native := MMG2D_Free_all K (mesh (g_handles_2d w ! nat h)) (sol (g_handles_2d w ! nat h)) (native w),
           g_handles_2d := (g_handles_2d w)[nat h := \<lparr>mesh = NULL, sol = NULL, active = 0\<rparr>]\<rparr>)"
  by (simp add: mmg2d_free_def validate_handle_2d_wf is_active_2d_def Let_def)

lemma mmg2d_free_frame: "others_2d (snd (mmg2d_free K h w)) = others_2d w"
  unfolding mmg2d_free_def Let_def case_prod_beta by simp

lemma mmg2d_init_preserves_wf: "wf_world w \<Longrightarrow> wf_world (snd (mmg2d_init K w))"
  by (auto simp add: mmg2d_init_wf Let_def wf_world_def table_ok_def)

lemma mmg2d_free_preserves_wf: "wf_world w \<Longrightarrow> wf_world (snd (mmg2d_free K h w))"
  by (cases "is_active_2d w h")
     (auto simp add: mmg2d_free_active mmg2d_free_inactive wf_world_def table_ok_def)

text \<open>What a successful \<^verbatim>\<open>init\<close> does to the table: it fills the first inactive slot.\<close>

lemma mmg2d_init_handle:
  assumes "wf_world w" and "mmg2d_init K w = (h, w1)" and "0 \<le> h"
  shows "h = find_free_loop 0 (g_handles_2d w)"
    and "h < int MAX_HANDLES"
    and "active (g_handles_2d w ! nat h) = 0"
    and "g_handles_2d w1 =
           (g_handles_2d w)[nat h := \<lparr>mesh = fst (snd (fst (MMG2D_Init_mesh K (native w)))),
                              sol = snd (snd (fst (MMG2D_Init_mesh K (native w)))), active = 1\<rparr>]"
proof -
  from assms show h: "h = find_free_loop 0 (g_handles_2d w)"
    by (auto simp add: mmg2d_init_wf Let_def split: if_splits)
  from h assms(3) show "h < int MAX_HANDLES"
    using find_free_loop_bounds [of 0 "g_handles_2d w"] by auto
  from h assms(3) show "active (g_handles_2d w ! nat h) = 0"
    using find_free_loop_first [of 0 "g_handles_2d w"] by simp
  from assms h show "g_handles_2d w1 =
           (g_handles_2d w)[nat h := \<lparr>mesh = fst (snd (fst (MMG2D_Init_mesh K (native w)))),
                              sol = snd (snd (fst (MMG2D_Init_mesh K (native w)))), active = 1\<rparr>]"
    by (auto simp add: mmg2d_init_wf Let_def split: if_splits)
qed

lemma mmg2d_init_fail_table:
  assumes "wf_world w" and "mmg2d_init K w = (h, w1)" and "h < 0"
  shows "g_handles_2d w1 = g_handles_2d w"
  using assms find_free_loop_bounds [of 0 "g_handles_2d w"]
  by (auto simp add: mmg2d_init_wf Let_def split: if_splits)

lemma mmg2d_init_result:
  assumes "wf_world w"
  shows "fst (mmg2d_init K w) = - 1 \<or> (0 \<le> fst (mmg2d_init K w) \<and> fst (mmg2d_init K w) < int MAX_HANDLES)"
  using assms find_free_loop_bounds [of 0 "g_handles_2d w"]
  by (auto simp add: mmg2d_init_wf Let_def)

lemma mmg2d_init_keeps_active:
  assumes "wf_world w" and "is_active_2d w h"
  shows "is_active_2d (snd (mmg2d_init K w)) h"
proof (cases "0 \<le> fst (mmg2d_init K w)")
  case True
  obtain f w1 where eq: "mmg2d_init K w = (f, w1)" by (cases "mmg2d_init K w")
  with True have f: "0 \<le> f" by simp
  note facts = mmg2d_init_handle [OF assms(1) eq f]
  have "nat f \<noteq> nat h"
    using facts(3) assms(2) by (auto simp add: is_active_2d_def)
  with assms(2) facts(4) eq show ?thesis
    by (simp add: is_active_2d_def)
next
  case False
  obtain f w1 where eq: "mmg2d_init K w = (f, w1)" by (cases "mmg2d_init K w")
  with False have "f < 0" by simp
  from mmg2d_init_fail_table [OF assms(1) eq this] assms(2) eq show ?thesis
    by (simp add: is_active_2d_def)
qed

lemma mmg2d_init_keeps_inactive:
  assumes "wf_world w" and "\<not> is_active_2d w h" and "fst (mmg2d_init K w) \<noteq> h"
  shows "\<not> is_active_2d (snd (mmg2d_init K w)) h"
proof (cases "0 \<le> fst (mmg2d_init K w)")
  case True
  obtain f w1 where eq: "mmg2d_init K w = (f, w1)" by (cases "mmg2d_init K w")
  with True have f: "0 \<le> f" by simp
  note facts = mmg2d_init_handle [OF assms(1) eq f]
  from assms(3) eq have ne: "f \<noteq> h" by simp
  have len: "length (g_handles_2d w) = MAX_HANDLES"
    using assms(1) by (simp add: wf_world_def table_ok_def)
  show ?thesis
  proof (cases "0 \<le> h \<and> h < int MAX_HANDLES")
    case False
    then show ?thesis by (auto simp add: is_active_2d_def)
  next
    case True
    with ne f have "nat f \<noteq> nat h" by auto
    with assms(2) facts(4) eq True show ?thesis
      by (simp add: is_active_2d_def)
  qed
next
  case False
  obtain f w1 where eq: "mmg2d_init K w = (f, w1)" by (cases "mmg2d_init K w")
  with False have "f < 0" by simp
  from mmg2d_init_fail_table [OF assms(1) eq this] assms(2) eq show ?thesis
    by (simp add: is_active_2d_def)
qed

lemma mmg2d_init_makes_active:
  assumes "wf_world w" and "mmg2d_init K w = (h, w1)" and "0 \<le> h"
  shows "is_active_2d w1 h"
proof -
  note facts = mmg2d_init_handle [OF assms]
  have "length (g_handles_2d w) = MAX_HANDLES"
    using assms(1) by (simp add: wf_world_def table_ok_def)
  with facts(2,4) assms(3) show ?thesis
    by (simp add: is_active_2d_def)
qed

lemma mmg2d_init_counts:
  assumes "wf_world w" and "mmg2d_init K w = (h, w1)" and "0 \<le> h"
  shows "active_count (g_handles_2d w1) = Suc (active_count (g_handles_2d w))"
proof -
  note facts = mmg2d_init_handle [OF assms]
  have "length (g_handles_2d w) = MAX_HANDLES"
    using assms(1) by (simp add: wf_world_def table_ok_def)
  with facts(2,3) assms(3) show ?thesis
    unfolding facts(4) by (intro active_count_update_new) auto
qed

lemma mmg2d_free_keeps_active:
  assumes "wf_world w" and "is_active_2d w h" and "h' \<noteq> h"
  shows "is_active_2d (snd (mmg2d_free K h' w)) h"
proof (cases "is_active_2d w h'")
  case False
  with assms show ?thesis by (simp add: mmg2d_free_inactive is_active_2d_def)
next
  case True
  with assms(2,3) have "nat h' \<noteq> nat h" by (auto simp add: is_active_2d_def)
  with assms True show ?thesis by (simp add: mmg2d_free_active is_active_2d_def)
qed

lemma mmg2d_free_keeps_inactive:
  assumes "wf_world w" and "\<not> is_active_2d w h"
  shows "\<not> is_active_2d (snd (mmg2d_free K h' w)) h"
proof (cases "is_active_2d w h'")
  case False
  with assms show ?thesis by (simp add: mmg2d_free_inactive is_active_2d_def)
next
  case True
  have len: "length (g_handles_2d w) = MAX_HANDLES"
    using assms(1) by (simp add: wf_world_def table_ok_def)
  show ?thesis
  proof (cases "nat h' = nat h")
    case same: True
    with assms True len show ?thesis
      by (auto simp add: mmg2d_free_active is_active_2d_def)
  next
    case False
    with assms True show ?thesis by (simp add: mmg2d_free_active is_active_2d_def)
  qed
qed

lemma mmg2d_free_makes_inactive:
  assumes "wf_world w" and "mmg2d_free K h w = (1, w1)"
  shows "\<not> is_active_2d w1 h"
proof -
  have act: "is_active_2d w h"
    using assms by (cases "is_active_2d w h") (simp_all add: mmg2d_free_inactive)
  have "length (g_handles_2d w) = MAX_HANDLES"
    using assms(1) by (simp add: wf_world_def table_ok_def)
  with assms act show ?thesis
    by (auto simp add: mmg2d_free_active is_active_2d_def)
qed

subsection \<open>mmg2d.c: the wrappers\<close>

lemma mmg2d_set_mesh_size_inactive:
  "wf_world w \<Longrightarrow> \<not> is_active_2d w h \<Longrightarrow> mmg2d_set_mesh_size Kp h ia ib ic iu w = (0, w\<lparr>g_initialized_2d := 1\<rparr>)"
  by (simp add: mmg2d_set_mesh_size_def validate_handle_2d_inactive)

lemma mmg2d_set_mesh_size_frame:
  "others_2d (snd (mmg2d_set_mesh_size Kp h ia ib ic iu w)) = others_2d w"
  unfolding mmg2d_set_mesh_size_def Let_def case_prod_beta
  by simp

lemma mmg2d_get_mesh_size_inactive:
  "wf_world w \<Longrightarrow> \<not> is_active_2d w h \<Longrightarrow> mmg2d_get_mesh_size Kp h oa ob oc ou w = ((0, oa, ob, oc, ou), w\<lparr>g_initialized_2d := 1\<rparr>)"
  by (simp add: mmg2d_get_mesh_size_def validate_handle_2d_inactive)

lemma mmg2d_get_mesh_size_frame:
  "others_2d (snd (mmg2d_get_mesh_size Kp h oa ob oc ou w)) = others_2d w"
  unfolding mmg2d_get_mesh_size_def Let_def case_prod_beta
  by simp

lemma mmg2d_set_vertex_inactive:
  "wf_world w \<Longrightarrow> \<not> is_active_2d w h \<Longrightarrow> mmg2d_set_vertex Kp h xa xb ia ib w = (0, w\<lparr>g_initialized_2d := 1\<rparr>)"
  by (simp add: mmg2d_set_vertex_def validate_handle_2d_inactive)

lemma mmg2d_set_vertex_frame:
  "others_2d (snd (mmg2d_set_vertex Kp h xa xb ia ib w)) = others_2d w"
  unfolding mmg2d_set_vertex_def Let_def case_prod_beta
  by simp

lemma mmg2d_set_vertices_inactive:
  "wf_world w \<Longrightarrow> \<not> is_active_2d w h \<Longrightarrow> mmg2d_set_vertices Kp h xs ro w = (0, w\<lparr>g_initialized_2d := 1\<rparr>)"
  by (simp add: mmg2d_set_vertices_def validate_handle_2d_inactive)

lemma mmg2d_set_vertices_frame:
  "others_2d (snd (mmg2d_set_vertices Kp h xs ro w)) = others_2d w"
  unfolding mmg2d_set_vertices_def Let_def case_prod_beta
  by simp

lemma mmg2d_get_vertices_inactive:
  "wf_world w \<Longrightarrow> \<not> is_active_2d w h \<Longrightarrow> mmg2d_get_vertices Kp fa fb fc fd h out w = ((NULL, map_option (\<lambda>_. 0) out), w\<lparr>g_initialized_2d := 1\<rparr>)"
  by (simp add: mmg2d_get_vertices_def validate_handle_2d_inactive fail_with_count_def)

lemma mmg2d_get_vertices_frame:
  "others_2d (snd (mmg2d_get_vertices Kp fa fb fc fd h out w)) = others_2d w"
  unfolding mmg2d_get_vertices_def Let_def case_prod_beta fail_with_count_def
  by (cases fa; cases fb; cases fc; cases fd) simp_all

lemma mmg2d_get_vertices_rollback:
  assumes "wf_world w"
    and "\<not> fa \<or> \<not> fb \<or> \<not> fc \<or> \<not> fd \<or> fst (MMG2D_Get_vertices Kp (mesh (g_handles_2d w ! nat h)) (native w)) \<noteq> 1"
  shows "mmg2d_get_vertices Kp fa fb fc fd h out w = ((NULL, map_option (\<lambda>_. 0) out), w\<lparr>g_initialized_2d := 1\<rparr>)"
  using assms unfolding mmg2d_get_vertices_def Let_def case_prod_beta fail_with_count_def
  by (cases fa; cases fb; cases fc; cases fd) (simp_all add: validate_handle_2d_wf)

lemma mmg2d_get_vertices_empty:
  assumes "wf_world w"
    and "fst (snd (MMG2D_Get_meshSize Kp (mesh (g_handles_2d w ! nat h)) (native w))) = 0"
  shows "mmg2d_get_vertices Kp fa fb fc fd h out w = ((NULL, map_option (\<lambda>_. 0) out), w\<lparr>g_initialized_2d := 1\<rparr>)"
  using assms unfolding mmg2d_get_vertices_def Let_def case_prod_beta fail_with_count_def
  by (simp add: validate_handle_2d_wf)

lemma mmg2d_set_triangle_inactive:
  "wf_world w \<Longrightarrow> \<not> is_active_2d w h \<Longrightarrow> mmg2d_set_triangle Kp h ia ib ic iu iv w = (0, w\<lparr>g_initialized_2d := 1\<rparr>)"
  by (simp add: mmg2d_set_triangle_def validate_handle_2d_inactive)

lemma mmg2d_set_triangle_frame:
  "others_2d (snd (mmg2d_set_triangle Kp h ia ib ic iu iv w)) = others_2d w"
  unfolding mmg2d_set_triangle_def Let_def case_prod_beta
  by simp

lemma mmg2d_set_triangles_inactive:
  "wf_world w \<Longrightarrow> \<not> is_active_2d w h \<Longrightarrow> mmg2d_set_triangles Kp h js ro w = (0, w\<lparr>g_initialized_2d := 1\<rparr>)"
  by (simp add: mmg2d_set_triangles_def validate_handle_2d_inactive)

lemma mmg2d_set_triangles_frame:
  "others_2d (snd (mmg2d_set_triangles Kp h js ro w)) = others_2d w"
  unfolding mmg2d_set_triangles_def Let_def case_prod_beta
  by simp

lemma mmg2d_get_triangles_inactive:
  "wf_world w \<Longrightarrow> \<not> is_active_2d w h \<Longrightarrow> mmg2d_get_triangles Kp fa fb fc h out w = ((NULL, map_option (\<lambda>_. 0) out), w\<lparr>g_initialized_2d := 1\<rparr>)"
  by (simp add: mmg2d_get_triangles_def validate_handle_2d_inactive fail_with_count_def)

lemma mmg2d_get_triangles_frame:
  "others_2d (snd (mmg2d_get_triangles Kp fa fb fc h out w)) = others_2d w"
  unfolding mmg2d_get_triangles_def Let_def case_prod_beta fail_with_count_def
  by (cases fa; cases fb; cases fc) simp_all

lemma mmg2d_get_triangles_rollback:
  assumes "wf_world w"
    and "\<not> fa \<or> \<not> fb \<or> \<not> fc \<or> fst (MMG2D_Get_triangles Kp (mesh (g_handles_2d w ! nat h)) (native w)) \<noteq> 1"
  shows "mmg2d_get_triangles Kp fa fb fc h out w = ((NULL, map_option (\<lambda>_. 0) out), w\<lparr>g_initialized_2d := 1\<rparr>)"
  using assms unfolding mmg2d_get_triangles_def Let_def case_prod_beta fail_with_count_def
  by (cases fa; cases fb; cases fc) (simp_all add: validate_handle_2d_wf)

lemma mmg2d_get_triangles_empty:
  assumes "wf_world w"
    and "fst (snd (snd (MMG2D_Get_meshSize Kp (mesh (g_handles_2d w ! nat h)) (native w)))) = 0"
  shows "mmg2d_get_triangles Kp fa fb fc h out w = ((NULL, map_option (\<lambda>_. 0) out), w\<lparr>g_initialized_2d := 1\<rparr>)"
  using assms unfolding mmg2d_get_triangles_def Let_def case_prod_beta fail_with_count_def
  by (simp add: validate_handle_2d_wf)

lemma mmg2d_set_edge_inactive:
  "wf_world w \<Longrightarrow> \<not> is_active_2d w h \<Longrightarrow> mmg2d_set_edge Kp h ia ib ic iu w = (0, w\<lparr>g_initialized_2d := 1\<rparr>)"
  by (simp add: mmg2d_set_edge_def validate_handle_2d_inactive)

lemma mmg2d_set_edge_frame:
  "others_2d (snd (mmg2d_set_edge Kp h ia ib ic iu w)) = others_2d w"
  unfolding mmg2d_set_edge_def Let_def case_prod_beta
  by simp

lemma mmg2d_set_edges_inactive:
  "wf_world w \<Longrightarrow> \<not> is_active_2d w h \<Longrightarrow> mmg2d_set_edges Kp h js ro w = (0, w\<lparr>g_initialized_2d := 1\<rparr>)"
  by (simp add: mmg2d_set_edges_def validate_handle_2d_inactive)

lemma mmg2d_set_edges_frame:
  "others_2d (snd (mmg2d_set_edges Kp h js ro w)) = others_2d w"
  unfolding mmg2d_set_edges_def Let_def case_prod_beta
  by simp

lemma mmg2d_get_edges_inactive:
  "wf_world w \<Longrightarrow> \<not> is_active_2d w h \<Longrightarrow> mmg2d_get_edges Kp fa fb fc fd h out w = ((NULL, map_option (\<lambda>_. 0) out), w\<lparr>g_initialized_2d := 1\<rparr>)"
  by (simp add: mmg2d_get_edges_def validate_handle_2d_inactive fail_with_count_def)

lemma mmg2d_get_edges_frame:
  "others_2d (snd (mmg2d_get_edges Kp fa fb fc fd h out w)) = others_2d w"
  unfolding mmg2d_get_edges_def Let_def case_prod_beta fail_with_count_def
  by (cases fa; cases fb; cases fc; cases fd) simp_all

lemma mmg2d_get_edges_rollback:
  assumes "wf_world w"
    and "\<not> fa \<or> \<not> fb \<or> \<not> fc \<or> \<not> fd \<or> fst (MMG2D_Get_edges Kp (mesh (g_handles_2d w ! nat h)) (native w)) \<noteq> 1"
  shows "mmg2d_get_edges Kp fa fb fc fd h out w = ((NULL, map_option (\<lambda>_. 0) out), w\<lparr>g_initialized_2d := 1\<rparr>)"
  using assms unfolding mmg2d_get_edges_def Let_def case_prod_beta fail_with_count_def
  by (cases fa; cases fb; cases fc; cases fd) (simp_all add: validate_handle_2d_wf)

lemma mmg2d_get_edges_empty:
  assumes "wf_world w"
    and "snd (snd (snd (snd (MMG2D_Get_meshSize Kp (mesh (g_handles_2d w ! nat h)) (native w))))) = 0"
  shows "mmg2d_get_edges Kp fa fb fc fd h out w = ((NULL, map_option (\<lambda>_. 0) out), w\<lparr>g_initialized_2d := 1\<rparr>)"
  using assms unfolding mmg2d_get_edges_def Let_def case_prod_beta fail_with_count_def
  by (simp add: validate_handle_2d_wf)

lemma mmg2d_set_iparameter_inactive:
  "wf_world w \<Longrightarrow> \<not> is_active_2d w h \<Longrightarrow> mmg2d_set_iparameter Kp h ia ib w = (0, w\<lparr>g_initialized_2d := 1\<rparr>)"
  by (simp add: mmg2d_set_iparameter_def validate_handle_2d_inactive)

lemma mmg2d_set_iparameter_frame:
  "others_2d (snd (mmg2d_set_iparameter Kp h ia ib w)) = others_2d w"
  unfolding mmg2d_set_iparameter_def Let_def case_prod_beta
  by simp

lemma mmg2d_set_dparameter_inactive:
  "wf_world w \<Longrightarrow> \<not> is_active_2d w h \<Longrightarrow> mmg2d_set_dparameter Kp h ia xa w = (0, w\<lparr>g_initialized_2d := 1\<rparr>)"
  by (simp add: mmg2d_set_dparameter_def validate_handle_2d_inactive)

lemma mmg2d_set_dparameter_frame:
  "others_2d (snd (mmg2d_set_dparameter Kp h ia xa w)) = others_2d w"
  unfolding mmg2d_set_dparameter_def Let_def case_prod_beta
  by simp

lemma mmg2d_set_sol_size_inactive:
  "wf_world w \<Longrightarrow> \<not> is_active_2d w h \<Longrightarrow> mmg2d_set_sol_size Kp h ia ib ic w = (0, w\<lparr>g_initialized_2d := 1\<rparr>)"
  by (simp add: mmg2d_set_sol_size_def validate_handle_2d_inactive)

lemma mmg2d_set_sol_size_frame:
  "others_2d (snd (mmg2d_set_sol_size Kp h ia ib ic w)) = others_2d w"
  unfolding mmg2d_set_sol_size_def Let_def case_prod_beta
  by simp

lemma mmg2d_get_sol_size_inactive:
  "wf_world w \<Longrightarrow> \<not> is_active_2d w h \<Longrightarrow> mmg2d_get_sol_size Kp h oa ob oc w = ((0, oa, ob, oc), w\<lparr>g_initialized_2d := 1\<rparr>)"
  by (simp add: mmg2d_get_sol_size_def validate_handle_2d_inactive)

lemma mmg2d_get_sol_size_frame:
  "others_2d (snd (mmg2d_get_sol_size Kp h oa ob oc w)) = others_2d w"
  unfolding mmg2d_get_sol_size_def Let_def case_prod_beta
  by simp

lemma mmg2d_set_scalar_sols_inactive:
  "wf_world w \<Longrightarrow> \<not> is_active_2d w h \<Longrightarrow> mmg2d_set_scalar_sols Kp h xs w = (0, w\<lparr>g_initialized_2d := 1\<rparr>)"
  by (simp add: mmg2d_set_scalar_sols_def validate_handle_2d_inactive)

lemma mmg2d_set_scalar_sols_frame:
  "others_2d (snd (mmg2d_set_scalar_sols Kp h xs w)) = others_2d w"
  unfolding mmg2d_set_scalar_sols_def Let_def case_prod_beta
  by simp

lemma mmg2d_get_scalar_sols_inactive:
  "wf_world w \<Longrightarrow> \<not> is_active_2d w h \<Longrightarrow> mmg2d_get_scalar_sols Kp fa h out w = ((NULL, map_option (\<lambda>_. 0) out), w\<lparr>g_initialized_2d := 1\<rparr>)"
  by (simp add: mmg2d_get_scalar_sols_def validate_handle_2d_inactive)

lemma mmg2d_get_scalar_sols_frame:
  "others_2d (snd (mmg2d_get_scalar_sols Kp fa h out w)) = others_2d w"
  unfolding mmg2d_get_scalar_sols_def Let_def case_prod_beta
  by (cases fa) simp_all

lemma mmg2d_get_scalar_sols_empty:
  assumes "wf_world w"
    and "fst (snd (snd (MMG2D_Get_solSize Kp (mesh (g_handles_2d w ! nat h)) (sol (g_handles_2d w ! nat h)) (native w)))) = 0"
  shows "mmg2d_get_scalar_sols Kp fa h out w = ((NULL, map_option (\<lambda>_. 0) out), w\<lparr>g_initialized_2d := 1\<rparr>)"
  using assms unfolding mmg2d_get_scalar_sols_def Let_def case_prod_beta
  by (simp add: validate_handle_2d_wf)

lemma mmg2d_get_scalar_sols_guard:
  assumes "wf_world w"
    and "snd (snd (snd (MMG2D_Get_solSize Kp (mesh (g_handles_2d w ! nat h)) (sol (g_handles_2d w ! nat h)) (native w)))) \<noteq> 1"
  shows "mmg2d_get_scalar_sols Kp fa h out w = ((NULL, map_option (\<lambda>_. 0) out), w\<lparr>g_initialized_2d := 1\<rparr>)"
  using assms unfolding mmg2d_get_scalar_sols_def Let_def case_prod_beta
  by (simp add: validate_handle_2d_wf)

lemma mmg2d_set_tensor_sols_inactive:
  "wf_world w \<Longrightarrow> \<not> is_active_2d w h \<Longrightarrow> mmg2d_set_tensor_sols Kp h xs w = (0, w\<lparr>g_initialized_2d := 1\<rparr>)"
  by (simp add: mmg2d_set_tensor_sols_def validate_handle_2d_inactive)

lemma mmg2d_set_tensor_sols_frame:
  "others_2d (snd (mmg2d_set_tensor_sols Kp h xs w)) = others_2d w"
  unfolding mmg2d_set_tensor_sols_def Let_def case_prod_beta
  by simp

lemma mmg2d_get_tensor_sols_inactive:
  "wf_world w \<Longrightarrow> \<not> is_active_2d w h \<Longrightarrow> mmg2d_get_tensor_sols Kp fa h out w = ((NULL, map_option (\<lambda>_. 0) out), w\<lparr>g_initialized_2d := 1\<rparr>)"
  by (simp add: mmg2d_get_tensor_sols_def validate_handle_2d_inactive)

lemma mmg2d_get_tensor_sols_frame:
  "others_2d (snd (mmg2d_get_tensor_sols Kp fa h out w)) = others_2d w"
  unfolding mmg2d_get_tensor_sols_def Let_def case_prod_beta
  by (cases fa) simp_all

lemma mmg2d_get_tensor_sols_empty:
  assumes "wf_world w"
    and "fst (snd (snd (MMG2D_Get_solSize Kp (mesh (g_handles_2d w ! nat h)) (sol (g_handles_2d w ! nat h)) (native w)))) = 0"
  shows "mmg2d_get_tensor_sols Kp fa h out w = ((NULL, map_option (\<lambda>_. 0) out), w\<lparr>g_initialized_2d := 1\<rparr>)"
  using assms unfolding mmg2d_get_tensor_sols_def Let_def case_prod_beta
  by (simp add: validate_handle_2d_wf)

lemma mmg2d_get_tensor_sols_guard:
  assumes "wf_world w"
    and "snd (snd (snd (MMG2D_Get_solSize Kp (mesh (g_handles_2d w ! nat h)) (sol (g_handles_2d w ! nat h)) (native w)))) \<noteq> 3"
  shows "mmg2d_get_tensor_sols Kp fa h out w = ((NULL, map_option (\<lambda>_. 0) out), w\<lparr>g_initialized_2d := 1\<rparr>)"
  using assms unfolding mmg2d_get_tensor_sols_def Let_def case_prod_beta
  by (simp add: validate_handle_2d_wf)

lemma mmg2d_remesh_inactive:
  "wf_world w \<Longrightarrow> \<not> is_active_2d w h \<Longrightarrow> mmg2d_remesh Kp h w = (- 1, w\<lparr>g_initialized_2d := 1\<rparr>)"
  by (simp add: mmg2d_remesh_def validate_handle_2d_inactive)

lemma mmg2d_remesh_frame:
  "others_2d (snd (mmg2d_remesh Kp h w)) = others_2d w"
  unfolding mmg2d_remesh_def Let_def case_prod_beta
  by simp

lemma mmg2d_free_array_frame:
  "others_2d (snd (mmg2d_free_array p w)) = others_2d w"
  by (simp add: mmg2d_free_array_def)

lemma mmg2d_load_mesh_inactive:
  "wf_world w \<Longrightarrow> \<not> is_active_2d w h \<Longrightarrow> mmg2d_load_mesh Kp h fname w = (0, w\<lparr>g_initialized_2d := 1\<rparr>)"
  by (simp add: mmg2d_load_mesh_def validate_handle_2d_inactive)

lemma mmg2d_load_mesh_frame:
  "others_2d (snd (mmg2d_load_mesh Kp h fname w)) = others_2d w"
  unfolding mmg2d_load_mesh_def Let_def case_prod_beta
  by simp

lemma mmg2d_save_mesh_inactive:
  "wf_world w \<Longrightarrow> \<not> is_active_2d w h \<Longrightarrow> mmg2d_save_mesh Kp h fname w = (0, w\<lparr>g_initialized_2d := 1\<rparr>)"
  by (simp add: mmg2d_save_mesh_def validate_handle_2d_inactive)

lemma mmg2d_save_mesh_frame:
  "others_2d (snd (mmg2d_save_mesh Kp h fname w)) = others_2d w"
  unfolding mmg2d_save_mesh_def Let_def case_prod_beta
  by simp

lemma mmg2d_load_sol_inactive:
  "wf_world w \<Longrightarrow> \<not> is_active_2d w h \<Longrightarrow> mmg2d_load_sol Kp h fname w = (0, w\<lparr>g_initialized_2d := 1\<rparr>)"
  by (simp add: mmg2d_load_sol_def validate_handle_2d_inactive)

lemma mmg2d_load_sol_frame:
  "others_2d (snd (mmg2d_load_sol Kp h fname w)) = others_2d w"
  unfolding mmg2d_load_sol_def Let_def case_prod_beta
  by simp

lemma mmg2d_save_sol_inactive:
  "wf_world w \<Longrightarrow> \<not> is_active_2d w h \<Longrightarrow> mmg2d_save_sol Kp h fname w = (0, w\<lparr>g_initialized_2d := 1\<rparr>)"
  by (simp add: mmg2d_save_sol_def validate_handle_2d_inactive)

lemma mmg2d_save_sol_frame:
  "others_2d (snd (mmg2d_save_sol Kp h fname w)) = others_2d w"
  unfolding mmg2d_save_sol_def Let_def case_prod_beta
  by simp

lemma mmg2d_get_triangle_quality_inactive:
  "wf_world w \<Longrightarrow> \<not> is_active_2d w h \<Longrightarrow> mmg2d_get_triangle_quality Kp h k w = (0, w\<lparr>g_initialized_2d := 1\<rparr>)"
  by (simp add: mmg2d_get_triangle_quality_def validate_handle_2d_inactive)

lemma mmg2d_get_triangle_quality_frame:
  "others_2d (snd (mmg2d_get_triangle_quality Kp h k w)) = others_2d w"
  unfolding mmg2d_get_triangle_quality_def Let_def case_prod_beta
  by simp

lemma mmg2d_get_triangle_quality_active:
  "wf_world w \<Longrightarrow> is_active_2d w h \<Longrightarrow>
   mmg2d_get_triangle_quality Kp h k w = (MMG2D_Get_triangleQuality Kp (mesh (g_handles_2d w ! nat h)) (sol (g_handles_2d w ! nat h)) k (native w), w\<lparr>g_initialized_2d := 1\<rparr>)"
  by (simp add: mmg2d_get_triangle_quality_def validate_handle_2d_wf is_active_2d_def Let_def)

lemma mmg2d_get_triangles_qualities_inactive:
  "wf_world w \<Longrightarrow> \<not> is_active_2d w h \<Longrightarrow> mmg2d_get_triangles_qualities Kp fa h out w = ((NULL, map_option (\<lambda>_. 0) out), w\<lparr>g_initialized_2d := 1\<rparr>)"
  by (simp add: mmg2d_get_triangles_qualities_def validate_handle_2d_inactive)

lemma mmg2d_get_triangles_qualities_frame:
  "others_2d (snd (mmg2d_get_triangles_qualities Kp fa h out w)) = others_2d w"
  unfolding mmg2d_get_triangles_qualities_def Let_def case_prod_beta
  by (cases fa) (simp_all split: option.splits)

lemma mmg2d_get_triangles_qualities_empty:
  assumes "wf_world w"
    and "fst (snd (snd (MMG2D_Get_meshSize Kp (mesh (g_handles_2d w ! nat h)) (native w)))) = 0"
  shows "mmg2d_get_triangles_qualities Kp fa h out w = ((NULL, map_option (\<lambda>_. 0) out), w\<lparr>g_initialized_2d := 1\<rparr>)"
  using assms unfolding mmg2d_get_triangles_qualities_def Let_def case_prod_beta
  by (simp add: validate_handle_2d_wf)

lemma mmg2d_get_triangles_qualities_nomem:
  assumes "wf_world w"
  shows "mmg2d_get_triangles_qualities Kp False h out w = ((NULL, map_option (\<lambda>_. 0) out), w\<lparr>g_initialized_2d := 1\<rparr>)"
  using assms unfolding mmg2d_get_triangles_qualities_def Let_def case_prod_beta
  by (simp add: validate_handle_2d_wf)

lemma mmg2d_get_triangles_qualities_filled:
  assumes "wf_world w" and "is_active_2d w h"
    and "fst (MMG2D_Get_meshSize Kp (mesh (g_handles_2d w ! nat h)) (native w)) = 1"
    and "0 < fst (snd (snd (MMG2D_Get_meshSize Kp (mesh (g_handles_2d w ! nat h)) (native w))))"
    and "fst (snd (snd (MMG2D_Get_meshSize Kp (mesh (g_handles_2d w ! nat h)) (native w)))) * 8 < 4294967296"
  shows "mmg2d_get_triangles_qualities Kp True h out w =
           ((fresh (heap w), map_option (\<lambda>_. fst (snd (snd (MMG2D_Get_meshSize Kp (mesh (g_handles_2d w ! nat h)) (native w))))) out),
            w\<lparr>g_initialized_2d := 1,
              heap := (fresh (heap w),
                       map (\<lambda>j. D (MMG2D_Get_triangleQuality Kp (mesh (g_handles_2d w ! nat h)) (sol (g_handles_2d w ! nat h)) j (native w)))
                         [1..fst (snd (snd (MMG2D_Get_meshSize Kp (mesh (g_handles_2d w ! nat h)) (native w))))]) # heap w\<rparr>)"
  using assms unfolding mmg2d_get_triangles_qualities_def Let_def case_prod_beta
  by (simp add: validate_handle_2d_wf is_active_2d_def fresh_def qualities_loop_fresh
      size_t_doubles)

lemma mmg2d_get_triangles_qualities_overrun:
  assumes "wf_world w" and "is_active_2d w h"
    and "fst (MMG2D_Get_meshSize Kp (mesh (g_handles_2d w ! nat h)) (native w)) = 1"
    and "4294967296 \<le> fst (snd (snd (MMG2D_Get_meshSize Kp (mesh (g_handles_2d w ! nat h)) (native w)))) * 8"
  shows "fault (snd (mmg2d_get_triangles_qualities Kp True h out w))"
  using assms unfolding mmg2d_get_triangles_qualities_def Let_def case_prod_beta
  by (simp add: validate_handle_2d_wf is_active_2d_def qualities_loop_wrapped)

subsection \<open>mmg3d.c: the table\<close>

lemma ensure_initialized_wf:
  "wf_world w \<Longrightarrow> ensure_initialized w = w\<lparr>g_initialized := 1\<rparr>"
  by (auto simp add: wf_world_def table_ok_def ensure_initialized_def)

lemma wf_world_flag_3d: "wf_world w \<Longrightarrow> wf_world (w\<lparr>g_initialized := 1\<rparr>)"
  by (simp add: wf_world_def table_ok_def)

lemma validate_handle_wf:
  "wf_world w \<Longrightarrow>
   validate_handle h w =
     (if is_active_3d w h then active (g_handles w ! nat h) else 0, w\<lparr>g_initialized := 1\<rparr>)"
  by (auto simp add: validate_handle_def ensure_initialized_wf is_active_3d_def Let_def)

lemma validate_handle_inactive:
  "wf_world w \<Longrightarrow> \<not> is_active_3d w h \<Longrightarrow> validate_handle h w = (0, w\<lparr>g_initialized := 1\<rparr>)"
  by (simp add: validate_handle_wf)

lemma validate_handle_iff:
  "wf_world w \<Longrightarrow> (fst (validate_handle h w) \<noteq> 0) = is_active_3d w h"
  by (simp add: validate_handle_wf is_active_3d_def)

lemma validate_handle_snd [simp]: "snd (validate_handle h w) = ensure_initialized w"
  by (simp add: validate_handle_def Let_def)

lemma find_free_handle_snd [simp]: "snd (find_free_handle w) = ensure_initialized w"
  by (simp add: find_free_handle_def Let_def)

lemma find_free_handle_wf:
  "wf_world w \<Longrightarrow> find_free_handle w = (find_free_loop 0 (g_handles w), w\<lparr>g_initialized := 1\<rparr>)"
  by (simp add: find_free_handle_def ensure_initialized_wf Let_def)

lemma others_3d_simps [simp]:
  "others_3d (w\<lparr>heap := hp\<rparr>) = others_3d w"
  "others_3d (w\<lparr>fault := b\<rparr>) = others_3d w"
  "others_3d (w\<lparr>native := k\<rparr>) = others_3d w"
  "others_3d (w\<lparr>g_handles := t\<rparr>) = others_3d w"
  "others_3d (w\<lparr>g_initialized := i\<rparr>) = others_3d w"
  "others_3d (ensure_initialized w) = others_3d w"
  by (simp_all add: others_3d_def ensure_initialized_def)

lemma mmg3d_get_available_handles_wf:
  "wf_world w \<Longrightarrow>
   mmg3d_get_available_handles w = (available_loop 0 0 (g_handles w), w\<lparr>g_initialized := 1\<rparr>)"
  by (simp add: mmg3d_get_available_handles_def ensure_initialized_wf Let_def)

lemma mmg3d_get_available_handles_frame:
  "others_3d (snd (mmg3d_get_available_handles w)) = others_3d w"
  by (simp add: mmg3d_get_available_handles_def Let_def)

lemma mmg3d_get_max_handles_frame:
  "others_3d (snd (mmg3d_get_max_handles w)) = others_3d w"
  by (simp add: mmg3d_get_max_handles_def)

lemma mmg3d_init_wf:
  "wf_world w \<Longrightarrow>
   mmg3d_init K w =
     (let f = find_free_loop 0 (g_handles w);
          r = fst (fst (MMG3D_Init_mesh K (native w)));
          m = fst (snd (fst (MMG3D_Init_mesh K (native w))));
          s = snd (snd (fst (MMG3D_Init_mesh K (native w))));
          k = snd (MMG3D_Init_mesh K (native w))
      in if f < 0 then (- 1, w\<lparr>g_initialized := 1\<rparr>)
         else if r \<noteq> 1 \<or> m = NULL then (- 1, w\<lparr>g_initialized := 1, native := k\<rparr>)
         else (f, w\<lparr>g_initialized := 1, native := MMG3D_Init_parameters K m k,
                    g_handles := (g_handles w)[nat f := \<lparr>mesh = m, sol = s, active = 1\<rparr>]\<rparr>))"
  by (simp add: mmg3d_init_def find_free_handle_wf Let_def split: prod.splits)

lemma mmg3d_init_frame: "others_3d (snd (mmg3d_init K w)) = others_3d w"
  unfolding mmg3d_init_def Let_def case_prod_beta by simp

lemma mmg3d_free_inactive:
  "wf_world w \<Longrightarrow> \<not> is_active_3d w h \<Longrightarrow> mmg3d_free K h w = (0, w\<lparr>g_initialized := 1\<rparr>)"
  by (simp add: mmg3d_free_def validate_handle_inactive)

lemma mmg3d_free_active:
  "wf_world w \<Longrightarrow> is_active_3d w h \<Longrightarrow>
   mmg3d_free K h w =
     (1, w\<lparr>g_initialized := 1,
           native := MMG3D_Free_all K (mesh (g_handles w ! nat h)) (sol (g_handles w ! nat h)) (native w),
           g_handles := (g_handles w)[nat h := \<lparr>mesh = NULL, sol = NULL, active = 0\<rparr>]\<rparr>)"
  by (simp add: mmg3d_free_def validate_handle_wf is_active_3d_def Let_def)

lemma mmg3d_free_frame: "others_3d (snd (mmg3d_free K h w)) = others_3d w"
  unfolding mmg3d_free_def Let_def case_prod_beta by simp

lemma mmg3d_init_preserves_wf: "wf_world w \<Longrightarrow> wf_world (snd (mmg3d_init K w))"
  by (auto simp add: mmg3d_init_wf Let_def wf_world_def table_ok_def)

lemma mmg3d_free_preserves_wf: "wf_world w \<Longrightarrow> wf_world (snd (mmg3d_free K h w))"
  by (cases "is_active_3d w h")
     (auto simp add: mmg3d_free_active mmg3d_free_inactive wf_world_def table_ok_def)

text \<open>What a successful \<^verbatim>\<open>init\<close> does to the table: it fills the first inactive slot.\<close>

lemma mmg3d_init_handle:
  assumes "wf_world w" and "mmg3d_init K w = (h, w1)" and "0 \<le> h"
  shows "h = find_free_loop 0 (g_handles w)"
    and "h < int MAX_HANDLES"
    and "active (g_handles w ! nat h) = 0"
    and "g_handles w1 =
           (g_handles w)[nat h := \<lparr>mesh = fst (snd (fst (MMG3D_Init_mesh K (native w)))),
                              sol = snd (snd (fst (MMG3D_Init_mesh K (native w)))), active = 1\<rparr>]"
proof -
  from assms show h: "h = find_free_loop 0 (g_handles w)"
    by (auto simp add: mmg3d_init_wf Let_def split: if_splits)
  from h assms(3) show "h < int MAX_HANDLES"
    using find_free_loop_bounds [of 0 "g_handles w"] by auto
  from h assms(3) show "active (g_handles w ! nat h) = 0"
    using find_free_loop_first [of 0 "g_handles w"] by simp
  from assms h show "g_handles w1 =
           (g_handles w)[nat h := \<lparr>mesh = fst (snd (fst (MMG3D_Init_mesh K (native w)))),
                              sol = snd (snd (fst (MMG3D_Init_mesh K (native w)))), active = 1\<rparr>]"
    by (auto simp add: mmg3d_init_wf Let_def split: if_splits)
qed

lemma mmg3d_init_fail_table:
  assumes "wf_world w" and "mmg3d_init K w = (h, w1)" and "h < 0"
  shows "g_handles w1 = g_handles w"
  using assms find_free_loop_bounds [of 0 "g_handles w"]
  by (auto simp add: mmg3d_init_wf Let_def split: if_splits)

lemma mmg3d_init_result:
  assumes "wf_world w"
  shows "fst (mmg3d_init K w) = - 1 \<or> (0 \<le> fst (mmg3d_init K w) \<and> fst (mmg3d_init K w) < int MAX_HANDLES)"
  using assms find_free_loop_bounds [of 0 "g_handles w"]
  by (auto simp add: mmg3d_init_wf Let_def)

lemma mmg3d_init_keeps_active:
  assumes "wf_world w" and "is_active_3d w h"
  shows "is_active_3d (snd (mmg3d_init K w)) h"
proof (cases "0 \<le> fst (mmg3d_init K w)")
  case True
  obtain f w1 where eq: "mmg3d_init K w = (f, w1)" by (cases "mmg3d_init K w")
  with True have f: "0 \<le> f" by simp
  note facts = mmg3d_init_handle [OF assms(1) eq f]
  have "nat f \<noteq> nat h"
    using facts(3) assms(2) by (auto simp add: is_active_3d_def)
  with assms(2) facts(4) eq show ?thesis
    by (simp add: is_active_3d_def)
next
  case False
  obtain f w1 where eq: "mmg3d_init K w = (f, w1)" by (cases "mmg3d_init K w")
  with False have "f < 0" by simp
  from mmg3d_init_fail_table [OF assms(1) eq this] assms(2) eq show ?thesis
    by (simp add: is_active_3d_def)
qed

lemma mmg3d_init_keeps_inactive:
  assumes "wf_world w" and "\<not> is_active_3d w h" and "fst (mmg3d_init K w) \<noteq> h"
  shows "\<not> is_active_3d (snd (mmg3d_init K w)) h"
proof (cases "0 \<le> fst (mmg3d_init K w)")
  case True
  obtain f w1 where eq: "mmg3d_init K w = (f, w1)" by (cases "mmg3d_init K w")
  with True have f: "0 \<le> f" by simp
  note facts = mmg3d_init_handle [OF assms(1) eq f]
  from assms(3) eq have ne: "f \<noteq> h" by simp
  have len: "length (g_handles w) = MAX_HANDLES"
    using assms(1) by (simp add: wf_world_def table_ok_def)
  show ?thesis
  proof (cases "0 \<le> h \<and> h < int MAX_HANDLES")
    case False
    then show ?thesis by (auto simp add: is_active_3d_def)
  next
    case True
    with ne f have "nat f \<noteq> nat h" by auto
    with assms(2) facts(4) eq True show ?thesis
      by (simp add: is_active_3d_def)
  qed
next
  case False
  obtain f w1 where eq: "mmg3d_init K w = (f, w1)" by (cases "mmg3d_init K w")
  with False have "f < 0" by simp
  from mmg3d_init_fail_table [OF assms(1) eq this] assms(2) eq show ?thesis
    by (simp add: is_active_3d_def)
qed

lemma mmg3d_init_makes_active:
  assumes "wf_world w" and "mmg3d_init K w = (h, w1)" and "0 \<le> h"
  shows "is_active_3d w1 h"
proof -
  note facts = mmg3d_init_handle [OF assms]
  have "length (g_handles w) = MAX_HANDLES"
    using assms(1) by (simp add: wf_world_def table_ok_def)
  with facts(2,4) assms(3) show ?thesis
    by (simp add: is_active_3d_def)
qed

lemma mmg3d_init_counts:
  assumes "wf_world w" and "mmg3d_init K w = (h, w1)" and "0 \<le> h"
  shows "active_count (g_handles w1) = Suc (active_count (g_handles w))"
proof -
  note facts = mmg3d_init_handle [OF assms]
  have "length (g_handles w) = MAX_HANDLES"
    using assms(1) by (simp add: wf_world_def table_ok_def)
  with facts(2,3) assms(3) show ?thesis
    unfolding facts(4) by (intro active_count_update_new) auto
qed

lemma mmg3d_free_keeps_active:
  assumes "wf_world w" and "is_active_3d w h" and "h' \<noteq> h"
  shows "is_active_3d (snd (mmg3d_free K h' w)) h"
proof (cases "is_active_3d w h'")
  case False
  with assms show ?thesis by (simp add: mmg3d_free_inactive is_active_3d_def)
next
  case True
  with assms(2,3) have "nat h' \<noteq> nat h" by (auto simp add: is_active_3d_def)
  with assms True show ?thesis by (simp add: mmg3d_free_active is_active_3d_def)
qed

lemma mmg3d_free_keeps_inactive:
  assumes "wf_world w" and "\<not> is_active_3d w h"
  shows "\<not> is_active_3d (snd (mmg3d_free K h' w)) h"
proof (cases "is_active_3d w h'")
  case False
  with assms show ?thesis by (simp add: mmg3d_free_inactive is_active_3d_def)
next
  case True
  have len: "length (g_handles w) = MAX_HANDLES"
    using assms(1) by (simp add: wf_world_def table_ok_def)
  show ?thesis
  proof (cases "nat h' = nat h")
    case same: True
    with assms True len show ?thesis
      by (auto simp add: mmg3d_free_active is_active_3d_def)
  next
    case False
    with assms True show ?thesis by (simp add: mmg3d_free_active is_active_3d_def)
  qed
qed

lemma mmg3d_free_makes_inactive:
  assumes "wf_world w" and "mmg3d_free K h w = (1, w1)"
  shows "\<not> is_active_3d w1 h"
proof -
  have act: "is_active_3d w h"
    using assms by (cases "is_active_3d w h") (simp_all add: mmg3d_free_inactive)
  have "length (g_handles w) = MAX_HANDLES"
    using assms(1) by (simp add: wf_world_def table_ok_def)
  with assms act show ?thesis
    by (auto simp add: mmg3d_free_active is_active_3d_def)
qed

subsection \<open>mmg3d.c: the wrappers\<close>

lemma mmg3d_set_mesh_size_inactive:
  "wf_world w \<Longrightarrow> \<not> is_active_3d w h \<Longrightarrow> mmg3d_set_mesh_size Kv h ia ib ic iu iv iw w = (0, w\<lparr>g_initialized := 1\<rparr>)"
  by (simp add: mmg3d_set_mesh_size_def validate_handle_inactive)

lemma mmg3d_set_mesh_size_frame:
  "others_3d (snd (mmg3d_set_mesh_size Kv h ia ib ic iu iv iw w)) = others_3d w"
  unfolding mmg3d_set_mesh_size_def Let_def case_prod_beta
  by simp

lemma mmg3d_get_mesh_size_inactive:
  "wf_world w \<Longrightarrow> \<not> is_active_3d w h \<Longrightarrow> mmg3d_get_mesh_size Kv h oa ob oc ou ov ow w = ((0, oa, ob, oc, ou, ov, ow), w\<lparr>g_initialized := 1\<rparr>)"
  by (simp add: mmg3d_get_mesh_size_def validate_handle_inactive)

lemma mmg3d_get_mesh_size_frame:
  "others_3d (snd (mmg3d_get_mesh_size Kv h oa ob oc ou ov ow w)) = others_3d w"
  unfolding mmg3d_get_mesh_size_def Let_def case_prod_beta
  by simp

lemma mmg3d_set_vertex_inactive:
  "wf_world w \<Longrightarrow> \<not> is_active_3d w h \<Longrightarrow> mmg3d_set_vertex Kv h xa xb xc ia ib w = (0, w\<lparr>g_initialized := 1\<rparr>)"
  by (simp add: mmg3d_set_vertex_def validate_handle_inactive)

lemma mmg3d_set_vertex_frame:
  "others_3d (snd (mmg3d_set_vertex Kv h xa xb xc ia ib w)) = others_3d w"
  unfolding mmg3d_set_vertex_def Let_def case_prod_beta
  by simp

lemma mmg3d_set_vertices_inactive:
  "wf_world w \<Longrightarrow> \<not> is_active_3d w h \<Longrightarrow> mmg3d_set_vertices Kv h xs ro w = (0, w\<lparr>g_initialized := 1\<rparr>)"
  by (simp add: mmg3d_set_vertices_def validate_handle_inactive)

lemma mmg3d_set_vertices_frame:
  "others_3d (snd (mmg3d_set_vertices Kv h xs ro w)) = others_3d w"
  unfolding mmg3d_set_vertices_def Let_def case_prod_beta
  by simp

lemma mmg3d_get_vertices_inactive:
  "wf_world w \<Longrightarrow> \<not> is_active_3d w h \<Longrightarrow> mmg3d_get_vertices Kv fa fb fc fd h out w = ((NULL, map_option (\<lambda>_. 0) out), w\<lparr>g_initialized := 1\<rparr>)"
  by (simp add: mmg3d_get_vertices_def validate_handle_inactive)

lemma mmg3d_get_vertices_frame:
  "others_3d (snd (mmg3d_get_vertices Kv fa fb fc fd h out w)) = others_3d w"
  unfolding mmg3d_get_vertices_def Let_def case_prod_beta
  by (cases fa; cases fb; cases fc; cases fd) simp_all

lemma mmg3d_get_vertices_rollback:
  assumes "wf_world w"
    and "\<not> fa \<or> \<not> fb \<or> \<not> fc \<or> \<not> fd \<or> fst (MMG3D_Get_vertices Kv (mesh (g_handles w ! nat h)) (native w)) \<noteq> 1"
  shows "mmg3d_get_vertices Kv fa fb fc fd h out w = ((NULL, map_option (\<lambda>_. 0) out), w\<lparr>g_initialized := 1\<rparr>)"
  using assms unfolding mmg3d_get_vertices_def Let_def case_prod_beta
  by (cases fa; cases fb; cases fc; cases fd) (simp_all add: validate_handle_wf)

lemma mmg3d_get_vertices_empty:
  assumes "wf_world w"
    and "fst (snd (MMG3D_Get_meshSize Kv (mesh (g_handles w ! nat h)) (native w))) = 0"
  shows "mmg3d_get_vertices Kv fa fb fc fd h out w = ((NULL, map_option (\<lambda>_. 0) out), w\<lparr>g_initialized := 1\<rparr>)"
  using assms unfolding mmg3d_get_vertices_def Let_def case_prod_beta
  by (simp add: validate_handle_wf)

lemma mmg3d_set_tetrahedron_inactive:
  "wf_world w \<Longrightarrow> \<not> is_active_3d w h \<Longrightarrow> mmg3d_set_tetrahedron Kv h ia ib ic iu iv iw w = (0, w\<lparr>g_initialized := 1\<rparr>)"
  by (simp add: mmg3d_set_tetrahedron_def validate_handle_inactive)

lemma mmg3d_set_tetrahedron_frame:
  "others_3d (snd (mmg3d_set_tetrahedron Kv h ia ib ic iu iv iw w)) = others_3d w"
  unfolding mmg3d_set_tetrahedron_def Let_def case_prod_beta
  by simp

lemma mmg3d_set_tetrahedra_inactive:
  "wf_world w \<Longrightarrow> \<not> is_active_3d w h \<Longrightarrow> mmg3d_set_tetrahedra Kv h js ro w = (0, w\<lparr>g_initialized := 1\<rparr>)"
  by (simp add: mmg3d_set_tetrahedra_def validate_handle_inactive)

lemma mmg3d_set_tetrahedra_frame:
  "others_3d (snd (mmg3d_set_tetrahedra Kv h js ro w)) = others_3d w"
  unfolding mmg3d_set_tetrahedra_def Let_def case_prod_beta
  by simp

lemma mmg3d_get_tetrahedra_inactive:
  "wf_world w \<Longrightarrow> \<not> is_active_3d w h \<Longrightarrow> mmg3d_get_tetrahedra Kv fa fb fc h out w = ((NULL, map_option (\<lambda>_. 0) out), w\<lparr>g_initialized := 1\<rparr>)"
  by (simp add: mmg3d_get_tetrahedra_def validate_handle_inactive)

lemma mmg3d_get_tetrahedra_frame:
  "others_3d (snd (mmg3d_get_tetrahedra Kv fa fb fc h out w)) = others_3d w"
  unfolding mmg3d_get_tetrahedra_def Let_def case_prod_beta
  by (cases fa; cases fb; cases fc) simp_all

lemma mmg3d_get_tetrahedra_rollback:
  assumes "wf_world w"
    and "\<not> fa \<or> \<not> fb \<or> \<not> fc \<or> fst (MMG3D_Get_tetrahedra Kv (mesh (g_handles w ! nat h)) (native w)) \<noteq> 1"
  shows "mmg3d_get_tetrahedra Kv fa fb fc h out w = ((NULL, map_option (\<lambda>_. 0) out), w\<lparr>g_initialized := 1\<rparr>)"
  using assms unfolding mmg3d_get_tetrahedra_def Let_def case_prod_beta
  by (cases fa; cases fb; cases fc) (simp_all add: validate_handle_wf)

lemma mmg3d_get_tetrahedra_empty:
  assumes "wf_world w"
    and "fst (snd (snd (MMG3D_Get_meshSize Kv (mesh (g_handles w ! nat h)) (native w)))) = 0"
  shows "mmg3d_get_tetrahedra Kv fa fb fc h out w = ((NULL, map_option (\<lambda>_. 0) out), w\<lparr>g_initialized := 1\<rparr>)"
  using assms unfolding mmg3d_get_tetrahedra_def Let_def case_prod_beta
  by (simp add: validate_handle_wf)

lemma mmg3d_set_triangle_inactive:
  "wf_world w \<Longrightarrow> \<not> is_active_3d w h \<Longrightarrow> mmg3d_set_triangle Kv h ia ib ic iu iv w = (0, w\<lparr>g_initialized := 1\<rparr>)"
  by (simp add: mmg3d_set_triangle_def validate_handle_inactive)

lemma mmg3d_set_triangle_frame:
  "others_3d (snd (mmg3d_set_triangle Kv h ia ib ic iu iv w)) = others_3d w"
  unfolding mmg3d_set_triangle_def Let_def case_prod_beta
  by simp

lemma mmg3d_set_triangles_inactive:
  "wf_world w \<Longrightarrow> \<not> is_active_3d w h \<Longrightarrow> mmg3d_set_triangles Kv h js ro w = (0, w\<lparr>g_initialized := 1\<rparr>)"
  by (simp add: mmg3d_set_triangles_def validate_handle_inactive)

lemma mmg3d_set_triangles_frame:
  "others_3d (snd (mmg3d_set_triangles Kv h js ro w)) = others_3d w"
  unfolding mmg3d_set_triangles_def Let_def case_prod_beta
  by simp

lemma mmg3d_get_triangles_inactive:
  "wf_world w \<Longrightarrow> \<not> is_active_3d w h \<Longrightarrow> mmg3d_get_triangles Kv fa fb fc h out w = ((NULL, map_option (\<lambda>_. 0) out), w\<lparr>g_initialized := 1\<rparr>)"
  by (simp add: mmg3d_get_triangles_def validate_handle_inactive)

lemma mmg3d_get_triangles_frame:
  "others_3d (snd (mmg3d_get_triangles Kv fa fb fc h out w)) = others_3d w"
  unfolding mmg3d_get_triangles_def Let_def case_prod_beta
  by (cases fa; cases fb; cases fc) simp_all

lemma mmg3d_get_triangles_rollback:
  assumes "wf_world w"
    and "\<not> fa \<or> \<not> fb \<or> \<not> fc \<or> fst (MMG3D_Get_triangles Kv (mesh (g_handles w ! nat h)) (native w)) \<noteq> 1"
  shows "mmg3d_get_triangles Kv fa fb fc h out w = ((NULL, map_option (\<lambda>_. 0) out), w\<lparr>g_initialized := 1\<rparr>)"
  using assms unfolding mmg3d_get_triangles_def Let_def case_prod_beta
  by (cases fa; cases fb; cases fc) (simp_all add: validate_handle_wf)

lemma mmg3d_get_triangles_empty:
  assumes "wf_world w"
    and "fst (snd (snd (snd (snd (MMG3D_Get_meshSize Kv (mesh (g_handles w ! nat h)) (native w)))))) = 0"
  shows "mmg3d_get_triangles Kv fa fb fc h out w = ((NULL, map_option (\<lambda>_. 0) out), w\<lparr>g_initialized := 1\<rparr>)"
  using assms unfolding mmg3d_get_triangles_def Let_def case_prod_beta
  by (simp add: validate_handle_wf)

lemma mmg3d_set_iparameter_inactive:
  "wf_world w \<Longrightarrow> \<not> is_active_3d w h \<Longrightarrow> mmg3d_set_iparameter Kv h ia ib w = (0, w\<lparr>g_initialized := 1\<rparr>)"
  by (simp add: mmg3d_set_iparameter_def validate_handle_inactive)

lemma mmg3d_set_iparameter_frame:
  "others_3d (snd (mmg3d_set_iparameter Kv h ia ib w)) = others_3d w"
  unfolding mmg3d_set_iparameter_def Let_def case_prod_beta
  by simp

lemma mmg3d_set_dparameter_inactive:
  "wf_world w \<Longrightarrow> \<not> is_active_3d w h \<Longrightarrow> mmg3d_set_dparameter Kv h ia xa w = (0, w\<lparr>g_initialized := 1\<rparr>)"
  by (simp add: mmg3d_set_dparameter_def validate_handle_inactive)

lemma mmg3d_set_dparameter_frame:
  "others_3d (snd (mmg3d_set_dparameter Kv h ia xa w)) = others_3d w"
  unfolding mmg3d_set_dparameter_def Let_def case_prod_beta
  by simp

lemma mmg3d_set_sol_size_inactive:
  "wf_world w \<Longrightarrow> \<not> is_active_3d w h \<Longrightarrow> mmg3d_set_sol_size Kv h ia ib ic w = (0, w\<lparr>g_initialized := 1\<rparr>)"
  by (simp add: mmg3d_set_sol_size_def validate_handle_inactive)

lemma mmg3d_set_sol_size_frame:
  "others_3d (snd (mmg3d_set_sol_size Kv h ia ib ic w)) = others_3d w"
  unfolding mmg3d_set_sol_size_def Let_def case_prod_beta
  by simp

lemma mmg3d_get_sol_size_inactive:
  "wf_world w \<Longrightarrow> \<not> is_active_3d w h \<Longrightarrow> mmg3d_get_sol_size Kv h oa ob oc w = ((0, oa, ob, oc), w\<lparr>g_initialized := 1\<rparr>)"
  by (simp add: mmg3d_get_sol_size_def validate_handle_inactive)

lemma mmg3d_get_sol_size_frame:
  "others_3d (snd (mmg3d_get_sol_size Kv h oa ob oc w)) = others_3d w"
  unfolding mmg3d_get_sol_size_def Let_def case_prod_beta
  by simp

lemma mmg3d_set_scalar_sols_inactive:
  "wf_world w \<Longrightarrow> \<not> is_active_3d w h \<Longrightarrow> mmg3d_set_scalar_sols Kv h xs w = (0, w\<lparr>g_initialized := 1\<rparr>)"
  by (simp add: mmg3d_set_scalar_sols_def validate_handle_inactive)

lemma mmg3d_set_scalar_sols_frame:
  "others_3d (snd (mmg3d_set_scalar_sols Kv h xs w)) = others_3d w"
  unfolding mmg3d_set_scalar_sols_def Let_def case_prod_beta
  by simp

lemma mmg3d_get_scalar_sols_inactive:
  "wf_world w \<Longrightarrow> \<not> is_active_3d w h \<Longrightarrow> mmg3d_get_scalar_sols Kv fa h out w = ((NULL, map_option (\<lambda>_. 0) out), w\<lparr>g_initialized := 1\<rparr>)"
  by (simp add: mmg3d_get_scalar_sols_def validate_handle_inactive)

lemma mmg3d_get_scalar_sols_frame:
  "others_3d (snd (mmg3d_get_scalar_sols Kv fa h out w)) = others_3d w"
  unfolding mmg3d_get_scalar_sols_def Let_def case_prod_beta
  by (cases fa) simp_all

lemma mmg3d_get_scalar_sols_empty:
  assumes "wf_world w"
    and "fst (snd (snd (MMG3D_Get_solSize Kv (mesh (g_handles w ! nat h)) (sol (g_handles w ! nat h)) (native w)))) = 0"
  shows "mmg3d_get_scalar_sols Kv fa h out w = ((NULL, map_option (\<lambda>_. 0) out), w\<lparr>g_initialized := 1\<rparr>)"
  using assms unfolding mmg3d_get_scalar_sols_def Let_def case_prod_beta
  by (simp add: validate_handle_wf)

lemma mmg3d_get_scalar_sols_guard:
  assumes "wf_world w"
    and "snd (snd (snd (MMG3D_Get_solSize Kv (mesh (g_handles w ! nat h)) (sol (g_handles w ! nat h)) (native w)))) \<noteq> 1"
  shows "mmg3d_get_scalar_sols Kv fa h out w = ((NULL, map_option (\<lambda>_. 0) out), w\<lparr>g_initialized := 1\<rparr>)"
  using assms unfolding mmg3d_get_scalar_sols_def Let_def case_prod_beta
  by (simp add: validate_handle_wf)

lemma mmg3d_set_tensor_sols_inactive:
  "wf_world w \<Longrightarrow> \<not> is_active_3d w h \<Longrightarrow> mmg3d_set_tensor_sols Kv h xs w = (0, w\<lparr>g_initialized := 1\<rparr>)"
  by (simp add: mmg3d_set_tensor_sols_def validate_handle_inactive)

lemma mmg3d_set_tensor_sols_frame:
  "others_3d (snd (mmg3d_set_tensor_sols Kv h xs w)) = others_3d w"
  unfolding mmg3d_set_tensor_sols_def Let_def case_prod_beta
  by simp

lemma mmg3d_get_tensor_sols_inactive:
  "wf_world w \<Longrightarrow> \<not> is_active_3d w h \<Longrightarrow> mmg3d_get_tensor_sols Kv fa h out w = ((NULL, map_option (\<lambda>_. 0) out), w\<lparr>g_initialized := 1\<rparr>)"
  by (simp add: mmg3d_get_tensor_sols_def validate_handle_inactive)

lemma mmg3d_get_tensor_sols_frame:
  "others_3d (snd (mmg3d_get_tensor_sols Kv fa h out w)) = others_3d w"
  unfolding mmg3d_get_tensor_sols_def Let_def case_prod_beta
  by (cases fa) simp_all

lemma mmg3d_get_tensor_sols_empty:
  assumes "wf_world w"
    and "fst (snd (snd (MMG3D_Get_solSize Kv (mesh (g_handles w ! nat h)) (sol (g_handles w ! nat h)) (native w)))) = 0"
  shows "mmg3d_get_tensor_sols Kv fa h out w = ((NULL, map_option (\<lambda>_. 0) out), w\<lparr>g_initialized := 1\<rparr>)"
  using assms unfolding mmg3d_get_tensor_sols_def Let_def case_prod_beta
  by (simp add: validate_handle_wf)

lemma mmg3d_get_tensor_sols_guard:
  assumes "wf_world w"
    and "snd (snd (snd (MMG3D_Get_solSize Kv (mesh (g_handles w ! nat h)) (sol (g_handles w ! nat h)) (native w)))) \<noteq> 3"
  shows "mmg3d_get_tensor_sols Kv fa h out w = ((NULL, map_option (\<lambda>_. 0) out), w\<lparr>g_initialized := 1\<rparr>)"
  using assms unfolding mmg3d_get_tensor_sols_def Let_def case_prod_beta
  by (simp add: validate_handle_wf)

lemma mmg3d_remesh_inactive:
  "wf_world w \<Longrightarrow> \<not> is_active_3d w h \<Longrightarrow> mmg3d_remesh Kv h w = (- 1, w\<lparr>g_initialized := 1\<rparr>)"
  by (simp add: mmg3d_remesh_def validate_handle_inactive)

lemma mmg3d_remesh_frame:
  "others_3d (snd (mmg3d_remesh Kv h w)) = others_3d w"
  unfolding mmg3d_remesh_def Let_def case_prod_beta
  by simp

lemma mmg3d_free_array_frame:
  "others_3d (snd (mmg3d_free_array p w)) = others_3d w"
  by (simp add: mmg3d_free_array_def)

lemma mmg3d_load_mesh_inactive:
  "wf_world w \<Longrightarrow> \<not> is_active_3d w h \<Longrightarrow> mmg3d_load_mesh Kv h fname w = (0, w\<lparr>g_initialized := 1\<rparr>)"
  by (simp add: mmg3d_load_mesh_def validate_handle_inactive)

lemma mmg3d_load_mesh_frame:
  "others_3d (snd (mmg3d_load_mesh Kv h fname w)) = others_3d w"
  unfolding mmg3d_load_mesh_def Let_def case_prod_beta
  by simp

lemma mmg3d_save_mesh_inactive:
  "wf_world w \<Longrightarrow> \<not> is_active_3d w h \<Longrightarrow> mmg3d_save_mesh Kv h fname w = (0, w\<lparr>g_initialized := 1\<rparr>)"
  by (simp add: mmg3d_save_mesh_def validate_handle_inactive)

lemma mmg3d_save_mesh_frame:
  "others_3d (snd (mmg3d_save_mesh Kv h fname w)) = others_3d w"
  unfolding mmg3d_save_mesh_def Let_def case_prod_beta
  by simp

lemma mmg3d_load_sol_inactive:
  "wf_world w \<Longrightarrow> \<not> is_active_3d w h \<Longrightarrow> mmg3d_load_sol Kv h fname w = (0, w\<lparr>g_initialized := 1\<rparr>)"
  by (simp add: mmg3d_load_sol_def validate_handle_inactive)

lemma mmg3d_load_sol_frame:
  "others_3d (snd (mmg3d_load_sol Kv h fname w)) = others_3d w"
  unfolding mmg3d_load_sol_def Let_def case_prod_beta
  by simp

lemma mmg3d_save_sol_inactive:
  "wf_world w \<Longrightarrow> \<not> is_active_3d w h \<Longrightarrow> mmg3d_save_sol Kv h fname w = (0, w\<lparr>g_initialized := 1\<rparr>)"
  by (simp add: mmg3d_save_sol_def validate_handle_inactive)

lemma mmg3d_save_sol_frame:
  "others_3d (snd (mmg3d_save_sol Kv h fname w)) = others_3d w"
  unfolding mmg3d_save_sol_def Let_def case_prod_beta
  by simp

lemma mmg3d_get_tetrahedron_quality_inactive:
  "wf_world w \<Longrightarrow> \<not> is_active_3d w h \<Longrightarrow> mmg3d_get_tetrahedron_quality Kv h k w = (0, w\<lparr>g_initialized := 1\<rparr>)"
  by (simp add: mmg3d_get_tetrahedron_quality_def validate_handle_inactive)

lemma mmg3d_get_tetrahedron_quality_frame:
  "others_3d (snd (mmg3d_get_tetrahedron_quality Kv h k w)) = others_3d w"
  unfolding mmg3d_get_tetrahedron_quality_def Let_def case_prod_beta
  by simp

lemma mmg3d_get_tetrahedron_quality_active:
  "wf_world w \<Longrightarrow> is_active_3d w h \<Longrightarrow>
   mmg3d_get_tetrahedron_quality Kv h k w = (MMG3D_Get_tetrahedronQuality Kv (mesh (g_handles w ! nat h)) (sol (g_handles w ! nat h)) k (native w), w\<lparr>g_initialized := 1\<rparr>)"
  by (simp add: mmg3d_get_tetrahedron_quality_def validate_handle_wf is_active_3d_def Let_def)

lemma mmg3d_get_tetrahedra_qualities_inactive:
  "wf_world w \<Longrightarrow> \<not> is_active_3d w h \<Longrightarrow> mmg3d_get_tetrahedra_qualities Kv fa h out w = ((NULL, map_option (\<lambda>_. 0) out), w\<lparr>g_initialized := 1\<rparr>)"
  by (simp add: mmg3d_get_tetrahedra_qualities_def validate_handle_inactive)

lemma mmg3d_get_tetrahedra_qualities_frame:
  "others_3d (snd (mmg3d_get_tetrahedra_qualities Kv fa h out w)) = others_3d w"
  unfolding mmg3d_get_tetrahedra_qualities_def Let_def case_prod_beta
  by (cases fa) (simp_all split: option.splits)

lemma mmg3d_get_tetrahedra_qualities_empty:
  assumes "wf_world w"
    and "fst (snd (snd (MMG3D_Get_meshSize Kv (mesh (g_handles w ! nat h)) (native w)))) = 0"
  shows "mmg3d_get_tetrahedra_qualities Kv fa h out w = ((NULL, map_option (\<lambda>_. 0) out), w\<lparr>g_initialized := 1\<rparr>)"
  using assms unfolding mmg3d_get_tetrahedra_qualities_def Let_def case_prod_beta
  by (simp add: validate_handle_wf)

lemma mmg3d_get_tetrahedra_qualities_nomem:
  assumes "wf_world w"
  shows "mmg3d_get_tetrahedra_qualities Kv False h out w = ((NULL, map_option (\<lambda>_. 0) out), w\<lparr>g_initialized := 1\<rparr>)"
  using assms unfolding mmg3d_get_tetrahedra_qualities_def Let_def case_prod_beta
  by (simp add: validate_handle_wf)

lemma mmg3d_get_tetrahedra_qualities_filled:
  assumes "wf_world w" and "is_active_3d w h"
    and "fst (MMG3D_Get_meshSize Kv (mesh (g_handles w ! nat h)) (native w)) = 1"
    and "0 < fst (snd (snd (MMG3D_Get_meshSize Kv (mesh (g_handles w ! nat h)) (native w))))"
    and "fst (snd (snd (MMG3D_Get_meshSize Kv (mesh (g_handles w ! nat h)) (native w)))) * 8 < 4294967296"
  shows "mmg3d_get_tetrahedra_qualities Kv True h out w =
           ((fresh (heap w), map_option (\<lambda>_. fst (snd (snd (MMG3D_Get_meshSize Kv (mesh (g_handles w ! nat h)) (native w))))) out),
            w\<lparr>g_initialized := 1,
              heap := (fresh (heap w),
                       map (\<lambda>j. D (MMG3D_Get_tetrahedronQuality Kv (mesh (g_handles w ! nat h)) (sol (g_handles w ! nat h)) j (native w)))
                         [1..fst (snd (snd (MMG3D_Get_meshSize Kv (mesh (g_handles w ! nat h)) (native w))))]) # heap w\<rparr>)"
  using assms unfolding mmg3d_get_tetrahedra_qualities_def Let_def case_prod_beta
  by (simp add: validate_handle_wf is_active_3d_def fresh_def qualities_loop_fresh
      size_t_doubles)

lemma mmg3d_get_tetrahedra_qualities_overrun:
  assumes "wf_world w" and "is_active_3d w h"
    and "fst (MMG3D_Get_meshSize Kv (mesh (g_handles w ! nat h)) (native w)) = 1"
    and "4294967296 \<le> fst (snd (snd (MMG3D_Get_meshSize Kv (mesh (g_handles w ! nat h)) (native w)))) * 8"
  shows "fault (snd (mmg3d_get_tetrahedra_qualities Kv True h out w))"
  using assms unfolding mmg3d_get_tetrahedra_qualities_def Let_def case_prod_beta
  by (simp add: validate_handle_wf is_active_3d_def qualities_loop_wrapped)

subsection \<open>mmgs.c: the table\<close>

lemma ensure_initialized_s_wf:
  "wf_world w \<Longrightarrow> ensure_initialized_s w = w\<lparr>g_initialized_s := 1\<rparr>"
  by (auto simp add: wf_world_def table_ok_def ensure_initialized_s_def)

lemma wf_world_flag_s: "wf_world w \<Longrightarrow> wf_world (w\<lparr>g_initialized_s := 1\<rparr>)"
  by (simp add: wf_world_def table_ok_def)

lemma validate_handle_s_wf:
  "wf_world w \<Longrightarrow>
   validate_handle_s h w =
     (if is_active_s w h then active (g_handles_s w ! nat h) else 0, w\<lparr>g_initialized_s := 1\<rparr>)"
  by (auto simp add: validate_handle_s_def ensure_initialized_s_wf is_active_s_def Let_def)

lemma validate_handle_s_inactive:
  "wf_world w \<Longrightarrow> \<not> is_active_s w h \<Longrightarrow> validate_handle_s h w = (0, w\<lparr>g_initialized_s := 1\<rparr>)"
  by (simp add: validate_handle_s_wf)

lemma validate_handle_s_iff:
  "wf_world w \<Longrightarrow> (fst (validate_handle_s h w) \<noteq> 0) = is_active_s w h"
  by (simp add: validate_handle_s_wf is_active_s_def)

lemma validate_handle_s_snd [simp]: "snd (validate_handle_s h w) = ensure_initialized_s w"
  by (simp add: validate_handle_s_def Let_def)

lemma find_free_handle_s_snd [simp]: "snd (find_free_handle_s w) = ensure_initialized_s w"
  by (simp add: find_free_handle_s_def Let_def)

lemma find_free_handle_s_wf:
  "wf_world w \<Longrightarrow> find_free_handle_s w = (find_free_loop 0 (g_handles_s w), w\<lparr>g_initialized_s := 1\<rparr>)"
  by (simp add: find_free_handle_s_def ensure_initialized_s_wf Let_def)

lemma others_s_simps [simp]:
  "others_s (w\<lparr>heap := hp\<rparr>) = others_s w"
  "others_s (w\<lparr>fault := b\<rparr>) = others_s w"
  "others_s (w\<lparr>native := k\<rparr>) = others_s w"
  "others_s (w\<lparr>g_handles_s := t\<rparr>) = others_s w"
  "others_s (w\<lparr>g_initialized_s := i\<rparr>) = others_s w"
  "others_s (ensure_initialized_s w) = others_s w"
  by (simp_all add: others_s_def ensure_initialized_s_def)

lemma mmgs_get_available_handles_wf:
  "wf_world w \<Longrightarrow>
   mmgs_get_available_handles w = (available_loop 0 0 (g_handles_s w), w\<lparr>g_initialized_s := 1\<rparr>)"
  by (simp add: mmgs_get_available_handles_def ensure_initialized_s_wf Let_def)

lemma mmgs_get_available_handles_frame:
  "others_s (snd (mmgs_get_available_handles w)) = others_s w"
  by (simp add: mmgs_get_available_handles_def Let_def)

lemma mmgs_get_max_handles_frame:
  "others_s (snd (mmgs_get_max_handles w)) = others_s w"
  by (simp add: mmgs_get_max_handles_def)

lemma mmgs_init_wf:
  "wf_world w \<Longrightarrow>
   mmgs_init K w =
     (let f = find_free_loop 0 (g_handles_s w);
          r = fst (fst (MMGS_Init_mesh K (native w)));
          m = fst (snd (fst (MMGS_Init_mesh K (native w))));
          s = snd (snd (fst (MMGS_Init_mesh K (native w))));
          k = snd (MMGS_Init_mesh K (native w))
      in if f < 0 then (- 1, w\<lparr>g_initialized_s := 1\<rparr>)
         else if r \<noteq> 1 \<or> m = NULL then (- 1, w\<lparr>g_initialized_s := 1, native := k\<rparr>)
         else (f, w\<lparr>g_initialized_s := 1, native := MMGS_Init_parameters K m k,
                    g_handles_s := (g_handles_s w)[nat f := \<lparr>mesh = m, sol = s, active = 1\<rparr>]\<rparr>))"
  by (simp add: mmgs_init_def find_free_handle_s_wf Let_def split: prod.splits)

lemma mmgs_init_frame: "others_s (snd (mmgs_init K w)) = others_s w"
  unfolding mmgs_init_def Let_def case_prod_beta by simp

lemma mmgs_free_inactive:
  "wf_world w \<Longrightarrow> \<not> is_active_s w h \<Longrightarrow> mmgs_free K h w = (0, w\<lparr>g_initialized_s := 1\<rparr>)"
  by (simp add: mmgs_free_def validate_handle_s_inactive)

lemma mmgs_free_active:
  "wf_world w \<Longrightarrow> is_active_s w h \<Longrightarrow>
   mmgs_free K h w =
     (1, w\<lparr>g_initialized_s := 1,
           native := MMGS_Free_all K (mesh (g_handles_s w ! nat h)) (sol (g_handles_s w ! nat h)) (native w),
           g_handles_s := (g_handles_s w)[nat h := \<lparr>mesh = NULL, sol = NULL, active = 0\<rparr>]\<rparr>)"
  by (simp add: mmgs_free_def validate_handle_s_wf is_active_s_def Let_def)

lemma mmgs_free_frame: "others_s (snd (mmgs_free K h w)) = others_s w"
  unfolding mmgs_free_def Let_def case_prod_beta by simp

lemma mmgs_init_preserves_wf: "wf_world w \<Longrightarrow> wf_world (snd (mmgs_init K w))"
  by (auto simp add: mmgs_init_wf Let_def wf_world_def table_ok_def)

lemma mmgs_free_preserves_wf: "wf_world w \<Longrightarrow> wf_world (snd (mmgs_free K h w))"
  by (cases "is_active_s w h")
     (auto simp add: mmgs_free_active mmgs_free_inactive wf_world_def table_ok_def)

text \<open>What a successful \<^verbatim>\<open>init\<close> does to the table: it fills the first inactive slot.\<close>

lemma mmgs_init_handle:
  assumes "wf_world w" and "mmgs_init K w = (h, w1)" and "0 \<le> h"
  shows "h = find_free_loop 0 (g_handles_s w)"
    and "h < int MAX_HANDLES"
    and "active (g_handles_s w ! nat h) = 0"
    and "g_handles_s w1 =
           (g_handles_s w)[nat h := \<lparr>mesh = fst (snd (fst (MMGS_Init_mesh K (native w)))),
                              sol = snd (snd (fst (MMGS_Init_mesh K (native w)))), active = 1\<rparr>]"
proof -
  from assms show h: "h = find_free_loop 0 (g_handles_s w)"
    by (auto simp add: mmgs_init_wf Let_def split: if_splits)
  from h assms(3) show "h < int MAX_HANDLES"
    using find_free_loop_bounds [of 0 "g_handles_s w"] by auto
  from h assms(3) show "active (g_handles_s w ! nat h) = 0"
    using find_free_loop_first [of 0 "g_handles_s w"] by simp
  from assms h show "g_handles_s w1 =
           (g_handles_s w)[nat h := \<lparr>mesh = fst (snd (fst (MMGS_Init_mesh K (native w)))),
                              sol = snd (snd (fst (MMGS_Init_mesh K (native w)))), active = 1\<rparr>]"
    by (auto simp add: mmgs_init_wf Let_def split: if_splits)
qed

lemma mmgs_init_fail_table:
  assumes "wf_world w" and "mmgs_init K w = (h, w1)" and "h < 0"
  shows "g_handles_s w1 = g_handles_s w"
  using assms find_free_loop_bounds [of 0 "g_handles_s w"]
  by (auto simp add: mmgs_init_wf Let_def split: if_splits)

lemma mmgs_init_result:
  assumes "wf_world w"
  shows "fst (mmgs_init K w) = - 1 \<or> (0 \<le> fst (mmgs_init K w) \<and> fst (mmgs_init K w) < int MAX_HANDLES)"
  using assms find_free_loop_bounds [of 0 "g_handles_s w"]
  by (auto simp add: mmgs_init_wf Let_def)

lemma mmgs_init_keeps_active:
  assumes "wf_world w" and "is_active_s w h"
  shows "is_active_s (snd (mmgs_init K w)) h"
proof (cases "0 \<le> fst (mmgs_init K w)")
  case True
  obtain f w1 where eq: "mmgs_init K w = (f, w1)" by (cases "mmgs_init K w")
  with True have f: "0 \<le> f" by simp
  note facts = mmgs_init_handle [OF assms(1) eq f]
  have "nat f \<noteq> nat h"
    using facts(3) assms(2) by (auto simp add: is_active_s_def)
  with assms(2) facts(4) eq show ?thesis
    by (simp add: is_active_s_def)
next
  case False
  obtain f w1 where eq: "mmgs_init K w = (f, w1)" by (cases "mmgs_init K w")
  with False have "f < 0" by simp
  from mmgs_init_fail_table [OF assms(1) eq this] assms(2) eq show ?thesis
    by (simp add: is_active_s_def)
qed

lemma mmgs_init_keeps_inactive:
  assumes "wf_world w" and "\<not> is_active_s w h" and "fst (mmgs_init K w) \<noteq> h"
  shows "\<not> is_active_s (snd (mmgs_init K w)) h"
proof (cases "0 \<le> fst (mmgs_init K w)")
  case True
  obtain f w1 where eq: "mmgs_init K w = (f, w1)" by (cases "mmgs_init K w")
  with True have f: "0 \<le> f" by simp
  note facts = mmgs_init_handle [OF assms(1) eq f]
  from assms(3) eq have ne: "f \<noteq> h" by simp
  have len: "length (g_handles_s w) = MAX_HANDLES"
    using assms(1) by (simp add: wf_world_def table_ok_def)
  show ?thesis
  proof (cases "0 \<le> h \<and> h < int MAX_HANDLES")
    case False
    then show ?thesis by (auto simp add: is_active_s_def)
  next
    case True
    with ne f have "nat f \<noteq> nat h" by auto
    with assms(2) facts(4) eq True show ?thesis
      by (simp add: is_active_s_def)
  qed
next
  case False
  obtain f w1 where eq: "mmgs_init K w = (f, w1)" by (cases "mmgs_init K w")
  with False have "f < 0" by simp
  from mmgs_init_fail_table [OF assms(1) eq this] assms(2) eq show ?thesis
    by (simp add: is_active_s_def)
qed

lemma mmgs_init_makes_active:
  assumes "wf_world w" and "mmgs_init K w = (h, w1)" and "0 \<le> h"
  shows "is_active_s w1 h"
proof -
  note facts = mmgs_init_handle [OF assms]
  have "length (g_handles_s w) = MAX_HANDLES"
    using assms(1) by (simp add: wf_world_def table_ok_def)
  with facts(2,4) assms(3) show ?thesis
    by (simp add: is_active_s_def)
qed

lemma mmgs_init_counts:
  assumes "wf_world w" and "mmgs_init K w = (h, w1)" and "0 \<le> h"
  shows "active_count (g_handles_s w1) = Suc (active_count (g_handles_s w))"
proof -
  note facts = mmgs_init_handle [OF assms]
  have "length (g_handles_s w) = MAX_HANDLES"
    using assms(1) by (simp add: wf_world_def table_ok_def)
  with facts(2,3) assms(3) show ?thesis
    unfolding facts(4) by (intro active_count_update_new) auto
qed

lemma mmgs_free_keeps_active:
  assumes "wf_world w" and "is_active_s w h" and "h' \<noteq> h"
  shows "is_active_s (snd (mmgs_free K h' w)) h"
proof (cases "is_active_s w h'")
  case False
  with assms show ?thesis by (simp add: mmgs_free_inactive is_active_s_def)
next
  case True
  with assms(2,3) have "nat h' \<noteq> nat h" by (auto simp add: is_active_s_def)
  with assms True show ?thesis by (simp add: mmgs_free_active is_active_s_def)
qed

lemma mmgs_free_keeps_inactive:
  assumes "wf_world w" and "\<not> is_active_s w h"
  shows "\<not> is_active_s (snd (mmgs_free K h' w)) h"
proof (cases "is_active_s w h'")
  case False
  with assms show ?thesis by (simp add: mmgs_free_inactive is_active_s_def)
next
  case True
  have len: "length (g_handles_s w) = MAX_HANDLES"
    using assms(1) by (simp add: wf_world_def table_ok_def)
  show ?thesis
  proof (cases "nat h' = nat h")
    case same: True
    with assms True len show ?thesis
      by (auto simp add: mmgs_free_active is_active_s_def)
  next
    case False
    with assms True show ?thesis by (simp add: mmgs_free_active is_active_s_def)
  qed
qed

lemma mmgs_free_makes_inactive:
  assumes "wf_world w" and "mmgs_free K h w = (1, w1)"
  shows "\<not> is_active_s w1 h"
proof -
  have act: "is_active_s w h"
    using assms by (cases "is_active_s w h") (simp_all add: mmgs_free_inactive)
  have "length (g_handles_s w) = MAX_HANDLES"
    using assms(1) by (simp add: wf_world_def table_ok_def)
  with assms act show ?thesis
    by (auto simp add: mmgs_free_active is_active_s_def)
qed

subsection \<open>mmgs.c: the wrappers\<close>

lemma mmgs_set_mesh_size_inactive:
  "wf_world w \<Longrightarrow> \<not> is_active_s w h \<Longrightarrow> mmgs_set_mesh_size Ks h ia ib ic w = (0, w\<lparr>g_initialized_s := 1\<rparr>)"
  by (simp add: mmgs_set_mesh_size_def validate_handle_s_inactive)

lemma mmgs_set_mesh_size_frame:
  "others_s (snd (mmgs_set_mesh_size Ks h ia ib ic w)) = others_s w"
  unfolding mmgs_set_mesh_size_def Let_def case_prod_beta
  by simp

lemma mmgs_get_mesh_size_inactive:
  "wf_world w \<Longrightarrow> \<not> is_active_s w h \<Longrightarrow> mmgs_get_mesh_size Ks h oa ob oc w = ((0, oa, ob, oc), w\<lparr>g_initialized_s := 1\<rparr>)"
  by (simp add: mmgs_get_mesh_size_def validate_handle_s_inactive)

lemma mmgs_get_mesh_size_frame:
  "others_s (snd (mmgs_get_mesh_size Ks h oa ob oc w)) = others_s w"
  unfolding mmgs_get_mesh_size_def Let_def case_prod_beta
  by simp

lemma mmgs_set_vertex_inactive:
  "wf_world w \<Longrightarrow> \<not> is_active_s w h \<Longrightarrow> mmgs_set_vertex Ks h xa xb xc ia ib w = (0, w\<lparr>g_initialized_s := 1\<rparr>)"
  by (simp add: mmgs_set_vertex_def validate_handle_s_inactive)

lemma mmgs_set_vertex_frame:
  "others_s (snd (mmgs_set_vertex Ks h xa xb xc ia ib w)) = others_s w"
  unfolding mmgs_set_vertex_def Let_def case_prod_beta
  by simp

lemma mmgs_set_vertices_inactive:
  "wf_world w \<Longrightarrow> \<not> is_active_s w h \<Longrightarrow> mmgs_set_vertices Ks h xs ro w = (0, w\<lparr>g_initialized_s := 1\<rparr>)"
  by (simp add: mmgs_set_vertices_def validate_handle_s_inactive)

lemma mmgs_set_vertices_frame:
  "others_s (snd (mmgs_set_vertices Ks h xs ro w)) = others_s w"
  unfolding mmgs_set_vertices_def Let_def case_prod_beta
  by simp

lemma mmgs_get_vertices_inactive:
  "wf_world w \<Longrightarrow> \<not> is_active_s w h \<Longrightarrow> mmgs_get_vertices Ks fa fb fc fd h out w = ((NULL, map_option (\<lambda>_. 0) out), w\<lparr>g_initialized_s := 1\<rparr>)"
  by (simp add: mmgs_get_vertices_def validate_handle_s_inactive fail_with_count_def)

lemma mmgs_get_vertices_frame:
  "others_s (snd (mmgs_get_vertices Ks fa fb fc fd h out w)) = others_s w"
  unfolding mmgs_get_vertices_def Let_def case_prod_beta fail_with_count_def
  by (cases fa; cases fb; cases fc; cases fd) simp_all

lemma mmgs_get_vertices_rollback:
  assumes "wf_world w"
    and "\<not> fa \<or> \<not> fb \<or> \<not> fc \<or> \<not> fd \<or> fst (MMGS_Get_vertices Ks (mesh (g_handles_s w ! nat h)) (native w)) \<noteq> 1"
  shows "mmgs_get_vertices Ks fa fb fc fd h out w = ((NULL, map_option (\<lambda>_. 0) out), w\<lparr>g_initialized_s := 1\<rparr>)"
  using assms unfolding mmgs_get_vertices_def Let_def case_prod_beta fail_with_count_def
  by (cases fa; cases fb; cases fc; cases fd) (simp_all add: validate_handle_s_wf)

lemma mmgs_get_vertices_empty:
  assumes "wf_world w"
    and "fst (snd (MMGS_Get_meshSize Ks (mesh (g_handles_s w ! nat h)) (native w))) = 0"
  shows "mmgs_get_vertices Ks fa fb fc fd h out w = ((NULL, map_option (\<lambda>_. 0) out), w\<lparr>g_initialized_s := 1\<rparr>)"
  using assms unfolding mmgs_get_vertices_def Let_def case_prod_beta fail_with_count_def
  by (simp add: validate_handle_s_wf)

lemma mmgs_set_triangle_inactive:
  "wf_world w \<Longrightarrow> \<not> is_active_s w h \<Longrightarrow> mmgs_set_triangle Ks h ia ib ic iu iv w = (0, w\<lparr>g_initialized_s := 1\<rparr>)"
  by (simp add: mmgs_set_triangle_def validate_handle_s_inactive)

lemma mmgs_set_triangle_frame:
  "others_s (snd (mmgs_set_triangle Ks h ia ib ic iu iv w)) = others_s w"
  unfolding mmgs_set_triangle_def Let_def case_prod_beta
  by simp

lemma mmgs_set_triangles_inactive:
  "wf_world w \<Longrightarrow> \<not> is_active_s w h \<Longrightarrow> mmgs_set_triangles Ks h js ro w = (0, w\<lparr>g_initialized_s := 1\<rparr>)"
  by (simp add: mmgs_set_triangles_def validate_handle_s_inactive)

lemma mmgs_set_triangles_frame:
  "others_s (snd (mmgs_set_triangles Ks h js ro w)) = others_s w"
  unfolding mmgs_set_triangles_def Let_def case_prod_beta
  by simp

lemma mmgs_get_triangles_inactive:
  "wf_world w \<Longrightarrow> \<not> is_active_s w h \<Longrightarrow> mmgs_get_triangles Ks fa fb fc h out w = ((NULL, map_option (\<lambda>_. 0) out), w\<lparr>g_initialized_s := 1\<rparr>)"
  by (simp add: mmgs_get_triangles_def validate_handle_s_inactive fail_with_count_def)

lemma mmgs_get_triangles_frame:
  "others_s (snd (mmgs_get_triangles Ks fa fb fc h out w)) = others_s w"
  unfolding mmgs_get_triangles_def Let_def case_prod_beta fail_with_count_def
  by (cases fa; cases fb; cases fc) simp_all

lemma mmgs_get_triangles_rollback:
  assumes "wf_world w"
    and "\<not> fa \<or> \<not> fb \<or> \<not> fc \<or> fst (MMGS_Get_triangles Ks (mesh (g_handles_s w ! nat h)) (native w)) \<noteq> 1"
  shows "mmgs_get_triangles Ks fa fb fc h out w = ((NULL, map_option (\<lambda>_. 0) out), w\<lparr>g_initialized_s := 1\<rparr>)"
  using assms unfolding mmgs_get_triangles_def Let_def case_prod_beta fail_with_count_def
  by (cases fa; cases fb; cases fc) (simp_all add: validate_handle_s_wf)

lemma mmgs_get_triangles_empty:
  assumes "wf_world w"
    and "fst (snd (snd (MMGS_Get_meshSize Ks (mesh (g_handles_s w ! nat h)) (native w)))) = 0"
  shows "mmgs_get_triangles Ks fa fb fc h out w = ((NULL, map_option (\<lambda>_. 0) out), w\<lparr>g_initialized_s := 1\<rparr>)"
  using assms unfolding mmgs_get_triangles_def Let_def case_prod_beta fail_with_count_def
  by (simp add: validate_handle_s_wf)

lemma mmgs_set_edge_inactive:
  "wf_world w \<Longrightarrow> \<not> is_active_s w h \<Longrightarrow> mmgs_set_edge Ks h ia ib ic iu w = (0, w\<lparr>g_initialized_s := 1\<rparr>)"
  by (simp add: mmgs_set_edge_def validate_handle_s_inactive)

lemma mmgs_set_edge_frame:
  "others_s (snd (mmgs_set_edge Ks h ia ib ic iu w)) = others_s w"
  unfolding mmgs_set_edge_def Let_def case_prod_beta
  by simp

lemma mmgs_set_edges_inactive:
  "wf_world w \<Longrightarrow> \<not> is_active_s w h \<Longrightarrow> mmgs_set_edges Ks h js ro w = (0, w\<lparr>g_initialized_s := 1\<rparr>)"
  by (simp add: mmgs_set_edges_def validate_handle_s_inactive)

lemma mmgs_set_edges_frame:
  "others_s (snd (mmgs_set_edges Ks h js ro w)) = others_s w"
  unfolding mmgs_set_edges_def Let_def case_prod_beta
  by simp

lemma mmgs_get_edges_inactive:
  "wf_world w \<Longrightarrow> \<not> is_active_s w h \<Longrightarrow> mmgs_get_edges Ks fa fb fc fd h out w = ((NULL, map_option (\<lambda>_. 0) out), w\<lparr>g_initialized_s := 1\<rparr>)"
  by (simp add: mmgs_get_edges_def validate_handle_s_inactive fail_with_count_def)

lemma mmgs_get_edges_frame:
  "others_s (snd (mmgs_get_edges Ks fa fb fc fd h out w)) = others_s w"
  unfolding mmgs_get_edges_def Let_def case_prod_beta fail_with_count_def
  by (cases fa; cases fb; cases fc; cases fd) simp_all

lemma mmgs_get_edges_rollback:
  assumes "wf_world w"
    and "\<not> fa \<or> \<not> fb \<or> \<not> fc \<or> \<not> fd \<or> fst (MMGS_Get_edges Ks (mesh (g_handles_s w ! nat h)) (native w)) \<noteq> 1"
  shows "mmgs_get_edges Ks fa fb fc fd h out w = ((NULL, map_option (\<lambda>_. 0) out), w\<lparr>g_initialized_s := 1\<rparr>)"
  using assms unfolding mmgs_get_edges_def Let_def case_prod_beta fail_with_count_def
  by (cases fa; cases fb; cases fc; cases fd) (simp_all add: validate_handle_s_wf)

lemma mmgs_get_edges_empty:
  assumes "wf_world w"
    and "snd (snd (snd (MMGS_Get_meshSize Ks (mesh (g_handles_s w ! nat h)) (native w)))) = 0"
  shows "mmgs_get_edges Ks fa fb fc fd h out w = ((NULL, map_option (\<lambda>_. 0) out), w\<lparr>g_initialized_s := 1\<rparr>)"
  using assms unfolding mmgs_get_edges_def Let_def case_prod_beta fail_with_count_def
  by (simp add: validate_handle_s_wf)

lemma mmgs_set_iparameter_inactive:
  "wf_world w \<Longrightarrow> \<not> is_active_s w h \<Longrightarrow> mmgs_set_iparameter Ks h ia ib w = (0, w\<lparr>g_initialized_s := 1\<rparr>)"
  by (simp add: mmgs_set_iparameter_def validate_handle_s_inactive)

lemma mmgs_set_iparameter_frame:
  "others_s (snd (mmgs_set_iparameter Ks h ia ib w)) = others_s w"
  unfolding mmgs_set_iparameter_def Let_def case_prod_beta
  by simp

lemma mmgs_set_dparameter_inactive:
  "wf_world w \<Longrightarrow> \<not> is_active_s w h \<Longrightarrow> mmgs_set_dparameter Ks h ia xa w = (0, w\<lparr>g_initialized_s := 1\<rparr>)"
  by (simp add: mmgs_set_dparameter_def validate_handle_s_inactive)

lemma mmgs_set_dparameter_frame:
  "others_s (snd (mmgs_set_dparameter Ks h ia xa w)) = others_s w"
  unfolding mmgs_set_dparameter_def Let_def case_prod_beta
  by simp

lemma mmgs_set_sol_size_inactive:
  "wf_world w \<Longrightarrow> \<not> is_active_s w h \<Longrightarrow> mmgs_set_sol_size Ks h ia ib ic w = (0, w\<lparr>g_initialized_s := 1\<rparr>)"
  by (simp add: mmgs_set_sol_size_def validate_handle_s_inactive)

lemma mmgs_set_sol_size_frame:
  "others_s (snd (mmgs_set_sol_size Ks h ia ib ic w)) = others_s w"
  unfolding mmgs_set_sol_size_def Let_def case_prod_beta
  by simp

lemma mmgs_get_sol_size_inactive:
  "wf_world w \<Longrightarrow> \<not> is_active_s w h \<Longrightarrow> mmgs_get_sol_size Ks h oa ob oc w = ((0, oa, ob, oc), w\<lparr>g_initialized_s := 1\<rparr>)"
  by (simp add: mmgs_get_sol_size_def validate_handle_s_inactive)

lemma mmgs_get_sol_size_frame:
  "others_s (snd (mmgs_get_sol_size Ks h oa ob oc w)) = others_s w"
  unfolding mmgs_get_sol_size_def Let_def case_prod_beta
  by simp

lemma mmgs_set_scalar_sols_inactive:
  "wf_world w \<Longrightarrow> \<not> is_active_s w h \<Longrightarrow> mmgs_set_scalar_sols Ks h xs w = (0, w\<lparr>g_initialized_s := 1\<rparr>)"
  by (simp add: mmgs_set_scalar_sols_def validate_handle_s_inactive)

lemma mmgs_set_scalar_sols_frame:
  "others_s (snd (mmgs_set_scalar_sols Ks h xs w)) = others_s w"
  unfolding mmgs_set_scalar_sols_def Let_def case_prod_beta
  by simp

lemma mmgs_get_scalar_sols_inactive:
  "wf_world w \<Longrightarrow> \<not> is_active_s w h \<Longrightarrow> mmgs_get_scalar_sols Ks fa h out w = ((NULL, map_option (\<lambda>_. 0) out), w\<lparr>g_initialized_s := 1\<rparr>)"
  by (simp add: mmgs_get_scalar_sols_def validate_handle_s_inactive)

lemma mmgs_get_scalar_sols_frame:
  "others_s (snd (mmgs_get_scalar_sols Ks fa h out w)) = others_s w"
  unfolding mmgs_get_scalar_sols_def Let_def case_prod_beta
  by (cases fa) simp_all

lemma mmgs_get_scalar_sols_empty:
  assumes "wf_world w"
    and "fst (snd (snd (MMGS_Get_solSize Ks (mesh (g_handles_s w ! nat h)) (sol (g_handles_s w ! nat h)) (native w)))) = 0"
  shows "mmgs_get_scalar_sols Ks fa h out w = ((NULL, map_option (\<lambda>_. 0) out), w\<lparr>g_initialized_s := 1\<rparr>)"
  using assms unfolding mmgs_get_scalar_sols_def Let_def case_prod_beta
  by (simp add: validate_handle_s_wf)

lemma mmgs_get_scalar_sols_guard:
  assumes "wf_world w"
    and "snd (snd (snd (MMGS_Get_solSize Ks (mesh (g_handles_s w ! nat h)) (sol (g_handles_s w ! nat h)) (native w)))) \<noteq> 1"
  shows "mmgs_get_scalar_sols Ks fa h out w = ((NULL, map_option (\<lambda>_. 0) out), w\<lparr>g_initialized_s := 1\<rparr>)"
  using assms unfolding mmgs_get_scalar_sols_def Let_def case_prod_beta
  by (simp add: validate_handle_s_wf)

lemma mmgs_set_tensor_sols_inactive:
  "wf_world w \<Longrightarrow> \<not> is_active_s w h \<Longrightarrow> mmgs_set_tensor_sols Ks h xs w = (0, w\<lparr>g_initialized_s := 1\<rparr>)"
  by (simp add: mmgs_set_tensor_sols_def validate_handle_s_inactive)

lemma mmgs_set_tensor_sols_frame:
  "others_s (snd (mmgs_set_tensor_sols Ks h xs w)) = others_s w"
  unfolding mmgs_set_tensor_sols_def Let_def case_prod_beta
  by simp

lemma mmgs_get_tensor_sols_inactive:
  "wf_world w \<Longrightarrow> \<not> is_active_s w h \<Longrightarrow> mmgs_get_tensor_sols Ks fa h out w = ((NULL, map_option (\<lambda>_. 0) out), w\<lparr>g_initialized_s := 1\<rparr>)"
  by (simp add: mmgs_get_tensor_sols_def validate_handle_s_inactive)

lemma mmgs_get_tensor_sols_frame:
  "others_s (snd (mmgs_get_tensor_sols Ks fa h out w)) = others_s w"
  unfolding mmgs_get_tensor_sols_def Let_def case_prod_beta
  by (cases fa) simp_all

lemma mmgs_get_tensor_sols_empty:
  assumes "wf_world w"
    and "fst (snd (snd (MMGS_Get_solSize Ks (mesh (g_handles_s w ! nat h)) (sol (g_handles_s w ! nat h)) (native w)))) = 0"
  shows "mmgs_get_tensor_sols Ks fa h out w = ((NULL, map_option (\<lambda>_. 0) out), w\<lparr>g_initialized_s := 1\<rparr>)"
  using assms unfolding mmgs_get_tensor_sols_def Let_def case_prod_beta
  by (simp add: validate_handle_s_wf)

lemma mmgs_get_tensor_sols_guard:
  assumes "wf_world w"
    and "snd (snd (snd (MMGS_Get_solSize Ks (mesh (g_handles_s w ! nat h)) (sol (g_handles_s w ! nat h)) (native w)))) \<noteq> 3"
  shows "mmgs_get_tensor_sols Ks fa h out w = ((NULL, map_option (\<lambda>_. 0) out), w\<lparr>g_initialized_s := 1\<rparr>)"
  using assms unfolding mmgs_get_tensor_sols_def Let_def case_prod_beta
  by (simp add: validate_handle_s_wf)

lemma mmgs_remesh_inactive:
  "wf_world w \<Longrightarrow> \<not> is_active_s w h \<Longrightarrow> mmgs_remesh Ks h w = (- 1, w\<lparr>g_initialized_s := 1\<rparr>)"
  by (simp add: mmgs_remesh_def validate_handle_s_inactive)

lemma mmgs_remesh_frame:
  "others_s (snd (mmgs_remesh Ks h w)) = others_s w"
  unfolding mmgs_remesh_def Let_def case_prod_beta
  by simp

lemma mmgs_free_array_frame:
  "others_s (snd (mmgs_free_array p w)) = others_s w"
  by (simp add: mmgs_free_array_def)

lemma mmgs_load_mesh_inactive:
  "wf_world w \<Longrightarrow> \<not> is_active_s w h \<Longrightarrow> mmgs_load_mesh Ks h fname w = (0, w\<lparr>g_initialized_s := 1\<rparr>)"
  by (simp add: mmgs_load_mesh_def validate_handle_s_inactive)

lemma mmgs_load_mesh_frame:
  "others_s (snd (mmgs_load_mesh Ks h fname w)) = others_s w"
  unfolding mmgs_load_mesh_def Let_def case_prod_beta
  by simp

lemma mmgs_save_mesh_inactive:
  "wf_world w \<Longrightarrow> \<not> is_active_s w h \<Longrightarrow> mmgs_save_mesh Ks h fname w = (0, w\<lparr>g_initialized_s := 1\<rparr>)"
  by (simp add: mmgs_save_mesh_def validate_handle_s_inactive)

lemma mmgs_save_mesh_frame:
  "others_s (snd (mmgs_save_mesh Ks h fname w)) = others_s w"
  unfolding mmgs_save_mesh_def Let_def case_prod_beta
  by simp

lemma mmgs_load_sol_inactive:
  "wf_world w \<Longrightarrow> \<not> is_active_s w h \<Longrightarrow> mmgs_load_sol Ks h fname w = (0, w\<lparr>g_initialized_s := 1\<rparr>)"
  by (simp add: mmgs_load_sol_def validate_handle_s_inactive)

lemma mmgs_load_sol_frame:
  "others_s (snd (mmgs_load_sol Ks h fname w)) = others_s w"
  unfolding mmgs_load_sol_def Let_def case_prod_beta
  by simp

lemma mmgs_save_sol_inactive:
  "wf_world w \<Longrightarrow> \<not> is_active_s w h \<Longrightarrow> mmgs_save_sol Ks h fname w = (0, w\<lparr>g_initialized_s := 1\<rparr>)"
  by (simp add: mmgs_save_sol_def validate_handle_s_inactive)

lemma mmgs_save_sol_frame:
  "others_s (snd (mmgs_save_sol Ks h fname w)) = others_s w"
  unfolding mmgs_save_sol_def Let_def case_prod_beta
  by simp

lemma mmgs_get_triangle_quality_inactive:
  "wf_world w \<Longrightarrow> \<not> is_active_s w h \<Longrightarrow> mmgs_get_triangle_quality Ks h k w = (0, w\<lparr>g_initialized_s := 1\<rparr>)"
  by (simp add: mmgs_get_triangle_quality_def validate_handle_s_inactive)

lemma mmgs_get_triangle_quality_frame:
  "others_s (snd (mmgs_get_triangle_quality Ks h k w)) = others_s w"
  unfolding mmgs_get_triangle_quality_def Let_def case_prod_beta
  by simp

lemma mmgs_get_triangle_quality_active:
  "wf_world w \<Longrightarrow> is_active_s w h \<Longrightarrow>
   mmgs_get_triangle_quality Ks h k w = (MMGS_Get_triangleQuality Ks (mesh (g_handles_s w ! nat h)) (sol (g_handles_s w ! nat h)) k (native w), w\<lparr>g_initialized_s := 1\<rparr>)"
  by (simp add: mmgs_get_triangle_quality_def validate_handle_s_wf is_active_s_def Let_def)

lemma mmgs_get_triangles_qualities_inactive:
  "wf_world w \<Longrightarrow> \<not> is_active_s w h \<Longrightarrow> mmgs_get_triangles_qualities Ks fa h out w = ((NULL, map_option (\<lambda>_. 0) out), w\<lparr>g_initialized_s := 1\<rparr>)"
  by (simp add: mmgs_get_triangles_qualities_def validate_handle_s_inactive)

lemma mmgs_get_triangles_qualities_frame:
  "others_s (snd (mmgs_get_triangles_qualities Ks fa h out w)) = others_s w"
  unfolding mmgs_get_triangles_qualities_def Let_def case_prod_beta
  by (cases fa) (simp_all split: option.splits)

lemma mmgs_get_triangles_qualities_empty:
  assumes "wf_world w"
    and "fst (snd (snd (MMGS_Get_meshSize Ks (mesh (g_handles_s w ! nat h)) (native w)))) = 0"
  shows "mmgs_get_triangles_qualities Ks fa h out w = ((NULL, map_option (\<lambda>_. 0) out), w\<lparr>g_initialized_s := 1\<rparr>)"
  using assms unfolding mmgs_get_triangles_qualities_def Let_def case_prod_beta
  by (simp add: validate_handle_s_wf)

lemma mmgs_get_triangles_qualities_nomem:
  assumes "wf_world w"
  shows "mmgs_get_triangles_qualities Ks False h out w = ((NULL, map_option (\<lambda>_. 0) out), w\<lparr>g_initialized_s := 1\<rparr>)"
  using assms unfolding mmgs_get_triangles_qualities_def Let_def case_prod_beta
  by (simp add: validate_handle_s_wf)

lemma mmgs_get_triangles_qualities_filled:
  assumes "wf_world w" and "is_active_s w h"
    and "fst (MMGS_Get_meshSize Ks (mesh (g_handles_s w ! nat h)) (native w)) = 1"
    and "0 < fst (snd (snd (MMGS_Get_meshSize Ks (mesh (g_handles_s w ! nat h)) (native w))))"
    and "fst (snd (snd (MMGS_Get_meshSize Ks (mesh (g_handles_s w ! nat h)) (native w)))) * 8 < 4294967296"
  shows "mmgs_get_triangles_qualities Ks True h out w =
           ((fresh (heap w), map_option (\<lambda>_. fst (snd (snd (MMGS_Get_meshSize Ks (mesh (g_handles_s w ! nat h)) (native w))))) out),
            w\<lparr>g_initialized_s := 1,
              heap := (fresh (heap w),
                       map (\<lambda>j. D (MMGS_Get_triangleQuality Ks (mesh (g_handles_s w ! nat h)) (sol (g_handles_s w ! nat h)) j (native w)))
                         [1..fst (snd (snd (MMGS_Get_meshSize Ks (mesh (g_handles_s w ! nat h)) (native w))))]) # heap w\<rparr>)"
  using assms unfolding mmgs_get_triangles_qualities_def Let_def case_prod_beta
  by (simp add: validate_handle_s_wf is_active_s_def fresh_def qualities_loop_fresh
      size_t_doubles)

lemma mmgs_get_triangles_qualities_overrun:
  assumes "wf_world w" and "is_active_s w h"
    and "fst (MMGS_Get_meshSize Ks (mesh (g_handles_s w ! nat h)) (native w)) = 1"
    and "4294967296 \<le> fst (snd (snd (MMGS_Get_meshSize Ks (mesh (g_handles_s w ! nat h)) (native w)))) * 8"
  shows "fault (snd (mmgs_get_triangles_qualities Ks True h out w))"
  using assms unfolding mmgs_get_triangles_qualities_def Let_def case_prod_beta
  by (simp add: validate_handle_s_wf is_active_s_def qualities_loop_wrapped)

section \<open>Sequences of calls\<close>

lemma wf_world0: "wf_world (world0 k)"
  by (simp add: wf_world_def table_ok_def world0_def)

lemma run_Cons_fst [simp]:
  "fst (run Kp Kv Ks (c # cs) w) =
     fst (step Kp Kv Ks c w) # fst (run Kp Kv Ks cs (snd (step Kp Kv Ks c w)))"
  by (simp add: case_prod_beta Let_def)

lemma run_Cons_snd [simp]:
  "snd (run Kp Kv Ks (c # cs) w) = snd (run Kp Kv Ks cs (snd (step Kp Kv Ks c w)))"
  by (simp add: case_prod_beta Let_def)

declare run.simps(2) [simp del]

lemma run_length [simp]: "length (fst (run Kp Kv Ks cs w)) = length cs"
  by (induction cs arbitrary: w) simp_all

lemma step_preserves_wf: "wf_world w \<Longrightarrow> wf_world (snd (step Kp Kv Ks c w))"
  by (cases c)
     (simp_all add: mmg2d_init_preserves_wf mmg2d_free_preserves_wf mmg3d_init_preserves_wf
        mmg3d_free_preserves_wf mmgs_init_preserves_wf mmgs_free_preserves_wf)

lemma run_preserves_wf: "wf_world w \<Longrightarrow> wf_world (snd (run Kp Kv Ks cs w))"
  by (induction cs arbitrary: w) (simp_all add: step_preserves_wf)

lemma wf_world_length:
  assumes "wf_world w"
  shows "length (g_handles_2d w) = MAX_HANDLES"
    and "length (g_handles w) = MAX_HANDLES"
    and "length (g_handles_s w) = MAX_HANDLES"
  using assms by (simp_all add: wf_world_def table_ok_def)

text \<open>What the tables of the other two files decide.\<close>

lemma others_2d_decide:
  assumes "others_2d wa = others_2d w"
  shows "is_active_3d wa h = is_active_3d w h" and "is_active_s wa h = is_active_s w h"
    and "g_handles wa = g_handles w" and "g_handles_s wa = g_handles_s w"
    and "fst (mmg3d_get_available_handles wa) = fst (mmg3d_get_available_handles w)"
    and "fst (mmgs_get_available_handles wa) = fst (mmgs_get_available_handles w)"
  using assms
  by (simp_all add: others_2d_def is_active_3d_def is_active_s_def
        mmg3d_get_available_handles_def mmgs_get_available_handles_def
        ensure_initialized_def ensure_initialized_s_def Let_def)

lemma others_3d_decide:
  assumes "others_3d wa = others_3d w"
  shows "is_active_2d wa h = is_active_2d w h" and "is_active_s wa h = is_active_s w h"
    and "g_handles_2d wa = g_handles_2d w" and "g_handles_s wa = g_handles_s w"
    and "fst (mmg2d_get_available_handles wa) = fst (mmg2d_get_available_handles w)"
    and "fst (mmgs_get_available_handles wa) = fst (mmgs_get_available_handles w)"
  using assms
  by (simp_all add: others_3d_def is_active_2d_def is_active_s_def
        mmg2d_get_available_handles_def mmgs_get_available_handles_def
        ensure_initialized_2d_def ensure_initialized_s_def Let_def)

lemma others_s_decide:
  assumes "others_s wa = others_s w"
  shows "is_active_2d wa h = is_active_2d w h" and "is_active_3d wa h = is_active_3d w h"
    and "g_handles_2d wa = g_handles_2d w" and "g_handles wa = g_handles w"
    and "fst (mmg2d_get_available_handles wa) = fst (mmg2d_get_available_handles w)"
    and "fst (mmg3d_get_available_handles wa) = fst (mmg3d_get_available_handles w)"
  using assms
  by (simp_all add: others_s_def is_active_2d_def is_active_3d_def
        mmg2d_get_available_handles_def mmg3d_get_available_handles_def
        ensure_initialized_2d_def ensure_initialized_def Let_def)

subsection \<open>mmg2d.c\<close>

lemma step_keeps_active_2d:
  assumes "wf_world w" and "is_active_2d w h" and "c \<noteq> Free2D h"
  shows "is_active_2d (snd (step Kp Kv Ks c w)) h"
  using assms
  by (cases c)
     (simp_all add: mmg2d_init_keeps_active mmg2d_free_keeps_active
        others_3d_decide(1) [OF mmg3d_init_frame] others_3d_decide(1) [OF mmg3d_free_frame]
        others_s_decide(1) [OF mmgs_init_frame] others_s_decide(1) [OF mmgs_free_frame])

lemma step_keeps_inactive_2d:
  assumes "wf_world w" and "\<not> is_active_2d w h"
    and "c = Init2D \<longrightarrow> fst (step Kp Kv Ks c w) \<noteq> h"
  shows "\<not> is_active_2d (snd (step Kp Kv Ks c w)) h"
  using assms
  by (cases c)
     (simp_all add: mmg2d_init_keeps_inactive mmg2d_free_keeps_inactive
        others_3d_decide(1) [OF mmg3d_init_frame] others_3d_decide(1) [OF mmg3d_free_frame]
        others_s_decide(1) [OF mmgs_init_frame] others_s_decide(1) [OF mmgs_free_frame])

lemma run_keeps_active_2d:
  "wf_world w \<Longrightarrow> is_active_2d w h \<Longrightarrow> Free2D h \<notin> set cs \<Longrightarrow>
   is_active_2d (snd (run Kp Kv Ks cs w)) h"
proof (induction cs arbitrary: w)
  case Nil
  then show ?case by simp
next
  case (Cons c cs)
  from Cons.prems have "c \<noteq> Free2D h" and rest: "Free2D h \<notin> set cs" by auto
  with Cons.prems have "is_active_2d (snd (step Kp Kv Ks c w)) h"
    by (simp add: step_keeps_active_2d)
  with Cons.IH [OF step_preserves_wf [OF Cons.prems(1)] _ rest] show ?case by simp
qed

lemma run_keeps_inactive_2d:
  "wf_world w \<Longrightarrow> \<not> is_active_2d w h \<Longrightarrow>
   \<forall>i < length cs. cs ! i = Init2D \<longrightarrow> fst (run Kp Kv Ks cs w) ! i \<noteq> h \<Longrightarrow>
   \<not> is_active_2d (snd (run Kp Kv Ks cs w)) h"
proof (induction cs arbitrary: w)
  case Nil
  then show ?case by simp
next
  case (Cons c cs)
  from Cons.prems(3) have first: "c = Init2D \<longrightarrow> fst (step Kp Kv Ks c w) \<noteq> h"
    by fastforce
  have rest: "\<forall>i < length cs. cs ! i = Init2D \<longrightarrow>
                fst (run Kp Kv Ks cs (snd (step Kp Kv Ks c w))) ! i \<noteq> h"
  proof (intro allI impI)
    fix i assume "i < length cs" and "cs ! i = Init2D"
    with Cons.prems(3) [rule_format, of "Suc i"] show
      "fst (run Kp Kv Ks cs (snd (step Kp Kv Ks c w))) ! i \<noteq> h" by simp
  qed
  from Cons.prems first have "\<not> is_active_2d (snd (step Kp Kv Ks c w)) h"
    by (simp add: step_keeps_inactive_2d)
  with Cons.IH [OF step_preserves_wf [OF Cons.prems(1)] _ rest] show ?case by simp
qed

lemma run_inits_count_2d:
  "wf_world w \<Longrightarrow> \<forall>r \<in> set (fst (run Kp Kv Ks (replicate n Init2D) w)). 0 \<le> r \<Longrightarrow>
   active_count (g_handles_2d (snd (run Kp Kv Ks (replicate n Init2D) w))) =
     active_count (g_handles_2d w) + n"
proof (induction n arbitrary: w)
  case 0
  then show ?case by simp
next
  case (Suc n)
  obtain h wa where eq: "mmg2d_init Kp w = (h, wa)" by (cases "mmg2d_init Kp w")
  from Suc.prems(2) eq have h: "0 \<le> h"
    and rest: "\<forall>r \<in> set (fst (run Kp Kv Ks (replicate n Init2D) wa)). 0 \<le> r" by simp_all
  have wfa: "wf_world wa" using mmg2d_init_preserves_wf [OF Suc.prems(1), of Kp] eq by simp
  from Suc.IH [OF wfa rest] mmg2d_init_counts [OF Suc.prems(1) eq h] eq
  show ?case by simp
qed

lemma full_table_2d:
  assumes "wf_world w" and "find_free_loop 0 (g_handles_2d w) = - 1"
  shows "mmg2d_init K w = (- 1, w\<lparr>g_initialized_2d := 1\<rparr>)"
  using assms by (simp add: mmg2d_init_wf Let_def)

lemma construction_fails_2d:
  assumes "wf_world w"
    and "fst (fst (MMG2D_Init_mesh K (native w))) \<noteq> 1 \<or>
         fst (snd (fst (MMG2D_Init_mesh K (native w)))) = NULL"
  shows "fst (mmg2d_init K w) = - 1"
    and "g_handles_2d (snd (mmg2d_init K w)) = g_handles_2d w"
  using assms by (auto simp add: mmg2d_init_wf Let_def find_free_loop_neg)

lemma same_table_available_2d:
  assumes "wf_world w" and "wf_world wa" and "g_handles_2d wa = g_handles_2d w"
  shows "fst (mmg2d_get_available_handles wa) = fst (mmg2d_get_available_handles w)"
  using assms by (simp add: mmg2d_get_available_handles_wf)

lemma exhausted_2d:
  assumes wf: "wf_world w"
    and n: "active_count (g_handles_2d w) + n = MAX_HANDLES"
    and ok: "\<forall>r \<in> set (fst (run Kp Kv Ks (replicate n Init2D) w)). 0 \<le> r"
  shows "fst (mmg2d_get_available_handles (snd (run Kp Kv Ks (replicate n Init2D) w))) = 0"
    and "fst (mmg2d_init Kp (snd (run Kp Kv Ks (replicate n Init2D) w))) = - 1"
proof -
  let ?w = "snd (run Kp Kv Ks (replicate n Init2D) w)"
  have wfa: "wf_world ?w" by (rule run_preserves_wf [OF wf])
  then have len: "length (g_handles_2d ?w) = MAX_HANDLES"
    by (simp add: wf_world_def table_ok_def)
  have "active_count (g_handles_2d ?w) = active_count (g_handles_2d w) + n"
    by (rule run_inits_count_2d [OF wf ok])
  with n have "active_count (g_handles_2d ?w) = MAX_HANDLES" by simp
  with available_plus_active [OF len]
  have av: "available_loop 0 0 (g_handles_2d ?w) = 0" by simp
  then show "fst (mmg2d_get_available_handles ?w) = 0"
    by (simp add: mmg2d_get_available_handles_wf [OF wfa])
  from av have "find_free_loop 0 (g_handles_2d ?w) = - 1"
    by (simp add: available_zero_iff [OF len])
  then show "fst (mmg2d_init Kp ?w) = - 1"
    by (simp add: full_table_2d [OF wfa])
qed

lemma first_free_2d:
  assumes wf: "wf_world w"
    and free: "\<exists>i < MAX_HANDLES. active (g_handles_2d w ! i) = 0"
    and ok: "fst (fst (MMG2D_Init_mesh K (native w))) = 1"
            "fst (snd (fst (MMG2D_Init_mesh K (native w)))) \<noteq> NULL"
  shows "mmg2d_init K w =
           (find_free_loop 0 (g_handles_2d w),
            w\<lparr>g_initialized_2d := 1,
              native := MMG2D_Init_parameters K (fst (snd (fst (MMG2D_Init_mesh K (native w)))))
                          (snd (MMG2D_Init_mesh K (native w))),
              g_handles_2d := (g_handles_2d w)
                [nat (find_free_loop 0 (g_handles_2d w)) :=
                   \<lparr>mesh = fst (snd (fst (MMG2D_Init_mesh K (native w)))),
                     sol = snd (snd (fst (MMG2D_Init_mesh K (native w)))), active = 1\<rparr>]\<rparr>)"
    and "0 \<le> find_free_loop 0 (g_handles_2d w)"
    and "find_free_loop 0 (g_handles_2d w) \<le> 63"
    and "active (g_handles_2d w ! nat (find_free_loop 0 (g_handles_2d w))) = 0"
    and "\<forall>j < nat (find_free_loop 0 (g_handles_2d w)). active (g_handles_2d w ! j) \<noteq> 0"
proof -
  from free have ne: "find_free_loop 0 (g_handles_2d w) \<noteq> - 1"
    by (auto simp add: find_free_loop_none)
  with find_free_loop_bounds [of 0 "g_handles_2d w"]
  show nonneg: "0 \<le> find_free_loop 0 (g_handles_2d w)" and "find_free_loop 0 (g_handles_2d w) \<le> 63"
    by auto
  from find_free_loop_first [OF nonneg]
  show "active (g_handles_2d w ! nat (find_free_loop 0 (g_handles_2d w))) = 0"
    and "\<forall>j < nat (find_free_loop 0 (g_handles_2d w)). active (g_handles_2d w ! j) \<noteq> 0"
    by auto
  from wf nonneg ok show "mmg2d_init K w =
           (find_free_loop 0 (g_handles_2d w),
            w\<lparr>g_initialized_2d := 1,
              native := MMG2D_Init_parameters K (fst (snd (fst (MMG2D_Init_mesh K (native w)))))
                          (snd (MMG2D_Init_mesh K (native w))),
              g_handles_2d := (g_handles_2d w)
                [nat (find_free_loop 0 (g_handles_2d w)) :=
                   \<lparr>mesh = fst (snd (fst (MMG2D_Init_mesh K (native w)))),
                     sol = snd (snd (fst (MMG2D_Init_mesh K (native w)))), active = 1\<rparr>]\<rparr>)"
    by (simp add: mmg2d_init_wf Let_def)
qed

subsection \<open>mmg3d.c\<close>

lemma step_keeps_active_3d:
  assumes "wf_world w" and "is_active_3d w h" and "c \<noteq> Free3D h"
  shows "is_active_3d (snd (step Kp Kv Ks c w)) h"
  using assms
  by (cases c)
     (simp_all add: mmg3d_init_keeps_active mmg3d_free_keeps_active
        others_2d_decide(1) [OF mmg2d_init_frame] others_2d_decide(1) [OF mmg2d_free_frame]
        others_s_decide(2) [OF mmgs_init_frame] others_s_decide(2) [OF mmgs_free_frame])

lemma step_keeps_inactive_3d:
  assumes "wf_world w" and "\<not> is_active_3d w h"
    and "c = Init3D \<longrightarrow> fst (step Kp Kv Ks c w) \<noteq> h"
  shows "\<not> is_active_3d (snd (step Kp Kv Ks c w)) h"
  using assms
  by (cases c)
     (simp_all add: mmg3d_init_keeps_inactive mmg3d_free_keeps_inactive
        others_2d_decide(1) [OF mmg2d_init_frame] others_2d_decide(1) [OF mmg2d_free_frame]
        others_s_decide(2) [OF mmgs_init_frame] others_s_decide(2) [OF mmgs_free_frame])

lemma run_keeps_active_3d:
  "wf_world w \<Longrightarrow> is_active_3d w h \<Longrightarrow> Free3D h \<notin> set cs \<Longrightarrow>
   is_active_3d (snd (run Kp Kv Ks cs w)) h"
proof (induction cs arbitrary: w)
  case Nil
  then show ?case by simp
next
  case (Cons c cs)
  from Cons.prems have "c \<noteq> Free3D h" and rest: "Free3D h \<notin> set cs" by auto
  with Cons.prems have "is_active_3d (snd (step Kp Kv Ks c w)) h"
    by (simp add: step_keeps_active_3d)
  with Cons.IH [OF step_preserves_wf [OF Cons.prems(1)] _ rest] show ?case by simp
qed

lemma run_keeps_inactive_3d:
  "wf_world w \<Longrightarrow> \<not> is_active_3d w h \<Longrightarrow>
   \<forall>i < length cs. cs ! i = Init3D \<longrightarrow> fst (run Kp Kv Ks cs w) ! i \<noteq> h \<Longrightarrow>
   \<not> is_active_3d (snd (run Kp Kv Ks cs w)) h"
proof (induction cs arbitrary: w)
  case Nil
  then show ?case by simp
next
  case (Cons c cs)
  from Cons.prems(3) have first: "c = Init3D \<longrightarrow> fst (step Kp Kv Ks c w) \<noteq> h"
    by fastforce
  have rest: "\<forall>i < length cs. cs ! i = Init3D \<longrightarrow>
                fst (run Kp Kv Ks cs (snd (step Kp Kv Ks c w))) ! i \<noteq> h"
  proof (intro allI impI)
    fix i assume "i < length cs" and "cs ! i = Init3D"
    with Cons.prems(3) [rule_format, of "Suc i"] show
      "fst (run Kp Kv Ks cs (snd (step Kp Kv Ks c w))) ! i \<noteq> h" by simp
  qed
  from Cons.prems first have "\<not> is_active_3d (snd (step Kp Kv Ks c w)) h"
    by (simp add: step_keeps_inactive_3d)
  with Cons.IH [OF step_preserves_wf [OF Cons.prems(1)] _ rest] show ?case by simp
qed

lemma run_inits_count_3d:
  "wf_world w \<Longrightarrow> \<forall>r \<in> set (fst (run Kp Kv Ks (replicate n Init3D) w)). 0 \<le> r \<Longrightarrow>
   active_count (g_handles (snd (run Kp Kv Ks (replicate n Init3D) w))) =
     active_count (g_handles w) + n"
proof (induction n arbitrary: w)
  case 0
  then show ?case by simp
next
  case (Suc n)
  obtain h wa where eq: "mmg3d_init Kv w = (h, wa)" by (cases "mmg3d_init Kv w")
  from Suc.prems(2) eq have h: "0 \<le> h"
    and rest: "\<forall>r \<in> set (fst (run Kp Kv Ks (replicate n Init3D) wa)). 0 \<le> r" by simp_all
  have wfa: "wf_world wa" using mmg3d_init_preserves_wf [OF Suc.prems(1), of Kv] eq by simp
  from Suc.IH [OF wfa rest] mmg3d_init_counts [OF Suc.prems(1) eq h] eq
  show ?case by simp
qed

lemma full_table_3d:
  assumes "wf_world w" and "find_free_loop 0 (g_handles w) = - 1"
  shows "mmg3d_init K w = (- 1, w\<lparr>g_initialized := 1\<rparr>)"
  using assms by (simp add: mmg3d_init_wf Let_def)

lemma construction_fails_3d:
  assumes "wf_world w"
    and "fst (fst (MMG3D_Init_mesh K (native w))) \<noteq> 1 \<or>
         fst (snd (fst (MMG3D_Init_mesh K (native w)))) = NULL"
  shows "fst (mmg3d_init K w) = - 1"
    and "g_handles (snd (mmg3d_init K w)) = g_handles w"
  using assms by (auto simp add: mmg3d_init_wf Let_def find_free_loop_neg)

lemma same_table_available_3d:
  assumes "wf_world w" and "wf_world wa" and "g_handles wa = g_handles w"
  shows "fst (mmg3d_get_available_handles wa) = fst (mmg3d_get_available_handles w)"
  using assms by (simp add: mmg3d_get_available_handles_wf)

lemma exhausted_3d:
  assumes wf: "wf_world w"
    and n: "active_count (g_handles w) + n = MAX_HANDLES"
    and ok: "\<forall>r \<in> set (fst (run Kp Kv Ks (replicate n Init3D) w)). 0 \<le> r"
  shows "fst (mmg3d_get_available_handles (snd (run Kp Kv Ks (replicate n Init3D) w))) = 0"
    and "fst (mmg3d_init Kv (snd (run Kp Kv Ks (replicate n Init3D) w))) = - 1"
proof -
  let ?w = "snd (run Kp Kv Ks (replicate n Init3D) w)"
  have wfa: "wf_world ?w" by (rule run_preserves_wf [OF wf])
  then have len: "length (g_handles ?w) = MAX_HANDLES"
    by (simp add: wf_world_def table_ok_def)
  have "active_count (g_handles ?w) = active_count (g_handles w) + n"
    by (rule run_inits_count_3d [OF wf ok])
  with n have "active_count (g_handles ?w) = MAX_HANDLES" by simp
  with available_plus_active [OF len]
  have av: "available_loop 0 0 (g_handles ?w) = 0" by simp
  then show "fst (mmg3d_get_available_handles ?w) = 0"
    by (simp add: mmg3d_get_available_handles_wf [OF wfa])
  from av have "find_free_loop 0 (g_handles ?w) = - 1"
    by (simp add: available_zero_iff [OF len])
  then show "fst (mmg3d_init Kv ?w) = - 1"
    by (simp add: full_table_3d [OF wfa])
qed

lemma first_free_3d:
  assumes wf: "wf_world w"
    and free: "\<exists>i < MAX_HANDLES. active (g_handles w ! i) = 0"
    and ok: "fst (fst (MMG3D_Init_mesh K (native w))) = 1"
            "fst (snd (fst (MMG3D_Init_mesh K (native w)))) \<noteq> NULL"
  shows "mmg3d_init K w =
           (find_free_loop 0 (g_handles w),
            w\<lparr>g_initialized := 1,
              native := MMG3D_Init_parameters K (fst (snd (fst (MMG3D_Init_mesh K (native w)))))
                          (snd (MMG3D_Init_mesh K (native w))),
              g_handles := (g_handles w)
                [nat (find_free_loop 0 (g_handles w)) :=
                   \<lparr>mesh = fst (snd (fst (MMG3D_Init_mesh K (native w)))),
                     sol = snd (snd (fst (MMG3D_Init_mesh K (native w)))), active = 1\<rparr>]\<rparr>)"
    and "0 \<le> find_free_loop 0 (g_handles w)"
    and "find_free_loop 0 (g_handles w) \<le> 63"
    and "active (g_handles w ! nat (find_free_loop 0 (g_handles w))) = 0"
    and "\<forall>j < nat (find_free_loop 0 (g_handles w)). active (g_handles w ! j) \<noteq> 0"
proof -
  from free have ne: "find_free_loop 0 (g_handles w) \<noteq> - 1"
    by (auto simp add: find_free_loop_none)
  with find_free_loop_bounds [of 0 "g_handles w"]
  show nonneg: "0 \<le> find_free_loop 0 (g_handles w)" and "find_free_loop 0 (g_handles w) \<le> 63"
    by auto
  from find_free_loop_first [OF nonneg]
  show "active (g_handles w ! nat (find_free_loop 0 (g_handles w))) = 0"
    and "\<forall>j < nat (find_free_loop 0 (g_handles w)). active (g_handles w ! j) \<noteq> 0"
    by auto
  from wf nonneg ok show "mmg3d_init K w =
           (find_free_loop 0 (g_handles w),
            w\<lparr>g_initialized := 1,
              native := MMG3D_Init_parameters K (fst (snd (fst (MMG3D_Init_mesh K (native w)))))
                          (snd (MMG3D_Init_mesh K (native w))),
              g_handles := (g_handles w)
                [nat (find_free_loop 0 (g_handles w)) :=
                   \<lparr>mesh = fst (snd (fst (MMG3D_Init_mesh K (native w)))),
                     sol = snd (snd (fst (MMG3D_Init_mesh K (native w)))), active = 1\<rparr>]\<rparr>)"
    by (simp add: mmg3d_init_wf Let_def)
qed

subsection \<open>mmgs.c\<close>

lemma step_keeps_active_s:
  assumes "wf_world w" and "is_active_s w h" and "c \<noteq> FreeS h"
  shows "is_active_s (snd (step Kp Kv Ks c w)) h"
  using assms
  by (cases c)
     (simp_all add: mmgs_init_keeps_active mmgs_free_keeps_active
        others_2d_decide(2) [OF mmg2d_init_frame] others_2d_decide(2) [OF mmg2d_free_frame]
        others_3d_decide(2) [OF mmg3d_init_frame] others_3d_decide(2) [OF mmg3d_free_frame])

lemma step_keeps_inactive_s:
  assumes "wf_world w" and "\<not> is_active_s w h"
    and "c = InitS \<longrightarrow> fst (step Kp Kv Ks c w) \<noteq> h"
  shows "\<not> is_active_s (snd (step Kp Kv Ks c w)) h"
  using assms
  by (cases c)
     (simp_all add: mmgs_init_keeps_inactive mmgs_free_keeps_inactive
        others_2d_decide(2) [OF mmg2d_init_frame] others_2d_decide(2) [OF mmg2d_free_frame]
        others_3d_decide(2) [OF mmg3d_init_frame] others_3d_decide(2) [OF mmg3d_free_frame])

lemma run_keeps_active_s:
  "wf_world w \<Longrightarrow> is_active_s w h \<Longrightarrow> FreeS h \<notin> set cs \<Longrightarrow>
   is_active_s (snd (run Kp Kv Ks cs w)) h"
proof (induction cs arbitrary: w)
  case Nil
  then show ?case by simp
next
  case (Cons c cs)
  from Cons.prems have "c \<noteq> FreeS h" and rest: "FreeS h \<notin> set cs" by auto
  with Cons.prems have "is_active_s (snd (step Kp Kv Ks c w)) h"
    by (simp add: step_keeps_active_s)
  with Cons.IH [OF step_preserves_wf [OF Cons.prems(1)] _ rest] show ?case by simp
qed

lemma run_keeps_inactive_s:
  "wf_world w \<Longrightarrow> \<not> is_active_s w h \<Longrightarrow>
   \<forall>i < length cs. cs ! i = InitS \<longrightarrow> fst (run Kp Kv Ks cs w) ! i \<noteq> h \<Longrightarrow>
   \<not> is_active_s (snd (run Kp Kv Ks cs w)) h"
proof (induction cs arbitrary: w)
  case Nil
  then show ?case by simp
next
  case (Cons c cs)
  from Cons.prems(3) have first: "c = InitS \<longrightarrow> fst (step Kp Kv Ks c w) \<noteq> h"
    by fastforce
  have rest: "\<forall>i < length cs. cs ! i = InitS \<longrightarrow>
                fst (run Kp Kv Ks cs (snd (step Kp Kv Ks c w))) ! i \<noteq> h"
  proof (intro allI impI)
    fix i assume "i < length cs" and "cs ! i = InitS"
    with Cons.prems(3) [rule_format, of "Suc i"] show
      "fst (run Kp Kv Ks cs (snd (step Kp Kv Ks c w))) ! i \<noteq> h" by simp
  qed
  from Cons.prems first have "\<not> is_active_s (snd (step Kp Kv Ks c w)) h"
    by (simp add: step_keeps_inactive_s)
  with Cons.IH [OF step_preserves_wf [OF Cons.prems(1)] _ rest] show ?case by simp
qed

lemma run_inits_count_s:
  "wf_world w \<Longrightarrow> \<forall>r \<in> set (fst (run Kp Kv Ks (replicate n InitS) w)). 0 \<le> r \<Longrightarrow>
   active_count (g_handles_s (snd (run Kp Kv Ks (replicate n InitS) w))) =
     active_count (g_handles_s w) + n"
proof (induction n arbitrary: w)
  case 0
  then show ?case by simp
next
  case (Suc n)
  obtain h wa where eq: "mmgs_init Ks w = (h, wa)" by (cases "mmgs_init Ks w")
  from Suc.prems(2) eq have h: "0 \<le> h"
    and rest: "\<forall>r \<in> set (fst (run Kp Kv Ks (replicate n InitS) wa)). 0 \<le> r" by simp_all
  have wfa: "wf_world wa" using mmgs_init_preserves_wf [OF Suc.prems(1), of Ks] eq by simp
  from Suc.IH [OF wfa rest] mmgs_init_counts [OF Suc.prems(1) eq h] eq
  show ?case by simp
qed

lemma full_table_s:
  assumes "wf_world w" and "find_free_loop 0 (g_handles_s w) = - 1"
  shows "mmgs_init K w = (- 1, w\<lparr>g_initialized_s := 1\<rparr>)"
  using assms by (simp add: mmgs_init_wf Let_def)

lemma construction_fails_s:
  assumes "wf_world w"
    and "fst (fst (MMGS_Init_mesh K (native w))) \<noteq> 1 \<or>
         fst (snd (fst (MMGS_Init_mesh K (native w)))) = NULL"
  shows "fst (mmgs_init K w) = - 1"
    and "g_handles_s (snd (mmgs_init K w)) = g_handles_s w"
  using assms by (auto simp add: mmgs_init_wf Let_def find_free_loop_neg)

lemma same_table_available_s:
  assumes "wf_world w" and "wf_world wa" and "g_handles_s wa = g_handles_s w"
  shows "fst (mmgs_get_available_handles wa) = fst (mmgs_get_available_handles w)"
  using assms by (simp add: mmgs_get_available_handles_wf)

lemma exhausted_s:
  assumes wf: "wf_world w"
    and n: "active_count (g_handles_s w) + n = MAX_HANDLES"
    and ok: "\<forall>r \<in> set (fst (run Kp Kv Ks (replicate n InitS) w)). 0 \<le> r"
  shows "fst (mmgs_get_available_handles (snd (run Kp Kv Ks (replicate n InitS) w))) = 0"
    and "fst (mmgs_init Ks (snd (run Kp Kv Ks (replicate n InitS) w))) = - 1"
proof -
  let ?w = "snd (run Kp Kv Ks (replicate n InitS) w)"
  have wfa: "wf_world ?w" by (rule run_preserves_wf [OF wf])
  then have len: "length (g_handles_s ?w) = MAX_HANDLES"
    by (simp add: wf_world_def table_ok_def)
  have "active_count (g_handles_s ?w) = active_count (g_handles_s w) + n"
    by (rule run_inits_count_s [OF wf ok])
  with n have "active_count (g_handles_s ?w) = MAX_HANDLES" by simp
  with available_plus_active [OF len]
  have av: "available_loop 0 0 (g_handles_s ?w) = 0" by simp
  then show "fst (mmgs_get_available_handles ?w) = 0"
    by (simp add: mmgs_get_available_handles_wf [OF wfa])
  from av have "find_free_loop 0 (g_handles_s ?w) = - 1"
    by (simp add: available_zero_iff [OF len])
  then show "fst (mmgs_init Ks ?w) = - 1"
    by (simp add: full_table_s [OF wfa])
qed

lemma first_free_s:
  assumes wf: "wf_world w"
    and free: "\<exists>i < MAX_HANDLES. active (g_handles_s w ! i) = 0"
    and ok: "fst (fst (MMGS_Init_mesh K (native w))) = 1"
            "fst (snd (fst (MMGS_Init_mesh K (native w)))) \<noteq> NULL"
  shows "mmgs_init K w =
           (find_free_loop 0 (g_handles_s w),
            w\<lparr>g_initialized_s := 1,
              native := MMGS_Init_parameters K (fst (snd (fst (MMGS_Init_mesh K (native w)))))
                          (snd (MMGS_Init_mesh K (native w))),
              g_handles_s := (g_handles_s w)
                [nat (find_free_loop 0 (g_handles_s w)) :=
                   \<lparr>mesh = fst (snd (fst (MMGS_Init_mesh K (native w)))),
                     sol = snd (snd (fst (MMGS_Init_mesh K (native w)))), active = 1\<rparr>]\<rparr>)"
    and "0 \<le> find_free_loop 0 (g_handles_s w)"
    and "find_free_loop 0 (g_handles_s w) \<le> 63"
    and "active (g_handles_s w ! nat (find_free_loop 0 (g_handles_s w))) = 0"
    and "\<forall>j < nat (find_free_loop 0 (g_handles_s w)). active (g_handles_s w ! j) \<noteq> 0"
proof -
  from free have ne: "find_free_loop 0 (g_handles_s w) \<noteq> - 1"
    by (auto simp add: find_free_loop_none)
  with find_free_loop_bounds [of 0 "g_handles_s w"]
  show nonneg: "0 \<le> find_free_loop 0 (g_handles_s w)" and "find_free_loop 0 (g_handles_s w) \<le> 63"
    by auto
  from find_free_loop_first [OF nonneg]
  show "active (g_handles_s w ! nat (find_free_loop 0 (g_handles_s w))) = 0"
    and "\<forall>j < nat (find_free_loop 0 (g_handles_s w)). active (g_handles_s w ! j) \<noteq> 0"
    by auto
  from wf nonneg ok show "mmgs_init K w =
           (find_free_loop 0 (g_handles_s w),
            w\<lparr>g_initialized_s := 1,
              native := MMGS_Init_parameters K (fst (snd (fst (MMGS_Init_mesh K (native w)))))
                          (snd (MMGS_Init_mesh K (native w))),
              g_handles_s := (g_handles_s w)
                [nat (find_free_loop 0 (g_handles_s w)) :=
                   \<lparr>mesh = fst (snd (fst (MMGS_Init_mesh K (native w)))),
                     sol = snd (snd (fst (MMGS_Init_mesh K (native w)))), active = 1\<rparr>]\<rparr>)"
    by (simp add: mmgs_init_wf Let_def)
qed

section \<open>Calls of every entry point\<close>

lemma statics_simps [simp]:
  "statics (w\<lparr>heap := hp\<rparr>) = statics w"
  "statics (w\<lparr>native := k\<rparr>) = statics w"
  "statics (w\<lparr>fault := b\<rparr>) = statics w"
  by (simp_all add: statics_def)

lemma statics_wf: "statics wa = statics w \<Longrightarrow> wf_world wa = wf_world w"
  by (simp add: statics_def wf_world_def)

lemma statics_active:
  assumes "statics wa = statics w"
  shows "is_active_2d wa h = is_active_2d w h"
    and "is_active_3d wa h = is_active_3d w h"
    and "is_active_s wa h = is_active_s w h"
  using assms by (simp_all add: statics_def is_active_2d_def is_active_3d_def is_active_s_def)

lemma statics_flags:
  assumes "statics wa = statics w"
  shows "g_initialized_2d wa = g_initialized_2d w"
    and "g_initialized wa = g_initialized w"
    and "g_initialized_s wa = g_initialized_s w"
  using assms by (simp_all add: statics_def)

lemma statics_others:
  assumes "statics wa = statics w"
  shows "others_2d wa = others_2d w" and "others_3d wa = others_3d w"
    and "others_s wa = others_s w"
  using assms by (simp_all add: statics_def others_2d_def others_3d_def others_s_def)

text \<open>The check lets through: the code after it runs.\<close>

lemma check_pass:
  "a \<noteq> 0 \<Longrightarrow> (let (v, w) = (a, w0) in if v = (0::int) then s w else b w) = b w0"
  by simp

subsection \<open>mmg2d.c: calls\<close>

lemma ensure_initialized_2d_ready: "g_initialized_2d w = 1 \<Longrightarrow> ensure_initialized_2d w = w"
  by (simp add: ensure_initialized_2d_def)

lemma validate_handle_2d_ready:
  "g_initialized_2d w = 1 \<Longrightarrow> is_active_2d w h \<Longrightarrow> validate_handle_2d h w = (active (g_handles_2d w ! nat h), w)"
  by (simp add: validate_handle_2d_def ensure_initialized_2d_ready is_active_2d_def)

lemma validate_handle_2d_accepts:
  "g_initialized_2d w = 1 \<Longrightarrow> is_active_2d w h \<Longrightarrow> fst (validate_handle_2d h w) \<noteq> 0"
  by (simp add: validate_handle_2d_ready is_active_2d_def)

lemma validate_handle_2d_rejects:
  "wf_world w \<Longrightarrow> \<not> is_active_2d w h \<Longrightarrow> fst (validate_handle_2d h w) = 0"
  by (simp add: validate_handle_2d_inactive)

lemma statics_ensure_initialized_2d:
  "wf_world w \<Longrightarrow> statics (ensure_initialized_2d w) = statics (w\<lparr>g_initialized_2d := 1\<rparr>)"
  by (simp add: ensure_initialized_2d_wf)

lemma ensure_initialized_2d_keeps:
  assumes "wf_world w"
  shows "wf_world (ensure_initialized_2d w)"
    and "is_active_2d (ensure_initialized_2d w) h = is_active_2d w h"
    and "g_initialized_2d (ensure_initialized_2d w) = 1"
    and "others_2d (ensure_initialized_2d w) = others_2d w"
  using assms
  by (simp_all add: ensure_initialized_2d_wf wf_world_flag_2d is_active_2d_def)

lemma mmg2d_init_flag: "wf_world w \<Longrightarrow> g_initialized_2d (snd (mmg2d_init K w)) = 1"
  by (simp add: mmg2d_init_wf Let_def)

lemma mmg2d_free_flag: "wf_world w \<Longrightarrow> g_initialized_2d (snd (mmg2d_free K h w)) = 1"
  by (cases "is_active_2d w h") (simp_all add: mmg2d_free_active mmg2d_free_inactive)

lemma mmg2d_get_available_handles_statics:
  "statics (snd (mmg2d_get_available_handles w)) = statics (ensure_initialized_2d w)"
  by (simp add: mmg2d_get_available_handles_def Let_def)

lemma mmg2d_get_max_handles_statics:
  "statics (snd (mmg2d_get_max_handles w)) = statics w"
  by (simp add: mmg2d_get_max_handles_def)

lemma mmg2d_free_array_statics:
  "statics (snd (mmg2d_free_array p w)) = statics w"
  by (simp add: mmg2d_free_array_def)

lemma mmg2d_free_accepted:
  assumes "g_initialized_2d w = 1" and "is_active_2d w h"
  shows "mmg2d_free Kp h w =
     (let e = g_handles_2d w ! nat h in
      (1,
       w\<lparr>native := MMG2D_Free_all Kp (mesh e) (sol e) (native w),
         g_handles_2d := (g_handles_2d w)[nat h := \<lparr>mesh = NULL, sol = NULL, active = 0\<rparr>]\<rparr>))"
  unfolding mmg2d_free_def validate_handle_2d_ready [OF assms]
  by (rule check_pass) (use assms(2) in \<open>simp add: is_active_2d_def\<close>)

lemma mmg2d_set_mesh_size_statics:
  "statics (snd (mmg2d_set_mesh_size Kp h ia ib ic iu w)) = statics (ensure_initialized_2d w)"
  unfolding mmg2d_set_mesh_size_def Let_def case_prod_beta
  by simp

lemma mmg2d_set_mesh_size_accepted:
  assumes "g_initialized_2d w = 1" and "is_active_2d w h"
  shows "mmg2d_set_mesh_size Kp h ia ib ic iu w =
     (let e = g_handles_2d w ! nat h;
          (r, k) = MMG2D_Set_meshSize Kp (mesh e) ia ib ic iu (native w)
      in (r, w\<lparr>native := k\<rparr>))"
  unfolding mmg2d_set_mesh_size_def validate_handle_2d_ready [OF assms]
  by (rule check_pass) (use assms(2) in \<open>simp add: is_active_2d_def\<close>)

lemma mmg2d_get_mesh_size_statics:
  "statics (snd (mmg2d_get_mesh_size Kp h oa ob oc ou w)) = statics (ensure_initialized_2d w)"
  unfolding mmg2d_get_mesh_size_def Let_def case_prod_beta
  by simp

lemma mmg2d_get_mesh_size_accepted:
  assumes "g_initialized_2d w = 1" and "is_active_2d w h"
  shows "mmg2d_get_mesh_size Kp h oa ob oc ou w =
     (let e = g_handles_2d w ! nat h;
          (result, np', nt', nquad', na') = MMG2D_Get_meshSize Kp (mesh e) (native w)
      in if result = 1 then ((result, map_option (\<lambda>_. np') oa, map_option (\<lambda>_. nt') ob, map_option (\<lambda>_. nquad') oc, map_option (\<lambda>_. na') ou), w) else ((result, oa, ob, oc, ou), w))"
  unfolding mmg2d_get_mesh_size_def validate_handle_2d_ready [OF assms]
  by (rule check_pass) (use assms(2) in \<open>simp add: is_active_2d_def\<close>)

lemma mmg2d_set_vertex_statics:
  "statics (snd (mmg2d_set_vertex Kp h xa xb ia ib w)) = statics (ensure_initialized_2d w)"
  unfolding mmg2d_set_vertex_def Let_def case_prod_beta
  by simp

lemma mmg2d_set_vertex_accepted:
  assumes "g_initialized_2d w = 1" and "is_active_2d w h"
  shows "mmg2d_set_vertex Kp h xa xb ia ib w =
     (let e = g_handles_2d w ! nat h;
          (r, k) = MMG2D_Set_vertex Kp (mesh e) xa xb ia ib (native w)
      in (r, w\<lparr>native := k\<rparr>))"
  unfolding mmg2d_set_vertex_def validate_handle_2d_ready [OF assms]
  by (rule check_pass) (use assms(2) in \<open>simp add: is_active_2d_def\<close>)

lemma mmg2d_set_vertices_statics:
  "statics (snd (mmg2d_set_vertices Kp h xs ro w)) = statics (ensure_initialized_2d w)"
  unfolding mmg2d_set_vertices_def Let_def case_prod_beta
  by simp

lemma mmg2d_set_vertices_accepted:
  assumes "g_initialized_2d w = 1" and "is_active_2d w h"
  shows "mmg2d_set_vertices Kp h xs ro w =
     (let e = g_handles_2d w ! nat h;
          (r, k) = MMG2D_Set_vertices Kp (mesh e) xs ro (native w)
      in (r, w\<lparr>native := k\<rparr>))"
  unfolding mmg2d_set_vertices_def validate_handle_2d_ready [OF assms]
  by (rule check_pass) (use assms(2) in \<open>simp add: is_active_2d_def\<close>)

lemma mmg2d_get_vertices_statics:
  "statics (snd (mmg2d_get_vertices Kp fa fb fc fd h out w)) = statics (ensure_initialized_2d w)"
  unfolding mmg2d_get_vertices_def Let_def case_prod_beta fail_with_count_def
  by (cases fa; cases fb; cases fc; cases fd) simp_all

lemma mmg2d_get_vertices_accepted:
  assumes "g_initialized_2d w = 1" and "is_active_2d w h"
  shows "mmg2d_get_vertices Kp fa fb fc fd h out w =
     (let m = mesh (g_handles_2d w ! nat h);
          (r, np, nt, nquad, na) = MMG2D_Get_meshSize Kp m (native w)
      in
      if r \<noteq> 1 then (fail_with_count out, w)
      else if np = 0 then (fail_with_count out, w)
      else
        let (vertices, h1) = malloc fa 8 (size_t (int32 (2 * np) * 8)) (heap w) in
        if vertices = NULL
        then (fail_with_count out, w\<lparr>heap := free NULL (free NULL (free NULL (free vertices h1)))\<rparr>)
        else
        let (refs, h2) = malloc fb 4 (size_t (np * 4)) h1 in
        if refs = NULL
        then (fail_with_count out, w\<lparr>heap := free NULL (free NULL (free refs (free vertices h2)))\<rparr>)
        else
        let (corners, h3) = malloc fc 4 (size_t (np * 4)) h2 in
        if corners = NULL
        then (fail_with_count out, w\<lparr>heap := free NULL (free corners (free refs (free vertices h3)))\<rparr>)
        else
        let (required, h4) = malloc fd 4 (size_t (np * 4)) h3 in
        if required = NULL
        then (fail_with_count out, w\<lparr>heap := free required (free corners (free refs (free vertices h4)))\<rparr>)
        else
        let (result, vertices', refs', corners', required') = MMG2D_Get_vertices Kp m (native w);
            h5 = poke required (map I32 required') (poke corners (map I32 corners') (poke refs (map I32 refs') (poke vertices (map D vertices') h4)));
            h6 = free required (free corners (free refs h5))
        in
        if result \<noteq> 1 then (fail_with_count out, w\<lparr>heap := free vertices h6\<rparr>)
        else ((vertices, map_option (\<lambda>_. np) out), w\<lparr>heap := h6\<rparr>))"
  unfolding mmg2d_get_vertices_def validate_handle_2d_ready [OF assms]
  by (rule check_pass) (use assms(2) in \<open>simp add: is_active_2d_def\<close>)

lemma mmg2d_set_triangle_statics:
  "statics (snd (mmg2d_set_triangle Kp h ia ib ic iu iv w)) = statics (ensure_initialized_2d w)"
  unfolding mmg2d_set_triangle_def Let_def case_prod_beta
  by simp

lemma mmg2d_set_triangle_accepted:
  assumes "g_initialized_2d w = 1" and "is_active_2d w h"
  shows "mmg2d_set_triangle Kp h ia ib ic iu iv w =
     (let e = g_handles_2d w ! nat h;
          (r, k) = MMG2D_Set_triangle Kp (mesh e) ia ib ic iu iv (native w)
      in (r, w\<lparr>native := k\<rparr>))"
  unfolding mmg2d_set_triangle_def validate_handle_2d_ready [OF assms]
  by (rule check_pass) (use assms(2) in \<open>simp add: is_active_2d_def\<close>)

lemma mmg2d_set_triangles_statics:
  "statics (snd (mmg2d_set_triangles Kp h js ro w)) = statics (ensure_initialized_2d w)"
  unfolding mmg2d_set_triangles_def Let_def case_prod_beta
  by simp

lemma mmg2d_set_triangles_accepted:
  assumes "g_initialized_2d w = 1" and "is_active_2d w h"
  shows "mmg2d_set_triangles Kp h js ro w =
     (let e = g_handles_2d w ! nat h;
          (r, k) = MMG2D_Set_triangles Kp (mesh e) js ro (native w)
      in (r, w\<lparr>native := k\<rparr>))"
  unfolding mmg2d_set_triangles_def validate_handle_2d_ready [OF assms]
  by (rule check_pass) (use assms(2) in \<open>simp add: is_active_2d_def\<close>)

lemma mmg2d_get_triangles_statics:
  "statics (snd (mmg2d_get_triangles Kp fa fb fc h out w)) = statics (ensure_initialized_2d w)"
  unfolding mmg2d_get_triangles_def Let_def case_prod_beta fail_with_count_def
  by (cases fa; cases fb; cases fc) simp_all

lemma mmg2d_get_triangles_accepted:
  assumes "g_initialized_2d w = 1" and "is_active_2d w h"
  shows "mmg2d_get_triangles Kp fa fb fc h out w =
     (let m = mesh (g_handles_2d w ! nat h);
          (r, np, nt, nquad, na) = MMG2D_Get_meshSize Kp m (native w)
      in
      if r \<noteq> 1 then (fail_with_count out, w)
      else if nt = 0 then (fail_with_count out, w)
      else
        let (tria, h1) = malloc fa 4 (size_t (int32 (3 * nt) * 4)) (heap w) in
        if tria = NULL
        then (fail_with_count out, w\<lparr>heap := free NULL (free NULL (free tria h1))\<rparr>)
        else
        let (refs, h2) = malloc fb 4 (size_t (nt * 4)) h1 in
        if refs = NULL
        then (fail_with_count out, w\<lparr>heap := free NULL (free refs (free tria h2))\<rparr>)
        else
        let (required, h3) = malloc fc 4 (size_t (nt * 4)) h2 in
        if required = NULL
        then (fail_with_count out, w\<lparr>heap := free required (free refs (free tria h3))\<rparr>)
        else
        let (result, tria', refs', required') = MMG2D_Get_triangles Kp m (native w);
            h4 = poke required (map I32 required') (poke refs (map I32 refs') (poke tria (map I32 tria') h3));
            h5 = free required (free refs h4)
        in
        if result \<noteq> 1 then (fail_with_count out, w\<lparr>heap := free tria h5\<rparr>)
        else ((tria, map_option (\<lambda>_. nt) out), w\<lparr>heap := h5\<rparr>))"
  unfolding mmg2d_get_triangles_def validate_handle_2d_ready [OF assms]
  by (rule check_pass) (use assms(2) in \<open>simp add: is_active_2d_def\<close>)

lemma mmg2d_set_edge_statics:
  "statics (snd (mmg2d_set_edge Kp h ia ib ic iu w)) = statics (ensure_initialized_2d w)"
  unfolding mmg2d_set_edge_def Let_def case_prod_beta
  by simp

lemma mmg2d_set_edge_accepted:
  assumes "g_initialized_2d w = 1" and "is_active_2d w h"
  shows "mmg2d_set_edge Kp h ia ib ic iu w =
     (let e = g_handles_2d w ! nat h;
          (r, k) = MMG2D_Set_edge Kp (mesh e) ia ib ic iu (native w)
      in (r, w\<lparr>native := k\<rparr>))"
  unfolding mmg2d_set_edge_def validate_handle_2d_ready [OF assms]
  by (rule check_pass) (use assms(2) in \<open>simp add: is_active_2d_def\<close>)

lemma mmg2d_set_edges_statics:
  "statics (snd (mmg2d_set_edges Kp h js ro w)) = statics (ensure_initialized_2d w)"
  unfolding mmg2d_set_edges_def Let_def case_prod_beta
  by simp

lemma mmg2d_set_edges_accepted:
  assumes "g_initialized_2d w = 1" and "is_active_2d w h"
  shows "mmg2d_set_edges Kp h js ro w =
     (let e = g_handles_2d w ! nat h;
          (r, k) = MMG2D_Set_edges Kp (mesh e) js ro (native w)
      in (r, w\<lparr>native := k\<rparr>))"
  unfolding mmg2d_set_edges_def validate_handle_2d_ready [OF assms]
  by (rule check_pass) (use assms(2) in \<open>simp add: is_active_2d_def\<close>)

lemma mmg2d_get_edges_statics:
  "statics (snd (mmg2d_get_edges Kp fa fb fc fd h out w)) = statics (ensure_initialized_2d w)"
  unfolding mmg2d_get_edges_def Let_def case_prod_beta fail_with_count_def
  by (cases fa; cases fb; cases fc; cases fd) simp_all

lemma mmg2d_get_edges_accepted:
  assumes "g_initialized_2d w = 1" and "is_active_2d w h"
  shows "mmg2d_get_edges Kp fa fb fc fd h out w =
     (let m = mesh (g_handles_2d w ! nat h);
          (r, np, nt, nquad, na) = MMG2D_Get_meshSize Kp m (native w)
      in
      if r \<noteq> 1 then (fail_with_count out, w)
      else if na = 0 then (fail_with_count out, w)
      else
        let (edges, h1) = malloc fa 4 (size_t (int32 (2 * na) * 4)) (heap w) in
        if edges = NULL
        then (fail_with_count out, w\<lparr>heap := free NULL (free NULL (free NULL (free edges h1)))\<rparr>)
        else
        let (refs, h2) = malloc fb 4 (size_t (na * 4)) h1 in
        if refs = NULL
        then (fail_with_count out, w\<lparr>heap := free NULL (free NULL (free refs (free edges h2)))\<rparr>)
        else
        let (ridges, h3) = malloc fc 4 (size_t (na * 4)) h2 in
        if ridges = NULL
        then (fail_with_count out, w\<lparr>heap := free NULL (free ridges (free refs (free edges h3)))\<rparr>)
        else
        let (required, h4) = malloc fd 4 (size_t (na * 4)) h3 in
        if required = NULL
        then (fail_with_count out, w\<lparr>heap := free required (free ridges (free refs (free edges h4)))\<rparr>)
        else
        let (result, edges', refs', ridges', required') = MMG2D_Get_edges Kp m (native w);
            h5 = poke required (map I32 required') (poke ridges (map I32 ridges') (poke refs (map I32 refs') (poke edges (map I32 edges') h4)));
            h6 = free required (free ridges (free refs h5))
        in
        if result \<noteq> 1 then (fail_with_count out, w\<lparr>heap := free edges h6\<rparr>)
        else ((edges, map_option (\<lambda>_. na) out), w\<lparr>heap := h6\<rparr>))"
  unfolding mmg2d_get_edges_def validate_handle_2d_ready [OF assms]
  by (rule check_pass) (use assms(2) in \<open>simp add: is_active_2d_def\<close>)

lemma mmg2d_set_iparameter_statics:
  "statics (snd (mmg2d_set_iparameter Kp h ia ib w)) = statics (ensure_initialized_2d w)"
  unfolding mmg2d_set_iparameter_def Let_def case_prod_beta
  by simp

lemma mmg2d_set_iparameter_accepted:
  assumes "g_initialized_2d w = 1" and "is_active_2d w h"
  shows "mmg2d_set_iparameter Kp h ia ib w =
     (let e = g_handles_2d w ! nat h;
          (r, k) = MMG2D_Set_iparameter Kp (mesh e) (sol e) ia ib (native w)
      in (r, w\<lparr>native := k\<rparr>))"
  unfolding mmg2d_set_iparameter_def validate_handle_2d_ready [OF assms]
  by (rule check_pass) (use assms(2) in \<open>simp add: is_active_2d_def\<close>)

lemma mmg2d_set_dparameter_statics:
  "statics (snd (mmg2d_set_dparameter Kp h ia xa w)) = statics (ensure_initialized_2d w)"
  unfolding mmg2d_set_dparameter_def Let_def case_prod_beta
  by simp

lemma mmg2d_set_dparameter_accepted:
  assumes "g_initialized_2d w = 1" and "is_active_2d w h"
  shows "mmg2d_set_dparameter Kp h ia xa w =
     (let e = g_handles_2d w ! nat h;
          (r, k) = MMG2D_Set_dparameter Kp (mesh e) (sol e) ia xa (native w)
      in (r, w\<lparr>native := k\<rparr>))"
  unfolding mmg2d_set_dparameter_def validate_handle_2d_ready [OF assms]
  by (rule check_pass) (use assms(2) in \<open>simp add: is_active_2d_def\<close>)

lemma mmg2d_set_sol_size_statics:
  "statics (snd (mmg2d_set_sol_size Kp h ia ib ic w)) = statics (ensure_initialized_2d w)"
  unfolding mmg2d_set_sol_size_def Let_def case_prod_beta
  by simp

lemma mmg2d_set_sol_size_accepted:
  assumes "g_initialized_2d w = 1" and "is_active_2d w h"
  shows "mmg2d_set_sol_size Kp h ia ib ic w =
     (let e = g_handles_2d w ! nat h;
          (r, k) = MMG2D_Set_solSize Kp (mesh e) (sol e) ia ib ic (native w)
      in (r, w\<lparr>native := k\<rparr>))"
  unfolding mmg2d_set_sol_size_def validate_handle_2d_ready [OF assms]
  by (rule check_pass) (use assms(2) in \<open>simp add: is_active_2d_def\<close>)

lemma mmg2d_get_sol_size_statics:
  "statics (snd (mmg2d_get_sol_size Kp h oa ob oc w)) = statics (ensure_initialized_2d w)"
  unfolding mmg2d_get_sol_size_def Let_def case_prod_beta
  by simp

lemma mmg2d_get_sol_size_accepted:
  assumes "g_initialized_2d w = 1" and "is_active_2d w h"
  shows "mmg2d_get_sol_size Kp h oa ob oc w =
     (let e = g_handles_2d w ! nat h;
          (result, typEntity', np', typSol') = MMG2D_Get_solSize Kp (mesh e) (sol e) (native w)
      in if result = 1 then ((result, map_option (\<lambda>_. typEntity') oa, map_option (\<lambda>_. np') ob, map_option (\<lambda>_. typSol') oc), w) else ((result, oa, ob, oc), w))"
  unfolding mmg2d_get_sol_size_def validate_handle_2d_ready [OF assms]
  by (rule check_pass) (use assms(2) in \<open>simp add: is_active_2d_def\<close>)

lemma mmg2d_set_scalar_sols_statics:
  "statics (snd (mmg2d_set_scalar_sols Kp h xs w)) = statics (ensure_initialized_2d w)"
  unfolding mmg2d_set_scalar_sols_def Let_def case_prod_beta
  by simp

lemma mmg2d_set_scalar_sols_accepted:
  assumes "g_initialized_2d w = 1" and "is_active_2d w h"
  shows "mmg2d_set_scalar_sols Kp h xs w =
     (let e = g_handles_2d w ! nat h;
          (r, k) = MMG2D_Set_scalarSols Kp (sol e) xs (native w)
      in (r, w\<lparr>native := k\<rparr>))"
  unfolding mmg2d_set_scalar_sols_def validate_handle_2d_ready [OF assms]
  by (rule check_pass) (use assms(2) in \<open>simp add: is_active_2d_def\<close>)

lemma mmg2d_get_scalar_sols_statics:
  "statics (snd (mmg2d_get_scalar_sols Kp fa h out w)) = statics (ensure_initialized_2d w)"
  unfolding mmg2d_get_scalar_sols_def Let_def case_prod_beta
  by (cases fa) simp_all

lemma mmg2d_get_scalar_sols_accepted:
  assumes "g_initialized_2d w = 1" and "is_active_2d w h"
  shows "mmg2d_get_scalar_sols Kp fa h out w =
     (let e = g_handles_2d w ! nat h;
          (r, typEntity, np, typSol) = MMG2D_Get_solSize Kp (mesh e) (sol e) (native w)
      in
      if r \<noteq> 1 then ((NULL, map_option (\<lambda>_. 0) out), w)
      else if np = 0 \<or> typSol \<noteq> 1 then ((NULL, map_option (\<lambda>_. 0) out), w)
      else
        let (values, h1) = malloc fa 8 (size_t (np * 8)) (heap w) in
        if values = NULL then ((NULL, map_option (\<lambda>_. 0) out), w\<lparr>heap := h1\<rparr>)
        else
          let (result, values') = MMG2D_Get_scalarSols Kp (sol e) (native w);
              h2 = poke values (map D values') h1
          in
          if result \<noteq> 1
          then ((NULL, map_option (\<lambda>_. 0) out), w\<lparr>heap := free values h2\<rparr>)
          else ((values, map_option (\<lambda>_. np) out), w\<lparr>heap := h2\<rparr>))"
  unfolding mmg2d_get_scalar_sols_def validate_handle_2d_ready [OF assms]
  by (rule check_pass) (use assms(2) in \<open>simp add: is_active_2d_def\<close>)

lemma mmg2d_set_tensor_sols_statics:
  "statics (snd (mmg2d_set_tensor_sols Kp h xs w)) = statics (ensure_initialized_2d w)"
  unfolding mmg2d_set_tensor_sols_def Let_def case_prod_beta
  by simp

lemma mmg2d_set_tensor_sols_accepted:
  assumes "g_initialized_2d w = 1" and "is_active_2d w h"
  shows "mmg2d_set_tensor_sols Kp h xs w =
     (let e = g_handles_2d w ! nat h;
          (r, k) = MMG2D_Set_tensorSols Kp (sol e) xs (native w)
      in (r, w\<lparr>native := k\<rparr>))"
  unfolding mmg2d_set_tensor_sols_def validate_handle_2d_ready [OF assms]
  by (rule check_pass) (use assms(2) in \<open>simp add: is_active_2d_def\<close>)

lemma mmg2d_get_tensor_sols_statics:
  "statics (snd (mmg2d_get_tensor_sols Kp fa h out w)) = statics (ensure_initialized_2d w)"
  unfolding mmg2d_get_tensor_sols_def Let_def case_prod_beta
  by (cases fa) simp_all

lemma mmg2d_get_tensor_sols_accepted:
  assumes "g_initialized_2d w = 1" and "is_active_2d w h"
  shows "mmg2d_get_tensor_sols Kp fa h out w =
     (let e = g_handles_2d w ! nat h;
          (r, typEntity, np, typSol) = MMG2D_Get_solSize Kp (mesh e) (sol e) (native w)
      in
      if r \<noteq> 1 then ((NULL, map_option (\<lambda>_. 0) out), w)
      else if np = 0 \<or> typSol \<noteq> 3 then ((NULL, map_option (\<lambda>_. 0) out), w)
      else
        let (values, h1) = malloc fa 8 (size_t (int32 (np * 3) * 8)) (heap w) in
        if values = NULL then ((NULL, map_option (\<lambda>_. 0) out), w\<lparr>heap := h1\<rparr>)
        else
          let (result, values') = MMG2D_Get_tensorSols Kp (sol e) (native w);
              h2 = poke values (map D values') h1
          in
          if result \<noteq> 1
          then ((NULL, map_option (\<lambda>_. 0) out), w\<lparr>heap := free values h2\<rparr>)
          else ((values, map_option (\<lambda>_. np) out), w\<lparr>heap := h2\<rparr>))"
  unfolding mmg2d_get_tensor_sols_def validate_handle_2d_ready [OF assms]
  by (rule check_pass) (use assms(2) in \<open>simp add: is_active_2d_def\<close>)

lemma mmg2d_remesh_statics:
  "statics (snd (mmg2d_remesh Kp h w)) = statics (ensure_initialized_2d w)"
  unfolding mmg2d_remesh_def Let_def case_prod_beta
  by simp

lemma mmg2d_remesh_accepted:
  assumes "g_initialized_2d w = 1" and "is_active_2d w h"
  shows "mmg2d_remesh Kp h w =
     (let e = g_handles_2d w ! nat h;
          (r, k) = MMG2D_mmg2dlib Kp (mesh e) (sol e) (native w)
      in (r, w\<lparr>native := k\<rparr>))"
  unfolding mmg2d_remesh_def validate_handle_2d_ready [OF assms]
  by (rule check_pass) (use assms(2) in \<open>simp add: is_active_2d_def\<close>)

lemma mmg2d_load_mesh_statics:
  "statics (snd (mmg2d_load_mesh Kp h fname w)) = statics (ensure_initialized_2d w)"
  unfolding mmg2d_load_mesh_def Let_def case_prod_beta
  by simp

lemma mmg2d_load_mesh_accepted:
  assumes "g_initialized_2d w = 1" and "is_active_2d w h"
  shows "mmg2d_load_mesh Kp h fname w =
     (let e = g_handles_2d w ! nat h;
          (r, k) = MMG2D_loadMesh Kp (mesh e) fname (native w)
      in (r, w\<lparr>native := k\<rparr>))"
  unfolding mmg2d_load_mesh_def validate_handle_2d_ready [OF assms]
  by (rule check_pass) (use assms(2) in \<open>simp add: is_active_2d_def\<close>)

lemma mmg2d_save_mesh_statics:
  "statics (snd (mmg2d_save_mesh Kp h fname w)) = statics (ensure_initialized_2d w)"
  unfolding mmg2d_save_mesh_def Let_def case_prod_beta
  by simp

lemma mmg2d_save_mesh_accepted:
  assumes "g_initialized_2d w = 1" and "is_active_2d w h"
  shows "mmg2d_save_mesh Kp h fname w =
     (let e = g_handles_2d w ! nat h;
          (r, k) = MMG2D_saveMesh Kp (mesh e) fname (native w)
      in (r, w\<lparr>native := k\<rparr>))"
  unfolding mmg2d_save_mesh_def validate_handle_2d_ready [OF assms]
  by (rule check_pass) (use assms(2) in \<open>simp add: is_active_2d_def\<close>)

lemma mmg2d_load_sol_statics:
  "statics (snd (mmg2d_load_sol Kp h fname w)) = statics (ensure_initialized_2d w)"
  unfolding mmg2d_load_sol_def Let_def case_prod_beta
  by simp

lemma mmg2d_load_sol_accepted:
  assumes "g_initialized_2d w = 1" and "is_active_2d w h"
  shows "mmg2d_load_sol Kp h fname w =
     (let e = g_handles_2d w ! nat h;
          (r, k) = MMG2D_loadSol Kp (mesh e) (sol e) fname (native w)
      in (r, w\<lparr>native := k\<rparr>))"
  unfolding mmg2d_load_sol_def validate_handle_2d_ready [OF assms]
  by (rule check_pass) (use assms(2) in \<open>simp add: is_active_2d_def\<close>)

lemma mmg2d_save_sol_statics:
  "statics (snd (mmg2d_save_sol Kp h fname w)) = statics (ensure_initialized_2d w)"
  unfolding mmg2d_save_sol_def Let_def case_prod_beta
  by simp

lemma mmg2d_save_sol_accepted:
  assumes "g_initialized_2d w = 1" and "is_active_2d w h"
  shows "mmg2d_save_sol Kp h fname w =
     (let e = g_handles_2d w ! nat h;
          (r, k) = MMG2D_saveSol Kp (mesh e) (sol e) fname (native w)
      in (r, w\<lparr>native := k\<rparr>))"
  unfolding mmg2d_save_sol_def validate_handle_2d_ready [OF assms]
  by (rule check_pass) (use assms(2) in \<open>simp add: is_active_2d_def\<close>)

lemma mmg2d_get_triangle_quality_statics:
  "statics (snd (mmg2d_get_triangle_quality Kp h k w)) = statics (ensure_initialized_2d w)"
  unfolding mmg2d_get_triangle_quality_def Let_def case_prod_beta
  by simp

lemma mmg2d_get_triangle_quality_accepted:
  assumes "g_initialized_2d w = 1" and "is_active_2d w h"
  shows "mmg2d_get_triangle_quality Kp h k w =
     (let e = g_handles_2d w ! nat h in
      (MMG2D_Get_triangleQuality Kp (mesh e) (sol e) k (native w), w))"
  unfolding mmg2d_get_triangle_quality_def validate_handle_2d_ready [OF assms]
  by (rule check_pass) (use assms(2) in \<open>simp add: is_active_2d_def\<close>)

lemma mmg2d_get_triangles_qualities_statics:
  "statics (snd (mmg2d_get_triangles_qualities Kp fa h out w)) = statics (ensure_initialized_2d w)"
  unfolding mmg2d_get_triangles_qualities_def Let_def case_prod_beta
  by (cases fa) (simp_all split: option.splits)

lemma mmg2d_get_triangles_qualities_accepted:
  assumes "g_initialized_2d w = 1" and "is_active_2d w h"
  shows "mmg2d_get_triangles_qualities Kp fa h out w =
     (let e = g_handles_2d w ! nat h;
          (r, np, nt, nquad, na) = MMG2D_Get_meshSize Kp (mesh e) (native w)
      in
      if r \<noteq> 1 then ((NULL, map_option (\<lambda>_. 0) out), w)
      else if nt = 0 then ((NULL, map_option (\<lambda>_. 0) out), w)
      else
        let (qualities, h1) = malloc fa 8 (size_t (nt * 8)) (heap w) in
        if qualities = NULL then ((NULL, map_option (\<lambda>_. 0) out), w\<lparr>heap := h1\<rparr>)
        else
          case qualities_loop
                 (\<lambda>k. MMG2D_Get_triangleQuality Kp (mesh e) (sol e) k (native w)) qualities 1 nt h1 of
            None \<Rightarrow> ((qualities, map_option (\<lambda>_. nt) out), w\<lparr>heap := h1, fault := True\<rparr>)
          | Some h2 \<Rightarrow> ((qualities, map_option (\<lambda>_. nt) out), w\<lparr>heap := h2\<rparr>))"
  unfolding mmg2d_get_triangles_qualities_def validate_handle_2d_ready [OF assms]
  by (rule check_pass) (use assms(2) in \<open>simp add: is_active_2d_def\<close>)

text \<open>
  Every entry point of the file but \<^verbatim>\<open>init\<close> and \<^verbatim>\<open>free\<close> leaves the static variables of
  the three files as the lazy initialisation of the table leaves them.
\<close>

lemma exec_2d_statics:
  assumes "c \<noteq> Init_2d" and "\<forall>h. c \<noteq> Free_2d h"
  shows "statics (exec_2d K c w) = statics (ensure_initialized_2d w) \<or>
         statics (exec_2d K c w) = statics w"
  using assms
  by (cases c)
     (simp_all add: mmg2d_get_available_handles_statics
        mmg2d_get_max_handles_statics
        mmg2d_set_mesh_size_statics
        mmg2d_get_mesh_size_statics
        mmg2d_set_vertex_statics
        mmg2d_set_vertices_statics
        mmg2d_get_vertices_statics
        mmg2d_set_triangle_statics
        mmg2d_set_triangles_statics
        mmg2d_get_triangles_statics
        mmg2d_set_edge_statics
        mmg2d_set_edges_statics
        mmg2d_get_edges_statics
        mmg2d_set_iparameter_statics
        mmg2d_set_dparameter_statics
        mmg2d_set_sol_size_statics
        mmg2d_get_sol_size_statics
        mmg2d_set_scalar_sols_statics
        mmg2d_get_scalar_sols_statics
        mmg2d_set_tensor_sols_statics
        mmg2d_get_tensor_sols_statics
        mmg2d_remesh_statics
        mmg2d_free_array_statics
        mmg2d_load_mesh_statics
        mmg2d_save_mesh_statics
        mmg2d_load_sol_statics
        mmg2d_save_sol_statics
        mmg2d_get_triangle_quality_statics
        mmg2d_get_triangles_qualities_statics)

lemma exec_2d_frame: "others_2d (exec_2d K c w) = others_2d w"
proof (cases "c = Init_2d \<or> (\<exists>h. c = Free_2d h)")
  case True
  then show ?thesis by (auto simp add: mmg2d_init_frame mmg2d_free_frame)
next
  case False
  with exec_2d_statics [of c K w] show ?thesis
    by (auto dest: statics_others)
qed

lemma exec_2d_wf:
  assumes "wf_world w"
  shows "wf_world (exec_2d K c w)"
proof (cases "c = Init_2d \<or> (\<exists>h. c = Free_2d h)")
  case True
  with assms show ?thesis by (auto simp add: mmg2d_init_preserves_wf mmg2d_free_preserves_wf)
next
  case False
  with exec_2d_statics [of c K w] assms show ?thesis
    by (auto dest: statics_wf simp add: ensure_initialized_2d_keeps)
qed

lemma exec_2d_flag:
  assumes "wf_world w" and "g_initialized_2d w = 1"
  shows "g_initialized_2d (exec_2d K c w) = 1"
proof (cases "c = Init_2d \<or> (\<exists>h. c = Free_2d h)")
  case True
  with assms show ?thesis by (auto simp add: mmg2d_init_flag mmg2d_free_flag)
next
  case False
  with exec_2d_statics [of c K w] assms show ?thesis
    by (auto dest: statics_flags simp add: ensure_initialized_2d_keeps)
qed

lemma exec_2d_keeps_active:
  assumes "wf_world w" and "is_active_2d w h" and "c \<noteq> Free_2d h"
  shows "is_active_2d (exec_2d K c w) h"
proof (cases "c = Init_2d \<or> (\<exists>h. c = Free_2d h)")
  case True
  then show ?thesis
  proof
    assume "c = Init_2d"
    with assms show ?thesis by (simp add: mmg2d_init_keeps_active)
  next
    assume "\<exists>h. c = Free_2d h"
    then obtain h' where c: "c = Free_2d h'" by blast
    with assms(3) have "h' \<noteq> h" by simp
    with assms c show ?thesis by (simp add: mmg2d_free_keeps_active)
  qed
next
  case False
  with exec_2d_statics [of c K w] assms show ?thesis
    by (auto dest: statics_active simp add: ensure_initialized_2d_keeps)
qed

lemma exec_2d_keeps_inactive:
  assumes "wf_world w" and "\<not> is_active_2d w h"
    and "c = Init_2d \<longrightarrow> fst (mmg2d_init K w) \<noteq> h"
  shows "\<not> is_active_2d (exec_2d K c w) h"
proof (cases "c = Init_2d \<or> (\<exists>h. c = Free_2d h)")
  case True
  with assms show ?thesis by (auto simp add: mmg2d_init_keeps_inactive mmg2d_free_keeps_inactive)
next
  case False
  with exec_2d_statics [of c K w] assms show ?thesis
    by (auto dest: statics_active simp add: ensure_initialized_2d_keeps)
qed

subsection \<open>mmg3d.c: calls\<close>

lemma ensure_initialized_ready: "g_initialized w = 1 \<Longrightarrow> ensure_initialized w = w"
  by (simp add: ensure_initialized_def)

lemma validate_handle_ready:
  "g_initialized w = 1 \<Longrightarrow> is_active_3d w h \<Longrightarrow> validate_handle h w = (active (g_handles w ! nat h), w)"
  by (simp add: validate_handle_def ensure_initialized_ready is_active_3d_def)

lemma validate_handle_accepts:
  "g_initialized w = 1 \<Longrightarrow> is_active_3d w h \<Longrightarrow> fst (validate_handle h w) \<noteq> 0"
  by (simp add: validate_handle_ready is_active_3d_def)

lemma validate_handle_rejects:
  "wf_world w \<Longrightarrow> \<not> is_active_3d w h \<Longrightarrow> fst (validate_handle h w) = 0"
  by (simp add: validate_handle_inactive)

lemma statics_ensure_initialized:
  "wf_world w \<Longrightarrow> statics (ensure_initialized w) = statics (w\<lparr>g_initialized := 1\<rparr>)"
  by (simp add: ensure_initialized_wf)

lemma ensure_initialized_keeps:
  assumes "wf_world w"
  shows "wf_world (ensure_initialized w)"
    and "is_active_3d (ensure_initialized w) h = is_active_3d w h"
    and "g_initialized (ensure_initialized w) = 1"
    and "others_3d (ensure_initialized w) = others_3d w"
  using assms
  by (simp_all add: ensure_initialized_wf wf_world_flag_3d is_active_3d_def)

lemma mmg3d_init_flag: "wf_world w \<Longrightarrow> g_initialized (snd (mmg3d_init K w)) = 1"
  by (simp add: mmg3d_init_wf Let_def)

lemma mmg3d_free_flag: "wf_world w \<Longrightarrow> g_initialized (snd (mmg3d_free K h w)) = 1"
  by (cases "is_active_3d w h") (simp_all add: mmg3d_free_active mmg3d_free_inactive)

lemma mmg3d_get_available_handles_statics:
  "statics (snd (mmg3d_get_available_handles w)) = statics (ensure_initialized w)"
  by (simp add: mmg3d_get_available_handles_def Let_def)

lemma mmg3d_get_max_handles_statics:
  "statics (snd (mmg3d_get_max_handles w)) = statics w"
  by (simp add: mmg3d_get_max_handles_def)

lemma mmg3d_free_array_statics:
  "statics (snd (mmg3d_free_array p w)) = statics w"
  by (simp add: mmg3d_free_array_def)

lemma mmg3d_free_accepted:
  assumes "g_initialized w = 1" and "is_active_3d w h"
  shows "mmg3d_free Kv h w =
     (let e = g_handles w ! nat h in
      (1,
       w\<lparr>native := MMG3D_Free_all Kv (mesh e) (sol e) (native w),
         g_handles := (g_handles w)[nat h := \<lparr>mesh = NULL, sol = NULL, active = 0\<rparr>]\<rparr>))"
  unfolding mmg3d_free_def validate_handle_ready [OF assms]
  by (rule check_pass) (use assms(2) in \<open>simp add: is_active_3d_def\<close>)

lemma mmg3d_set_mesh_size_statics:
  "statics (snd (mmg3d_set_mesh_size Kv h ia ib ic iu iv iw w)) = statics (ensure_initialized w)"
  unfolding mmg3d_set_mesh_size_def Let_def case_prod_beta
  by simp

lemma mmg3d_set_mesh_size_accepted:
  assumes "g_initialized w = 1" and "is_active_3d w h"
  shows "mmg3d_set_mesh_size Kv h ia ib ic iu iv iw w =
     (let e = g_handles w ! nat h;
          (r, k) = MMG3D_Set_meshSize Kv (mesh e) ia ib ic iu iv iw (native w)
      in (r, w\<lparr>native := k\<rparr>))"
  unfolding mmg3d_set_mesh_size_def validate_handle_ready [OF assms]
  by (rule check_pass) (use assms(2) in \<open>simp add: is_active_3d_def\<close>)

lemma mmg3d_get_mesh_size_statics:
  "statics (snd (mmg3d_get_mesh_size Kv h oa ob oc ou ov ow w)) = statics (ensure_initialized w)"
  unfolding mmg3d_get_mesh_size_def Let_def case_prod_beta
  by simp

lemma mmg3d_get_mesh_size_accepted:
  assumes "g_initialized w = 1" and "is_active_3d w h"
  shows "mmg3d_get_mesh_size Kv h oa ob oc ou ov ow w =
     (let e = g_handles w ! nat h;
          (result, np', ne', nprism', nt', nquad', na') = MMG3D_Get_meshSize Kv (mesh e) (native w)
      in if result = 1 then ((result, map_option (\<lambda>_. np') oa, map_option (\<lambda>_. ne') ob, map_option (\<lambda>_. nprism') oc, map_option (\<lambda>_. nt') ou, map_option (\<lambda>_. nquad') ov, map_option (\<lambda>_. na') ow), w) else ((result, oa, ob, oc, ou, ov, ow), w))"
  unfolding mmg3d_get_mesh_size_def validate_handle_ready [OF assms]
  by (rule check_pass) (use assms(2) in \<open>simp add: is_active_3d_def\<close>)

lemma mmg3d_set_vertex_statics:
  "statics (snd (mmg3d_set_vertex Kv h xa xb xc ia ib w)) = statics (ensure_initialized w)"
  unfolding mmg3d_set_vertex_def Let_def case_prod_beta
  by simp

lemma mmg3d_set_vertex_accepted:
  assumes "g_initialized w = 1" and "is_active_3d w h"
  shows "mmg3d_set_vertex Kv h xa xb xc ia ib w =
     (let e = g_handles w ! nat h;
          (r, k) = MMG3D_Set_vertex Kv (mesh e) xa xb xc ia ib (native w)
      in (r, w\<lparr>native := k\<rparr>))"
  unfolding mmg3d_set_vertex_def validate_handle_ready [OF assms]
  by (rule check_pass) (use assms(2) in \<open>simp add: is_active_3d_def\<close>)

lemma mmg3d_set_vertices_statics:
  "statics (snd (mmg3d_set_vertices Kv h xs ro w)) = statics (ensure_initialized w)"
  unfolding mmg3d_set_vertices_def Let_def case_prod_beta
  by simp

lemma mmg3d_set_vertices_accepted:
  assumes "g_initialized w = 1" and "is_active_3d w h"
  shows "mmg3d_set_vertices Kv h xs ro w =
     (let e = g_handles w ! nat h;
          (r, k) = MMG3D_Set_vertices Kv (mesh e) xs ro (native w)
      in (r, w\<lparr>native := k\<rparr>))"
  unfolding mmg3d_set_vertices_def validate_handle_ready [OF assms]
  by (rule check_pass) (use assms(2) in \<open>simp add: is_active_3d_def\<close>)

lemma mmg3d_get_vertices_statics:
  "statics (snd (mmg3d_get_vertices Kv fa fb fc fd h out w)) = statics (ensure_initialized w)"
  unfolding mmg3d_get_vertices_def Let_def case_prod_beta
  by (cases fa; cases fb; cases fc; cases fd) simp_all

lemma mmg3d_get_vertices_accepted:
  assumes "g_initialized w = 1" and "is_active_3d w h"
  shows "mmg3d_get_vertices Kv fa fb fc fd h out w =
     (let m = mesh (g_handles w ! nat h);
          (r, np, ne, nprism, nt, nquad, na) = MMG3D_Get_meshSize Kv m (native w)
      in
      if r \<noteq> 1 then ((NULL, map_option (\<lambda>_. 0) out), w)
      else if np = 0 then ((NULL, map_option (\<lambda>_. 0) out), w)
      else
        let (vertices, h1) = malloc fa 8 (size_t (int32 (3 * np) * 8)) (heap w) in
        if vertices = NULL then ((NULL, map_option (\<lambda>_. 0) out), w\<lparr>heap := h1\<rparr>)
        else
        let (refs, h2) = malloc fb 4 (size_t (np * 4)) h1;
            (corners, h3) = malloc fc 4 (size_t (np * 4)) h2;
            (required, h4) = malloc fd 4 (size_t (np * 4)) h3 in
        if refs = NULL \<or> corners = NULL \<or> required = NULL
        then ((NULL, map_option (\<lambda>_. 0) out), w\<lparr>heap := free required (free corners (free refs (free vertices h4)))\<rparr>)
        else
        let (result, vertices', refs', corners', required') = MMG3D_Get_vertices Kv m (native w);
            h5 = poke required (map I32 required') (poke corners (map I32 corners') (poke refs (map I32 refs') (poke vertices (map D vertices') h4)));
            h6 = free required (free corners (free refs h5))
        in
        if result \<noteq> 1 then ((NULL, map_option (\<lambda>_. 0) out), w\<lparr>heap := free vertices h6\<rparr>)
        else ((vertices, map_option (\<lambda>_. np) out), w\<lparr>heap := h6\<rparr>))"
  unfolding mmg3d_get_vertices_def validate_handle_ready [OF assms]
  by (rule check_pass) (use assms(2) in \<open>simp add: is_active_3d_def\<close>)

lemma mmg3d_set_tetrahedron_statics:
  "statics (snd (mmg3d_set_tetrahedron Kv h ia ib ic iu iv iw w)) = statics (ensure_initialized w)"
  unfolding mmg3d_set_tetrahedron_def Let_def case_prod_beta
  by simp

lemma mmg3d_set_tetrahedron_accepted:
  assumes "g_initialized w = 1" and "is_active_3d w h"
  shows "mmg3d_set_tetrahedron Kv h ia ib ic iu iv iw w =
     (let e = g_handles w ! nat h;
          (r, k) = MMG3D_Set_tetrahedron Kv (mesh e) ia ib ic iu iv iw (native w)
      in (r, w\<lparr>native := k\<rparr>))"
  unfolding mmg3d_set_tetrahedron_def validate_handle_ready [OF assms]
  by (rule check_pass) (use assms(2) in \<open>simp add: is_active_3d_def\<close>)

lemma mmg3d_set_tetrahedra_statics:
  "statics (snd (mmg3d_set_tetrahedra Kv h js ro w)) = statics (ensure_initialized w)"
  unfolding mmg3d_set_tetrahedra_def Let_def case_prod_beta
  by simp

lemma mmg3d_set_tetrahedra_accepted:
  assumes "g_initialized w = 1" and "is_active_3d w h"
  shows "mmg3d_set_tetrahedra Kv h js ro w =
     (let e = g_handles w ! nat h;
          (r, k) = MMG3D_Set_tetrahedra Kv (mesh e) js ro (native w)
      in (r, w\<lparr>native := k\<rparr>))"
  unfolding mmg3d_set_tetrahedra_def validate_handle_ready [OF assms]
  by (rule check_pass) (use assms(2) in \<open>simp add: is_active_3d_def\<close>)

lemma mmg3d_get_tetrahedra_statics:
  "statics (snd (mmg3d_get_tetrahedra Kv fa fb fc h out w)) = statics (ensure_initialized w)"
  unfolding mmg3d_get_tetrahedra_def Let_def case_prod_beta
  by (cases fa; cases fb; cases fc) simp_all

lemma mmg3d_get_tetrahedra_accepted:
  assumes "g_initialized w = 1" and "is_active_3d w h"
  shows "mmg3d_get_tetrahedra Kv fa fb fc h out w =
     (let m = mesh (g_handles w ! nat h);
          (r, np, ne, nprism, nt, nquad, na) = MMG3D_Get_meshSize Kv m (native w)
      in
      if r \<noteq> 1 then ((NULL, map_option (\<lambda>_. 0) out), w)
      else if ne = 0 then ((NULL, map_option (\<lambda>_. 0) out), w)
      else
        let (tetra, h1) = malloc fa 4 (size_t (int32 (4 * ne) * 4)) (heap w) in
        if tetra = NULL then ((NULL, map_option (\<lambda>_. 0) out), w\<lparr>heap := h1\<rparr>)
        else
        let (refs, h2) = malloc fb 4 (size_t (ne * 4)) h1;
            (required, h3) = malloc fc 4 (size_t (ne * 4)) h2 in
        if refs = NULL \<or> required = NULL
        then ((NULL, map_option (\<lambda>_. 0) out), w\<lparr>heap := free required (free refs (free tetra h3))\<rparr>)
        else
        let (result, tetra', refs', required') = MMG3D_Get_tetrahedra Kv m (native w);
            h4 = poke required (map I32 required') (poke refs (map I32 refs') (poke tetra (map I32 tetra') h3));
            h5 = free required (free refs h4)
        in
        if result \<noteq> 1 then ((NULL, map_option (\<lambda>_. 0) out), w\<lparr>heap := free tetra h5\<rparr>)
        else ((tetra, map_option (\<lambda>_. ne) out), w\<lparr>heap := h5\<rparr>))"
  unfolding mmg3d_get_tetrahedra_def validate_handle_ready [OF assms]
  by (rule check_pass) (use assms(2) in \<open>simp add: is_active_3d_def\<close>)

lemma mmg3d_set_triangle_statics:
  "statics (snd (mmg3d_set_triangle Kv h ia ib ic iu iv w)) = statics (ensure_initialized w)"
  unfolding mmg3d_set_triangle_def Let_def case_prod_beta
  by simp

lemma mmg3d_set_triangle_accepted:
  assumes "g_initialized w = 1" and "is_active_3d w h"
  shows "mmg3d_set_triangle Kv h ia ib ic iu iv w =
     (let e = g_handles w ! nat h;
          (r, k) = MMG3D_Set_triangle Kv (mesh e) ia ib ic iu iv (native w)
      in (r, w\<lparr>native := k\<rparr>))"
  unfolding mmg3d_set_triangle_def validate_handle_ready [OF assms]
  by (rule check_pass) (use assms(2) in \<open>simp add: is_active_3d_def\<close>)

lemma mmg3d_set_triangles_statics:
  "statics (snd (mmg3d_set_triangles Kv h js ro w)) = statics (ensure_initialized w)"
  unfolding mmg3d_set_triangles_def Let_def case_prod_beta
  by simp

lemma mmg3d_set_triangles_accepted:
  assumes "g_initialized w = 1" and "is_active_3d w h"
  shows "mmg3d_set_triangles Kv h js ro w =
     (let e = g_handles w ! nat h;
          (r, k) = MMG3D_Set_triangles Kv (mesh e) js ro (native w)
      in (r, w\<lparr>native := k\<rparr>))"
  unfolding mmg3d_set_triangles_def validate_handle_ready [OF assms]
  by (rule check_pass) (use assms(2) in \<open>simp add: is_active_3d_def\<close>)

lemma mmg3d_get_triangles_statics:
  "statics (snd (mmg3d_get_triangles Kv fa fb fc h out w)) = statics (ensure_initialized w)"
  unfolding mmg3d_get_triangles_def Let_def case_prod_beta
  by (cases fa; cases fb; cases fc) simp_all

lemma mmg3d_get_triangles_accepted:
  assumes "g_initialized w = 1" and "is_active_3d w h"
  shows "mmg3d_get_triangles Kv fa fb fc h out w =
     (let m = mesh (g_handles w ! nat h);
          (r, np, ne, nprism, nt, nquad, na) = MMG3D_Get_meshSize Kv m (native w)
      in
      if r \<noteq> 1 then ((NULL, map_option (\<lambda>_. 0) out), w)
      else if nt = 0 then ((NULL, map_option (\<lambda>_. 0) out), w)
      else
        let (tria, h1) = malloc fa 4 (size_t (int32 (3 * nt) * 4)) (heap w) in
        if tria = NULL then ((NULL, map_option (\<lambda>_. 0) out), w\<lparr>heap := h1\<rparr>)
        else
        let (refs, h2) = malloc fb 4 (size_t (nt * 4)) h1;
            (required, h3) = malloc fc 4 (size_t (nt * 4)) h2 in
        if refs = NULL \<or> required = NULL
        then ((NULL, map_option (\<lambda>_. 0) out), w\<lparr>heap := free required (free refs (free tria h3))\<rparr>)
        else
        let (result, tria', refs', required') = MMG3D_Get_triangles Kv m (native w);
            h4 = poke required (map I32 required') (poke refs (map I32 refs') (poke tria (map I32 tria') h3));
            h5 = free required (free refs h4)
        in
        if result \<noteq> 1 then ((NULL, map_option (\<lambda>_. 0) out), w\<lparr>heap := free tria h5\<rparr>)
        else ((tria, map_option (\<lambda>_. nt) out), w\<lparr>heap := h5\<rparr>))"
  unfolding mmg3d_get_triangles_def validate_handle_ready [OF assms]
  by (rule check_pass) (use assms(2) in \<open>simp add: is_active_3d_def\<close>)

lemma mmg3d_set_iparameter_statics:
  "statics (snd (mmg3d_set_iparameter Kv h ia ib w)) = statics (ensure_initialized w)"
  unfolding mmg3d_set_iparameter_def Let_def case_prod_beta
  by simp

lemma mmg3d_set_iparameter_accepted:
  assumes "g_initialized w = 1" and "is_active_3d w h"
  shows "mmg3d_set_iparameter Kv h ia ib w =
     (let e = g_handles w ! nat h;
          (r, k) = MMG3D_Set_iparameter Kv (mesh e) (sol e) ia ib (native w)
      in (r, w\<lparr>native := k\<rparr>))"
  unfolding mmg3d_set_iparameter_def validate_handle_ready [OF assms]
  by (rule check_pass) (use assms(2) in \<open>simp add: is_active_3d_def\<close>)

lemma mmg3d_set_dparameter_statics:
  "statics (snd (mmg3d_set_dparameter Kv h ia xa w)) = statics (ensure_initialized w)"
  unfolding mmg3d_set_dparameter_def Let_def case_prod_beta
  by simp

lemma mmg3d_set_dparameter_accepted:
  assumes "g_initialized w = 1" and "is_active_3d w h"
  shows "mmg3d_set_dparameter Kv h ia xa w =
     (let e = g_handles w ! nat h;
          (r, k) = MMG3D_Set_dparameter Kv (mesh e) (sol e) ia xa (native w)
      in (r, w\<lparr>native := k\<rparr>))"
  unfolding mmg3d_set_dparameter_def validate_handle_ready [OF assms]
  by (rule check_pass) (use assms(2) in \<open>simp add: is_active_3d_def\<close>)

lemma mmg3d_set_sol_size_statics:
  "statics (snd (mmg3d_set_sol_size Kv h ia ib ic w)) = statics (ensure_initialized w)"
  unfolding mmg3d_set_sol_size_def Let_def case_prod_beta
  by simp

lemma mmg3d_set_sol_size_accepted:
  assumes "g_initialized w = 1" and "is_active_3d w h"
  shows "mmg3d_set_sol_size Kv h ia ib ic w =
     (let e = g_handles w ! nat h;
          (r, k) = MMG3D_Set_solSize Kv (mesh e) (sol e) ia ib ic (native w)
      in (r, w\<lparr>native := k\<rparr>))"
  unfolding mmg3d_set_sol_size_def validate_handle_ready [OF assms]
  by (rule check_pass) (use assms(2) in \<open>simp add: is_active_3d_def\<close>)

lemma mmg3d_get_sol_size_statics:
  "statics (snd (mmg3d_get_sol_size Kv h oa ob oc w)) = statics (ensure_initialized w)"
  unfolding mmg3d_get_sol_size_def Let_def case_prod_beta
  by simp

lemma mmg3d_get_sol_size_accepted:
  assumes "g_initialized w = 1" and "is_active_3d w h"
  shows "mmg3d_get_sol_size Kv h oa ob oc w =
     (let e = g_handles w ! nat h;
          (result, typEntity', np', typSol') = MMG3D_Get_solSize Kv (mesh e) (sol e) (native w)
      in if result = 1 then ((result, map_option (\<lambda>_. typEntity') oa, map_option (\<lambda>_. np') ob, map_option (\<lambda>_. typSol') oc), w) else ((result, oa, ob, oc), w))"
  unfolding mmg3d_get_sol_size_def validate_handle_ready [OF assms]
  by (rule check_pass) (use assms(2) in \<open>simp add: is_active_3d_def\<close>)

lemma mmg3d_set_scalar_sols_statics:
  "statics (snd (mmg3d_set_scalar_sols Kv h xs w)) = statics (ensure_initialized w)"
  unfolding mmg3d_set_scalar_sols_def Let_def case_prod_beta
  by simp

lemma mmg3d_set_scalar_sols_accepted:
  assumes "g_initialized w = 1" and "is_active_3d w h"
  shows "mmg3d_set_scalar_sols Kv h xs w =
     (let e = g_handles w ! nat h;
          (r, k) = MMG3D_Set_scalarSols Kv (sol e) xs (native w)
      in (r, w\<lparr>native := k\<rparr>))"
  unfolding mmg3d_set_scalar_sols_def validate_handle_ready [OF assms]
  by (rule check_pass) (use assms(2) in \<open>simp add: is_active_3d_def\<close>)

lemma mmg3d_get_scalar_sols_statics:
  "statics (snd (mmg3d_get_scalar_sols Kv fa h out w)) = statics (ensure_initialized w)"
  unfolding mmg3d_get_scalar_sols_def Let_def case_prod_beta
  by (cases fa) simp_all

lemma mmg3d_get_scalar_sols_accepted:
  assumes "g_initialized w = 1" and "is_active_3d w h"
  shows "mmg3d_get_scalar_sols Kv fa h out w =
     (let e = g_handles w ! nat h;
          (r, typEntity, np, typSol) = MMG3D_Get_solSize Kv (mesh e) (sol e) (native w)
      in
      if r \<noteq> 1 then ((NULL, map_option (\<lambda>_. 0) out), w)
      else if np = 0 \<or> typSol \<noteq> 1 then ((NULL, map_option (\<lambda>_. 0) out), w)
      else
        let (values, h1) = malloc fa 8 (size_t (np * 8)) (heap w) in
        if values = NULL then ((NULL, map_option (\<lambda>_. 0) out), w\<lparr>heap := h1\<rparr>)
        else
          let (result, values') = MMG3D_Get_scalarSols Kv (sol e) (native w);
              h2 = poke values (map D values') h1
          in
          if result \<noteq> 1
          then ((NULL, map_option (\<lambda>_. 0) out), w\<lparr>heap := free values h2\<rparr>)
          else ((values, map_option (\<lambda>_. np) out), w\<lparr>heap := h2\<rparr>))"
  unfolding mmg3d_get_scalar_sols_def validate_handle_ready [OF assms]
  by (rule check_pass) (use assms(2) in \<open>simp add: is_active_3d_def\<close>)

lemma mmg3d_set_tensor_sols_statics:
  "statics (snd (mmg3d_set_tensor_sols Kv h xs w)) = statics (ensure_initialized w)"
  unfolding mmg3d_set_tensor_sols_def Let_def case_prod_beta
  by simp

lemma mmg3d_set_tensor_sols_accepted:
  assumes "g_initialized w = 1" and "is_active_3d w h"
  shows "mmg3d_set_tensor_sols Kv h xs w =
     (let e = g_handles w ! nat h;
          (r, k) = MMG3D_Set_tensorSols Kv (sol e) xs (native w)
      in (r, w\<lparr>native := k\<rparr>))"
  unfolding mmg3d_set_tensor_sols_def validate_handle_ready [OF assms]
  by (rule check_pass) (use assms(2) in \<open>simp add: is_active_3d_def\<close>)

lemma mmg3d_get_tensor_sols_statics:
  "statics (snd (mmg3d_get_tensor_sols Kv fa h out w)) = statics (ensure_initialized w)"
  unfolding mmg3d_get_tensor_sols_def Let_def case_prod_beta
  by (cases fa) simp_all

lemma mmg3d_get_tensor_sols_accepted:
  assumes "g_initialized w = 1" and "is_active_3d w h"
  shows "mmg3d_get_tensor_sols Kv fa h out w =
     (let e = g_handles w ! nat h;
          (r, typEntity, np, typSol) = MMG3D_Get_solSize Kv (mesh e) (sol e) (native w)
      in
      if r \<noteq> 1 then ((NULL, map_option (\<lambda>_. 0) out), w)
      else if np = 0 \<or> typSol \<noteq> 3 then ((NULL, map_option (\<lambda>_. 0) out), w)
      else
        let (values, h1) = malloc fa 8 (size_t (int32 (np * 6) * 8)) (heap w) in
        if values = NULL then ((NULL, map_option (\<lambda>_. 0) out), w\<lparr>heap := h1\<rparr>)
        else
          let (result, values') = MMG3D_Get_tensorSols Kv (sol e) (native w);
              h2 = poke values (map D values') h1
          in
          if result \<noteq> 1
          then ((NULL, map_option (\<lambda>_. 0) out), w\<lparr>heap := free values h2\<rparr>)
          else ((values, map_option (\<lambda>_. np) out), w\<lparr>heap := h2\<rparr>))"
  unfolding mmg3d_get_tensor_sols_def validate_handle_ready [OF assms]
  by (rule check_pass) (use assms(2) in \<open>simp add: is_active_3d_def\<close>)

lemma mmg3d_remesh_statics:
  "statics (snd (mmg3d_remesh Kv h w)) = statics (ensure_initialized w)"
  unfolding mmg3d_remesh_def Let_def case_prod_beta
  by simp

lemma mmg3d_remesh_accepted:
  assumes "g_initialized w = 1" and "is_active_3d w h"
  shows "mmg3d_remesh Kv h w =
     (let e = g_handles w ! nat h;
          (r, k) = MMG3D_mmg3dlib Kv (mesh e) (sol e) (native w)
      in (r, w\<lparr>native := k\<rparr>))"
  unfolding mmg3d_remesh_def validate_handle_ready [OF assms]
  by (rule check_pass) (use assms(2) in \<open>simp add: is_active_3d_def\<close>)

lemma mmg3d_load_mesh_statics:
  "statics (snd (mmg3d_load_mesh Kv h fname w)) = statics (ensure_initialized w)"
  unfolding mmg3d_load_mesh_def Let_def case_prod_beta
  by simp

lemma mmg3d_load_mesh_accepted:
  assumes "g_initialized w = 1" and "is_active_3d w h"
  shows "mmg3d_load_mesh Kv h fname w =
     (let e = g_handles w ! nat h;
          (r, k) = MMG3D_loadMesh Kv (mesh e) fname (native w)
      in (r, w\<lparr>native := k\<rparr>))"
  unfolding mmg3d_load_mesh_def validate_handle_ready [OF assms]
  by (rule check_pass) (use assms(2) in \<open>simp add: is_active_3d_def\<close>)

lemma mmg3d_save_mesh_statics:
  "statics (snd (mmg3d_save_mesh Kv h fname w)) = statics (ensure_initialized w)"
  unfolding mmg3d_save_mesh_def Let_def case_prod_beta
  by simp

lemma mmg3d_save_mesh_accepted:
  assumes "g_initialized w = 1" and "is_active_3d w h"
  shows "mmg3d_save_mesh Kv h fname w =
     (let e = g_handles w ! nat h;
          (r, k) = MMG3D_saveMesh Kv (mesh e) fname (native w)
      in (r, w\<lparr>native := k\<rparr>))"
  unfolding mmg3d_save_mesh_def validate_handle_ready [OF assms]
  by (rule check_pass) (use assms(2) in \<open>simp add: is_active_3d_def\<close>)

lemma mmg3d_load_sol_statics:
  "statics (snd (mmg3d_load_sol Kv h fname w)) = statics (ensure_initialized w)"
  unfolding mmg3d_load_sol_def Let_def case_prod_beta
  by simp

lemma mmg3d_load_sol_accepted:
  assumes "g_initialized w = 1" and "is_active_3d w h"
  shows "mmg3d_load_sol Kv h fname w =
     (let e = g_handles w ! nat h;
          (r, k) = MMG3D_loadSol Kv (mesh e) (sol e) fname (native w)
      in (r, w\<lparr>native := k\<rparr>))"
  unfolding mmg3d_load_sol_def validate_handle_ready [OF assms]
  by (rule check_pass) (use assms(2) in \<open>simp add: is_active_3d_def\<close>)

lemma mmg3d_save_sol_statics:
  "statics (snd (mmg3d_save_sol Kv h fname w)) = statics (ensure_initialized w)"
  unfolding mmg3d_save_sol_def Let_def case_prod_beta
  by simp

lemma mmg3d_save_sol_accepted:
  assumes "g_initialized w = 1" and "is_active_3d w h"
  shows "mmg3d_save_sol Kv h fname w =
     (let e = g_handles w ! nat h;
          (r, k) = MMG3D_saveSol Kv (mesh e) (sol e) fname (native w)
      in (r, w\<lparr>native := k\<rparr>))"
  unfolding mmg3d_save_sol_def validate_handle_ready [OF assms]
  by (rule check_pass) (use assms(2) in \<open>simp add: is_active_3d_def\<close>)

lemma mmg3d_get_tetrahedron_quality_statics:
  "statics (snd (mmg3d_get_tetrahedron_quality Kv h k w)) = statics (ensure_initialized w)"
  unfolding mmg3d_get_tetrahedron_quality_def Let_def case_prod_beta
  by simp

lemma mmg3d_get_tetrahedron_quality_accepted:
  assumes "g_initialized w = 1" and "is_active_3d w h"
  shows "mmg3d_get_tetrahedron_quality Kv h k w =
     (let e = g_handles w ! nat h in
      (MMG3D_Get_tetrahedronQuality Kv (mesh e) (sol e) k (native w), w))"
  unfolding mmg3d_get_tetrahedron_quality_def validate_handle_ready [OF assms]
  by (rule check_pass) (use assms(2) in \<open>simp add: is_active_3d_def\<close>)

lemma mmg3d_get_tetrahedra_qualities_statics:
  "statics (snd (mmg3d_get_tetrahedra_qualities Kv fa h out w)) = statics (ensure_initialized w)"
  unfolding mmg3d_get_tetrahedra_qualities_def Let_def case_prod_beta
  by (cases fa) (simp_all split: option.splits)

lemma mmg3d_get_tetrahedra_qualities_accepted:
  assumes "g_initialized w = 1" and "is_active_3d w h"
  shows "mmg3d_get_tetrahedra_qualities Kv fa h out w =
     (let e = g_handles w ! nat h;
          (r, np, ne, nprism, nt, nquad, na) = MMG3D_Get_meshSize Kv (mesh e) (native w)
      in
      if r \<noteq> 1 then ((NULL, map_option (\<lambda>_. 0) out), w)
      else if ne = 0 then ((NULL, map_option (\<lambda>_. 0) out), w)
      else
        let (qualities, h1) = malloc fa 8 (size_t (ne * 8)) (heap w) in
        if qualities = NULL then ((NULL, map_option (\<lambda>_. 0) out), w\<lparr>heap := h1\<rparr>)
        else
          case qualities_loop
                 (\<lambda>k. MMG3D_Get_tetrahedronQuality Kv (mesh e) (sol e) k (native w)) qualities 1 ne h1 of
            None \<Rightarrow> ((qualities, map_option (\<lambda>_. ne) out), w\<lparr>heap := h1, fault := True\<rparr>)
          | Some h2 \<Rightarrow> ((qualities, map_option (\<lambda>_. ne) out), w\<lparr>heap := h2\<rparr>))"
  unfolding mmg3d_get_tetrahedra_qualities_def validate_handle_ready [OF assms]
  by (rule check_pass) (use assms(2) in \<open>simp add: is_active_3d_def\<close>)

text \<open>
  Every entry point of the file but \<^verbatim>\<open>init\<close> and \<^verbatim>\<open>free\<close> leaves the static variables of
  the three files as the lazy initialisation of the table leaves them.
\<close>

lemma exec_3d_statics:
  assumes "c \<noteq> Init_3d" and "\<forall>h. c \<noteq> Free_3d h"
  shows "statics (exec_3d K c w) = statics (ensure_initialized w) \<or>
         statics (exec_3d K c w) = statics w"
  using assms
  by (cases c)
     (simp_all add: mmg3d_get_available_handles_statics
        mmg3d_get_max_handles_statics
        mmg3d_set_mesh_size_statics
        mmg3d_get_mesh_size_statics
        mmg3d_set_vertex_statics
        mmg3d_set_vertices_statics
        mmg3d_get_vertices_statics
        mmg3d_set_tetrahedron_statics
        mmg3d_set_tetrahedra_statics
        mmg3d_get_tetrahedra_statics
        mmg3d_set_triangle_statics
        mmg3d_set_triangles_statics
        mmg3d_get_triangles_statics
        mmg3d_set_iparameter_statics
        mmg3d_set_dparameter_statics
        mmg3d_set_sol_size_statics
        mmg3d_get_sol_size_statics
        mmg3d_set_scalar_sols_statics
        mmg3d_get_scalar_sols_statics
        mmg3d_set_tensor_sols_statics
        mmg3d_get_tensor_sols_statics
        mmg3d_remesh_statics
        mmg3d_free_array_statics
        mmg3d_load_mesh_statics
        mmg3d_save_mesh_statics
        mmg3d_load_sol_statics
        mmg3d_save_sol_statics
        mmg3d_get_tetrahedron_quality_statics
        mmg3d_get_tetrahedra_qualities_statics)

lemma exec_3d_frame: "others_3d (exec_3d K c w) = others_3d w"
proof (cases "c = Init_3d \<or> (\<exists>h. c = Free_3d h)")
  case True
  then show ?thesis by (auto simp add: mmg3d_init_frame mmg3d_free_frame)
next
  case False
  with exec_3d_statics [of c K w] show ?thesis
    by (auto dest: statics_others)
qed

lemma exec_3d_wf:
  assumes "wf_world w"
  shows "wf_world (exec_3d K c w)"
proof (cases "c = Init_3d \<or> (\<exists>h. c = Free_3d h)")
  case True
  with assms show ?thesis by (auto simp add: mmg3d_init_preserves_wf mmg3d_free_preserves_wf)
next
  case False
  with exec_3d_statics [of c K w] assms show ?thesis
    by (auto dest: statics_wf simp add: ensure_initialized_keeps)
qed

lemma exec_3d_flag:
  assumes "wf_world w" and "g_initialized w = 1"
  shows "g_initialized (exec_3d K c w) = 1"
proof (cases "c = Init_3d \<or> (\<exists>h. c = Free_3d h)")
  case True
  with assms show ?thesis by (auto simp add: mmg3d_init_flag mmg3d_free_flag)
next
  case False
  with exec_3d_statics [of c K w] assms show ?thesis
    by (auto dest: statics_flags simp add: ensure_initialized_keeps)
qed

lemma exec_3d_keeps_active:
  assumes "wf_world w" and "is_active_3d w h" and "c \<noteq> Free_3d h"
  shows "is_active_3d (exec_3d K c w) h"
proof (cases "c = Init_3d \<or> (\<exists>h. c = Free_3d h)")
  case True
  then show ?thesis
  proof
    assume "c = Init_3d"
    with assms show ?thesis by (simp add: mmg3d_init_keeps_active)
  next
    assume "\<exists>h. c = Free_3d h"
    then obtain h' where c: "c = Free_3d h'" by blast
    with assms(3) have "h' \<noteq> h" by simp
    with assms c show ?thesis by (simp add: mmg3d_free_keeps_active)
  qed
next
  case False
  with exec_3d_statics [of c K w] assms show ?thesis
    by (auto dest: statics_active simp add: ensure_initialized_keeps)
qed

lemma exec_3d_keeps_inactive:
  assumes "wf_world w" and "\<not> is_active_3d w h"
    and "c = Init_3d \<longrightarrow> fst (mmg3d_init K w) \<noteq> h"
  shows "\<not> is_active_3d (exec_3d K c w) h"
proof (cases "c = Init_3d \<or> (\<exists>h. c = Free_3d h)")
  case True
  with assms show ?thesis by (auto simp add: mmg3d_init_keeps_inactive mmg3d_free_keeps_inactive)
next
  case False
  with exec_3d_statics [of c K w] assms show ?thesis
    by (auto dest: statics_active simp add: ensure_initialized_keeps)
qed

subsection \<open>mmgs.c: calls\<close>

lemma ensure_initialized_s_ready: "g_initialized_s w = 1 \<Longrightarrow> ensure_initialized_s w = w"
  by (simp add: ensure_initialized_s_def)

lemma validate_handle_s_ready:
  "g_initialized_s w = 1 \<Longrightarrow> is_active_s w h \<Longrightarrow> validate_handle_s h w = (active (g_handles_s w ! nat h), w)"
  by (simp add: validate_handle_s_def ensure_initialized_s_ready is_active_s_def)

lemma validate_handle_s_accepts:
  "g_initialized_s w = 1 \<Longrightarrow> is_active_s w h \<Longrightarrow> fst (validate_handle_s h w) \<noteq> 0"
  by (simp add: validate_handle_s_ready is_active_s_def)

lemma validate_handle_s_rejects:
  "wf_world w \<Longrightarrow> \<not> is_active_s w h \<Longrightarrow> fst (validate_handle_s h w) = 0"
  by (simp add: validate_handle_s_inactive)

lemma statics_ensure_initialized_s:
  "wf_world w \<Longrightarrow> statics (ensure_initialized_s w) = statics (w\<lparr>g_initialized_s := 1\<rparr>)"
  by (simp add: ensure_initialized_s_wf)

lemma ensure_initialized_s_keeps:
  assumes "wf_world w"
  shows "wf_world (ensure_initialized_s w)"
    and "is_active_s (ensure_initialized_s w) h = is_active_s w h"
    and "g_initialized_s (ensure_initialized_s w) = 1"
    and "others_s (ensure_initialized_s w) = others_s w"
  using assms
  by (simp_all add: ensure_initialized_s_wf wf_world_flag_s is_active_s_def)

lemma mmgs_init_flag: "wf_world w \<Longrightarrow> g_initialized_s (snd (mmgs_init K w)) = 1"
  by (simp add: mmgs_init_wf Let_def)

lemma mmgs_free_flag: "wf_world w \<Longrightarrow> g_initialized_s (snd (mmgs_free K h w)) = 1"
  by (cases "is_active_s w h") (simp_all add: mmgs_free_active mmgs_free_inactive)

lemma mmgs_get_available_handles_statics:
  "statics (snd (mmgs_get_available_handles w)) = statics (ensure_initialized_s w)"
  by (simp add: mmgs_get_available_handles_def Let_def)

lemma mmgs_get_max_handles_statics:
  "statics (snd (mmgs_get_max_handles w)) = statics w"
  by (simp add: mmgs_get_max_handles_def)

lemma mmgs_free_array_statics:
  "statics (snd (mmgs_free_array p w)) = statics w"
  by (simp add: mmgs_free_array_def)

lemma mmgs_free_accepted:
  assumes "g_initialized_s w = 1" and "is_active_s w h"
  shows "mmgs_free Ks h w =
     (let e = g_handles_s w ! nat h in
      (1,
       w\<lparr>native := MMGS_Free_all Ks (mesh e) (sol e) (native w),
         g_handles_s := (g_handles_s w)[nat h := \<lparr>mesh = NULL, sol = NULL, active = 0\<rparr>]\<rparr>))"
  unfolding mmgs_free_def validate_handle_s_ready [OF assms]
  by (rule check_pass) (use assms(2) in \<open>simp add: is_active_s_def\<close>)

lemma mmgs_set_mesh_size_statics:
  "statics (snd (mmgs_set_mesh_size Ks h ia ib ic w)) = statics (ensure_initialized_s w)"
  unfolding mmgs_set_mesh_size_def Let_def case_prod_beta
  by simp

lemma mmgs_set_mesh_size_accepted:
  assumes "g_initialized_s w = 1" and "is_active_s w h"
  shows "mmgs_set_mesh_size Ks h ia ib ic w =
     (let e = g_handles_s w ! nat h;
          (r, k) = MMGS_Set_meshSize Ks (mesh e) ia ib ic (native w)
      in (r, w\<lparr>native := k\<rparr>))"
  unfolding mmgs_set_mesh_size_def validate_handle_s_ready [OF assms]
  by (rule check_pass) (use assms(2) in \<open>simp add: is_active_s_def\<close>)

lemma mmgs_get_mesh_size_statics:
  "statics (snd (mmgs_get_mesh_size Ks h oa ob oc w)) = statics (ensure_initialized_s w)"
  unfolding mmgs_get_mesh_size_def Let_def case_prod_beta
  by simp

lemma mmgs_get_mesh_size_accepted:
  assumes "g_initialized_s w = 1" and "is_active_s w h"
  shows "mmgs_get_mesh_size Ks h oa ob oc w =
     (let e = g_handles_s w ! nat h;
          (result, np', nt', na') = MMGS_Get_meshSize Ks (mesh e) (native w)
      in if result = 1 then ((result, map_option (\<lambda>_. np') oa, map_option (\<lambda>_. nt') ob, map_option (\<lambda>_. na') oc), w) else ((result, oa, ob, oc), w))"
  unfolding mmgs_get_mesh_size_def validate_handle_s_ready [OF assms]
  by (rule check_pass) (use assms(2) in \<open>simp add: is_active_s_def\<close>)

lemma mmgs_set_vertex_statics:
  "statics (snd (mmgs_set_vertex Ks h xa xb xc ia ib w)) = statics (ensure_initialized_s w)"
  unfolding mmgs_set_vertex_def Let_def case_prod_beta
  by simp

lemma mmgs_set_vertex_accepted:
  assumes "g_initialized_s w = 1" and "is_active_s w h"
  shows "mmgs_set_vertex Ks h xa xb xc ia ib w =
     (let e = g_handles_s w ! nat h;
          (r, k) = MMGS_Set_vertex Ks (mesh e) xa xb xc ia ib (native w)
      in (r, w\<lparr>native := k\<rparr>))"
  unfolding mmgs_set_vertex_def validate_handle_s_ready [OF assms]
  by (rule check_pass) (use assms(2) in \<open>simp add: is_active_s_def\<close>)

lemma mmgs_set_vertices_statics:
  "statics (snd (mmgs_set_vertices Ks h xs ro w)) = statics (ensure_initialized_s w)"
  unfolding mmgs_set_vertices_def Let_def case_prod_beta
  by simp

lemma mmgs_set_vertices_accepted:
  assumes "g_initialized_s w = 1" and "is_active_s w h"
  shows "mmgs_set_vertices Ks h xs ro w =
     (let e = g_handles_s w ! nat h;
          (r, k) = MMGS_Set_vertices Ks (mesh e) xs ro (native w)
      in (r, w\<lparr>native := k\<rparr>))"
  unfolding mmgs_set_vertices_def validate_handle_s_ready [OF assms]
  by (rule check_pass) (use assms(2) in \<open>simp add: is_active_s_def\<close>)

lemma mmgs_get_vertices_statics:
  "statics (snd (mmgs_get_vertices Ks fa fb fc fd h out w)) = statics (ensure_initialized_s w)"
  unfolding mmgs_get_vertices_def Let_def case_prod_beta fail_with_count_def
  by (cases fa; cases fb; cases fc; cases fd) simp_all

lemma mmgs_get_vertices_accepted:
  assumes "g_initialized_s w = 1" and "is_active_s w h"
  shows "mmgs_get_vertices Ks fa fb fc fd h out w =
     (let m = mesh (g_handles_s w ! nat h);
          (r, np, nt, na) = MMGS_Get_meshSize Ks m (native w)
      in
      if r \<noteq> 1 then (fail_with_count out, w)
      else if np = 0 then (fail_with_count out, w)
      else
        let (vertices, h1) = malloc fa 8 (size_t (int32 (3 * np) * 8)) (heap w) in
        if vertices = NULL
        then (fail_with_count out, w\<lparr>heap := free NULL (free NULL (free NULL (free vertices h1)))\<rparr>)
        else
        let (refs, h2) = malloc fb 4 (size_t (np * 4)) h1 in
        if refs = NULL
        then (fail_with_count out, w\<lparr>heap := free NULL (free NULL (free refs (free vertices h2)))\<rparr>)
        else
        let (corners, h3) = malloc fc 4 (size_t (np * 4)) h2 in
        if corners = NULL
        then (fail_with_count out, w\<lparr>heap := free NULL (free corners (free refs (free vertices h3)))\<rparr>)
        else
        let (required, h4) = malloc fd 4 (size_t (np * 4)) h3 in
        if required = NULL
        then (fail_with_count out, w\<lparr>heap := free required (free corners (free refs (free vertices h4)))\<rparr>)
        else
        let (result, vertices', refs', corners', required') = MMGS_Get_vertices Ks m (native w);
            h5 = poke required (map I32 required') (poke corners (map I32 corners') (poke refs (map I32 refs') (poke vertices (map D vertices') h4)));
            h6 = free required (free corners (free refs h5))
        in
        if result \<noteq> 1 then (fail_with_count out, w\<lparr>heap := free vertices h6\<rparr>)
        else ((vertices, map_option (\<lambda>_. np) out), w\<lparr>heap := h6\<rparr>))"
  unfolding mmgs_get_vertices_def validate_handle_s_ready [OF assms]
  by (rule check_pass) (use assms(2) in \<open>simp add: is_active_s_def\<close>)

lemma mmgs_set_triangle_statics:
  "statics (snd (mmgs_set_triangle Ks h ia ib ic iu iv w)) = statics (ensure_initialized_s w)"
  unfolding mmgs_set_triangle_def Let_def case_prod_beta
  by simp

lemma mmgs_set_triangle_accepted:
  assumes "g_initialized_s w = 1" and "is_active_s w h"
  shows "mmgs_set_triangle Ks h ia ib ic iu iv w =
     (let e = g_handles_s w ! nat h;
          (r, k) = MMGS_Set_triangle Ks (mesh e) ia ib ic iu iv (native w)
      in (r, w\<lparr>native := k\<rparr>))"
  unfolding mmgs_set_triangle_def validate_handle_s_ready [OF assms]
  by (rule check_pass) (use assms(2) in \<open>simp add: is_active_s_def\<close>)

lemma mmgs_set_triangles_statics:
  "statics (snd (mmgs_set_triangles Ks h js ro w)) = statics (ensure_initialized_s w)"
  unfolding mmgs_set_triangles_def Let_def case_prod_beta
  by simp

lemma mmgs_set_triangles_accepted:
  assumes "g_initialized_s w = 1" and "is_active_s w h"
  shows "mmgs_set_triangles Ks h js ro w =
     (let e = g_handles_s w ! nat h;
          (r, k) = MMGS_Set_triangles Ks (mesh e) js ro (native w)
      in (r, w\<lparr>native := k\<rparr>))"
  unfolding mmgs_set_triangles_def validate_handle_s_ready [OF assms]
  by (rule check_pass) (use assms(2) in \<open>simp add: is_active_s_def\<close>)

lemma mmgs_get_triangles_statics:
  "statics (snd (mmgs_get_triangles Ks fa fb fc h out w)) = statics (ensure_initialized_s w)"
  unfolding mmgs_get_triangles_def Let_def case_prod_beta fail_with_count_def
  by (cases fa; cases fb; cases fc) simp_all

lemma mmgs_get_triangles_accepted:
  assumes "g_initialized_s w = 1" and "is_active_s w h"
  shows "mmgs_get_triangles Ks fa fb fc h out w =
     (let m = mesh (g_handles_s w ! nat h);
          (r, np, nt, na) = MMGS_Get_meshSize Ks m (native w)
      in
      if r \<noteq> 1 then (fail_with_count out, w)
      else if nt = 0 then (fail_with_count out, w)
      else
        let (tria, h1) = malloc fa 4 (size_t (int32 (3 * nt) * 4)) (heap w) in
        if tria = NULL
        then (fail_with_count out, w\<lparr>heap := free NULL (free NULL (free tria h1))\<rparr>)
        else
        let (refs, h2) = malloc fb 4 (size_t (nt * 4)) h1 in
        if refs = NULL
        then (fail_with_count out, w\<lparr>heap := free NULL (free refs (free tria h2))\<rparr>)
        else
        let (required, h3) = malloc fc 4 (size_t (nt * 4)) h2 in
        if required = NULL
        then (fail_with_count out, w\<lparr>heap := free required (free refs (free tria h3))\<rparr>)
        else
        let (result, tria', refs', required') = MMGS_Get_triangles Ks m (native w);
            h4 = poke required (map I32 required') (poke refs (map I32 refs') (poke tria (map I32 tria') h3));
            h5 = free required (free refs h4)
        in
        if result \<noteq> 1 then (fail_with_count out, w\<lparr>heap := free tria h5\<rparr>)
        else ((tria, map_option (\<lambda>_. nt) out), w\<lparr>heap := h5\<rparr>))"
  unfolding mmgs_get_triangles_def validate_handle_s_ready [OF assms]
  by (rule check_pass) (use assms(2) in \<open>simp add: is_active_s_def\<close>)

lemma mmgs_set_edge_statics:
  "statics (snd (mmgs_set_edge Ks h ia ib ic iu w)) = statics (ensure_initialized_s w)"
  unfolding mmgs_set_edge_def Let_def case_prod_beta
  by simp

lemma mmgs_set_edge_accepted:
  assumes "g_initialized_s w = 1" and "is_active_s w h"
  shows "mmgs_set_edge Ks h ia ib ic iu w =
     (let e = g_handles_s w ! nat h;
          (r, k) = MMGS_Set_edge Ks (mesh e) ia ib ic iu (native w)
      in (r, w\<lparr>native := k\<rparr>))"
  unfolding mmgs_set_edge_def validate_handle_s_ready [OF assms]
  by (rule check_pass) (use assms(2) in \<open>simp add: is_active_s_def\<close>)

lemma mmgs_set_edges_statics:
  "statics (snd (mmgs_set_edges Ks h js ro w)) = statics (ensure_initialized_s w)"
  unfolding mmgs_set_edges_def Let_def case_prod_beta
  by simp

lemma mmgs_set_edges_accepted:
  assumes "g_initialized_s w = 1" and "is_active_s w h"
  shows "mmgs_set_edges Ks h js ro w =
     (let e = g_handles_s w ! nat h;
          (r, k) = MMGS_Set_edges Ks (mesh e) js ro (native w)
      in (r, w\<lparr>native := k\<rparr>))"
  unfolding mmgs_set_edges_def validate_handle_s_ready [OF assms]
  by (rule check_pass) (use assms(2) in \<open>simp add: is_active_s_def\<close>)

lemma mmgs_get_edges_statics:
  "statics (snd (mmgs_get_edges Ks fa fb fc fd h out w)) = statics (ensure_initialized_s w)"
  unfolding mmgs_get_edges_def Let_def case_prod_beta fail_with_count_def
  by (cases fa; cases fb; cases fc; cases fd) simp_all

lemma mmgs_get_edges_accepted:
  assumes "g_initialized_s w = 1" and "is_active_s w h"
  shows "mmgs_get_edges Ks fa fb fc fd h out w =
     (let m = mesh (g_handles_s w ! nat h);
          (r, np, nt, na) = MMGS_Get_meshSize Ks m (native w)
      in
      if r \<noteq> 1 then (fail_with_count out, w)
      else if na = 0 then (fail_with_count out, w)
      else
        let (edges, h1) = malloc fa 4 (size_t (int32 (2 * na) * 4)) (heap w) in
        if edges = NULL
        then (fail_with_count out, w\<lparr>heap := free NULL (free NULL (free NULL (free edges h1)))\<rparr>)
        else
        let (refs, h2) = malloc fb 4 (size_t (na * 4)) h1 in
        if refs = NULL
        then (fail_with_count out, w\<lparr>heap := free NULL (free NULL (free refs (free edges h2)))\<rparr>)
        else
        let (ridges, h3) = malloc fc 4 (size_t (na * 4)) h2 in
        if ridges = NULL
        then (fail_with_count out, w\<lparr>heap := free NULL (free ridges (free refs (free edges h3)))\<rparr>)
        else
        let (required, h4) = malloc fd 4 (size_t (na * 4)) h3 in
        if required = NULL
        then (fail_with_count out, w\<lparr>heap := free required (free ridges (free refs (free edges h4)))\<rparr>)
        else
        let (result, edges', refs', ridges', required') = MMGS_Get_edges Ks m (native w);
            h5 = poke required (map I32 required') (poke ridges (map I32 ridges') (poke refs (map I32 refs') (poke edges (map I32 edges') h4)));
            h6 = free required (free ridges (free refs h5))
        in
        if result \<noteq> 1 then (fail_with_count out, w\<lparr>heap := free edges h6\<rparr>)
        else ((edges, map_option (\<lambda>_. na) out), w\<lparr>heap := h6\<rparr>))"
  unfolding mmgs_get_edges_def validate_handle_s_ready [OF assms]
  by (rule check_pass) (use assms(2) in \<open>simp add: is_active_s_def\<close>)

lemma mmgs_set_iparameter_statics:
  "statics (snd (mmgs_set_iparameter Ks h ia ib w)) = statics (ensure_initialized_s w)"
  unfolding mmgs_set_iparameter_def Let_def case_prod_beta
  by simp

lemma mmgs_set_iparameter_accepted:
  assumes "g_initialized_s w = 1" and "is_active_s w h"
  shows "mmgs_set_iparameter Ks h ia ib w =
     (let e = g_handles_s w ! nat h;
          (r, k) = MMGS_Set_iparameter Ks (mesh e) (sol e) ia ib (native w)
      in (r, w\<lparr>native := k\<rparr>))"
  unfolding mmgs_set_iparameter_def validate_handle_s_ready [OF assms]
  by (rule check_pass) (use assms(2) in \<open>simp add: is_active_s_def\<close>)

lemma mmgs_set_dparameter_statics:
  "statics (snd (mmgs_set_dparameter Ks h ia xa w)) = statics (ensure_initialized_s w)"
  unfolding mmgs_set_dparameter_def Let_def case_prod_beta
  by simp

lemma mmgs_set_dparameter_accepted:
  assumes "g_initialized_s w = 1" and "is_active_s w h"
  shows "mmgs_set_dparameter Ks h ia xa w =
     (let e = g_handles_s w ! nat h;
          (r, k) = MMGS_Set_dparameter Ks (mesh e) (sol e) ia xa (native w)
      in (r, w\<lparr>native := k\<rparr>))"
  unfolding mmgs_set_dparameter_def validate_handle_s_ready [OF assms]
  by (rule check_pass) (use assms(2) in \<open>simp add: is_active_s_def\<close>)

lemma mmgs_set_sol_size_statics:
  "statics (snd (mmgs_set_sol_size Ks h ia ib ic w)) = statics (ensure_initialized_s w)"
  unfolding mmgs_set_sol_size_def Let_def case_prod_beta
  by simp

lemma mmgs_set_sol_size_accepted:
  assumes "g_initialized_s w = 1" and "is_active_s w h"
  shows "mmgs_set_sol_size Ks h ia ib ic w =
     (let e = g_handles_s w ! nat h;
          (r, k) = MMGS_Set_solSize Ks (mesh e) (sol e) ia ib ic (native w)
      in (r, w\<lparr>native := k\<rparr>))"
  unfolding mmgs_set_sol_size_def validate_handle_s_ready [OF assms]
  by (rule check_pass) (use assms(2) in \<open>simp add: is_active_s_def\<close>)

lemma mmgs_get_sol_size_statics:
  "statics (snd (mmgs_get_sol_size Ks h oa ob oc w)) = statics (ensure_initialized_s w)"
  unfolding mmgs_get_sol_size_def Let_def case_prod_beta
  by simp

lemma mmgs_get_sol_size_accepted:
  assumes "g_initialized_s w = 1" and "is_active_s w h"
  shows "mmgs_get_sol_size Ks h oa ob oc w =
     (let e = g_handles_s w ! nat h;
          (result, typEntity', np', typSol') = MMGS_Get_solSize Ks (mesh e) (sol e) (native w)
      in if result = 1 then ((result, map_option (\<lambda>_. typEntity') oa, map_option (\<lambda>_. np') ob, map_option (\<lambda>_. typSol') oc), w) else ((result, oa, ob, oc), w))"
  unfolding mmgs_get_sol_size_def validate_handle_s_ready [OF assms]
  by (rule check_pass) (use assms(2) in \<open>simp add: is_active_s_def\<close>)

lemma mmgs_set_scalar_sols_statics:
  "statics (snd (mmgs_set_scalar_sols Ks h xs w)) = statics (ensure_initialized_s w)"
  unfolding mmgs_set_scalar_sols_def Let_def case_prod_beta
  by simp

lemma mmgs_set_scalar_sols_accepted:
  assumes "g_initialized_s w = 1" and "is_active_s w h"
  shows "mmgs_set_scalar_sols Ks h xs w =
     (let e = g_handles_s w ! nat h;
          (r, k) = MMGS_Set_scalarSols Ks (sol e) xs (native w)
      in (r, w\<lparr>native := k\<rparr>))"
  unfolding mmgs_set_scalar_sols_def validate_handle_s_ready [OF assms]
  by (rule check_pass) (use assms(2) in \<open>simp add: is_active_s_def\<close>)

lemma mmgs_get_scalar_sols_statics:
  "statics (snd (mmgs_get_scalar_sols Ks fa h out w)) = statics (ensure_initialized_s w)"
  unfolding mmgs_get_scalar_sols_def Let_def case_prod_beta
  by (cases fa) simp_all

lemma mmgs_get_scalar_sols_accepted:
  assumes "g_initialized_s w = 1" and "is_active_s w h"
  shows "mmgs_get_scalar_sols Ks fa h out w =
     (let e = g_handles_s w ! nat h;
          (r, typEntity, np, typSol) = MMGS_Get_solSize Ks (mesh e) (sol e) (native w)
      in
      if r \<noteq> 1 then ((NULL, map_option (\<lambda>_. 0) out), w)
      else if np = 0 \<or> typSol \<noteq> 1 then ((NULL, map_option (\<lambda>_. 0) out), w)
      else
        let (values, h1) = malloc fa 8 (size_t (np * 8)) (heap w) in
        if values = NULL then ((NULL, map_option (\<lambda>_. 0) out), w\<lparr>heap := h1\<rparr>)
        else
          let (result, values') = MMGS_Get_scalarSols Ks (sol e) (native w);
              h2 = poke values (map D values') h1
          in
          if result \<noteq> 1
          then ((NULL, map_option (\<lambda>_. 0) out), w\<lparr>heap := free values h2\<rparr>)
          else ((values, map_option (\<lambda>_. np) out), w\<lparr>heap := h2\<rparr>))"
  unfolding mmgs_get_scalar_sols_def validate_handle_s_ready [OF assms]
  by (rule check_pass) (use assms(2) in \<open>simp add: is_active_s_def\<close>)

lemma mmgs_set_tensor_sols_statics:
  "statics (snd (mmgs_set_tensor_sols Ks h xs w)) = statics (ensure_initialized_s w)"
  unfolding mmgs_set_tensor_sols_def Let_def case_prod_beta
  by simp

lemma mmgs_set_tensor_sols_accepted:
  assumes "g_initialized_s w = 1" and "is_active_s w h"
  shows "mmgs_set_tensor_sols Ks h xs w =
     (let e = g_handles_s w ! nat h;
          (r, k) = MMGS_Set_tensorSols Ks (sol e) xs (native w)
      in (r, w\<lparr>native := k\<rparr>))"
  unfolding mmgs_set_tensor_sols_def validate_handle_s_ready [OF assms]
  by (rule check_pass) (use assms(2) in \<open>simp add: is_active_s_def\<close>)

lemma mmgs_get_tensor_sols_statics:
  "statics (snd (mmgs_get_tensor_sols Ks fa h out w)) = statics (ensure_initialized_s w)"
  unfolding mmgs_get_tensor_sols_def Let_def case_prod_beta
  by (cases fa) simp_all

lemma mmgs_get_tensor_sols_accepted:
  assumes "g_initialized_s w = 1" and "is_active_s w h"
  shows "mmgs_get_tensor_sols Ks fa h out w =
     (let e = g_handles_s w ! nat h;
          (r, typEntity, np, typSol) = MMGS_Get_solSize Ks (mesh e) (sol e) (native w)
      in
      if r \<noteq> 1 then ((NULL, map_option (\<lambda>_. 0) out), w)
      else if np = 0 \<or> typSol \<noteq> 3 then ((NULL, map_option (\<lambda>_. 0) out), w)
      else
        let (values, h1) = malloc fa 8 (size_t (int32 (np * 6) * 8)) (heap w) in
        if values = NULL then ((NULL, map_option (\<lambda>_. 0) out), w\<lparr>heap := h1\<rparr>)
        else
          let (result, values') = MMGS_Get_tensorSols Ks (sol e) (native w);
              h2 = poke values (map D values') h1
          in
          if result \<noteq> 1
          then ((NULL, map_option (\<lambda>_. 0) out), w\<lparr>heap := free values h2\<rparr>)
          else ((values, map_option (\<lambda>_. np) out), w\<lparr>heap := h2\<rparr>))"
  unfolding mmgs_get_tensor_sols_def validate_handle_s_ready [OF assms]
  by (rule check_pass) (use assms(2) in \<open>simp add: is_active_s_def\<close>)

lemma mmgs_remesh_statics:
  "statics (snd (mmgs_remesh Ks h w)) = statics (ensure_initialized_s w)"
  unfolding mmgs_remesh_def Let_def case_prod_beta
  by simp

lemma mmgs_remesh_accepted:
  assumes "g_initialized_s w = 1" and "is_active_s w h"
  shows "mmgs_remesh Ks h w =
     (let e = g_handles_s w ! nat h;
          (r, k) = MMGS_mmgslib Ks (mesh e) (sol e) (native w)
      in (r, w\<lparr>native := k\<rparr>))"
  unfolding mmgs_remesh_def validate_handle_s_ready [OF assms]
  by (rule check_pass) (use assms(2) in \<open>simp add: is_active_s_def\<close>)

lemma mmgs_load_mesh_statics:
  "statics (snd (mmgs_load_mesh Ks h fname w)) = statics (ensure_initialized_s w)"
  unfolding mmgs_load_mesh_def Let_def case_prod_beta
  by simp

lemma mmgs_load_mesh_accepted:
  assumes "g_initialized_s w = 1" and "is_active_s w h"
  shows "mmgs_load_mesh Ks h fname w =
     (let e = g_handles_s w ! nat h;
          (r, k) = MMGS_loadMesh Ks (mesh e) fname (native w)
      in (r, w\<lparr>native := k\<rparr>))"
  unfolding mmgs_load_mesh_def validate_handle_s_ready [OF assms]
  by (rule check_pass) (use assms(2) in \<open>simp add: is_active_s_def\<close>)

lemma mmgs_save_mesh_statics:
  "statics (snd (mmgs_save_mesh Ks h fname w)) = statics (ensure_initialized_s w)"
  unfolding mmgs_save_mesh_def Let_def case_prod_beta
  by simp

lemma mmgs_save_mesh_accepted:
  assumes "g_initialized_s w = 1" and "is_active_s w h"
  shows "mmgs_save_mesh Ks h fname w =
     (let e = g_handles_s w ! nat h;
          (r, k) = MMGS_saveMesh Ks (mesh e) fname (native w)
      in (r, w\<lparr>native := k\<rparr>))"
  unfolding mmgs_save_mesh_def validate_handle_s_ready [OF assms]
  by (rule check_pass) (use assms(2) in \<open>simp add: is_active_s_def\<close>)

lemma mmgs_load_sol_statics:
  "statics (snd (mmgs_load_sol Ks h fname w)) = statics (ensure_initialized_s w)"
  unfolding mmgs_load_sol_def Let_def case_prod_beta
  by simp

lemma mmgs_load_sol_accepted:
  assumes "g_initialized_s w = 1" and "is_active_s w h"
  shows "mmgs_load_sol Ks h fname w =
     (let e = g_handles_s w ! nat h;
          (r, k) = MMGS_loadSol Ks (mesh e) (sol e) fname (native w)
      in (r, w\<lparr>native := k\<rparr>))"
  unfolding mmgs_load_sol_def validate_handle_s_ready [OF assms]
  by (rule check_pass) (use assms(2) in \<open>simp add: is_active_s_def\<close>)

lemma mmgs_save_sol_statics:
  "statics (snd (mmgs_save_sol Ks h fname w)) = statics (ensure_initialized_s w)"
  unfolding mmgs_save_sol_def Let_def case_prod_beta
  by simp

lemma mmgs_save_sol_accepted:
  assumes "g_initialized_s w = 1" and "is_active_s w h"
  shows "mmgs_save_sol Ks h fname w =
     (let e = g_handles_s w ! nat h;
          (r, k) = MMGS_saveSol Ks (mesh e) (sol e) fname (native w)
      in (r, w\<lparr>native := k\<rparr>))"
  unfolding mmgs_save_sol_def validate_handle_s_ready [OF assms]
  by (rule check_pass) (use assms(2) in \<open>simp add: is_active_s_def\<close>)

lemma mmgs_get_triangle_quality_statics:
  "statics (snd (mmgs_get_triangle_quality Ks h k w)) = statics (ensure_initialized_s w)"
  unfolding mmgs_get_triangle_quality_def Let_def case_prod_beta
  by simp

lemma mmgs_get_triangle_quality_accepted:
  assumes "g_initialized_s w = 1" and "is_active_s w h"
  shows "mmgs_get_triangle_quality Ks h k w =
     (let e = g_handles_s w ! nat h in
      (MMGS_Get_triangleQuality Ks (mesh e) (sol e) k (native w), w))"
  unfolding mmgs_get_triangle_quality_def validate_handle_s_ready [OF assms]
  by (rule check_pass) (use assms(2) in \<open>simp add: is_active_s_def\<close>)

lemma mmgs_get_triangles_qualities_statics:
  "statics (snd (mmgs_get_triangles_qualities Ks fa h out w)) = statics (ensure_initialized_s w)"
  unfolding mmgs_get_triangles_qualities_def Let_def case_prod_beta
  by (cases fa) (simp_all split: option.splits)

lemma mmgs_get_triangles_qualities_accepted:
  assumes "g_initialized_s w = 1" and "is_active_s w h"
  shows "mmgs_get_triangles_qualities Ks fa h out w =
     (let e = g_handles_s w ! nat h;
          (r, np, nt, na) = MMGS_Get_meshSize Ks (mesh e) (native w)
      in
      if r \<noteq> 1 then ((NULL, map_option (\<lambda>_. 0) out), w)
      else if nt = 0 then ((NULL, map_option (\<lambda>_. 0) out), w)
      else
        let (qualities, h1) = malloc fa 8 (size_t (nt * 8)) (heap w) in
        if qualities = NULL then ((NULL, map_option (\<lambda>_. 0) out), w\<lparr>heap := h1\<rparr>)
        else
          case qualities_loop
                 (\<lambda>k. MMGS_Get_triangleQuality Ks (mesh e) (sol e) k (native w)) qualities 1 nt h1 of
            None \<Rightarrow> ((qualities, map_option (\<lambda>_. nt) out), w\<lparr>heap := h1, fault := True\<rparr>)
          | Some h2 \<Rightarrow> ((qualities, map_option (\<lambda>_. nt) out), w\<lparr>heap := h2\<rparr>))"
  unfolding mmgs_get_triangles_qualities_def validate_handle_s_ready [OF assms]
  by (rule check_pass) (use assms(2) in \<open>simp add: is_active_s_def\<close>)

text \<open>
  Every entry point of the file but \<^verbatim>\<open>init\<close> and \<^verbatim>\<open>free\<close> leaves the static variables of
  the three files as the lazy initialisation of the table leaves them.
\<close>

lemma exec_s_statics:
  assumes "c \<noteq> Init_s" and "\<forall>h. c \<noteq> Free_s h"
  shows "statics (exec_s K c w) = statics (ensure_initialized_s w) \<or>
         statics (exec_s K c w) = statics w"
  using assms
  by (cases c)
     (simp_all add: mmgs_get_available_handles_statics
        mmgs_get_max_handles_statics
        mmgs_set_mesh_size_statics
        mmgs_get_mesh_size_statics
        mmgs_set_vertex_statics
        mmgs_set_vertices_statics
        mmgs_get_vertices_statics
        mmgs_set_triangle_statics
        mmgs_set_triangles_statics
        mmgs_get_triangles_statics
        mmgs_set_edge_statics
        mmgs_set_edges_statics
        mmgs_get_edges_statics
        mmgs_set_iparameter_statics
        mmgs_set_dparameter_statics
        mmgs_set_sol_size_statics
        mmgs_get_sol_size_statics
        mmgs_set_scalar_sols_statics
        mmgs_get_scalar_sols_statics
        mmgs_set_tensor_sols_statics
        mmgs_get_tensor_sols_statics
        mmgs_remesh_statics
        mmgs_free_array_statics
        mmgs_load_mesh_statics
        mmgs_save_mesh_statics
        mmgs_load_sol_statics
        mmgs_save_sol_statics
        mmgs_get_triangle_quality_statics
        mmgs_get_triangles_qualities_statics)

lemma exec_s_frame: "others_s (exec_s K c w) = others_s w"
proof (cases "c = Init_s \<or> (\<exists>h. c = Free_s h)")
  case True
  then show ?thesis by (auto simp add: mmgs_init_frame mmgs_free_frame)
next
  case False
  with exec_s_statics [of c K w] show ?thesis
    by (auto dest: statics_others)
qed

lemma exec_s_wf:
  assumes "wf_world w"
  shows "wf_world (exec_s K c w)"
proof (cases "c = Init_s \<or> (\<exists>h. c = Free_s h)")
  case True
  with assms show ?thesis by (auto simp add: mmgs_init_preserves_wf mmgs_free_preserves_wf)
next
  case False
  with exec_s_statics [of c K w] assms show ?thesis
    by (auto dest: statics_wf simp add: ensure_initialized_s_keeps)
qed

lemma exec_s_flag:
  assumes "wf_world w" and "g_initialized_s w = 1"
  shows "g_initialized_s (exec_s K c w) = 1"
proof (cases "c = Init_s \<or> (\<exists>h. c = Free_s h)")
  case True
  with assms show ?thesis by (auto simp add: mmgs_init_flag mmgs_free_flag)
next
  case False
  with exec_s_statics [of c K w] assms show ?thesis
    by (auto dest: statics_flags simp add: ensure_initialized_s_keeps)
qed

lemma exec_s_keeps_active:
  assumes "wf_world w" and "is_active_s w h" and "c \<noteq> Free_s h"
  shows "is_active_s (exec_s K c w) h"
proof (cases "c = Init_s \<or> (\<exists>h. c = Free_s h)")
  case True
  then show ?thesis
  proof
    assume "c = Init_s"
    with assms show ?thesis by (simp add: mmgs_init_keeps_active)
  next
    assume "\<exists>h. c = Free_s h"
    then obtain h' where c: "c = Free_s h'" by blast
    with assms(3) have "h' \<noteq> h" by simp
    with assms c show ?thesis by (simp add: mmgs_free_keeps_active)
  qed
next
  case False
  with exec_s_statics [of c K w] assms show ?thesis
    by (auto dest: statics_active simp add: ensure_initialized_s_keeps)
qed

lemma exec_s_keeps_inactive:
  assumes "wf_world w" and "\<not> is_active_s w h"
    and "c = Init_s \<longrightarrow> fst (mmgs_init K w) \<noteq> h"
  shows "\<not> is_active_s (exec_s K c w) h"
proof (cases "c = Init_s \<or> (\<exists>h. c = Free_s h)")
  case True
  with assms show ?thesis by (auto simp add: mmgs_init_keeps_inactive mmgs_free_keeps_inactive)
next
  case False
  with exec_s_statics [of c K w] assms show ?thesis
    by (auto dest: statics_active simp add: ensure_initialized_s_keeps)
qed

subsection \<open>Sequences of calls of every entry point\<close>

lemma exec_wf: "wf_world w \<Longrightarrow> wf_world (exec Kp Kv Ks c w)"
  by (cases c) (simp_all add: exec_2d_wf exec_3d_wf exec_s_wf)

lemma exec_all_wf: "wf_world w \<Longrightarrow> wf_world (exec_all Kp Kv Ks cs w)"
  by (induction cs arbitrary: w) (simp_all add: exec_wf)

lemma exec_all_append:
  "exec_all Kp Kv Ks (cs @ ds) w = exec_all Kp Kv Ks ds (exec_all Kp Kv Ks cs w)"
  by (induction cs arbitrary: w) simp_all

lemma exec_flag_2d:
  assumes "wf_world w" and "g_initialized_2d w = 1"
  shows "g_initialized_2d (exec Kp Kv Ks c w) = 1"
proof (cases c)
  case (In_2d x)
  with assms show ?thesis by (simp add: exec_2d_flag)
next
  case (In_3d x)
  from exec_3d_frame [of Kv x w] have "g_initialized_2d (exec_3d Kv x w) = g_initialized_2d w"
    by (simp add: others_3d_def)
  with In_3d assms show ?thesis by simp
next
  case (In_s x)
  from exec_s_frame [of Ks x w] have "g_initialized_2d (exec_s Ks x w) = g_initialized_2d w"
    by (simp add: others_s_def)
  with In_s assms show ?thesis by simp
qed

lemma exec_keeps_active_2d:
  assumes "wf_world w" and "is_active_2d w h" and "c \<noteq> In_2d (Free_2d h)"
  shows "is_active_2d (exec Kp Kv Ks c w) h"
proof (cases c)
  case (In_2d x)
  with assms show ?thesis by (simp add: exec_2d_keeps_active)
next
  case (In_3d x)
  with assms others_3d_decide(1) [OF exec_3d_frame, of Kv x w h] show ?thesis by simp
next
  case (In_s x)
  with assms others_s_decide(1) [OF exec_s_frame, of Ks x w h] show ?thesis by simp
qed

lemma exec_keeps_inactive_2d:
  assumes "wf_world w" and "\<not> is_active_2d w h"
    and "c = In_2d Init_2d \<longrightarrow> fst (mmg2d_init Kp w) \<noteq> h"
  shows "\<not> is_active_2d (exec Kp Kv Ks c w) h"
proof (cases c)
  case (In_2d x)
  with assms show ?thesis by (simp add: exec_2d_keeps_inactive)
next
  case (In_3d x)
  with assms others_3d_decide(1) [OF exec_3d_frame, of Kv x w h] show ?thesis by simp
next
  case (In_s x)
  with assms others_s_decide(1) [OF exec_s_frame, of Ks x w h] show ?thesis by simp
qed

lemma exec_all_flag_2d:
  "wf_world w \<Longrightarrow> g_initialized_2d w = 1 \<Longrightarrow> g_initialized_2d (exec_all Kp Kv Ks cs w) = 1"
  by (induction cs arbitrary: w) (simp_all add: exec_wf exec_flag_2d)

lemma exec_all_keeps_active_2d:
  "wf_world w \<Longrightarrow> is_active_2d w h \<Longrightarrow> In_2d (Free_2d h) \<notin> set cs \<Longrightarrow>
   is_active_2d (exec_all Kp Kv Ks cs w) h"
proof (induction cs arbitrary: w)
  case Nil
  then show ?case by simp
next
  case (Cons c cs)
  from Cons.prems have "c \<noteq> In_2d (Free_2d h)" and rest: "In_2d (Free_2d h) \<notin> set cs"
    by auto
  with Cons.prems have "is_active_2d (exec Kp Kv Ks c w) h"
    by (simp add: exec_keeps_active_2d)
  with Cons.IH [OF exec_wf [OF Cons.prems(1)] _ rest] show ?case by simp
qed

lemma exec_all_keeps_inactive_2d:
  "wf_world w \<Longrightarrow> \<not> is_active_2d w h \<Longrightarrow>
   \<forall>i < length cs. cs ! i = In_2d Init_2d \<longrightarrow>
     fst (mmg2d_init Kp (exec_all Kp Kv Ks (take i cs) w)) \<noteq> h \<Longrightarrow>
   \<not> is_active_2d (exec_all Kp Kv Ks cs w) h"
proof (induction cs arbitrary: w)
  case Nil
  then show ?case by simp
next
  case (Cons c cs)
  from Cons.prems(3) [rule_format, of 0]
  have first: "c = In_2d Init_2d \<longrightarrow> fst (mmg2d_init Kp w) \<noteq> h" by simp
  have rest: "\<forall>i < length cs. cs ! i = In_2d Init_2d \<longrightarrow>
                fst (mmg2d_init Kp (exec_all Kp Kv Ks (take i cs) (exec Kp Kv Ks c w))) \<noteq> h"
  proof (intro allI impI)
    fix i assume "i < length cs" and "cs ! i = In_2d Init_2d"
    with Cons.prems(3) [rule_format, of "Suc i"] show
      "fst (mmg2d_init Kp (exec_all Kp Kv Ks (take i cs) (exec Kp Kv Ks c w))) \<noteq> h" by simp
  qed
  from Cons.prems first have "\<not> is_active_2d (exec Kp Kv Ks c w) h"
    by (simp add: exec_keeps_inactive_2d)
  with Cons.IH [OF exec_wf [OF Cons.prems(1)] _ rest] show ?case by simp
qed

lemma exec_flag_3d:
  assumes "wf_world w" and "g_initialized w = 1"
  shows "g_initialized (exec Kp Kv Ks c w) = 1"
proof (cases c)
  case (In_3d x)
  with assms show ?thesis by (simp add: exec_3d_flag)
next
  case (In_2d x)
  from exec_2d_frame [of Kp x w] have "g_initialized (exec_2d Kp x w) = g_initialized w"
    by (simp add: others_2d_def)
  with In_2d assms show ?thesis by simp
next
  case (In_s x)
  from exec_s_frame [of Ks x w] have "g_initialized (exec_s Ks x w) = g_initialized w"
    by (simp add: others_s_def)
  with In_s assms show ?thesis by simp
qed

lemma exec_keeps_active_3d:
  assumes "wf_world w" and "is_active_3d w h" and "c \<noteq> In_3d (Free_3d h)"
  shows "is_active_3d (exec Kp Kv Ks c w) h"
proof (cases c)
  case (In_3d x)
  with assms show ?thesis by (simp add: exec_3d_keeps_active)
next
  case (In_2d x)
  with assms others_2d_decide(1) [OF exec_2d_frame, of Kp x w h] show ?thesis by simp
next
  case (In_s x)
  with assms others_s_decide(2) [OF exec_s_frame, of Ks x w h] show ?thesis by simp
qed

lemma exec_keeps_inactive_3d:
  assumes "wf_world w" and "\<not> is_active_3d w h"
    and "c = In_3d Init_3d \<longrightarrow> fst (mmg3d_init Kv w) \<noteq> h"
  shows "\<not> is_active_3d (exec Kp Kv Ks c w) h"
proof (cases c)
  case (In_3d x)
  with assms show ?thesis by (simp add: exec_3d_keeps_inactive)
next
  case (In_2d x)
  with assms others_2d_decide(1) [OF exec_2d_frame, of Kp x w h] show ?thesis by simp
next
  case (In_s x)
  with assms others_s_decide(2) [OF exec_s_frame, of Ks x w h] show ?thesis by simp
qed

lemma exec_all_flag_3d:
  "wf_world w \<Longrightarrow> g_initialized w = 1 \<Longrightarrow> g_initialized (exec_all Kp Kv Ks cs w) = 1"
  by (induction cs arbitrary: w) (simp_all add: exec_wf exec_flag_3d)

lemma exec_all_keeps_active_3d:
  "wf_world w \<Longrightarrow> is_active_3d w h \<Longrightarrow> In_3d (Free_3d h) \<notin> set cs \<Longrightarrow>
   is_active_3d (exec_all Kp Kv Ks cs w) h"
proof (induction cs arbitrary: w)
  case Nil
  then show ?case by simp
next
  case (Cons c cs)
  from Cons.prems have "c \<noteq> In_3d (Free_3d h)" and rest: "In_3d (Free_3d h) \<notin> set cs"
    by auto
  with Cons.prems have "is_active_3d (exec Kp Kv Ks c w) h"
    by (simp add: exec_keeps_active_3d)
  with Cons.IH [OF exec_wf [OF Cons.prems(1)] _ rest] show ?case by simp
qed

lemma exec_all_keeps_inactive_3d:
  "wf_world w \<Longrightarrow> \<not> is_active_3d w h \<Longrightarrow>
   \<forall>i < length cs. cs ! i = In_3d Init_3d \<longrightarrow>
     fst (mmg3d_init Kv (exec_all Kp Kv Ks (take i cs) w)) \<noteq> h \<Longrightarrow>
   \<not> is_active_3d (exec_all Kp Kv Ks cs w) h"
proof (induction cs arbitrary: w)
  case Nil
  then show ?case by simp
next
  case (Cons c cs)
  from Cons.prems(3) [rule_format, of 0]
  have first: "c = In_3d Init_3d \<longrightarrow> fst (mmg3d_init Kv w) \<noteq> h" by simp
  have rest: "\<forall>i < length cs. cs ! i = In_3d Init_3d \<longrightarrow>
                fst (mmg3d_init Kv (exec_all Kp Kv Ks (take i cs) (exec Kp Kv Ks c w))) \<noteq> h"
  proof (intro allI impI)
    fix i assume "i < length cs" and "cs ! i = In_3d Init_3d"
    with Cons.prems(3) [rule_format, of "Suc i"] show
      "fst (mmg3d_init Kv (exec_all Kp Kv Ks (take i cs) (exec Kp Kv Ks c w))) \<noteq> h" by simp
  qed
  from Cons.prems first have "\<not> is_active_3d (exec Kp Kv Ks c w) h"
    by (simp add: exec_keeps_inactive_3d)
  with Cons.IH [OF exec_wf [OF Cons.prems(1)] _ rest] show ?case by simp
qed

lemma exec_flag_s:
  assumes "wf_world w" and "g_initialized_s w = 1"
  shows "g_initialized_s (exec Kp Kv Ks c w) = 1"
proof (cases c)
  case (In_s x)
  with assms show ?thesis by (simp add: exec_s_flag)
next
  case (In_2d x)
  from exec_2d_frame [of Kp x w] have "g_initialized_s (exec_2d Kp x w) = g_initialized_s w"
    by (simp add: others_2d_def)
  with In_2d assms show ?thesis by simp
next
  case (In_3d x)
  from exec_3d_frame [of Kv x w] have "g_initialized_s (exec_3d Kv x w) = g_initialized_s w"
    by (simp add: others_3d_def)
  with In_3d assms show ?thesis by simp
qed

lemma exec_keeps_active_s:
  assumes "wf_world w" and "is_active_s w h" and "c \<noteq> In_s (Free_s h)"
  shows "is_active_s (exec Kp Kv Ks c w) h"
proof (cases c)
  case (In_s x)
  with assms show ?thesis by (simp add: exec_s_keeps_active)
next
  case (In_2d x)
  with assms others_2d_decide(2) [OF exec_2d_frame, of Kp x w h] show ?thesis by simp
next
  case (In_3d x)
  with assms others_3d_decide(2) [OF exec_3d_frame, of Kv x w h] show ?thesis by simp
qed

lemma exec_keeps_inactive_s:
  assumes "wf_world w" and "\<not> is_active_s w h"
    and "c = In_s Init_s \<longrightarrow> fst (mmgs_init Ks w) \<noteq> h"
  shows "\<not> is_active_s (exec Kp Kv Ks c w) h"
proof (cases c)
  case (In_s x)
  with assms show ?thesis by (simp add: exec_s_keeps_inactive)
next
  case (In_2d x)
  with assms others_2d_decide(2) [OF exec_2d_frame, of Kp x w h] show ?thesis by simp
next
  case (In_3d x)
  with assms others_3d_decide(2) [OF exec_3d_frame, of Kv x w h] show ?thesis by simp
qed

lemma exec_all_flag_s:
  "wf_world w \<Longrightarrow> g_initialized_s w = 1 \<Longrightarrow> g_initialized_s (exec_all Kp Kv Ks cs w) = 1"
  by (induction cs arbitrary: w) (simp_all add: exec_wf exec_flag_s)

lemma exec_all_keeps_active_s:
  "wf_world w \<Longrightarrow> is_active_s w h \<Longrightarrow> In_s (Free_s h) \<notin> set cs \<Longrightarrow>
   is_active_s (exec_all Kp Kv Ks cs w) h"
proof (induction cs arbitrary: w)
  case Nil
  then show ?case by simp
next
  case (Cons c cs)
  from Cons.prems have "c \<noteq> In_s (Free_s h)" and rest: "In_s (Free_s h) \<notin> set cs"
    by auto
  with Cons.prems have "is_active_s (exec Kp Kv Ks c w) h"
    by (simp add: exec_keeps_active_s)
  with Cons.IH [OF exec_wf [OF Cons.prems(1)] _ rest] show ?case by simp
qed

lemma exec_all_keeps_inactive_s:
  "wf_world w \<Longrightarrow> \<not> is_active_s w h \<Longrightarrow>
   \<forall>i < length cs. cs ! i = In_s Init_s \<longrightarrow>
     fst (mmgs_init Ks (exec_all Kp Kv Ks (take i cs) w)) \<noteq> h \<Longrightarrow>
   \<not> is_active_s (exec_all Kp Kv Ks cs w) h"
proof (induction cs arbitrary: w)
  case Nil
  then show ?case by simp
next
  case (Cons c cs)
  from Cons.prems(3) [rule_format, of 0]
  have first: "c = In_s Init_s \<longrightarrow> fst (mmgs_init Ks w) \<noteq> h" by simp
  have rest: "\<forall>i < length cs. cs ! i = In_s Init_s \<longrightarrow>
                fst (mmgs_init Ks (exec_all Kp Kv Ks (take i cs) (exec Kp Kv Ks c w))) \<noteq> h"
  proof (intro allI impI)
    fix i assume "i < length cs" and "cs ! i = In_s Init_s"
    with Cons.prems(3) [rule_format, of "Suc i"] show
      "fst (mmgs_init Ks (exec_all Kp Kv Ks (take i cs) (exec Kp Kv Ks c w))) \<noteq> h" by simp
  qed
  from Cons.prems first have "\<not> is_active_s (exec Kp Kv Ks c w) h"
    by (simp add: exec_keeps_inactive_s)
  with Cons.IH [OF exec_wf [OF Cons.prems(1)] _ rest] show ?case by simp
qed

section \<open>The properties\<close>

subsection \<open>The states used as concrete inputs\<close>

lemma demo_world_wf: "wf_world demo_world"
  unfolding demo_world_def by (rule run_preserves_wf [OF wf_world0])

lemma demo_world_eq:
  "demo_world =
     \<lparr>g_handles_2d = (replicate MAX_HANDLES zero_entry)[0 := \<lparr>mesh = 2, sol = 3, active = 1\<rparr>],
      g_initialized_2d = 1,
      g_handles = (replicate MAX_HANDLES zero_entry)[0 := \<lparr>mesh = 4, sol = 5, active = 1\<rparr>],
      g_initialized = 1,
      g_handles_s = (replicate MAX_HANDLES zero_entry)[0 := \<lparr>mesh = 6, sol = 7, active = 1\<rparr>],
      g_initialized_s = 1,
      heap = [], fault = False, native = 4\<rparr>"
  by (simp add: demo_world_def mmg2d_init_def mmg3d_init_def mmgs_init_def
      find_free_handle_2d_def find_free_handle_def find_free_handle_s_def
      ensure_initialized_2d_def ensure_initialized_def ensure_initialized_s_def
      world0_def demo_2d_def demo_3d_def demo_s_def zero_entry_def
      find_free_loop.simps [of 0] Let_def)

lemma demo_world_active:
  "is_active_2d demo_world 0" "is_active_3d demo_world 0" "is_active_s demo_world 0"
  by (simp_all add: demo_world_eq is_active_2d_def is_active_3d_def is_active_s_def)

lemma demo_world_inactive:
  "\<not> is_active_2d demo_world (- 1)" "\<not> is_active_3d demo_world (- 1)"
  "\<not> is_active_s demo_world (- 1)"
  "\<not> is_active_2d demo_world 64" "\<not> is_active_3d demo_world 64" "\<not> is_active_s demo_world 64"
  "\<not> is_active_2d demo_world 5" "\<not> is_active_3d demo_world 5" "\<not> is_active_s demo_world 5"
  by (simp_all add: demo_world_eq is_active_2d_def is_active_3d_def is_active_s_def zero_entry_def)

lemma nearly_full_world_wf: "wf_world nearly_full_world"
  by (simp add: wf_world_def table_ok_def nearly_full_world_def)

subsection \<open>C1: the tables never hold more than 64 active slots\<close>

text \<open>
  C1. For every sequence of \<^verbatim>\<open>init\<close> and \<^verbatim>\<open>free\<close> calls of the three files, run from the
  state the program starts in, and for each file: the number of active slots of its
  table is at most 64, and what \<^verbatim>\<open>get_available_handles\<close> returns plus the number of
  active slots is what \<^verbatim>\<open>get_max_handles\<close> returns. The sequence is arbitrary, so the
  state after every one of its calls is covered: it is the state after a shorter
  sequence.
\<close>

theorem C1_capacity_invariant:
  "(let w = snd (run Kp Kv Ks cs (world0 k)) in
      (active_count (g_handles_2d w) \<le> MAX_HANDLES \<and>
       fst (mmg2d_get_available_handles w) + int (active_count (g_handles_2d w)) =
         fst (mmg2d_get_max_handles w)) \<and>
      (active_count (g_handles w) \<le> MAX_HANDLES \<and>
       fst (mmg3d_get_available_handles w) + int (active_count (g_handles w)) =
         fst (mmg3d_get_max_handles w)) \<and>
      (active_count (g_handles_s w) \<le> MAX_HANDLES \<and>
       fst (mmgs_get_available_handles w) + int (active_count (g_handles_s w)) =
         fst (mmgs_get_max_handles w)))"
proof -
  let ?w = "snd (run Kp Kv Ks cs (world0 k))"
  have wf: "wf_world ?w" by (rule run_preserves_wf [OF wf_world0])
  have "length (g_handles_2d ?w) = MAX_HANDLES" by (rule wf_world_length [OF wf])
  then have part_2d: "active_count (g_handles_2d ?w) \<le> MAX_HANDLES \<and>
       fst (mmg2d_get_available_handles ?w) + int (active_count (g_handles_2d ?w)) =
         fst (mmg2d_get_max_handles ?w)"
    using active_count_le [of "g_handles_2d ?w"] available_plus_active [of "g_handles_2d ?w"]
    by (simp add: mmg2d_get_available_handles_wf [OF wf] mmg2d_get_max_handles_def)
  have "length (g_handles ?w) = MAX_HANDLES" by (rule wf_world_length [OF wf])
  then have part_3d: "active_count (g_handles ?w) \<le> MAX_HANDLES \<and>
       fst (mmg3d_get_available_handles ?w) + int (active_count (g_handles ?w)) =
         fst (mmg3d_get_max_handles ?w)"
    using active_count_le [of "g_handles ?w"] available_plus_active [of "g_handles ?w"]
    by (simp add: mmg3d_get_available_handles_wf [OF wf] mmg3d_get_max_handles_def)
  have "length (g_handles_s ?w) = MAX_HANDLES" by (rule wf_world_length [OF wf])
  then have part_s: "active_count (g_handles_s ?w) \<le> MAX_HANDLES \<and>
       fst (mmgs_get_available_handles ?w) + int (active_count (g_handles_s ?w)) =
         fst (mmgs_get_max_handles ?w)"
    using active_count_le [of "g_handles_s ?w"] available_plus_active [of "g_handles_s ?w"]
    by (simp add: mmgs_get_available_handles_wf [OF wf] mmgs_get_max_handles_def)
  from part_2d part_3d part_s show ?thesis by (simp add: Let_def)
qed

theorem C1_capacity_invariant_witness:
  "(let w = snd (run (demo_2d 2 1) (demo_3d 2 1) (demo_s 2 1)
                  [Init2D, Init2D, Free2D 0, Init3D, InitS, FreeS 9, Init2D] (world0 0)) in
      (active_count (g_handles_2d w) \<le> MAX_HANDLES \<and>
       fst (mmg2d_get_available_handles w) + int (active_count (g_handles_2d w)) =
         fst (mmg2d_get_max_handles w)) \<and>
      (active_count (g_handles w) \<le> MAX_HANDLES \<and>
       fst (mmg3d_get_available_handles w) + int (active_count (g_handles w)) =
         fst (mmg3d_get_max_handles w)) \<and>
      (active_count (g_handles_s w) \<le> MAX_HANDLES \<and>
       fst (mmgs_get_available_handles w) + int (active_count (g_handles_s w)) =
         fst (mmgs_get_max_handles w)))"
  by (rule C1_capacity_invariant)

subsection \<open>C2: a bulk get that fails releases every buffer it allocated\<close>

text \<open>
  C2. For each bulk get of vertices, triangles, edges and tetrahedra: the flags
  \<open>fa\<close>, \<open>fb\<close>, \<open>fc\<close>, \<open>fd\<close> say which of its allocations succeed, in the order of the
  source. If one of them fails, or if the library's bulk-get primitive does not return 1
  after all of them succeeded, the function returns the null pointer, sets the count it
  was given to 0, and leaves the heap as it found it: every buffer it had allocated is
  released. Nothing else changes either, but the flag of the lazy initialisation.
\<close>

theorem C2_bulk_get_rollback:
  assumes "wf_world w"
  shows
  "(\<not> fa \<or> \<not> fb \<or> \<not> fc \<or> \<not> fd \<or> fst (MMG2D_Get_vertices Kp (mesh (g_handles_2d w ! nat h)) (native w)) \<noteq> 1 \<longrightarrow>
      mmg2d_get_vertices Kp fa fb fc fd h out w = ((NULL, map_option (\<lambda>_. 0) out), w\<lparr>g_initialized_2d := 1\<rparr>)) \<and>
   (\<not> fa \<or> \<not> fb \<or> \<not> fc \<or> fst (MMG2D_Get_triangles Kp (mesh (g_handles_2d w ! nat h)) (native w)) \<noteq> 1 \<longrightarrow>
      mmg2d_get_triangles Kp fa fb fc h out w = ((NULL, map_option (\<lambda>_. 0) out), w\<lparr>g_initialized_2d := 1\<rparr>)) \<and>
   (\<not> fa \<or> \<not> fb \<or> \<not> fc \<or> \<not> fd \<or> fst (MMG2D_Get_edges Kp (mesh (g_handles_2d w ! nat h)) (native w)) \<noteq> 1 \<longrightarrow>
      mmg2d_get_edges Kp fa fb fc fd h out w = ((NULL, map_option (\<lambda>_. 0) out), w\<lparr>g_initialized_2d := 1\<rparr>)) \<and>
   (\<not> fa \<or> \<not> fb \<or> \<not> fc \<or> \<not> fd \<or> fst (MMG3D_Get_vertices Kv (mesh (g_handles w ! nat h)) (native w)) \<noteq> 1 \<longrightarrow>
      mmg3d_get_vertices Kv fa fb fc fd h out w = ((NULL, map_option (\<lambda>_. 0) out), w\<lparr>g_initialized := 1\<rparr>)) \<and>
   (\<not> fa \<or> \<not> fb \<or> \<not> fc \<or> fst (MMG3D_Get_tetrahedra Kv (mesh (g_handles w ! nat h)) (native w)) \<noteq> 1 \<longrightarrow>
      mmg3d_get_tetrahedra Kv fa fb fc h out w = ((NULL, map_option (\<lambda>_. 0) out), w\<lparr>g_initialized := 1\<rparr>)) \<and>
   (\<not> fa \<or> \<not> fb \<or> \<not> fc \<or> fst (MMG3D_Get_triangles Kv (mesh (g_handles w ! nat h)) (native w)) \<noteq> 1 \<longrightarrow>
      mmg3d_get_triangles Kv fa fb fc h out w = ((NULL, map_option (\<lambda>_. 0) out), w\<lparr>g_initialized := 1\<rparr>)) \<and>
   (\<not> fa \<or> \<not> fb \<or> \<not> fc \<or> \<not> fd \<or> fst (MMGS_Get_vertices Ks (mesh (g_handles_s w ! nat h)) (native w)) \<noteq> 1 \<longrightarrow>
      mmgs_get_vertices Ks fa fb fc fd h out w = ((NULL, map_option (\<lambda>_. 0) out), w\<lparr>g_initialized_s := 1\<rparr>)) \<and>
   (\<not> fa \<or> \<not> fb \<or> \<not> fc \<or> fst (MMGS_Get_triangles Ks (mesh (g_handles_s w ! nat h)) (native w)) \<noteq> 1 \<longrightarrow>
      mmgs_get_triangles Ks fa fb fc h out w = ((NULL, map_option (\<lambda>_. 0) out), w\<lparr>g_initialized_s := 1\<rparr>)) \<and>
   (\<not> fa \<or> \<not> fb \<or> \<not> fc \<or> \<not> fd \<or> fst (MMGS_Get_edges Ks (mesh (g_handles_s w ! nat h)) (native w)) \<noteq> 1 \<longrightarrow>
      mmgs_get_edges Ks fa fb fc fd h out w = ((NULL, map_option (\<lambda>_. 0) out), w\<lparr>g_initialized_s := 1\<rparr>))"
  by (intro conjI impI;
      rule mmg2d_get_vertices_rollback [OF assms]
        mmg2d_get_triangles_rollback [OF assms]
        mmg2d_get_edges_rollback [OF assms]
        mmg3d_get_vertices_rollback [OF assms]
        mmg3d_get_tetrahedra_rollback [OF assms]
        mmg3d_get_triangles_rollback [OF assms]
        mmgs_get_vertices_rollback [OF assms]
        mmgs_get_triangles_rollback [OF assms]
        mmgs_get_edges_rollback [OF assms];
      assumption)

theorem C2_bulk_get_rollback_witness:
  "mmg2d_get_vertices (demo_2d 2 1) True False True True 0 (Some 7) demo_world = ((NULL, map_option (\<lambda>_. 0) (Some 7)), demo_world\<lparr>g_initialized_2d := 1\<rparr>) \<and>
   mmg2d_get_triangles (demo_2d 2 1) True False True 0 (Some 7) demo_world = ((NULL, map_option (\<lambda>_. 0) (Some 7)), demo_world\<lparr>g_initialized_2d := 1\<rparr>) \<and>
   mmg2d_get_edges (demo_2d 2 1) True False True True 0 (Some 7) demo_world = ((NULL, map_option (\<lambda>_. 0) (Some 7)), demo_world\<lparr>g_initialized_2d := 1\<rparr>) \<and>
   mmg3d_get_vertices (demo_3d 2 1) True False True True 0 (Some 7) demo_world = ((NULL, map_option (\<lambda>_. 0) (Some 7)), demo_world\<lparr>g_initialized := 1\<rparr>) \<and>
   mmg3d_get_tetrahedra (demo_3d 2 1) True False True 0 (Some 7) demo_world = ((NULL, map_option (\<lambda>_. 0) (Some 7)), demo_world\<lparr>g_initialized := 1\<rparr>) \<and>
   mmg3d_get_triangles (demo_3d 2 1) True False True 0 (Some 7) demo_world = ((NULL, map_option (\<lambda>_. 0) (Some 7)), demo_world\<lparr>g_initialized := 1\<rparr>) \<and>
   mmgs_get_vertices (demo_s 2 1) True False True True 0 (Some 7) demo_world = ((NULL, map_option (\<lambda>_. 0) (Some 7)), demo_world\<lparr>g_initialized_s := 1\<rparr>) \<and>
   mmgs_get_triangles (demo_s 2 1) True False True 0 (Some 7) demo_world = ((NULL, map_option (\<lambda>_. 0) (Some 7)), demo_world\<lparr>g_initialized_s := 1\<rparr>) \<and>
   mmgs_get_edges (demo_s 2 1) True False True True 0 (Some 7) demo_world = ((NULL, map_option (\<lambda>_. 0) (Some 7)), demo_world\<lparr>g_initialized_s := 1\<rparr>)"
  using C2_bulk_get_rollback [OF demo_world_wf, where Kp = "demo_2d 2 1" and Kv = "demo_3d 2 1"
      and Ks = "demo_s 2 1" and h = 0 and out = "Some 7" and fa = True and fb = False
      and fc = True and fd = True]
  by simp

subsection \<open>C3: an inactive handle is refused by every entry point\<close>

text \<open>
  C3. For a handle that is not active in a file's table (negative, 64 or more, or the
  index of a slot whose flag is 0), each of the 81 entry points of that file that take a
  handle returns its failure value: 0 for those that return an \<^verbatim>\<open>int\<close> (with the
  caller's output cells as they were), - 1 for \<^verbatim>\<open>remesh\<close>, the null pointer with the
  count set to 0 for those that return a buffer, 0 for the quality. The state it leaves
  is the state it was called in with the flag of the lazy initialisation set: the
  tables, the heap and the library's memory are untouched.
\<close>

theorem C3_inactive_handle:
  assumes "wf_world w"
  shows
  "(\<not> is_active_2d w h \<longrightarrow>
      mmg2d_free Kp h w = (0, w\<lparr>g_initialized_2d := 1\<rparr>) \<and>
      mmg2d_set_mesh_size Kp h ia ib ic iu w = (0, w\<lparr>g_initialized_2d := 1\<rparr>) \<and>
      mmg2d_get_mesh_size Kp h oa ob oc ou w = ((0, oa, ob, oc, ou), w\<lparr>g_initialized_2d := 1\<rparr>) \<and>
      mmg2d_set_vertex Kp h xa xb ia ib w = (0, w\<lparr>g_initialized_2d := 1\<rparr>) \<and>
      mmg2d_set_vertices Kp h xs ro w = (0, w\<lparr>g_initialized_2d := 1\<rparr>) \<and>
      mmg2d_get_vertices Kp fa fb fc fd h out w = ((NULL, map_option (\<lambda>_. 0) out), w\<lparr>g_initialized_2d := 1\<rparr>) \<and>
      mmg2d_set_triangle Kp h ia ib ic iu iv w = (0, w\<lparr>g_initialized_2d := 1\<rparr>) \<and>
      mmg2d_set_triangles Kp h js ro w = (0, w\<lparr>g_initialized_2d := 1\<rparr>) \<and>
      mmg2d_get_triangles Kp fa fb fc h out w = ((NULL, map_option (\<lambda>_. 0) out), w\<lparr>g_initialized_2d := 1\<rparr>) \<and>
      mmg2d_set_edge Kp h ia ib ic iu w = (0, w\<lparr>g_initialized_2d := 1\<rparr>) \<and>
      mmg2d_set_edges Kp h js ro w = (0, w\<lparr>g_initialized_2d := 1\<rparr>) \<and>
      mmg2d_get_edges Kp fa fb fc fd h out w = ((NULL, map_option (\<lambda>_. 0) out), w\<lparr>g_initialized_2d := 1\<rparr>) \<and>
      mmg2d_set_iparameter Kp h ia ib w = (0, w\<lparr>g_initialized_2d := 1\<rparr>) \<and>
      mmg2d_set_dparameter Kp h ia xa w = (0, w\<lparr>g_initialized_2d := 1\<rparr>) \<and>
      mmg2d_set_sol_size Kp h ia ib ic w = (0, w\<lparr>g_initialized_2d := 1\<rparr>) \<and>
      mmg2d_get_sol_size Kp h oa ob oc w = ((0, oa, ob, oc), w\<lparr>g_initialized_2d := 1\<rparr>) \<and>
      mmg2d_set_scalar_sols Kp h xs w = (0, w\<lparr>g_initialized_2d := 1\<rparr>) \<and>
      mmg2d_get_scalar_sols Kp fa h out w = ((NULL, map_option (\<lambda>_. 0) out), w\<lparr>g_initialized_2d := 1\<rparr>) \<and>
      mmg2d_set_tensor_sols Kp h xs w = (0, w\<lparr>g_initialized_2d := 1\<rparr>) \<and>
      mmg2d_get_tensor_sols Kp fa h out w = ((NULL, map_option (\<lambda>_. 0) out), w\<lparr>g_initialized_2d := 1\<rparr>) \<and>
      mmg2d_remesh Kp h w = (- 1, w\<lparr>g_initialized_2d := 1\<rparr>) \<and>
      mmg2d_load_mesh Kp h fname w = (0, w\<lparr>g_initialized_2d := 1\<rparr>) \<and>
      mmg2d_save_mesh Kp h fname w = (0, w\<lparr>g_initialized_2d := 1\<rparr>) \<and>
      mmg2d_load_sol Kp h fname w = (0, w\<lparr>g_initialized_2d := 1\<rparr>) \<and>
      mmg2d_save_sol Kp h fname w = (0, w\<lparr>g_initialized_2d := 1\<rparr>) \<and>
      mmg2d_get_triangle_quality Kp h k w = (0, w\<lparr>g_initialized_2d := 1\<rparr>) \<and>
      mmg2d_get_triangles_qualities Kp fa h out w = ((NULL, map_option (\<lambda>_. 0) out), w\<lparr>g_initialized_2d := 1\<rparr>)) \<and>
   (\<not> is_active_3d w h \<longrightarrow>
      mmg3d_free Kv h w = (0, w\<lparr>g_initialized := 1\<rparr>) \<and>
      mmg3d_set_mesh_size Kv h ia ib ic iu iv iw w = (0, w\<lparr>g_initialized := 1\<rparr>) \<and>
      mmg3d_get_mesh_size Kv h oa ob oc ou ov ow w = ((0, oa, ob, oc, ou, ov, ow), w\<lparr>g_initialized := 1\<rparr>) \<and>
      mmg3d_set_vertex Kv h xa xb xc ia ib w = (0, w\<lparr>g_initialized := 1\<rparr>) \<and>
      mmg3d_set_vertices Kv h xs ro w = (0, w\<lparr>g_initialized := 1\<rparr>) \<and>
      mmg3d_get_vertices Kv fa fb fc fd h out w = ((NULL, map_option (\<lambda>_. 0) out), w\<lparr>g_initialized := 1\<rparr>) \<and>
      mmg3d_set_tetrahedron Kv h ia ib ic iu iv iw w = (0, w\<lparr>g_initialized := 1\<rparr>) \<and>
      mmg3d_set_tetrahedra Kv h js ro w = (0, w\<lparr>g_initialized := 1\<rparr>) \<and>
      mmg3d_get_tetrahedra Kv fa fb fc h out w = ((NULL, map_option (\<lambda>_. 0) out), w\<lparr>g_initialized := 1\<rparr>) \<and>
      mmg3d_set_triangle Kv h ia ib ic iu iv w = (0, w\<lparr>g_initialized := 1\<rparr>) \<and>
      mmg3d_set_triangles Kv h js ro w = (0, w\<lparr>g_initialized := 1\<rparr>) \<and>
      mmg3d_get_triangles Kv fa fb fc h out w = ((NULL, map_option (\<lambda>_. 0) out), w\<lparr>g_initialized := 1\<rparr>) \<and>
      mmg3d_set_iparameter Kv h ia ib w = (0, w\<lparr>g_initialized := 1\<rparr>) \<and>
      mmg3d_set_dparameter Kv h ia xa w = (0, w\<lparr>g_initialized := 1\<rparr>) \<and>
      mmg3d_set_sol_size Kv h ia ib ic w = (0, w\<lparr>g_initialized := 1\<rparr>) \<and>
      mmg3d_get_sol_size Kv h oa ob oc w = ((0, oa, ob, oc), w\<lparr>g_initialized := 1\<rparr>) \<and>
      mmg3d_set_scalar_sols Kv h xs w = (0, w\<lparr>g_initialized := 1\<rparr>) \<and>
      mmg3d_get_scalar_sols Kv fa h out w = ((NULL, map_option (\<lambda>_. 0) out), w\<lparr>g_initialized := 1\<rparr>) \<and>
      mmg3d_set_tensor_sols Kv h xs w = (0, w\<lparr>g_initialized := 1\<rparr>) \<and>
      mmg3d_get_tensor_sols Kv fa h out w = ((NULL, map_option (\<lambda>_. 0) out), w\<lparr>g_initialized := 1\<rparr>) \<and>
      mmg3d_remesh Kv h w = (- 1, w\<lparr>g_initialized := 1\<rparr>) \<and>
      mmg3d_load_mesh Kv h fname w = (0, w\<lparr>g_initialized := 1\<rparr>) \<and>
      mmg3d_save_mesh Kv h fname w = (0, w\<lparr>g_initialized := 1\<rparr>) \<and>
      mmg3d_load_sol Kv h fname w = (0, w\<lparr>g_initialized := 1\<rparr>) \<and>
      mmg3d_save_sol Kv h fname w = (0, w\<lparr>g_initialized := 1\<rparr>) \<and>
      mmg3d_get_tetrahedron_quality Kv h k w = (0, w\<lparr>g_initialized := 1\<rparr>) \<and>
      mmg3d_get_tetrahedra_qualities Kv fa h out w = ((NULL, map_option (\<lambda>_. 0) out), w\<lparr>g_initialized := 1\<rparr>)) \<and>
   (\<not> is_active_s w h \<longrightarrow>
      mmgs_free Ks h w = (0, w\<lparr>g_initialized_s := 1\<rparr>) \<and>
      mmgs_set_mesh_size Ks h ia ib ic w = (0, w\<lparr>g_initialized_s := 1\<rparr>) \<and>
      mmgs_get_mesh_size Ks h oa ob oc w = ((0, oa, ob, oc), w\<lparr>g_initialized_s := 1\<rparr>) \<and>
      mmgs_set_vertex Ks h xa xb xc ia ib w = (0, w\<lparr>g_initialized_s := 1\<rparr>) \<and>
      mmgs_set_vertices Ks h xs ro w = (0, w\<lparr>g_initialized_s := 1\<rparr>) \<and>
      mmgs_get_vertices Ks fa fb fc fd h out w = ((NULL, map_option (\<lambda>_. 0) out), w\<lparr>g_initialized_s := 1\<rparr>) \<and>
      mmgs_set_triangle Ks h ia ib ic iu iv w = (0, w\<lparr>g_initialized_s := 1\<rparr>) \<and>
      mmgs_set_triangles Ks h js ro w = (0, w\<lparr>g_initialized_s := 1\<rparr>) \<and>
      mmgs_get_triangles Ks fa fb fc h out w = ((NULL, map_option (\<lambda>_. 0) out), w\<lparr>g_initialized_s := 1\<rparr>) \<and>
      mmgs_set_edge Ks h ia ib ic iu w = (0, w\<lparr>g_initialized_s := 1\<rparr>) \<and>
      mmgs_set_edges Ks h js ro w = (0, w\<lparr>g_initialized_s := 1\<rparr>) \<and>
      mmgs_get_edges Ks fa fb fc fd h out w = ((NULL, map_option (\<lambda>_. 0) out), w\<lparr>g_initialized_s := 1\<rparr>) \<and>
      mmgs_set_iparameter Ks h ia ib w = (0, w\<lparr>g_initialized_s := 1\<rparr>) \<and>
      mmgs_set_dparameter Ks h ia xa w = (0, w\<lparr>g_initialized_s := 1\<rparr>) \<and>
      mmgs_set_sol_size Ks h ia ib ic w = (0, w\<lparr>g_initialized_s := 1\<rparr>) \<and>
      mmgs_get_sol_size Ks h oa ob oc w = ((0, oa, ob, oc), w\<lparr>g_initialized_s := 1\<rparr>) \<and>
      mmgs_set_scalar_sols Ks h xs w = (0, w\<lparr>g_initialized_s := 1\<rparr>) \<and>
      mmgs_get_scalar_sols Ks fa h out w = ((NULL, map_option (\<lambda>_. 0) out), w\<lparr>g_initialized_s := 1\<rparr>) \<and>
      mmgs_set_tensor_sols Ks h xs w = (0, w\<lparr>g_initialized_s := 1\<rparr>) \<and>
      mmgs_get_tensor_sols Ks fa h out w = ((NULL, map_option (\<lambda>_. 0) out), w\<lparr>g_initialized_s := 1\<rparr>) \<and>
      mmgs_remesh Ks h w = (- 1, w\<lparr>g_initialized_s := 1\<rparr>) \<and>
      mmgs_load_mesh Ks h fname w = (0, w\<lparr>g_initialized_s := 1\<rparr>) \<and>
      mmgs_save_mesh Ks h fname w = (0, w\<lparr>g_initialized_s := 1\<rparr>) \<and>
      mmgs_load_sol Ks h fname w = (0, w\<lparr>g_initialized_s := 1\<rparr>) \<and>
      mmgs_save_sol Ks h fname w = (0, w\<lparr>g_initialized_s := 1\<rparr>) \<and>
      mmgs_get_triangle_quality Ks h k w = (0, w\<lparr>g_initialized_s := 1\<rparr>) \<and>
      mmgs_get_triangles_qualities Ks fa h out w = ((NULL, map_option (\<lambda>_. 0) out), w\<lparr>g_initialized_s := 1\<rparr>))"
  by (intro conjI impI;
      rule mmg2d_free_inactive [OF assms]
        mmg2d_set_mesh_size_inactive [OF assms]
        mmg2d_get_mesh_size_inactive [OF assms]
        mmg2d_set_vertex_inactive [OF assms]
        mmg2d_set_vertices_inactive [OF assms]
        mmg2d_get_vertices_inactive [OF assms]
        mmg2d_set_triangle_inactive [OF assms]
        mmg2d_set_triangles_inactive [OF assms]
        mmg2d_get_triangles_inactive [OF assms]
        mmg2d_set_edge_inactive [OF assms]
        mmg2d_set_edges_inactive [OF assms]
        mmg2d_get_edges_inactive [OF assms]
        mmg2d_set_iparameter_inactive [OF assms]
        mmg2d_set_dparameter_inactive [OF assms]
        mmg2d_set_sol_size_inactive [OF assms]
        mmg2d_get_sol_size_inactive [OF assms]
        mmg2d_set_scalar_sols_inactive [OF assms]
        mmg2d_get_scalar_sols_inactive [OF assms]
        mmg2d_set_tensor_sols_inactive [OF assms]
        mmg2d_get_tensor_sols_inactive [OF assms]
        mmg2d_remesh_inactive [OF assms]
        mmg2d_load_mesh_inactive [OF assms]
        mmg2d_save_mesh_inactive [OF assms]
        mmg2d_load_sol_inactive [OF assms]
        mmg2d_save_sol_inactive [OF assms]
        mmg2d_get_triangle_quality_inactive [OF assms]
        mmg2d_get_triangles_qualities_inactive [OF assms]
        mmg3d_free_inactive [OF assms]
        mmg3d_set_mesh_size_inactive [OF assms]
        mmg3d_get_mesh_size_inactive [OF assms]
        mmg3d_set_vertex_inactive [OF assms]
        mmg3d_set_vertices_inactive [OF assms]
        mmg3d_get_vertices_inactive [OF assms]
        mmg3d_set_tetrahedron_inactive [OF assms]
        mmg3d_set_tetrahedra_inactive [OF assms]
        mmg3d_get_tetrahedra_inactive [OF assms]
        mmg3d_set_triangle_inactive [OF assms]
        mmg3d_set_triangles_inactive [OF assms]
        mmg3d_get_triangles_inactive [OF assms]
        mmg3d_set_iparameter_inactive [OF assms]
        mmg3d_set_dparameter_inactive [OF assms]
        mmg3d_set_sol_size_inactive [OF assms]
        mmg3d_get_sol_size_inactive [OF assms]
        mmg3d_set_scalar_sols_inactive [OF assms]
        mmg3d_get_scalar_sols_inactive [OF assms]
        mmg3d_set_tensor_sols_inactive [OF assms]
        mmg3d_get_tensor_sols_inactive [OF assms]
        mmg3d_remesh_inactive [OF assms]
        mmg3d_load_mesh_inactive [OF assms]
        mmg3d_save_mesh_inactive [OF assms]
        mmg3d_load_sol_inactive [OF assms]
        mmg3d_save_sol_inactive [OF assms]
        mmg3d_get_tetrahedron_quality_inactive [OF assms]
        mmg3d_get_tetrahedra_qualities_inactive [OF assms]
        mmgs_free_inactive [OF assms]
        mmgs_set_mesh_size_inactive [OF assms]
        mmgs_get_mesh_size_inactive [OF assms]
        mmgs_set_vertex_inactive [OF assms]
        mmgs_set_vertices_inactive [OF assms]
        mmgs_get_vertices_inactive [OF assms]
        mmgs_set_triangle_inactive [OF assms]
        mmgs_set_triangles_inactive [OF assms]
        mmgs_get_triangles_inactive [OF assms]
        mmgs_set_edge_inactive [OF assms]
        mmgs_set_edges_inactive [OF assms]
        mmgs_get_edges_inactive [OF assms]
        mmgs_set_iparameter_inactive [OF assms]
        mmgs_set_dparameter_inactive [OF assms]
        mmgs_set_sol_size_inactive [OF assms]
        mmgs_get_sol_size_inactive [OF assms]
        mmgs_set_scalar_sols_inactive [OF assms]
        mmgs_get_scalar_sols_inactive [OF assms]
        mmgs_set_tensor_sols_inactive [OF assms]
        mmgs_get_tensor_sols_inactive [OF assms]
        mmgs_remesh_inactive [OF assms]
        mmgs_load_mesh_inactive [OF assms]
        mmgs_save_mesh_inactive [OF assms]
        mmgs_load_sol_inactive [OF assms]
        mmgs_save_sol_inactive [OF assms]
        mmgs_get_triangle_quality_inactive [OF assms]
        mmgs_get_triangles_qualities_inactive [OF assms];
      assumption)

theorem C3_inactive_handle_witness:
  "mmg2d_free (demo_2d 2 1) (- 1) demo_world = (0, demo_world\<lparr>g_initialized_2d := 1\<rparr>) \<and>
   mmg2d_get_mesh_size (demo_2d 2 1) (- 1) (Some 5) (Some 5) None (Some 5) demo_world = ((0, (Some 5), (Some 5), None, (Some 5)), demo_world\<lparr>g_initialized_2d := 1\<rparr>) \<and>
   mmg2d_set_vertices (demo_2d 2 1) (- 1) [0, 1] None demo_world = (0, demo_world\<lparr>g_initialized_2d := 1\<rparr>) \<and>
   mmg2d_get_vertices (demo_2d 2 1) True False True True (- 1) (Some 7) demo_world = ((NULL, map_option (\<lambda>_. 0) (Some 7)), demo_world\<lparr>g_initialized_2d := 1\<rparr>) \<and>
   mmg2d_get_tensor_sols (demo_2d 2 1) True (- 1) (Some 7) demo_world = ((NULL, map_option (\<lambda>_. 0) (Some 7)), demo_world\<lparr>g_initialized_2d := 1\<rparr>) \<and>
   mmg2d_remesh (demo_2d 2 1) (- 1) demo_world = (- 1, demo_world\<lparr>g_initialized_2d := 1\<rparr>) \<and>
   mmg2d_load_mesh (demo_2d 2 1) (- 1) ''m.mesh'' demo_world = (0, demo_world\<lparr>g_initialized_2d := 1\<rparr>) \<and>
   mmg2d_get_triangle_quality (demo_2d 2 1) (- 1) 1 demo_world = (0, demo_world\<lparr>g_initialized_2d := 1\<rparr>) \<and>
   mmg2d_get_triangles_qualities (demo_2d 2 1) True (- 1) (Some 7) demo_world = ((NULL, map_option (\<lambda>_. 0) (Some 7)), demo_world\<lparr>g_initialized_2d := 1\<rparr>) \<and>
   mmg3d_free (demo_3d 2 1) (- 1) demo_world = (0, demo_world\<lparr>g_initialized := 1\<rparr>) \<and>
   mmg3d_get_mesh_size (demo_3d 2 1) (- 1) (Some 5) (Some 5) None (Some 5) (Some 5) (Some 5) demo_world = ((0, (Some 5), (Some 5), None, (Some 5), (Some 5), (Some 5)), demo_world\<lparr>g_initialized := 1\<rparr>) \<and>
   mmg3d_set_vertices (demo_3d 2 1) (- 1) [0, 1] None demo_world = (0, demo_world\<lparr>g_initialized := 1\<rparr>) \<and>
   mmg3d_get_vertices (demo_3d 2 1) True False True True (- 1) (Some 7) demo_world = ((NULL, map_option (\<lambda>_. 0) (Some 7)), demo_world\<lparr>g_initialized := 1\<rparr>) \<and>
   mmg3d_get_tensor_sols (demo_3d 2 1) True (- 1) (Some 7) demo_world = ((NULL, map_option (\<lambda>_. 0) (Some 7)), demo_world\<lparr>g_initialized := 1\<rparr>) \<and>
   mmg3d_remesh (demo_3d 2 1) (- 1) demo_world = (- 1, demo_world\<lparr>g_initialized := 1\<rparr>) \<and>
   mmg3d_load_mesh (demo_3d 2 1) (- 1) ''m.mesh'' demo_world = (0, demo_world\<lparr>g_initialized := 1\<rparr>) \<and>
   mmg3d_get_tetrahedron_quality (demo_3d 2 1) (- 1) 1 demo_world = (0, demo_world\<lparr>g_initialized := 1\<rparr>) \<and>
   mmg3d_get_tetrahedra_qualities (demo_3d 2 1) True (- 1) (Some 7) demo_world = ((NULL, map_option (\<lambda>_. 0) (Some 7)), demo_world\<lparr>g_initialized := 1\<rparr>) \<and>
   mmgs_free (demo_s 2 1) (- 1) demo_world = (0, demo_world\<lparr>g_initialized_s := 1\<rparr>) \<and>
   mmgs_get_mesh_size (demo_s 2 1) (- 1) (Some 5) (Some 5) None demo_world = ((0, (Some 5), (Some 5), None), demo_world\<lparr>g_initialized_s := 1\<rparr>) \<and>
   mmgs_set_vertices (demo_s 2 1) (- 1) [0, 1] None demo_world = (0, demo_world\<lparr>g_initialized_s := 1\<rparr>) \<and>
   mmgs_get_vertices (demo_s 2 1) True False True True (- 1) (Some 7) demo_world = ((NULL, map_option (\<lambda>_. 0) (Some 7)), demo_world\<lparr>g_initialized_s := 1\<rparr>) \<and>
   mmgs_get_tensor_sols (demo_s 2 1) True (- 1) (Some 7) demo_world = ((NULL, map_option (\<lambda>_. 0) (Some 7)), demo_world\<lparr>g_initialized_s := 1\<rparr>) \<and>
   mmgs_remesh (demo_s 2 1) (- 1) demo_world = (- 1, demo_world\<lparr>g_initialized_s := 1\<rparr>) \<and>
   mmgs_load_mesh (demo_s 2 1) (- 1) ''m.mesh'' demo_world = (0, demo_world\<lparr>g_initialized_s := 1\<rparr>) \<and>
   mmgs_get_triangle_quality (demo_s 2 1) (- 1) 1 demo_world = (0, demo_world\<lparr>g_initialized_s := 1\<rparr>) \<and>
   mmgs_get_triangles_qualities (demo_s 2 1) True (- 1) (Some 7) demo_world = ((NULL, map_option (\<lambda>_. 0) (Some 7)), demo_world\<lparr>g_initialized_s := 1\<rparr>)"
  using C3_inactive_handle [OF demo_world_wf, where h = "- 1" and Kp = "demo_2d 2 1" and Kv = "demo_3d 2 1" and Ks = "demo_s 2 1" and out = "Some 7" and fa = "True" and fb = "False" and fc = "True" and fd = "True" and ia = "1" and ib = "2" and ic = "3" and iu = "1" and iv = "0" and iw = "1" and xa = "0" and xb = "1" and xc = "2" and xs = "[0, 1]" and js = "[1, 2, 3]" and ro = "None" and fname = "''m.mesh''" and oa = "Some 5" and ob = "Some 5" and oc = "None" and ou = "Some 5" and ov = "Some 5" and ow = "Some 5" and k = "1"]
    demo_world_inactive
  by simp

subsection \<open>C10: the three files own disjoint tables\<close>

text \<open>
  C10. Each file has a table of its own, of 64 entries. Each of the 93 entry points
  leaves the tables and the initialisation flags of the other two files as they were
  (\<open>others_2d\<close>, \<open>others_3d\<close> and \<open>others_s\<close> are what a file does not own), whatever its
  arguments and its outcome; and two states that agree on them agree on the other two
  files' slots, on which of their handles are active, and on their available counts. So
  a handle returned by one file's \<^verbatim>\<open>init\<close> changes nothing for the other two files.
\<close>

theorem C10_disjoint_tables:
  "(length (g_handles_2d (world0 km)) = MAX_HANDLES \<and> fst (mmg2d_get_max_handles w) = int MAX_HANDLES \<and>
   length (g_handles (world0 km)) = MAX_HANDLES \<and> fst (mmg3d_get_max_handles w) = int MAX_HANDLES \<and>
   length (g_handles_s (world0 km)) = MAX_HANDLES \<and> fst (mmgs_get_max_handles w) = int MAX_HANDLES) \<and>
   ((\<forall>wa. others_2d wa = others_2d w \<longrightarrow>
        g_handles wa = g_handles w \<and> g_handles_s wa = g_handles_s w \<and>
        (\<forall>i. is_active_3d wa i = is_active_3d w i) \<and> (\<forall>i. is_active_s wa i = is_active_s w i) \<and>
        fst (mmg3d_get_available_handles wa) = fst (mmg3d_get_available_handles w) \<and>
        fst (mmgs_get_available_handles wa) = fst (mmgs_get_available_handles w)) \<and>
   (\<forall>wa. others_3d wa = others_3d w \<longrightarrow>
        g_handles_2d wa = g_handles_2d w \<and> g_handles_s wa = g_handles_s w \<and>
        (\<forall>i. is_active_2d wa i = is_active_2d w i) \<and> (\<forall>i. is_active_s wa i = is_active_s w i) \<and>
        fst (mmg2d_get_available_handles wa) = fst (mmg2d_get_available_handles w) \<and>
        fst (mmgs_get_available_handles wa) = fst (mmgs_get_available_handles w)) \<and>
   (\<forall>wa. others_s wa = others_s w \<longrightarrow>
        g_handles_2d wa = g_handles_2d w \<and> g_handles wa = g_handles w \<and>
        (\<forall>i. is_active_2d wa i = is_active_2d w i) \<and> (\<forall>i. is_active_3d wa i = is_active_3d w i) \<and>
        fst (mmg2d_get_available_handles wa) = fst (mmg2d_get_available_handles w) \<and>
        fst (mmg3d_get_available_handles wa) = fst (mmg3d_get_available_handles w))) \<and>
   others_2d (snd (mmg2d_get_available_handles w)) = others_2d w \<and>
   others_2d (snd (mmg2d_get_max_handles w)) = others_2d w \<and>
   others_2d (snd (mmg2d_init Kp w)) = others_2d w \<and>
   others_2d (snd (mmg2d_free Kp h w)) = others_2d w \<and>
   others_2d (snd (mmg2d_set_mesh_size Kp h ia ib ic iu w)) = others_2d w \<and>
   others_2d (snd (mmg2d_get_mesh_size Kp h oa ob oc ou w)) = others_2d w \<and>
   others_2d (snd (mmg2d_set_vertex Kp h xa xb ia ib w)) = others_2d w \<and>
   others_2d (snd (mmg2d_set_vertices Kp h xs ro w)) = others_2d w \<and>
   others_2d (snd (mmg2d_get_vertices Kp fa fb fc fd h out w)) = others_2d w \<and>
   others_2d (snd (mmg2d_set_triangle Kp h ia ib ic iu iv w)) = others_2d w \<and>
   others_2d (snd (mmg2d_set_triangles Kp h js ro w)) = others_2d w \<and>
   others_2d (snd (mmg2d_get_triangles Kp fa fb fc h out w)) = others_2d w \<and>
   others_2d (snd (mmg2d_set_edge Kp h ia ib ic iu w)) = others_2d w \<and>
   others_2d (snd (mmg2d_set_edges Kp h js ro w)) = others_2d w \<and>
   others_2d (snd (mmg2d_get_edges Kp fa fb fc fd h out w)) = others_2d w \<and>
   others_2d (snd (mmg2d_set_iparameter Kp h ia ib w)) = others_2d w \<and>
   others_2d (snd (mmg2d_set_dparameter Kp h ia xa w)) = others_2d w \<and>
   others_2d (snd (mmg2d_set_sol_size Kp h ia ib ic w)) = others_2d w \<and>
   others_2d (snd (mmg2d_get_sol_size Kp h oa ob oc w)) = others_2d w \<and>
   others_2d (snd (mmg2d_set_scalar_sols Kp h xs w)) = others_2d w \<and>
   others_2d (snd (mmg2d_get_scalar_sols Kp fa h out w)) = others_2d w \<and>
   others_2d (snd (mmg2d_set_tensor_sols Kp h xs w)) = others_2d w \<and>
   others_2d (snd (mmg2d_get_tensor_sols Kp fa h out w)) = others_2d w \<and>
   others_2d (snd (mmg2d_remesh Kp h w)) = others_2d w \<and>
   others_2d (snd (mmg2d_free_array p w)) = others_2d w \<and>
   others_2d (snd (mmg2d_load_mesh Kp h fname w)) = others_2d w \<and>
   others_2d (snd (mmg2d_save_mesh Kp h fname w)) = others_2d w \<and>
   others_2d (snd (mmg2d_load_sol Kp h fname w)) = others_2d w \<and>
   others_2d (snd (mmg2d_save_sol Kp h fname w)) = others_2d w \<and>
   others_2d (snd (mmg2d_get_triangle_quality Kp h k w)) = others_2d w \<and>
   others_2d (snd (mmg2d_get_triangles_qualities Kp fa h out w)) = others_2d w \<and>
   others_3d (snd (mmg3d_get_available_handles w)) = others_3d w \<and>
   others_3d (snd (mmg3d_get_max_handles w)) = others_3d w \<and>
   others_3d (snd (mmg3d_init Kv w)) = others_3d w \<and>
   others_3d (snd (mmg3d_free Kv h w)) = others_3d w \<and>
   others_3d (snd (mmg3d_set_mesh_size Kv h ia ib ic iu iv iw w)) = others_3d w \<and>
   others_3d (snd (mmg3d_get_mesh_size Kv h oa ob oc ou ov ow w)) = others_3d w \<and>
   others_3d (snd (mmg3d_set_vertex Kv h xa xb xc ia ib w)) = others_3d w \<and>
   others_3d (snd (mmg3d_set_vertices Kv h xs ro w)) = others_3d w \<and>
   others_3d (snd (mmg3d_get_vertices Kv fa fb fc fd h out w)) = others_3d w \<and>
   others_3d (snd (mmg3d_set_tetrahedron Kv h ia ib ic iu iv iw w)) = others_3d w \<and>
   others_3d (snd (mmg3d_set_tetrahedra Kv h js ro w)) = others_3d w \<and>
   others_3d (snd (mmg3d_get_tetrahedra Kv fa fb fc h out w)) = others_3d w \<and>
   others_3d (snd (mmg3d_set_triangle Kv h ia ib ic iu iv w)) = others_3d w \<and>
   others_3d (snd (mmg3d_set_triangles Kv h js ro w)) = others_3d w \<and>
   others_3d (snd (mmg3d_get_triangles Kv fa fb fc h out w)) = others_3d w \<and>
   others_3d (snd (mmg3d_set_iparameter Kv h ia ib w)) = others_3d w \<and>
   others_3d (snd (mmg3d_set_dparameter Kv h ia xa w)) = others_3d w \<and>
   others_3d (snd (mmg3d_set_sol_size Kv h ia ib ic w)) = others_3d w \<and>
   others_3d (snd (mmg3d_get_sol_size Kv h oa ob oc w)) = others_3d w \<and>
   others_3d (snd (mmg3d_set_scalar_sols Kv h xs w)) = others_3d w \<and>
   others_3d (snd (mmg3d_get_scalar_sols Kv fa h out w)) = others_3d w \<and>
   others_3d (snd (mmg3d_set_tensor_sols Kv h xs w)) = others_3d w \<and>
   others_3d (snd (mmg3d_get_tensor_sols Kv fa h out w)) = others_3d w \<and>
   others_3d (snd (mmg3d_remesh Kv h w)) = others_3d w \<and>
   others_3d (snd (mmg3d_free_array p w)) = others_3d w \<and>
   others_3d (snd (mmg3d_load_mesh Kv h fname w)) = others_3d w \<and>
   others_3d (snd (mmg3d_save_mesh Kv h fname w)) = others_3d w \<and>
   others_3d (snd (mmg3d_load_sol Kv h fname w)) = others_3d w \<and>
   others_3d (snd (mmg3d_save_sol Kv h fname w)) = others_3d w \<and>
   others_3d (snd (mmg3d_get_tetrahedron_quality Kv h k w)) = others_3d w \<and>
   others_3d (snd (mmg3d_get_tetrahedra_qualities Kv fa h out w)) = others_3d w \<and>
   others_s (snd (mmgs_get_available_handles w)) = others_s w \<and>
   others_s (snd (mmgs_get_max_handles w)) = others_s w \<and>
   others_s (snd (mmgs_init Ks w)) = others_s w \<and>
   others_s (snd (mmgs_free Ks h w)) = others_s w \<and>
   others_s (snd (mmgs_set_mesh_size Ks h ia ib ic w)) = others_s w \<and>
   others_s (snd (mmgs_get_mesh_size Ks h oa ob oc w)) = others_s w \<and>
   others_s (snd (mmgs_set_vertex Ks h xa xb xc ia ib w)) = others_s w \<and>
   others_s (snd (mmgs_set_vertices Ks h xs ro w)) = others_s w \<and>
   others_s (snd (mmgs_get_vertices Ks fa fb fc fd h out w)) = others_s w \<and>
   others_s (snd (mmgs_set_triangle Ks h ia ib ic iu iv w)) = others_s w \<and>
   others_s (snd (mmgs_set_triangles Ks h js ro w)) = others_s w \<and>
   others_s (snd (mmgs_get_triangles Ks fa fb fc h out w)) = others_s w \<and>
   others_s (snd (mmgs_set_edge Ks h ia ib ic iu w)) = others_s w \<and>
   others_s (snd (mmgs_set_edges Ks h js ro w)) = others_s w \<and>
   others_s (snd (mmgs_get_edges Ks fa fb fc fd h out w)) = others_s w \<and>
   others_s (snd (mmgs_set_iparameter Ks h ia ib w)) = others_s w \<and>
   others_s (snd (mmgs_set_dparameter Ks h ia xa w)) = others_s w \<and>
   others_s (snd (mmgs_set_sol_size Ks h ia ib ic w)) = others_s w \<and>
   others_s (snd (mmgs_get_sol_size Ks h oa ob oc w)) = others_s w \<and>
   others_s (snd (mmgs_set_scalar_sols Ks h xs w)) = others_s w \<and>
   others_s (snd (mmgs_get_scalar_sols Ks fa h out w)) = others_s w \<and>
   others_s (snd (mmgs_set_tensor_sols Ks h xs w)) = others_s w \<and>
   others_s (snd (mmgs_get_tensor_sols Ks fa h out w)) = others_s w \<and>
   others_s (snd (mmgs_remesh Ks h w)) = others_s w \<and>
   others_s (snd (mmgs_free_array p w)) = others_s w \<and>
   others_s (snd (mmgs_load_mesh Ks h fname w)) = others_s w \<and>
   others_s (snd (mmgs_save_mesh Ks h fname w)) = others_s w \<and>
   others_s (snd (mmgs_load_sol Ks h fname w)) = others_s w \<and>
   others_s (snd (mmgs_save_sol Ks h fname w)) = others_s w \<and>
   others_s (snd (mmgs_get_triangle_quality Ks h k w)) = others_s w \<and>
   others_s (snd (mmgs_get_triangles_qualities Ks fa h out w)) = others_s w"
  by (intro conjI impI allI;
      (rule mmg2d_get_available_handles_frame
        mmg2d_get_max_handles_frame
        mmg2d_init_frame
        mmg2d_free_frame
        mmg2d_set_mesh_size_frame
        mmg2d_get_mesh_size_frame
        mmg2d_set_vertex_frame
        mmg2d_set_vertices_frame
        mmg2d_get_vertices_frame
        mmg2d_set_triangle_frame
        mmg2d_set_triangles_frame
        mmg2d_get_triangles_frame
        mmg2d_set_edge_frame
        mmg2d_set_edges_frame
        mmg2d_get_edges_frame
        mmg2d_set_iparameter_frame
        mmg2d_set_dparameter_frame
        mmg2d_set_sol_size_frame
        mmg2d_get_sol_size_frame
        mmg2d_set_scalar_sols_frame
        mmg2d_get_scalar_sols_frame
        mmg2d_set_tensor_sols_frame
        mmg2d_get_tensor_sols_frame
        mmg2d_remesh_frame
        mmg2d_free_array_frame
        mmg2d_load_mesh_frame
        mmg2d_save_mesh_frame
        mmg2d_load_sol_frame
        mmg2d_save_sol_frame
        mmg2d_get_triangle_quality_frame
        mmg2d_get_triangles_qualities_frame
        mmg3d_get_available_handles_frame
        mmg3d_get_max_handles_frame
        mmg3d_init_frame
        mmg3d_free_frame
        mmg3d_set_mesh_size_frame
        mmg3d_get_mesh_size_frame
        mmg3d_set_vertex_frame
        mmg3d_set_vertices_frame
        mmg3d_get_vertices_frame
        mmg3d_set_tetrahedron_frame
        mmg3d_set_tetrahedra_frame
        mmg3d_get_tetrahedra_frame
        mmg3d_set_triangle_frame
        mmg3d_set_triangles_frame
        mmg3d_get_triangles_frame
        mmg3d_set_iparameter_frame
        mmg3d_set_dparameter_frame
        mmg3d_set_sol_size_frame
        mmg3d_get_sol_size_frame
        mmg3d_set_scalar_sols_frame
        mmg3d_get_scalar_sols_frame
        mmg3d_set_tensor_sols_frame
        mmg3d_get_tensor_sols_frame
        mmg3d_remesh_frame
        mmg3d_free_array_frame
        mmg3d_load_mesh_frame
        mmg3d_save_mesh_frame
        mmg3d_load_sol_frame
        mmg3d_save_sol_frame
        mmg3d_get_tetrahedron_quality_frame
        mmg3d_get_tetrahedra_qualities_frame
        mmgs_get_available_handles_frame
        mmgs_get_max_handles_frame
        mmgs_init_frame
        mmgs_free_frame
        mmgs_set_mesh_size_frame
        mmgs_get_mesh_size_frame
        mmgs_set_vertex_frame
        mmgs_set_vertices_frame
        mmgs_get_vertices_frame
        mmgs_set_triangle_frame
        mmgs_set_triangles_frame
        mmgs_get_triangles_frame
        mmgs_set_edge_frame
        mmgs_set_edges_frame
        mmgs_get_edges_frame
        mmgs_set_iparameter_frame
        mmgs_set_dparameter_frame
        mmgs_set_sol_size_frame
        mmgs_get_sol_size_frame
        mmgs_set_scalar_sols_frame
        mmgs_get_scalar_sols_frame
        mmgs_set_tensor_sols_frame
        mmgs_get_tensor_sols_frame
        mmgs_remesh_frame
        mmgs_free_array_frame
        mmgs_load_mesh_frame
        mmgs_save_mesh_frame
        mmgs_load_sol_frame
        mmgs_save_sol_frame
        mmgs_get_triangle_quality_frame
        mmgs_get_triangles_qualities_frame
       | erule others_2d_decide others_3d_decide others_s_decide
       | simp add: world0_def mmg2d_get_max_handles_def mmg3d_get_max_handles_def
           mmgs_get_max_handles_def))

theorem C10_disjoint_tables_witness:
  "fst (mmg2d_init (demo_2d 2 1) demo_world) = 1 \<and>
   is_active_2d (snd (mmg2d_init (demo_2d 2 1) demo_world)) 1 \<and>
   \<not> is_active_3d (snd (mmg2d_init (demo_2d 2 1) demo_world)) 1 \<and>
   \<not> is_active_s (snd (mmg2d_init (demo_2d 2 1) demo_world)) 1 \<and>
   g_handles (snd (mmg2d_init (demo_2d 2 1) demo_world)) = g_handles demo_world \<and>
   g_handles_s (snd (mmg2d_init (demo_2d 2 1) demo_world)) = g_handles_s demo_world \<and>
   fst (mmg3d_get_available_handles (snd (mmg2d_init (demo_2d 2 1) demo_world))) =
     fst (mmg3d_get_available_handles demo_world) \<and>
   fst (mmgs_get_available_handles (snd (mmg2d_init (demo_2d 2 1) demo_world))) =
     fst (mmgs_get_available_handles demo_world)"
proof -
  note all = C10_disjoint_tables [where Kp = "demo_2d 2 1" and Kv = "demo_3d 2 1" and Ks = "demo_s 2 1" and w = "demo_world" and out = "Some 7" and fa = "True" and fb = "False" and fc = "True" and fd = "True" and ia = "1" and ib = "2" and ic = "3" and iu = "1" and iv = "0" and iw = "1" and xa = "0" and xb = "1" and xc = "2" and xs = "[0, 1]" and js = "[1, 2, 3]" and ro = "None" and fname = "''m.mesh''" and oa = "Some 5" and ob = "Some 5" and oc = "None" and ou = "Some 5" and ov = "Some 5" and ow = "Some 5" and k = "1" and km = 0 and p = 0 and h = 0]
  from all have frame:
    "others_2d (snd (mmg2d_init (demo_2d 2 1) demo_world)) = others_2d demo_world"
    by (elim conjE)
  from all have decide: "\<forall>wa. others_2d wa = others_2d demo_world \<longrightarrow>
        g_handles wa = g_handles demo_world \<and> g_handles_s wa = g_handles_s demo_world \<and>
        (\<forall>i. is_active_3d wa i = is_active_3d demo_world i) \<and> (\<forall>i. is_active_s wa i = is_active_s demo_world i) \<and>
        fst (mmg3d_get_available_handles wa) = fst (mmg3d_get_available_handles demo_world) \<and>
        fst (mmgs_get_available_handles wa) = fst (mmgs_get_available_handles demo_world)"
    by (elim conjE)
  have init: "mmg2d_init (demo_2d 2 1) demo_world =
      (1, demo_world\<lparr>g_initialized_2d := 1, native := 5,
            g_handles_2d := (g_handles_2d demo_world)[1 := \<lparr>mesh = 8, sol = 9, active = 1\<rparr>]\<rparr>)"
    by code_simp
  have "is_active_2d (snd (mmg2d_init (demo_2d 2 1) demo_world)) 1"
    by code_simp
  moreover have "\<not> is_active_3d demo_world 1" "\<not> is_active_s demo_world 1"
    by (simp_all add: demo_world_eq is_active_3d_def is_active_s_def zero_entry_def)
  ultimately show ?thesis
    using decide [rule_format, OF frame] by (simp add: init)
qed

subsection \<open>C4: a failing init consumes no slot\<close>

text \<open>
  64 calls of the planar \<^verbatim>\<open>init\<close> from the state the program starts in, with a library
  whose first construction fails: the first call returns - 1, the others the handles
  0 to 62, and the state they leave is \<open>filled_world\<close>.
\<close>

lemma capacity_plus_one_run:
  "run (demo_2d 2 1) (demo_3d 2 1) (demo_s 2 1) (replicate MAX_HANDLES Init2D) (world0 0) =
     (- 1 # map int [0..<63], filled_world)"
  by code_simp

text \<open>
  C4 fails as it is stated: 65 calls of \<^verbatim>\<open>init\<close> with no \<^verbatim>\<open>free\<close> between them need not
  end with - 1. A construction that fails consumes no slot, so when the first of the 65
  fails and the next 63 succeed, returning the handles 0 to 62, the table still has a
  free slot before the last call: \<^verbatim>\<open>get_available_handles\<close> reads 1, and the last call
  returns the handle 63.
\<close>

theorem C4_capacity_plus_one_counterexample:
  "fst (run (demo_2d 2 1) (demo_3d 2 1) (demo_s 2 1) (replicate MAX_HANDLES Init2D) (world0 0)) = - 1 # map int [0..<63] \<and>
   fst (mmg2d_get_available_handles
          (snd (run (demo_2d 2 1) (demo_3d 2 1) (demo_s 2 1) (replicate MAX_HANDLES Init2D) (world0 0)))) = 1 \<and>
   fst (mmg2d_init (demo_2d 2 1)
          (snd (run (demo_2d 2 1) (demo_3d 2 1) (demo_s 2 1) (replicate MAX_HANDLES Init2D) (world0 0)))) = 63"
  unfolding capacity_plus_one_run fst_conv snd_conv by code_simp

text \<open>
  C4, amended. The premises name what the library's construction returns in the state
  \<open>w\<close>. \<^verbatim>\<open>init\<close> returns - 1 when no slot of the table is inactive and when the
  construction fails (its result is not 1, or the mesh is null); in both cases the table
  is as it was, so the number of active slots and what \<^verbatim>\<open>get_available_handles\<close> returns
  are unchanged, and with a full table nothing changes at all but the flag of the lazy
  initialisation. When \<open>n\<close> calls of \<^verbatim>\<open>init\<close> in a row have each returned a handle and
  filled the table (\<open>n\<close> is 64 from an empty table), \<^verbatim>\<open>get_available_handles\<close> reads 0 and
  the next \<^verbatim>\<open>init\<close> returns - 1.
\<close>

theorem C4_init_failure:
  assumes wf: "wf_world w"
    and init_2d: "MMG2D_Init_mesh Kp (native w) = ((pr, pm, ps), pk)"
    and init_3d: "MMG3D_Init_mesh Kv (native w) = ((vr, vm, vs), vk)"
    and init_s: "MMGS_Init_mesh Ks (native w) = ((sr, sm, ss), sk)"
  shows
  "(((\<forall>i < MAX_HANDLES. active (g_handles_2d w ! i) \<noteq> 0) \<or> pr \<noteq> 1 \<or> pm = NULL \<longrightarrow>
      fst (mmg2d_init Kp w) = - 1 \<and>
      g_handles_2d (snd (mmg2d_init Kp w)) = g_handles_2d w \<and>
      active_count (g_handles_2d (snd (mmg2d_init Kp w))) = active_count (g_handles_2d w) \<and>
      fst (mmg2d_get_available_handles (snd (mmg2d_init Kp w))) =
        fst (mmg2d_get_available_handles w)) \<and>
    ((\<forall>i < MAX_HANDLES. active (g_handles_2d w ! i) \<noteq> 0) \<longrightarrow>
      mmg2d_init Kp w = (- 1, w\<lparr>g_initialized_2d := 1\<rparr>)) \<and>
    (active_count (g_handles_2d w) + n = MAX_HANDLES \<and>
     (\<forall>r \<in> set (fst (run Kp Kv Ks (replicate n Init2D) w)). 0 \<le> r) \<longrightarrow>
      fst (mmg2d_get_available_handles (snd (run Kp Kv Ks (replicate n Init2D) w))) = 0 \<and>
      fst (mmg2d_init Kp (snd (run Kp Kv Ks (replicate n Init2D) w))) = - 1)) \<and>
   (((\<forall>i < MAX_HANDLES. active (g_handles w ! i) \<noteq> 0) \<or> vr \<noteq> 1 \<or> vm = NULL \<longrightarrow>
      fst (mmg3d_init Kv w) = - 1 \<and>
      g_handles (snd (mmg3d_init Kv w)) = g_handles w \<and>
      active_count (g_handles (snd (mmg3d_init Kv w))) = active_count (g_handles w) \<and>
      fst (mmg3d_get_available_handles (snd (mmg3d_init Kv w))) =
        fst (mmg3d_get_available_handles w)) \<and>
    ((\<forall>i < MAX_HANDLES. active (g_handles w ! i) \<noteq> 0) \<longrightarrow>
      mmg3d_init Kv w = (- 1, w\<lparr>g_initialized := 1\<rparr>)) \<and>
    (active_count (g_handles w) + n = MAX_HANDLES \<and>
     (\<forall>r \<in> set (fst (run Kp Kv Ks (replicate n Init3D) w)). 0 \<le> r) \<longrightarrow>
      fst (mmg3d_get_available_handles (snd (run Kp Kv Ks (replicate n Init3D) w))) = 0 \<and>
      fst (mmg3d_init Kv (snd (run Kp Kv Ks (replicate n Init3D) w))) = - 1)) \<and>
   (((\<forall>i < MAX_HANDLES. active (g_handles_s w ! i) \<noteq> 0) \<or> sr \<noteq> 1 \<or> sm = NULL \<longrightarrow>
      fst (mmgs_init Ks w) = - 1 \<and>
      g_handles_s (snd (mmgs_init Ks w)) = g_handles_s w \<and>
      active_count (g_handles_s (snd (mmgs_init Ks w))) = active_count (g_handles_s w) \<and>
      fst (mmgs_get_available_handles (snd (mmgs_init Ks w))) =
        fst (mmgs_get_available_handles w)) \<and>
    ((\<forall>i < MAX_HANDLES. active (g_handles_s w ! i) \<noteq> 0) \<longrightarrow>
      mmgs_init Ks w = (- 1, w\<lparr>g_initialized_s := 1\<rparr>)) \<and>
    (active_count (g_handles_s w) + n = MAX_HANDLES \<and>
     (\<forall>r \<in> set (fst (run Kp Kv Ks (replicate n InitS) w)). 0 \<le> r) \<longrightarrow>
      fst (mmgs_get_available_handles (snd (run Kp Kv Ks (replicate n InitS) w))) = 0 \<and>
      fst (mmgs_init Ks (snd (run Kp Kv Ks (replicate n InitS) w))) = - 1))"
proof -
  have part_2d: "((\<forall>i < MAX_HANDLES. active (g_handles_2d w ! i) \<noteq> 0) \<or> pr \<noteq> 1 \<or> pm = NULL \<longrightarrow>
      fst (mmg2d_init Kp w) = - 1 \<and>
      g_handles_2d (snd (mmg2d_init Kp w)) = g_handles_2d w \<and>
      active_count (g_handles_2d (snd (mmg2d_init Kp w))) = active_count (g_handles_2d w) \<and>
      fst (mmg2d_get_available_handles (snd (mmg2d_init Kp w))) =
        fst (mmg2d_get_available_handles w)) \<and>
    ((\<forall>i < MAX_HANDLES. active (g_handles_2d w ! i) \<noteq> 0) \<longrightarrow>
      mmg2d_init Kp w = (- 1, w\<lparr>g_initialized_2d := 1\<rparr>)) \<and>
    (active_count (g_handles_2d w) + n = MAX_HANDLES \<and>
     (\<forall>r \<in> set (fst (run Kp Kv Ks (replicate n Init2D) w)). 0 \<le> r) \<longrightarrow>
      fst (mmg2d_get_available_handles (snd (run Kp Kv Ks (replicate n Init2D) w))) = 0 \<and>
      fst (mmg2d_init Kp (snd (run Kp Kv Ks (replicate n Init2D) w))) = - 1)"
  proof (intro conjI impI)
    assume a: "(\<forall>i < MAX_HANDLES. active (g_handles_2d w ! i) \<noteq> 0) \<or> pr \<noteq> 1 \<or> pm = NULL"
    have res: "fst (mmg2d_init Kp w) = - 1 \<and> g_handles_2d (snd (mmg2d_init Kp w)) = g_handles_2d w"
    proof (cases "\<forall>i < MAX_HANDLES. active (g_handles_2d w ! i) \<noteq> 0")
      case True
      then have "find_free_loop 0 (g_handles_2d w) = - 1" by (simp add: find_free_loop_none)
      from full_table_2d [OF wf this] show ?thesis by simp
    next
      case False
      with a have "pr \<noteq> 1 \<or> pm = NULL" by simp
      then have "fst (fst (MMG2D_Init_mesh Kp (native w))) \<noteq> 1 \<or>
                 fst (snd (fst (MMG2D_Init_mesh Kp (native w)))) = NULL"
        by (simp add: init_2d)
      from construction_fails_2d [OF wf this] show ?thesis by simp
    qed
    then show "fst (mmg2d_init Kp w) = - 1"
      and same: "g_handles_2d (snd (mmg2d_init Kp w)) = g_handles_2d w" by simp_all
    then show "active_count (g_handles_2d (snd (mmg2d_init Kp w))) = active_count (g_handles_2d w)" by simp
    from same_table_available_2d [OF wf mmg2d_init_preserves_wf [OF wf] same]
    show "fst (mmg2d_get_available_handles (snd (mmg2d_init Kp w))) =
        fst (mmg2d_get_available_handles w)" .
  next
    assume "\<forall>i < MAX_HANDLES. active (g_handles_2d w ! i) \<noteq> 0"
    then have "find_free_loop 0 (g_handles_2d w) = - 1" by (simp add: find_free_loop_none)
    from full_table_2d [OF wf this] show "mmg2d_init Kp w = (- 1, w\<lparr>g_initialized_2d := 1\<rparr>)" .
  next
    assume a: "active_count (g_handles_2d w) + n = MAX_HANDLES \<and>
     (\<forall>r \<in> set (fst (run Kp Kv Ks (replicate n Init2D) w)). 0 \<le> r)"
    then have n: "active_count (g_handles_2d w) + n = MAX_HANDLES"
      and ok: "\<forall>r \<in> set (fst (run Kp Kv Ks (replicate n Init2D) w)). 0 \<le> r" by simp_all
    from exhausted_2d [OF wf n ok]
    show "fst (mmg2d_get_available_handles (snd (run Kp Kv Ks (replicate n Init2D) w))) = 0"
      and "fst (mmg2d_init Kp (snd (run Kp Kv Ks (replicate n Init2D) w))) = - 1" .
  qed
  have part_3d: "((\<forall>i < MAX_HANDLES. active (g_handles w ! i) \<noteq> 0) \<or> vr \<noteq> 1 \<or> vm = NULL \<longrightarrow>
      fst (mmg3d_init Kv w) = - 1 \<and>
      g_handles (snd (mmg3d_init Kv w)) = g_handles w \<and>
      active_count (g_handles (snd (mmg3d_init Kv w))) = active_count (g_handles w) \<and>
      fst (mmg3d_get_available_handles (snd (mmg3d_init Kv w))) =
        fst (mmg3d_get_available_handles w)) \<and>
    ((\<forall>i < MAX_HANDLES. active (g_handles w ! i) \<noteq> 0) \<longrightarrow>
      mmg3d_init Kv w = (- 1, w\<lparr>g_initialized := 1\<rparr>)) \<and>
    (active_count (g_handles w) + n = MAX_HANDLES \<and>
     (\<forall>r \<in> set (fst (run Kp Kv Ks (replicate n Init3D) w)). 0 \<le> r) \<longrightarrow>
      fst (mmg3d_get_available_handles (snd (run Kp Kv Ks (replicate n Init3D) w))) = 0 \<and>
      fst (mmg3d_init Kv (snd (run Kp Kv Ks (replicate n Init3D) w))) = - 1)"
  proof (intro conjI impI)
    assume a: "(\<forall>i < MAX_HANDLES. active (g_handles w ! i) \<noteq> 0) \<or> vr \<noteq> 1 \<or> vm = NULL"
    have res: "fst (mmg3d_init Kv w) = - 1 \<and> g_handles (snd (mmg3d_init Kv w)) = g_handles w"
    proof (cases "\<forall>i < MAX_HANDLES. active (g_handles w ! i) \<noteq> 0")
      case True
      then have "find_free_loop 0 (g_handles w) = - 1" by (simp add: find_free_loop_none)
      from full_table_3d [OF wf this] show ?thesis by simp
    next
      case False
      with a have "vr \<noteq> 1 \<or> vm = NULL" by simp
      then have "fst (fst (MMG3D_Init_mesh Kv (native w))) \<noteq> 1 \<or>
                 fst (snd (fst (MMG3D_Init_mesh Kv (native w)))) = NULL"
        by (simp add: init_3d)
      from construction_fails_3d [OF wf this] show ?thesis by simp
    qed
    then show "fst (mmg3d_init Kv w) = - 1"
      and same: "g_handles (snd (mmg3d_init Kv w)) = g_handles w" by simp_all
    then show "active_count (g_handles (snd (mmg3d_init Kv w))) = active_count (g_handles w)" by simp
    from same_table_available_3d [OF wf mmg3d_init_preserves_wf [OF wf] same]
    show "fst (mmg3d_get_available_handles (snd (mmg3d_init Kv w))) =
        fst (mmg3d_get_available_handles w)" .
  next
    assume "\<forall>i < MAX_HANDLES. active (g_handles w ! i) \<noteq> 0"
    then have "find_free_loop 0 (g_handles w) = - 1" by (simp add: find_free_loop_none)
    from full_table_3d [OF wf this] show "mmg3d_init Kv w = (- 1, w\<lparr>g_initialized := 1\<rparr>)" .
  next
    assume a: "active_count (g_handles w) + n = MAX_HANDLES \<and>
     (\<forall>r \<in> set (fst (run Kp Kv Ks (replicate n Init3D) w)). 0 \<le> r)"
    then have n: "active_count (g_handles w) + n = MAX_HANDLES"
      and ok: "\<forall>r \<in> set (fst (run Kp Kv Ks (replicate n Init3D) w)). 0 \<le> r" by simp_all
    from exhausted_3d [OF wf n ok]
    show "fst (mmg3d_get_available_handles (snd (run Kp Kv Ks (replicate n Init3D) w))) = 0"
      and "fst (mmg3d_init Kv (snd (run Kp Kv Ks (replicate n Init3D) w))) = - 1" .
  qed
  have part_s: "((\<forall>i < MAX_HANDLES. active (g_handles_s w ! i) \<noteq> 0) \<or> sr \<noteq> 1 \<or> sm = NULL \<longrightarrow>
      fst (mmgs_init Ks w) = - 1 \<and>
      g_handles_s (snd (mmgs_init Ks w)) = g_handles_s w \<and>
      active_count (g_handles_s (snd (mmgs_init Ks w))) = active_count (g_handles_s w) \<and>
      fst (mmgs_get_available_handles (snd (mmgs_init Ks w))) =
        fst (mmgs_get_available_handles w)) \<and>
    ((\<forall>i < MAX_HANDLES. active (g_handles_s w ! i) \<noteq> 0) \<longrightarrow>
      mmgs_init Ks w = (- 1, w\<lparr>g_initialized_s := 1\<rparr>)) \<and>
    (active_count (g_handles_s w) + n = MAX_HANDLES \<and>
     (\<forall>r \<in> set (fst (run Kp Kv Ks (replicate n InitS) w)). 0 \<le> r) \<longrightarrow>
      fst (mmgs_get_available_handles (snd (run Kp Kv Ks (replicate n InitS) w))) = 0 \<and>
      fst (mmgs_init Ks (snd (run Kp Kv Ks (replicate n InitS) w))) = - 1)"
  proof (intro conjI impI)
    assume a: "(\<forall>i < MAX_HANDLES. active (g_handles_s w ! i) \<noteq> 0) \<or> sr \<noteq> 1 \<or> sm = NULL"
    have res: "fst (mmgs_init Ks w) = - 1 \<and> g_handles_s (snd (mmgs_init Ks w)) = g_handles_s w"
    proof (cases "\<forall>i < MAX_HANDLES. active (g_handles_s w ! i) \<noteq> 0")
      case True
      then have "find_free_loop 0 (g_handles_s w) = - 1" by (simp add: find_free_loop_none)
      from full_table_s [OF wf this] show ?thesis by simp
    next
      case False
      with a have "sr \<noteq> 1 \<or> sm = NULL" by simp
      then have "fst (fst (MMGS_Init_mesh Ks (native w))) \<noteq> 1 \<or>
                 fst (snd (fst (MMGS_Init_mesh Ks (native w)))) = NULL"
        by (simp add: init_s)
      from construction_fails_s [OF wf this] show ?thesis by simp
    qed
    then show "fst (mmgs_init Ks w) = - 1"
      and same: "g_handles_s (snd (mmgs_init Ks w)) = g_handles_s w" by simp_all
    then show "active_count (g_handles_s (snd (mmgs_init Ks w))) = active_count (g_handles_s w)" by simp
    from same_table_available_s [OF wf mmgs_init_preserves_wf [OF wf] same]
    show "fst (mmgs_get_available_handles (snd (mmgs_init Ks w))) =
        fst (mmgs_get_available_handles w)" .
  next
    assume "\<forall>i < MAX_HANDLES. active (g_handles_s w ! i) \<noteq> 0"
    then have "find_free_loop 0 (g_handles_s w) = - 1" by (simp add: find_free_loop_none)
    from full_table_s [OF wf this] show "mmgs_init Ks w = (- 1, w\<lparr>g_initialized_s := 1\<rparr>)" .
  next
    assume a: "active_count (g_handles_s w) + n = MAX_HANDLES \<and>
     (\<forall>r \<in> set (fst (run Kp Kv Ks (replicate n InitS) w)). 0 \<le> r)"
    then have n: "active_count (g_handles_s w) + n = MAX_HANDLES"
      and ok: "\<forall>r \<in> set (fst (run Kp Kv Ks (replicate n InitS) w)). 0 \<le> r" by simp_all
    from exhausted_s [OF wf n ok]
    show "fst (mmgs_get_available_handles (snd (run Kp Kv Ks (replicate n InitS) w))) = 0"
      and "fst (mmgs_init Ks (snd (run Kp Kv Ks (replicate n InitS) w))) = - 1" .
  qed
  show ?thesis
    by (rule conjI, rule part_2d, rule conjI, rule part_3d, rule part_s)
qed

theorem C4_init_failure_witness:
  "fst (mmg2d_get_available_handles (snd (run (demo_2d 2 1) (demo_3d 2 1) (demo_s 2 1) (replicate 2 Init2D) nearly_full_world))) = 0 \<and>
   fst (mmg2d_init (demo_2d 2 1) (snd (run (demo_2d 2 1) (demo_3d 2 1) (demo_s 2 1) (replicate 2 Init2D) nearly_full_world))) = - 1 \<and>
   mmg2d_init (demo_2d 2 1) full_world = (- 1, full_world\<lparr>g_initialized_2d := 1\<rparr>) \<and>
   fst (mmg2d_get_available_handles (snd (mmg2d_init (demo_2d 2 1) full_world))) =
     fst (mmg2d_get_available_handles full_world) \<and>
   fst (mmg2d_init (demo_2d 2 1) (world0 0)) = - 1 \<and>
   g_handles_2d (snd (mmg2d_init (demo_2d 2 1) (world0 0))) = g_handles_2d (world0 (0::nat)) \<and>
   fst (mmg3d_get_available_handles (snd (run (demo_2d 2 1) (demo_3d 2 1) (demo_s 2 1) (replicate 2 Init3D) nearly_full_world))) = 0 \<and>
   fst (mmg3d_init (demo_3d 2 1) (snd (run (demo_2d 2 1) (demo_3d 2 1) (demo_s 2 1) (replicate 2 Init3D) nearly_full_world))) = - 1 \<and>
   mmg3d_init (demo_3d 2 1) full_world = (- 1, full_world\<lparr>g_initialized := 1\<rparr>) \<and>
   fst (mmg3d_get_available_handles (snd (mmg3d_init (demo_3d 2 1) full_world))) =
     fst (mmg3d_get_available_handles full_world) \<and>
   fst (mmg3d_init (demo_3d 2 1) (world0 0)) = - 1 \<and>
   g_handles (snd (mmg3d_init (demo_3d 2 1) (world0 0))) = g_handles (world0 (0::nat)) \<and>
   fst (mmgs_get_available_handles (snd (run (demo_2d 2 1) (demo_3d 2 1) (demo_s 2 1) (replicate 2 InitS) nearly_full_world))) = 0 \<and>
   fst (mmgs_init (demo_s 2 1) (snd (run (demo_2d 2 1) (demo_3d 2 1) (demo_s 2 1) (replicate 2 InitS) nearly_full_world))) = - 1 \<and>
   mmgs_init (demo_s 2 1) full_world = (- 1, full_world\<lparr>g_initialized_s := 1\<rparr>) \<and>
   fst (mmgs_get_available_handles (snd (mmgs_init (demo_s 2 1) full_world))) =
     fst (mmgs_get_available_handles full_world) \<and>
   fst (mmgs_init (demo_s 2 1) (world0 0)) = - 1 \<and>
   g_handles_s (snd (mmgs_init (demo_s 2 1) (world0 0))) = g_handles_s (world0 (0::nat))"
proof -
  have wf_full: "wf_world full_world"
    unfolding full_world_def by (rule run_preserves_wf [OF nearly_full_world_wf])
  have count:
    "active_count (g_handles_2d nearly_full_world) + 2 = MAX_HANDLES"
    "active_count (g_handles nearly_full_world) + 2 = MAX_HANDLES"
    "active_count (g_handles_s nearly_full_world) + 2 = MAX_HANDLES"
    by (simp_all add: nearly_full_world_def active_count_def busy_entry_def zero_entry_def)
  have results:
    "fst (run (demo_2d 2 1) (demo_3d 2 1) (demo_s 2 1) (replicate 2 Init2D) nearly_full_world) = [62, 63]"
    "fst (run (demo_2d 2 1) (demo_3d 2 1) (demo_s 2 1) (replicate 2 Init3D) nearly_full_world) = [62, 63]"
    "fst (run (demo_2d 2 1) (demo_3d 2 1) (demo_s 2 1) (replicate 2 InitS) nearly_full_world) = [62, 63]"
    by code_simp+
  have nearly:
    "MMG2D_Init_mesh (demo_2d 2 1) (native nearly_full_world) = ((1, 2, 3), 2)"
    "MMG3D_Init_mesh (demo_3d 2 1) (native nearly_full_world) = ((1, 2, 3), 2)"
    "MMGS_Init_mesh (demo_s 2 1) (native nearly_full_world) = ((1, 2, 3), 2)"
    by (simp_all add: demo_2d_def demo_3d_def demo_s_def nearly_full_world_def)
  have full:
    "MMG2D_Init_mesh (demo_2d 2 1) (native full_world) = ((1, 14, 15), 8)"
    "MMG3D_Init_mesh (demo_3d 2 1) (native full_world) = ((1, 14, 15), 8)"
    "MMGS_Init_mesh (demo_s 2 1) (native full_world) = ((1, 14, 15), 8)"
    by code_simp+
  have none:
    "find_free_loop 0 (g_handles_2d full_world) = - 1"
    "find_free_loop 0 (g_handles full_world) = - 1"
    "find_free_loop 0 (g_handles_s full_world) = - 1"
    by code_simp+
  then have all_active:
    "\<forall>i < MAX_HANDLES. active (g_handles_2d full_world ! i) \<noteq> 0"
    "\<forall>i < MAX_HANDLES. active (g_handles full_world ! i) \<noteq> 0"
    "\<forall>i < MAX_HANDLES. active (g_handles_s full_world ! i) \<noteq> 0"
    by (simp_all add: find_free_loop_none)
  have start:
    "MMG2D_Init_mesh (demo_2d 2 1) (native (world0 0)) = ((0, NULL, NULL), 1)"
    "MMG3D_Init_mesh (demo_3d 2 1) (native (world0 0)) = ((0, NULL, NULL), 1)"
    "MMGS_Init_mesh (demo_s 2 1) (native (world0 0)) = ((0, NULL, NULL), 1)"
    by (simp_all add: demo_2d_def demo_3d_def demo_s_def world0_def)
  have ne: "(0::int) \<noteq> 1" by simp
  note a = C4_init_failure [OF nearly_full_world_wf nearly, where n = 2]
  note b = C4_init_failure [OF wf_full full, where n = 0]
  note c = C4_init_failure [OF wf_world0 start, where n = 0]
  have pos_2d: "\<forall>r \<in> set (fst (run (demo_2d 2 1) (demo_3d 2 1) (demo_s 2 1) (replicate 2 Init2D) nearly_full_world)). 0 \<le> r"
    unfolding results by simp
  note first_2d = a [THEN conjunct1, THEN conjunct2, THEN conjunct2, THEN mp, OF conjI [OF count(1) pos_2d]]
  note second_2d = b [THEN conjunct1, THEN conjunct2, THEN conjunct1, THEN mp, OF all_active(1)]
    b [THEN conjunct1, THEN conjunct1, THEN mp, OF disjI1 [OF all_active(1)],
      THEN conjunct2, THEN conjunct2, THEN conjunct2]
  note third_2d = c [THEN conjunct1, THEN conjunct1, THEN mp, OF disjI2 [OF disjI1 [OF ne]]]
  have pos_3d: "\<forall>r \<in> set (fst (run (demo_2d 2 1) (demo_3d 2 1) (demo_s 2 1) (replicate 2 Init3D) nearly_full_world)). 0 \<le> r"
    unfolding results by simp
  note first_3d = a [THEN conjunct2, THEN conjunct1, THEN conjunct2, THEN conjunct2, THEN mp, OF conjI [OF count(2) pos_3d]]
  note second_3d = b [THEN conjunct2, THEN conjunct1, THEN conjunct2, THEN conjunct1, THEN mp, OF all_active(2)]
    b [THEN conjunct2, THEN conjunct1, THEN conjunct1, THEN mp, OF disjI1 [OF all_active(2)],
      THEN conjunct2, THEN conjunct2, THEN conjunct2]
  note third_3d = c [THEN conjunct2, THEN conjunct1, THEN conjunct1, THEN mp, OF disjI2 [OF disjI1 [OF ne]]]
  have pos_s: "\<forall>r \<in> set (fst (run (demo_2d 2 1) (demo_3d 2 1) (demo_s 2 1) (replicate 2 InitS) nearly_full_world)). 0 \<le> r"
    unfolding results by simp
  note first_s = a [THEN conjunct2, THEN conjunct2, THEN conjunct2, THEN conjunct2, THEN mp, OF conjI [OF count(3) pos_s]]
  note second_s = b [THEN conjunct2, THEN conjunct2, THEN conjunct2, THEN conjunct1, THEN mp, OF all_active(3)]
    b [THEN conjunct2, THEN conjunct2, THEN conjunct1, THEN mp, OF disjI1 [OF all_active(3)],
      THEN conjunct2, THEN conjunct2, THEN conjunct2]
  note third_s = c [THEN conjunct2, THEN conjunct2, THEN conjunct1, THEN mp, OF disjI2 [OF disjI1 [OF ne]]]
  show ?thesis
    by (intro conjI)
      (rule first_2d [THEN conjunct1] first_2d [THEN conjunct2] second_2d
        third_2d [THEN conjunct1] third_2d [THEN conjunct2, THEN conjunct1]
        first_3d [THEN conjunct1] first_3d [THEN conjunct2] second_3d
        third_3d [THEN conjunct1] third_3d [THEN conjunct2, THEN conjunct1]
        first_s [THEN conjunct1] first_s [THEN conjunct2] second_s
        third_s [THEN conjunct1] third_s [THEN conjunct2, THEN conjunct1])+
qed

subsection \<open>C5: a handle is valid from its init to its free\<close>

text \<open>
  C5. \<open>wp\<close> is the state after any sequence \<open>cs\<close> of calls of the entry points of the three
  files, made from the state \<open>wa\<close>, in which the program has not written outside of a
  block of the heap. If \<^verbatim>\<open>init\<close> returned the handle \<open>h\<close> and left \<open>wa\<close>, and there is no
  \<^verbatim>\<open>free\<close> of \<open>h\<close> of the same file in \<open>cs\<close>, then in \<open>wp\<close> the check accepts \<open>h\<close> and every
  entry point of the file that takes a handle does, called with \<open>h\<close>, what its code after
  the check does. If \<^verbatim>\<open>free\<close> of \<open>h\<close> returned 1 and left \<open>wa\<close>, and no \<^verbatim>\<open>init\<close> of the
  same file in \<open>cs\<close> returned \<open>h\<close>, then in \<open>wp\<close> the check refuses \<open>h\<close>, a second \<^verbatim>\<open>free\<close>
  of \<open>h\<close> returns 0, and every other entry point that takes a handle returns, called with
  \<open>h\<close>, its failure value and changes nothing.
\<close>

theorem C5_handle_validity:
  assumes wf: "wf_world w"
    and run: "wp = exec_all Kp Kv Ks cs wa"
    and sane: "\<not> fault wp"
  shows
  "((mmg2d_init Kp w = (h, wa) \<and> 0 \<le> h \<and> In_2d (Free_2d h) \<notin> set cs \<longrightarrow>
      fst (validate_handle_2d h wp) \<noteq> 0 \<and>
      mmg2d_free Kp h wp =
        (let e = g_handles_2d wp ! nat h in
         (1,
          wp\<lparr>native := MMG2D_Free_all Kp (mesh e) (sol e) (native wp),
            g_handles_2d := (g_handles_2d wp)[nat h := \<lparr>mesh = NULL, sol = NULL, active = 0\<rparr>]\<rparr>)) \<and>
      mmg2d_set_mesh_size Kp h ia ib ic iu wp =
        (let e = g_handles_2d wp ! nat h;
             (r, k) = MMG2D_Set_meshSize Kp (mesh e) ia ib ic iu (native wp)
         in (r, wp\<lparr>native := k\<rparr>)) \<and>
      mmg2d_get_mesh_size Kp h oa ob oc ou wp =
        (let e = g_handles_2d wp ! nat h;
             (result, np', nt', nquad', na') = MMG2D_Get_meshSize Kp (mesh e) (native wp)
         in if result = 1 then ((result, map_option (\<lambda>_. np') oa, map_option (\<lambda>_. nt') ob, map_option (\<lambda>_. nquad') oc, map_option (\<lambda>_. na') ou), wp) else ((result, oa, ob, oc, ou), wp)) \<and>
      mmg2d_set_vertex Kp h xa xb ia ib wp =
        (let e = g_handles_2d wp ! nat h;
             (r, k) = MMG2D_Set_vertex Kp (mesh e) xa xb ia ib (native wp)
         in (r, wp\<lparr>native := k\<rparr>)) \<and>
      mmg2d_set_vertices Kp h xs ro wp =
        (let e = g_handles_2d wp ! nat h;
             (r, k) = MMG2D_Set_vertices Kp (mesh e) xs ro (native wp)
         in (r, wp\<lparr>native := k\<rparr>)) \<and>
      mmg2d_get_vertices Kp fa fb fc fd h out wp =
        (let m = mesh (g_handles_2d wp ! nat h);
             (r, np, nt, nquad, na) = MMG2D_Get_meshSize Kp m (native wp)
         in
         if r \<noteq> 1 then (fail_with_count out, wp)
         else if np = 0 then (fail_with_count out, wp)
         else
           let (vertices, h1) = malloc fa 8 (size_t (int32 (2 * np) * 8)) (heap wp) in
           if vertices = NULL
           then (fail_with_count out, wp\<lparr>heap := free NULL (free NULL (free NULL (free vertices h1)))\<rparr>)
           else
           let (refs, h2) = malloc fb 4 (size_t (np * 4)) h1 in
           if refs = NULL
           then (fail_with_count out, wp\<lparr>heap := free NULL (free NULL (free refs (free vertices h2)))\<rparr>)
           else
           let (corners, h3) = malloc fc 4 (size_t (np * 4)) h2 in
           if corners = NULL
           then (fail_with_count out, wp\<lparr>heap := free NULL (free corners (free refs (free vertices h3)))\<rparr>)
           else
           let (required, h4) = malloc fd 4 (size_t (np * 4)) h3 in
           if required = NULL
           then (fail_with_count out, wp\<lparr>heap := free required (free corners (free refs (free vertices h4)))\<rparr>)
           else
           let (result, vertices', refs', corners', required') = MMG2D_Get_vertices Kp m (native wp);
               h5 = poke required (map I32 required') (poke corners (map I32 corners') (poke refs (map I32 refs') (poke vertices (map D vertices') h4)));
               h6 = free required (free corners (free refs h5))
           in
           if result \<noteq> 1 then (fail_with_count out, wp\<lparr>heap := free vertices h6\<rparr>)
           else ((vertices, map_option (\<lambda>_. np) out), wp\<lparr>heap := h6\<rparr>)) \<and>
      mmg2d_set_triangle Kp h ia ib ic iu iv wp =
        (let e = g_handles_2d wp ! nat h;
             (r, k) = MMG2D_Set_triangle Kp (mesh e) ia ib ic iu iv (native wp)
         in (r, wp\<lparr>native := k\<rparr>)) \<and>
      mmg2d_set_triangles Kp h js ro wp =
        (let e = g_handles_2d wp ! nat h;
             (r, k) = MMG2D_Set_triangles Kp (mesh e) js ro (native wp)
         in (r, wp\<lparr>native := k\<rparr>)) \<and>
      mmg2d_get_triangles Kp fa fb fc h out wp =
        (let m = mesh (g_handles_2d wp ! nat h);
             (r, np, nt, nquad, na) = MMG2D_Get_meshSize Kp m (native wp)
         in
         if r \<noteq> 1 then (fail_with_count out, wp)
         else if nt = 0 then (fail_with_count out, wp)
         else
           let (tria, h1) = malloc fa 4 (size_t (int32 (3 * nt) * 4)) (heap wp) in
           if tria = NULL
           then (fail_with_count out, wp\<lparr>heap := free NULL (free NULL (free tria h1))\<rparr>)
           else
           let (refs, h2) = malloc fb 4 (size_t (nt * 4)) h1 in
           if refs = NULL
           then (fail_with_count out, wp\<lparr>heap := free NULL (free refs (free tria h2))\<rparr>)
           else
           let (required, h3) = malloc fc 4 (size_t (nt * 4)) h2 in
           if required = NULL
           then (fail_with_count out, wp\<lparr>heap := free required (free refs (free tria h3))\<rparr>)
           else
           let (result, tria', refs', required') = MMG2D_Get_triangles Kp m (native wp);
               h4 = poke required (map I32 required') (poke refs (map I32 refs') (poke tria (map I32 tria') h3));
               h5 = free required (free refs h4)
           in
           if result \<noteq> 1 then (fail_with_count out, wp\<lparr>heap := free tria h5\<rparr>)
           else ((tria, map_option (\<lambda>_. nt) out), wp\<lparr>heap := h5\<rparr>)) \<and>
      mmg2d_set_edge Kp h ia ib ic iu wp =
        (let e = g_handles_2d wp ! nat h;
             (r, k) = MMG2D_Set_edge Kp (mesh e) ia ib ic iu (native wp)
         in (r, wp\<lparr>native := k\<rparr>)) \<and>
      mmg2d_set_edges Kp h js ro wp =
        (let e = g_handles_2d wp ! nat h;
             (r, k) = MMG2D_Set_edges Kp (mesh e) js ro (native wp)
         in (r, wp\<lparr>native := k\<rparr>)) \<and>
      mmg2d_get_edges Kp fa fb fc fd h out wp =
        (let m = mesh (g_handles_2d wp ! nat h);
             (r, np, nt, nquad, na) = MMG2D_Get_meshSize Kp m (native wp)
         in
         if r \<noteq> 1 then (fail_with_count out, wp)
         else if na = 0 then (fail_with_count out, wp)
         else
           let (edges, h1) = malloc fa 4 (size_t (int32 (2 * na) * 4)) (heap wp) in
           if edges = NULL
           then (fail_with_count out, wp\<lparr>heap := free NULL (free NULL (free NULL (free edges h1)))\<rparr>)
           else
           let (refs, h2) = malloc fb 4 (size_t (na * 4)) h1 in
           if refs = NULL
           then (fail_with_count out, wp\<lparr>heap := free NULL (free NULL (free refs (free edges h2)))\<rparr>)
           else
           let (ridges, h3) = malloc fc 4 (size_t (na * 4)) h2 in
           if ridges = NULL
           then (fail_with_count out, wp\<lparr>heap := free NULL (free ridges (free refs (free edges h3)))\<rparr>)
           else
           let (required, h4) = malloc fd 4 (size_t (na * 4)) h3 in
           if required = NULL
           then (fail_with_count out, wp\<lparr>heap := free required (free ridges (free refs (free edges h4)))\<rparr>)
           else
           let (result, edges', refs', ridges', required') = MMG2D_Get_edges Kp m (native wp);
               h5 = poke required (map I32 required') (poke ridges (map I32 ridges') (poke refs (map I32 refs') (poke edges (map I32 edges') h4)));
               h6 = free required (free ridges (free refs h5))
           in
           if result \<noteq> 1 then (fail_with_count out, wp\<lparr>heap := free edges h6\<rparr>)
           else ((edges, map_option (\<lambda>_. na) out), wp\<lparr>heap := h6\<rparr>)) \<and>
      mmg2d_set_iparameter Kp h ia ib wp =
        (let e = g_handles_2d wp ! nat h;
             (r, k) = MMG2D_Set_iparameter Kp (mesh e) (sol e) ia ib (native wp)
         in (r, wp\<lparr>native := k\<rparr>)) \<and>
      mmg2d_set_dparameter Kp h ia xa wp =
        (let e = g_handles_2d wp ! nat h;
             (r, k) = MMG2D_Set_dparameter Kp (mesh e) (sol e) ia xa (native wp)
         in (r, wp\<lparr>native := k\<rparr>)) \<and>
      mmg2d_set_sol_size Kp h ia ib ic wp =
        (let e = g_handles_2d wp ! nat h;
             (r, k) = MMG2D_Set_solSize Kp (mesh e) (sol e) ia ib ic (native wp)
         in (r, wp\<lparr>native := k\<rparr>)) \<and>
      mmg2d_get_sol_size Kp h oa ob oc wp =
        (let e = g_handles_2d wp ! nat h;
             (result, typEntity', np', typSol') = MMG2D_Get_solSize Kp (mesh e) (sol e) (native wp)
         in if result = 1 then ((result, map_option (\<lambda>_. typEntity') oa, map_option (\<lambda>_. np') ob, map_option (\<lambda>_. typSol') oc), wp) else ((result, oa, ob, oc), wp)) \<and>
      mmg2d_set_scalar_sols Kp h xs wp =
        (let e = g_handles_2d wp ! nat h;
             (r, k) = MMG2D_Set_scalarSols Kp (sol e) xs (native wp)
         in (r, wp\<lparr>native := k\<rparr>)) \<and>
      mmg2d_get_scalar_sols Kp fa h out wp =
        (let e = g_handles_2d wp ! nat h;
             (r, typEntity, np, typSol) = MMG2D_Get_solSize Kp (mesh e) (sol e) (native wp)
         in
         if r \<noteq> 1 then ((NULL, map_option (\<lambda>_. 0) out), wp)
         else if np = 0 \<or> typSol \<noteq> 1 then ((NULL, map_option (\<lambda>_. 0) out), wp)
         else
           let (values, h1) = malloc fa 8 (size_t (np * 8)) (heap wp) in
           if values = NULL then ((NULL, map_option (\<lambda>_. 0) out), wp\<lparr>heap := h1\<rparr>)
           else
             let (result, values') = MMG2D_Get_scalarSols Kp (sol e) (native wp);
                 h2 = poke values (map D values') h1
             in
             if result \<noteq> 1
             then ((NULL, map_option (\<lambda>_. 0) out), wp\<lparr>heap := free values h2\<rparr>)
             else ((values, map_option (\<lambda>_. np) out), wp\<lparr>heap := h2\<rparr>)) \<and>
      mmg2d_set_tensor_sols Kp h xs wp =
        (let e = g_handles_2d wp ! nat h;
             (r, k) = MMG2D_Set_tensorSols Kp (sol e) xs (native wp)
         in (r, wp\<lparr>native := k\<rparr>)) \<and>
      mmg2d_get_tensor_sols Kp fa h out wp =
        (let e = g_handles_2d wp ! nat h;
             (r, typEntity, np, typSol) = MMG2D_Get_solSize Kp (mesh e) (sol e) (native wp)
         in
         if r \<noteq> 1 then ((NULL, map_option (\<lambda>_. 0) out), wp)
         else if np = 0 \<or> typSol \<noteq> 3 then ((NULL, map_option (\<lambda>_. 0) out), wp)
         else
           let (values, h1) = malloc fa 8 (size_t (int32 (np * 3) * 8)) (heap wp) in
           if values = NULL then ((NULL, map_option (\<lambda>_. 0) out), wp\<lparr>heap := h1\<rparr>)
           else
             let (result, values') = MMG2D_Get_tensorSols Kp (sol e) (native wp);
                 h2 = poke values (map D values') h1
             in
             if result \<noteq> 1
             then ((NULL, map_option (\<lambda>_. 0) out), wp\<lparr>heap := free values h2\<rparr>)
             else ((values, map_option (\<lambda>_. np) out), wp\<lparr>heap := h2\<rparr>)) \<and>
      mmg2d_remesh Kp h wp =
        (let e = g_handles_2d wp ! nat h;
             (r, k) = MMG2D_mmg2dlib Kp (mesh e) (sol e) (native wp)
         in (r, wp\<lparr>native := k\<rparr>)) \<and>
      mmg2d_load_mesh Kp h fname wp =
        (let e = g_handles_2d wp ! nat h;
             (r, k) = MMG2D_loadMesh Kp (mesh e) fname (native wp)
         in (r, wp\<lparr>native := k\<rparr>)) \<and>
      mmg2d_save_mesh Kp h fname wp =
        (let e = g_handles_2d wp ! nat h;
             (r, k) = MMG2D_saveMesh Kp (mesh e) fname (native wp)
         in (r, wp\<lparr>native := k\<rparr>)) \<and>
      mmg2d_load_sol Kp h fname wp =
        (let e = g_handles_2d wp ! nat h;
             (r, k) = MMG2D_loadSol Kp (mesh e) (sol e) fname (native wp)
         in (r, wp\<lparr>native := k\<rparr>)) \<and>
      mmg2d_save_sol Kp h fname wp =
        (let e = g_handles_2d wp ! nat h;
             (r, k) = MMG2D_saveSol Kp (mesh e) (sol e) fname (native wp)
         in (r, wp\<lparr>native := k\<rparr>)) \<and>
      mmg2d_get_triangle_quality Kp h k wp =
        (let e = g_handles_2d wp ! nat h in
         (MMG2D_Get_triangleQuality Kp (mesh e) (sol e) k (native wp), wp)) \<and>
      mmg2d_get_triangles_qualities Kp fa h out wp =
        (let e = g_handles_2d wp ! nat h;
             (r, np, nt, nquad, na) = MMG2D_Get_meshSize Kp (mesh e) (native wp)
         in
         if r \<noteq> 1 then ((NULL, map_option (\<lambda>_. 0) out), wp)
         else if nt = 0 then ((NULL, map_option (\<lambda>_. 0) out), wp)
         else
           let (qualities, h1) = malloc fa 8 (size_t (nt * 8)) (heap wp) in
           if qualities = NULL then ((NULL, map_option (\<lambda>_. 0) out), wp\<lparr>heap := h1\<rparr>)
           else
             case qualities_loop
                    (\<lambda>k. MMG2D_Get_triangleQuality Kp (mesh e) (sol e) k (native wp)) qualities 1 nt h1 of
               None \<Rightarrow> ((qualities, map_option (\<lambda>_. nt) out), wp\<lparr>heap := h1, fault := True\<rparr>)
             | Some h2 \<Rightarrow> ((qualities, map_option (\<lambda>_. nt) out), wp\<lparr>heap := h2\<rparr>))) \<and>
    (mmg2d_free Kp h w = (1, wa) \<and>
     (\<forall>i < length cs. cs ! i = In_2d Init_2d \<longrightarrow>
        fst (mmg2d_init Kp (exec_all Kp Kv Ks (take i cs) wa)) \<noteq> h) \<longrightarrow>
      fst (validate_handle_2d h wp) = 0 \<and>
      mmg2d_free Kp h wp = (0, wp\<lparr>g_initialized_2d := 1\<rparr>) \<and>
      mmg2d_set_mesh_size Kp h ia ib ic iu wp = (0, wp\<lparr>g_initialized_2d := 1\<rparr>) \<and>
      mmg2d_get_mesh_size Kp h oa ob oc ou wp = ((0, oa, ob, oc, ou), wp\<lparr>g_initialized_2d := 1\<rparr>) \<and>
      mmg2d_set_vertex Kp h xa xb ia ib wp = (0, wp\<lparr>g_initialized_2d := 1\<rparr>) \<and>
      mmg2d_set_vertices Kp h xs ro wp = (0, wp\<lparr>g_initialized_2d := 1\<rparr>) \<and>
      mmg2d_get_vertices Kp fa fb fc fd h out wp = ((NULL, map_option (\<lambda>_. 0) out), wp\<lparr>g_initialized_2d := 1\<rparr>) \<and>
      mmg2d_set_triangle Kp h ia ib ic iu iv wp = (0, wp\<lparr>g_initialized_2d := 1\<rparr>) \<and>
      mmg2d_set_triangles Kp h js ro wp = (0, wp\<lparr>g_initialized_2d := 1\<rparr>) \<and>
      mmg2d_get_triangles Kp fa fb fc h out wp = ((NULL, map_option (\<lambda>_. 0) out), wp\<lparr>g_initialized_2d := 1\<rparr>) \<and>
      mmg2d_set_edge Kp h ia ib ic iu wp = (0, wp\<lparr>g_initialized_2d := 1\<rparr>) \<and>
      mmg2d_set_edges Kp h js ro wp = (0, wp\<lparr>g_initialized_2d := 1\<rparr>) \<and>
      mmg2d_get_edges Kp fa fb fc fd h out wp = ((NULL, map_option (\<lambda>_. 0) out), wp\<lparr>g_initialized_2d := 1\<rparr>) \<and>
      mmg2d_set_iparameter Kp h ia ib wp = (0, wp\<lparr>g_initialized_2d := 1\<rparr>) \<and>
      mmg2d_set_dparameter Kp h ia xa wp = (0, wp\<lparr>g_initialized_2d := 1\<rparr>) \<and>
      mmg2d_set_sol_size Kp h ia ib ic wp = (0, wp\<lparr>g_initialized_2d := 1\<rparr>) \<and>
      mmg2d_get_sol_size Kp h oa ob oc wp = ((0, oa, ob, oc), wp\<lparr>g_initialized_2d := 1\<rparr>) \<and>
      mmg2d_set_scalar_sols Kp h xs wp = (0, wp\<lparr>g_initialized_2d := 1\<rparr>) \<and>
      mmg2d_get_scalar_sols Kp fa h out wp = ((NULL, map_option (\<lambda>_. 0) out), wp\<lparr>g_initialized_2d := 1\<rparr>) \<and>
      mmg2d_set_tensor_sols Kp h xs wp = (0, wp\<lparr>g_initialized_2d := 1\<rparr>) \<and>
      mmg2d_get_tensor_sols Kp fa h out wp = ((NULL, map_option (\<lambda>_. 0) out), wp\<lparr>g_initialized_2d := 1\<rparr>) \<and>
      mmg2d_remesh Kp h wp = (- 1, wp\<lparr>g_initialized_2d := 1\<rparr>) \<and>
      mmg2d_load_mesh Kp h fname wp = (0, wp\<lparr>g_initialized_2d := 1\<rparr>) \<and>
      mmg2d_save_mesh Kp h fname wp = (0, wp\<lparr>g_initialized_2d := 1\<rparr>) \<and>
      mmg2d_load_sol Kp h fname wp = (0, wp\<lparr>g_initialized_2d := 1\<rparr>) \<and>
      mmg2d_save_sol Kp h fname wp = (0, wp\<lparr>g_initialized_2d := 1\<rparr>) \<and>
      mmg2d_get_triangle_quality Kp h k wp = (0, wp\<lparr>g_initialized_2d := 1\<rparr>) \<and>
      mmg2d_get_triangles_qualities Kp fa h out wp = ((NULL, map_option (\<lambda>_. 0) out), wp\<lparr>g_initialized_2d := 1\<rparr>))) \<and>
   ((mmg3d_init Kv w = (h, wa) \<and> 0 \<le> h \<and> In_3d (Free_3d h) \<notin> set cs \<longrightarrow>
      fst (validate_handle h wp) \<noteq> 0 \<and>
      mmg3d_free Kv h wp =
        (let e = g_handles wp ! nat h in
         (1,
          wp\<lparr>native := MMG3D_Free_all Kv (mesh e) (sol e) (native wp),
            g_handles := (g_handles wp)[nat h := \<lparr>mesh = NULL, sol = NULL, active = 0\<rparr>]\<rparr>)) \<and>
      mmg3d_set_mesh_size Kv h ia ib ic iu iv iw wp =
        (let e = g_handles wp ! nat h;
             (r, k) = MMG3D_Set_meshSize Kv (mesh e) ia ib ic iu iv iw (native wp)
         in (r, wp\<lparr>native := k\<rparr>)) \<and>
      mmg3d_get_mesh_size Kv h oa ob oc ou ov ow wp =
        (let e = g_handles wp ! nat h;
             (result, np', ne', nprism', nt', nquad', na') = MMG3D_Get_meshSize Kv (mesh e) (native wp)
         in if result = 1 then ((result, map_option (\<lambda>_. np') oa, map_option (\<lambda>_. ne') ob, map_option (\<lambda>_. nprism') oc, map_option (\<lambda>_. nt') ou, map_option (\<lambda>_. nquad') ov, map_option (\<lambda>_. na') ow), wp) else ((result, oa, ob, oc, ou, ov, ow), wp)) \<and>
      mmg3d_set_vertex Kv h xa xb xc ia ib wp =
        (let e = g_handles wp ! nat h;
             (r, k) = MMG3D_Set_vertex Kv (mesh e) xa xb xc ia ib (native wp)
         in (r, wp\<lparr>native := k\<rparr>)) \<and>
      mmg3d_set_vertices Kv h xs ro wp =
        (let e = g_handles wp ! nat h;
             (r, k) = MMG3D_Set_vertices Kv (mesh e) xs ro (native wp)
         in (r, wp\<lparr>native := k\<rparr>)) \<and>
      mmg3d_get_vertices Kv fa fb fc fd h out wp =
        (let m = mesh (g_handles wp ! nat h);
             (r, np, ne, nprism, nt, nquad, na) = MMG3D_Get_meshSize Kv m (native wp)
         in
         if r \<noteq> 1 then ((NULL, map_option (\<lambda>_. 0) out), wp)
         else if np = 0 then ((NULL, map_option (\<lambda>_. 0) out), wp)
         else
           let (vertices, h1) = malloc fa 8 (size_t (int32 (3 * np) * 8)) (heap wp) in
           if vertices = NULL then ((NULL, map_option (\<lambda>_. 0) out), wp\<lparr>heap := h1\<rparr>)
           else
           let (refs, h2) = malloc fb 4 (size_t (np * 4)) h1;
               (corners, h3) = malloc fc 4 (size_t (np * 4)) h2;
               (required, h4) = malloc fd 4 (size_t (np * 4)) h3 in
           if refs = NULL \<or> corners = NULL \<or> required = NULL
           then ((NULL, map_option (\<lambda>_. 0) out), wp\<lparr>heap := free required (free corners (free refs (free vertices h4)))\<rparr>)
           else
           let (result, vertices', refs', corners', required') = MMG3D_Get_vertices Kv m (native wp);
               h5 = poke required (map I32 required') (poke corners (map I32 corners') (poke refs (map I32 refs') (poke vertices (map D vertices') h4)));
               h6 = free required (free corners (free refs h5))
           in
           if result \<noteq> 1 then ((NULL, map_option (\<lambda>_. 0) out), wp\<lparr>heap := free vertices h6\<rparr>)
           else ((vertices, map_option (\<lambda>_. np) out), wp\<lparr>heap := h6\<rparr>)) \<and>
      mmg3d_set_tetrahedron Kv h ia ib ic iu iv iw wp =
        (let e = g_handles wp ! nat h;
             (r, k) = MMG3D_Set_tetrahedron Kv (mesh e) ia ib ic iu iv iw (native wp)
         in (r, wp\<lparr>native := k\<rparr>)) \<and>
      mmg3d_set_tetrahedra Kv h js ro wp =
        (let e = g_handles wp ! nat h;
             (r, k) = MMG3D_Set_tetrahedra Kv (mesh e) js ro (native wp)
         in (r, wp\<lparr>native := k\<rparr>)) \<and>
      mmg3d_get_tetrahedra Kv fa fb fc h out wp =
        (let m = mesh (g_handles wp ! nat h);
             (r, np, ne, nprism, nt, nquad, na) = MMG3D_Get_meshSize Kv m (native wp)
         in
         if r \<noteq> 1 then ((NULL, map_option (\<lambda>_. 0) out), wp)
         else if ne = 0 then ((NULL, map_option (\<lambda>_. 0) out), wp)
         else
           let (tetra, h1) = malloc fa 4 (size_t (int32 (4 * ne) * 4)) (heap wp) in
           if tetra = NULL then ((NULL, map_option (\<lambda>_. 0) out), wp\<lparr>heap := h1\<rparr>)
           else
           let (refs, h2) = malloc fb 4 (size_t (ne * 4)) h1;
               (required, h3) = malloc fc 4 (size_t (ne * 4)) h2 in
           if refs = NULL \<or> required = NULL
           then ((NULL, map_option (\<lambda>_. 0) out), wp\<lparr>heap := free required (free refs (free tetra h3))\<rparr>)
           else
           let (result, tetra', refs', required') = MMG3D_Get_tetrahedra Kv m (native wp);
               h4 = poke required (map I32 required') (poke refs (map I32 refs') (poke tetra (map I32 tetra') h3));
               h5 = free required (free refs h4)
           in
           if result \<noteq> 1 then ((NULL, map_option (\<lambda>_. 0) out), wp\<lparr>heap := free tetra h5\<rparr>)
           else ((tetra, map_option (\<lambda>_. ne) out), wp\<lparr>heap := h5\<rparr>)) \<and>
      mmg3d_set_triangle Kv h ia ib ic iu iv wp =
        (let e = g_handles wp ! nat h;
             (r, k) = MMG3D_Set_triangle Kv (mesh e) ia ib ic iu iv (native wp)
         in (r, wp\<lparr>native := k\<rparr>)) \<and>
      mmg3d_set_triangles Kv h js ro wp =
        (let e = g_handles wp ! nat h;
             (r, k) = MMG3D_Set_triangles Kv (mesh e) js ro (native wp)
         in (r, wp\<lparr>native := k\<rparr>)) \<and>
      mmg3d_get_triangles Kv fa fb fc h out wp =
        (let m = mesh (g_handles wp ! nat h);
             (r, np, ne, nprism, nt, nquad, na) = MMG3D_Get_meshSize Kv m (native wp)
         in
         if r \<noteq> 1 then ((NULL, map_option (\<lambda>_. 0) out), wp)
         else if nt = 0 then ((NULL, map_option (\<lambda>_. 0) out), wp)
         else
           let (tria, h1) = malloc fa 4 (size_t (int32 (3 * nt) * 4)) (heap wp) in
           if tria = NULL then ((NULL, map_option (\<lambda>_. 0) out), wp\<lparr>heap := h1\<rparr>)
           else
           let (refs, h2) = malloc fb 4 (size_t (nt * 4)) h1;
               (required, h3) = malloc fc 4 (size_t (nt * 4)) h2 in
           if refs = NULL \<or> required = NULL
           then ((NULL, map_option (\<lambda>_. 0) out), wp\<lparr>heap := free required (free refs (free tria h3))\<rparr>)
           else
           let (result, tria', refs', required') = MMG3D_Get_triangles Kv m (native wp);
               h4 = poke required (map I32 required') (poke refs (map I32 refs') (poke tria (map I32 tria') h3));
               h5 = free required (free refs h4)
           in
           if result \<noteq> 1 then ((NULL, map_option (\<lambda>_. 0) out), wp\<lparr>heap := free tria h5\<rparr>)
           else ((tria, map_option (\<lambda>_. nt) out), wp\<lparr>heap := h5\<rparr>)) \<and>
      mmg3d_set_iparameter Kv h ia ib wp =
        (let e = g_handles wp ! nat h;
             (r, k) = MMG3D_Set_iparameter Kv (mesh e) (sol e) ia ib (native wp)
         in (r, wp\<lparr>native := k\<rparr>)) \<and>
      mmg3d_set_dparameter Kv h ia xa wp =
        (let e = g_handles wp ! nat h;
             (r, k) = MMG3D_Set_dparameter Kv (mesh e) (sol e) ia xa (native wp)
         in (r, wp\<lparr>native := k\<rparr>)) \<and>
      mmg3d_set_sol_size Kv h ia ib ic wp =
        (let e = g_handles wp ! nat h;
             (r, k) = MMG3D_Set_solSize Kv (mesh e) (sol e) ia ib ic (native wp)
         in (r, wp\<lparr>native := k\<rparr>)) \<and>
      mmg3d_get_sol_size Kv h oa ob oc wp =
        (let e = g_handles wp ! nat h;
             (result, typEntity', np', typSol') = MMG3D_Get_solSize Kv (mesh e) (sol e) (native wp)
         in if result = 1 then ((result, map_option (\<lambda>_. typEntity') oa, map_option (\<lambda>_. np') ob, map_option (\<lambda>_. typSol') oc), wp) else ((result, oa, ob, oc), wp)) \<and>
      mmg3d_set_scalar_sols Kv h xs wp =
        (let e = g_handles wp ! nat h;
             (r, k) = MMG3D_Set_scalarSols Kv (sol e) xs (native wp)
         in (r, wp\<lparr>native := k\<rparr>)) \<and>
      mmg3d_get_scalar_sols Kv fa h out wp =
        (let e = g_handles wp ! nat h;
             (r, typEntity, np, typSol) = MMG3D_Get_solSize Kv (mesh e) (sol e) (native wp)
         in
         if r \<noteq> 1 then ((NULL, map_option (\<lambda>_. 0) out), wp)
         else if np = 0 \<or> typSol \<noteq> 1 then ((NULL, map_option (\<lambda>_. 0) out), wp)
         else
           let (values, h1) = malloc fa 8 (size_t (np * 8)) (heap wp) in
           if values = NULL then ((NULL, map_option (\<lambda>_. 0) out), wp\<lparr>heap := h1\<rparr>)
           else
             let (result, values') = MMG3D_Get_scalarSols Kv (sol e) (native wp);
                 h2 = poke values (map D values') h1
             in
             if result \<noteq> 1
             then ((NULL, map_option (\<lambda>_. 0) out), wp\<lparr>heap := free values h2\<rparr>)
             else ((values, map_option (\<lambda>_. np) out), wp\<lparr>heap := h2\<rparr>)) \<and>
      mmg3d_set_tensor_sols Kv h xs wp =
        (let e = g_handles wp ! nat h;
             (r, k) = MMG3D_Set_tensorSols Kv (sol e) xs (native wp)
         in (r, wp\<lparr>native := k\<rparr>)) \<and>
      mmg3d_get_tensor_sols Kv fa h out wp =
        (let e = g_handles wp ! nat h;
             (r, typEntity, np, typSol) = MMG3D_Get_solSize Kv (mesh e) (sol e) (native wp)
         in
         if r \<noteq> 1 then ((NULL, map_option (\<lambda>_. 0) out), wp)
         else if np = 0 \<or> typSol \<noteq> 3 then ((NULL, map_option (\<lambda>_. 0) out), wp)
         else
           let (values, h1) = malloc fa 8 (size_t (int32 (np * 6) * 8)) (heap wp) in
           if values = NULL then ((NULL, map_option (\<lambda>_. 0) out), wp\<lparr>heap := h1\<rparr>)
           else
             let (result, values') = MMG3D_Get_tensorSols Kv (sol e) (native wp);
                 h2 = poke values (map D values') h1
             in
             if result \<noteq> 1
             then ((NULL, map_option (\<lambda>_. 0) out), wp\<lparr>heap := free values h2\<rparr>)
             else ((values, map_option (\<lambda>_. np) out), wp\<lparr>heap := h2\<rparr>)) \<and>
      mmg3d_remesh Kv h wp =
        (let e = g_handles wp ! nat h;
             (r, k) = MMG3D_mmg3dlib Kv (mesh e) (sol e) (native wp)
         in (r, wp\<lparr>native := k\<rparr>)) \<and>
      mmg3d_load_mesh Kv h fname wp =
        (let e = g_handles wp ! nat h;
             (r, k) = MMG3D_loadMesh Kv (mesh e) fname (native wp)
         in (r, wp\<lparr>native := k\<rparr>)) \<and>
      mmg3d_save_mesh Kv h fname wp =
        (let e = g_handles wp ! nat h;
             (r, k) = MMG3D_saveMesh Kv (mesh e) fname (native wp)
         in (r, wp\<lparr>native := k\<rparr>)) \<and>
      mmg3d_load_sol Kv h fname wp =
        (let e = g_handles wp ! nat h;
             (r, k) = MMG3D_loadSol Kv (mesh e) (sol e) fname (native wp)
         in (r, wp\<lparr>native := k\<rparr>)) \<and>
      mmg3d_save_sol Kv h fname wp =
        (let e = g_handles wp ! nat h;
             (r, k) = MMG3D_saveSol Kv (mesh e) (sol e) fname (native wp)
         in (r, wp\<lparr>native := k\<rparr>)) \<and>
      mmg3d_get_tetrahedron_quality Kv h k wp =
        (let e = g_handles wp ! nat h in
         (MMG3D_Get_tetrahedronQuality Kv (mesh e) (sol e) k (native wp), wp)) \<and>
      mmg3d_get_tetrahedra_qualities Kv fa h out wp =
        (let e = g_handles wp ! nat h;
             (r, np, ne, nprism, nt, nquad, na) = MMG3D_Get_meshSize Kv (mesh e) (native wp)
         in
         if r \<noteq> 1 then ((NULL, map_option (\<lambda>_. 0) out), wp)
         else if ne = 0 then ((NULL, map_option (\<lambda>_. 0) out), wp)
         else
           let (qualities, h1) = malloc fa 8 (size_t (ne * 8)) (heap wp) in
           if qualities = NULL then ((NULL, map_option (\<lambda>_. 0) out), wp\<lparr>heap := h1\<rparr>)
           else
             case qualities_loop
                    (\<lambda>k. MMG3D_Get_tetrahedronQuality Kv (mesh e) (sol e) k (native wp)) qualities 1 ne h1 of
               None \<Rightarrow> ((qualities, map_option (\<lambda>_. ne) out), wp\<lparr>heap := h1, fault := True\<rparr>)
             | Some h2 \<Rightarrow> ((qualities, map_option (\<lambda>_. ne) out), wp\<lparr>heap := h2\<rparr>))) \<and>
    (mmg3d_free Kv h w = (1, wa) \<and>
     (\<forall>i < length cs. cs ! i = In_3d Init_3d \<longrightarrow>
        fst (mmg3d_init Kv (exec_all Kp Kv Ks (take i cs) wa)) \<noteq> h) \<longrightarrow>
      fst (validate_handle h wp) = 0 \<and>
      mmg3d_free Kv h wp = (0, wp\<lparr>g_initialized := 1\<rparr>) \<and>
      mmg3d_set_mesh_size Kv h ia ib ic iu iv iw wp = (0, wp\<lparr>g_initialized := 1\<rparr>) \<and>
      mmg3d_get_mesh_size Kv h oa ob oc ou ov ow wp = ((0, oa, ob, oc, ou, ov, ow), wp\<lparr>g_initialized := 1\<rparr>) \<and>
      mmg3d_set_vertex Kv h xa xb xc ia ib wp = (0, wp\<lparr>g_initialized := 1\<rparr>) \<and>
      mmg3d_set_vertices Kv h xs ro wp = (0, wp\<lparr>g_initialized := 1\<rparr>) \<and>
      mmg3d_get_vertices Kv fa fb fc fd h out wp = ((NULL, map_option (\<lambda>_. 0) out), wp\<lparr>g_initialized := 1\<rparr>) \<and>
      mmg3d_set_tetrahedron Kv h ia ib ic iu iv iw wp = (0, wp\<lparr>g_initialized := 1\<rparr>) \<and>
      mmg3d_set_tetrahedra Kv h js ro wp = (0, wp\<lparr>g_initialized := 1\<rparr>) \<and>
      mmg3d_get_tetrahedra Kv fa fb fc h out wp = ((NULL, map_option (\<lambda>_. 0) out), wp\<lparr>g_initialized := 1\<rparr>) \<and>
      mmg3d_set_triangle Kv h ia ib ic iu iv wp = (0, wp\<lparr>g_initialized := 1\<rparr>) \<and>
      mmg3d_set_triangles Kv h js ro wp = (0, wp\<lparr>g_initialized := 1\<rparr>) \<and>
      mmg3d_get_triangles Kv fa fb fc h out wp = ((NULL, map_option (\<lambda>_. 0) out), wp\<lparr>g_initialized := 1\<rparr>) \<and>
      mmg3d_set_iparameter Kv h ia ib wp = (0, wp\<lparr>g_initialized := 1\<rparr>) \<and>
      mmg3d_set_dparameter Kv h ia xa wp = (0, wp\<lparr>g_initialized := 1\<rparr>) \<and>
      mmg3d_set_sol_size Kv h ia ib ic wp = (0, wp\<lparr>g_initialized := 1\<rparr>) \<and>
      mmg3d_get_sol_size Kv h oa ob oc wp = ((0, oa, ob, oc), wp\<lparr>g_initialized := 1\<rparr>) \<and>
      mmg3d_set_scalar_sols Kv h xs wp = (0, wp\<lparr>g_initialized := 1\<rparr>) \<and>
      mmg3d_get_scalar_sols Kv fa h out wp = ((NULL, map_option (\<lambda>_. 0) out), wp\<lparr>g_initialized := 1\<rparr>) \<and>
      mmg3d_set_tensor_sols Kv h xs wp = (0, wp\<lparr>g_initialized := 1\<rparr>) \<and>
      mmg3d_get_tensor_sols Kv fa h out wp = ((NULL, map_option (\<lambda>_. 0) out), wp\<lparr>g_initialized := 1\<rparr>) \<and>
      mmg3d_remesh Kv h wp = (- 1, wp\<lparr>g_initialized := 1\<rparr>) \<and>
      mmg3d_load_mesh Kv h fname wp = (0, wp\<lparr>g_initialized := 1\<rparr>) \<and>
      mmg3d_save_mesh Kv h fname wp = (0, wp\<lparr>g_initialized := 1\<rparr>) \<and>
      mmg3d_load_sol Kv h fname wp = (0, wp\<lparr>g_initialized := 1\<rparr>) \<and>
      mmg3d_save_sol Kv h fname wp = (0, wp\<lparr>g_initialized := 1\<rparr>) \<and>
      mmg3d_get_tetrahedron_quality Kv h k wp = (0, wp\<lparr>g_initialized := 1\<rparr>) \<and>
      mmg3d_get_tetrahedra_qualities Kv fa h out wp = ((NULL, map_option (\<lambda>_. 0) out), wp\<lparr>g_initialized := 1\<rparr>))) \<and>
   ((mmgs_init Ks w = (h, wa) \<and> 0 \<le> h \<and> In_s (Free_s h) \<notin> set cs \<longrightarrow>
      fst (validate_handle_s h wp) \<noteq> 0 \<and>
      mmgs_free Ks h wp =
        (let e = g_handles_s wp ! nat h in
         (1,
          wp\<lparr>native := MMGS_Free_all Ks (mesh e) (sol e) (native wp),
            g_handles_s := (g_handles_s wp)[nat h := \<lparr>mesh = NULL, sol = NULL, active = 0\<rparr>]\<rparr>)) \<and>
      mmgs_set_mesh_size Ks h ia ib ic wp =
        (let e = g_handles_s wp ! nat h;
             (r, k) = MMGS_Set_meshSize Ks (mesh e) ia ib ic (native wp)
         in (r, wp\<lparr>native := k\<rparr>)) \<and>
      mmgs_get_mesh_size Ks h oa ob oc wp =
        (let e = g_handles_s wp ! nat h;
             (result, np', nt', na') = MMGS_Get_meshSize Ks (mesh e) (native wp)
         in if result = 1 then ((result, map_option (\<lambda>_. np') oa, map_option (\<lambda>_. nt') ob, map_option (\<lambda>_. na') oc), wp) else ((result, oa, ob, oc), wp)) \<and>
      mmgs_set_vertex Ks h xa xb xc ia ib wp =
        (let e = g_handles_s wp ! nat h;
             (r, k) = MMGS_Set_vertex Ks (mesh e) xa xb xc ia ib (native wp)
         in (r, wp\<lparr>native := k\<rparr>)) \<and>
      mmgs_set_vertices Ks h xs ro wp =
        (let e = g_handles_s wp ! nat h;
             (r, k) = MMGS_Set_vertices Ks (mesh e) xs ro (native wp)
         in (r, wp\<lparr>native := k\<rparr>)) \<and>
      mmgs_get_vertices Ks fa fb fc fd h out wp =
        (let m = mesh (g_handles_s wp ! nat h);
             (r, np, nt, na) = MMGS_Get_meshSize Ks m (native wp)
         in
         if r \<noteq> 1 then (fail_with_count out, wp)
         else if np = 0 then (fail_with_count out, wp)
         else
           let (vertices, h1) = malloc fa 8 (size_t (int32 (3 * np) * 8)) (heap wp) in
           if vertices = NULL
           then (fail_with_count out, wp\<lparr>heap := free NULL (free NULL (free NULL (free vertices h1)))\<rparr>)
           else
           let (refs, h2) = malloc fb 4 (size_t (np * 4)) h1 in
           if refs = NULL
           then (fail_with_count out, wp\<lparr>heap := free NULL (free NULL (free refs (free vertices h2)))\<rparr>)
           else
           let (corners, h3) = malloc fc 4 (size_t (np * 4)) h2 in
           if corners = NULL
           then (fail_with_count out, wp\<lparr>heap := free NULL (free corners (free refs (free vertices h3)))\<rparr>)
           else
           let (required, h4) = malloc fd 4 (size_t (np * 4)) h3 in
           if required = NULL
           then (fail_with_count out, wp\<lparr>heap := free required (free corners (free refs (free vertices h4)))\<rparr>)
           else
           let (result, vertices', refs', corners', required') = MMGS_Get_vertices Ks m (native wp);
               h5 = poke required (map I32 required') (poke corners (map I32 corners') (poke refs (map I32 refs') (poke vertices (map D vertices') h4)));
               h6 = free required (free corners (free refs h5))
           in
           if result \<noteq> 1 then (fail_with_count out, wp\<lparr>heap := free vertices h6\<rparr>)
           else ((vertices, map_option (\<lambda>_. np) out), wp\<lparr>heap := h6\<rparr>)) \<and>
      mmgs_set_triangle Ks h ia ib ic iu iv wp =
        (let e = g_handles_s wp ! nat h;
             (r, k) = MMGS_Set_triangle Ks (mesh e) ia ib ic iu iv (native wp)
         in (r, wp\<lparr>native := k\<rparr>)) \<and>
      mmgs_set_triangles Ks h js ro wp =
        (let e = g_handles_s wp ! nat h;
             (r, k) = MMGS_Set_triangles Ks (mesh e) js ro (native wp)
         in (r, wp\<lparr>native := k\<rparr>)) \<and>
      mmgs_get_triangles Ks fa fb fc h out wp =
        (let m = mesh (g_handles_s wp ! nat h);
             (r, np, nt, na) = MMGS_Get_meshSize Ks m (native wp)
         in
         if r \<noteq> 1 then (fail_with_count out, wp)
         else if nt = 0 then (fail_with_count out, wp)
         else
           let (tria, h1) = malloc fa 4 (size_t (int32 (3 * nt) * 4)) (heap wp) in
           if tria = NULL
           then (fail_with_count out, wp\<lparr>heap := free NULL (free NULL (free tria h1))\<rparr>)
           else
           let (refs, h2) = malloc fb 4 (size_t (nt * 4)) h1 in
           if refs = NULL
           then (fail_with_count out, wp\<lparr>heap := free NULL (free refs (free tria h2))\<rparr>)
           else
           let (required, h3) = malloc fc 4 (size_t (nt * 4)) h2 in
           if required = NULL
           then (fail_with_count out, wp\<lparr>heap := free required (free refs (free tria h3))\<rparr>)
           else
           let (result, tria', refs', required') = MMGS_Get_triangles Ks m (native wp);
               h4 = poke required (map I32 required') (poke refs (map I32 refs') (poke tria (map I32 tria') h3));
               h5 = free required (free refs h4)
           in
           if result \<noteq> 1 then (fail_with_count out, wp\<lparr>heap := free tria h5\<rparr>)
           else ((tria, map_option (\<lambda>_. nt) out), wp\<lparr>heap := h5\<rparr>)) \<and>
      mmgs_set_edge Ks h ia ib ic iu wp =
        (let e = g_handles_s wp ! nat h;
             (r, k) = MMGS_Set_edge Ks (mesh e) ia ib ic iu (native wp)
         in (r, wp\<lparr>native := k\<rparr>)) \<and>
      mmgs_set_edges Ks h js ro wp =
        (let e = g_handles_s wp ! nat h;
             (r, k) = MMGS_Set_edges Ks (mesh e) js ro (native wp)
         in (r, wp\<lparr>native := k\<rparr>)) \<and>
      mmgs_get_edges Ks fa fb fc fd h out wp =
        (let m = mesh (g_handles_s wp ! nat h);
             (r, np, nt, na) = MMGS_Get_meshSize Ks m (native wp)
         in
         if r \<noteq> 1 then (fail_with_count out, wp)
         else if na = 0 then (fail_with_count out, wp)
         else
           let (edges, h1) = malloc fa 4 (size_t (int32 (2 * na) * 4)) (heap wp) in
           if edges = NULL
           then (fail_with_count out, wp\<lparr>heap := free NULL (free NULL (free NULL (free edges h1)))\<rparr>)
           else
           let (refs, h2) = malloc fb 4 (size_t (na * 4)) h1 in
           if refs = NULL
           then (fail_with_count out, wp\<lparr>heap := free NULL (free NULL (free refs (free edges h2)))\<rparr>)
           else
           let (ridges, h3) = malloc fc 4 (size_t (na * 4)) h2 in
           if ridges = NULL
           then (fail_with_count out, wp\<lparr>heap := free NULL (free ridges (free refs (free edges h3)))\<rparr>)
           else
           let (required, h4) = malloc fd 4 (size_t (na * 4)) h3 in
           if required = NULL
           then (fail_with_count out, wp\<lparr>heap := free required (free ridges (free refs (free edges h4)))\<rparr>)
           else
           let (result, edges', refs', ridges', required') = MMGS_Get_edges Ks m (native wp);
               h5 = poke required (map I32 required') (poke ridges (map I32 ridges') (poke refs (map I32 refs') (poke edges (map I32 edges') h4)));
               h6 = free required (free ridges (free refs h5))
           in
           if result \<noteq> 1 then (fail_with_count out, wp\<lparr>heap := free edges h6\<rparr>)
           else ((edges, map_option (\<lambda>_. na) out), wp\<lparr>heap := h6\<rparr>)) \<and>
      mmgs_set_iparameter Ks h ia ib wp =
        (let e = g_handles_s wp ! nat h;
             (r, k) = MMGS_Set_iparameter Ks (mesh e) (sol e) ia ib (native wp)
         in (r, wp\<lparr>native := k\<rparr>)) \<and>
      mmgs_set_dparameter Ks h ia xa wp =
        (let e = g_handles_s wp ! nat h;
             (r, k) = MMGS_Set_dparameter Ks (mesh e) (sol e) ia xa (native wp)
         in (r, wp\<lparr>native := k\<rparr>)) \<and>
      mmgs_set_sol_size Ks h ia ib ic wp =
        (let e = g_handles_s wp ! nat h;
             (r, k) = MMGS_Set_solSize Ks (mesh e) (sol e) ia ib ic (native wp)
         in (r, wp\<lparr>native := k\<rparr>)) \<and>
      mmgs_get_sol_size Ks h oa ob oc wp =
        (let e = g_handles_s wp ! nat h;
             (result, typEntity', np', typSol') = MMGS_Get_solSize Ks (mesh e) (sol e) (native wp)
         in if result = 1 then ((result, map_option (\<lambda>_. typEntity') oa, map_option (\<lambda>_. np') ob, map_option (\<lambda>_. typSol') oc), wp) else ((result, oa, ob, oc), wp)) \<and>
      mmgs_set_scalar_sols Ks h xs wp =
        (let e = g_handles_s wp ! nat h;
             (r, k) = MMGS_Set_scalarSols Ks (sol e) xs (native wp)
         in (r, wp\<lparr>native := k\<rparr>)) \<and>
      mmgs_get_scalar_sols Ks fa h out wp =
        (let e = g_handles_s wp ! nat h;
             (r, typEntity, np, typSol) = MMGS_Get_solSize Ks (mesh e) (sol e) (native wp)
         in
         if r \<noteq> 1 then ((NULL, map_option (\<lambda>_. 0) out), wp)
         else if np = 0 \<or> typSol \<noteq> 1 then ((NULL, map_option (\<lambda>_. 0) out), wp)
         else
           let (values, h1) = malloc fa 8 (size_t (np * 8)) (heap wp) in
           if values = NULL then ((NULL, map_option (\<lambda>_. 0) out), wp\<lparr>heap := h1\<rparr>)
           else
             let (result, values') = MMGS_Get_scalarSols Ks (sol e) (native wp);
                 h2 = poke values (map D values') h1
             in
             if result \<noteq> 1
             then ((NULL, map_option (\<lambda>_. 0) out), wp\<lparr>heap := free values h2\<rparr>)
             else ((values, map_option (\<lambda>_. np) out), wp\<lparr>heap := h2\<rparr>)) \<and>
      mmgs_set_tensor_sols Ks h xs wp =
        (let e = g_handles_s wp ! nat h;
             (r, k) = MMGS_Set_tensorSols Ks (sol e) xs (native wp)
         in (r, wp\<lparr>native := k\<rparr>)) \<and>
      mmgs_get_tensor_sols Ks fa h out wp =
        (let e = g_handles_s wp ! nat h;
             (r, typEntity, np, typSol) = MMGS_Get_solSize Ks (mesh e) (sol e) (native wp)
         in
         if r \<noteq> 1 then ((NULL, map_option (\<lambda>_. 0) out), wp)
         else if np = 0 \<or> typSol \<noteq> 3 then ((NULL, map_option (\<lambda>_. 0) out), wp)
         else
           let (values, h1) = malloc fa 8 (size_t (int32 (np * 6) * 8)) (heap wp) in
           if values = NULL then ((NULL, map_option (\<lambda>_. 0) out), wp\<lparr>heap := h1\<rparr>)
           else
             let (result, values') = MMGS_Get_tensorSols Ks (sol e) (native wp);
                 h2 = poke values (map D values') h1
             in
             if result \<noteq> 1
             then ((NULL, map_option (\<lambda>_. 0) out), wp\<lparr>heap := free values h2\<rparr>)
             else ((values, map_option (\<lambda>_. np) out), wp\<lparr>heap := h2\<rparr>)) \<and>
      mmgs_remesh Ks h wp =
        (let e = g_handles_s wp ! nat h;
             (r, k) = MMGS_mmgslib Ks (mesh e) (sol e) (native wp)
         in (r, wp\<lparr>native := k\<rparr>)) \<and>
      mmgs_load_mesh Ks h fname wp =
        (let e = g_handles_s wp ! nat h;
             (r, k) = MMGS_loadMesh Ks (mesh e) fname (native wp)
         in (r, wp\<lparr>native := k\<rparr>)) \<and>
      mmgs_save_mesh Ks h fname wp =
        (let e = g_handles_s wp ! nat h;
             (r, k) = MMGS_saveMesh Ks (mesh e) fname (native wp)
         in (r, wp\<lparr>native := k\<rparr>)) \<and>
      mmgs_load_sol Ks h fname wp =
        (let e = g_handles_s wp ! nat h;
             (r, k) = MMGS_loadSol Ks (mesh e) (sol e) fname (native wp)
         in (r, wp\<lparr>native := k\<rparr>)) \<and>
      mmgs_save_sol Ks h fname wp =
        (let e = g_handles_s wp ! nat h;
             (r, k) = MMGS_saveSol Ks (mesh e) (sol e) fname (native wp)
         in (r, wp\<lparr>native := k\<rparr>)) \<and>
      mmgs_get_triangle_quality Ks h k wp =
        (let e = g_handles_s wp ! nat h in
         (MMGS_Get_triangleQuality Ks (mesh e) (sol e) k (native wp), wp)) \<and>
      mmgs_get_triangles_qualities Ks fa h out wp =
        (let e = g_handles_s wp ! nat h;
             (r, np, nt, na) = MMGS_Get_meshSize Ks (mesh e) (native wp)
         in
         if r \<noteq> 1 then ((NULL, map_option (\<lambda>_. 0) out), wp)
         else if nt = 0 then ((NULL, map_option (\<lambda>_. 0) out), wp)
         else
           let (qualities, h1) = malloc fa 8 (size_t (nt * 8)) (heap wp) in
           if qualities = NULL then ((NULL, map_option (\<lambda>_. 0) out), wp\<lparr>heap := h1\<rparr>)
           else
             case qualities_loop
                    (\<lambda>k. MMGS_Get_triangleQuality Ks (mesh e) (sol e) k (native wp)) qualities 1 nt h1 of
               None \<Rightarrow> ((qualities, map_option (\<lambda>_. nt) out), wp\<lparr>heap := h1, fault := True\<rparr>)
             | Some h2 \<Rightarrow> ((qualities, map_option (\<lambda>_. nt) out), wp\<lparr>heap := h2\<rparr>))) \<and>
    (mmgs_free Ks h w = (1, wa) \<and>
     (\<forall>i < length cs. cs ! i = In_s Init_s \<longrightarrow>
        fst (mmgs_init Ks (exec_all Kp Kv Ks (take i cs) wa)) \<noteq> h) \<longrightarrow>
      fst (validate_handle_s h wp) = 0 \<and>
      mmgs_free Ks h wp = (0, wp\<lparr>g_initialized_s := 1\<rparr>) \<and>
      mmgs_set_mesh_size Ks h ia ib ic wp = (0, wp\<lparr>g_initialized_s := 1\<rparr>) \<and>
      mmgs_get_mesh_size Ks h oa ob oc wp = ((0, oa, ob, oc), wp\<lparr>g_initialized_s := 1\<rparr>) \<and>
      mmgs_set_vertex Ks h xa xb xc ia ib wp = (0, wp\<lparr>g_initialized_s := 1\<rparr>) \<and>
      mmgs_set_vertices Ks h xs ro wp = (0, wp\<lparr>g_initialized_s := 1\<rparr>) \<and>
      mmgs_get_vertices Ks fa fb fc fd h out wp = ((NULL, map_option (\<lambda>_. 0) out), wp\<lparr>g_initialized_s := 1\<rparr>) \<and>
      mmgs_set_triangle Ks h ia ib ic iu iv wp = (0, wp\<lparr>g_initialized_s := 1\<rparr>) \<and>
      mmgs_set_triangles Ks h js ro wp = (0, wp\<lparr>g_initialized_s := 1\<rparr>) \<and>
      mmgs_get_triangles Ks fa fb fc h out wp = ((NULL, map_option (\<lambda>_. 0) out), wp\<lparr>g_initialized_s := 1\<rparr>) \<and>
      mmgs_set_edge Ks h ia ib ic iu wp = (0, wp\<lparr>g_initialized_s := 1\<rparr>) \<and>
      mmgs_set_edges Ks h js ro wp = (0, wp\<lparr>g_initialized_s := 1\<rparr>) \<and>
      mmgs_get_edges Ks fa fb fc fd h out wp = ((NULL, map_option (\<lambda>_. 0) out), wp\<lparr>g_initialized_s := 1\<rparr>) \<and>
      mmgs_set_iparameter Ks h ia ib wp = (0, wp\<lparr>g_initialized_s := 1\<rparr>) \<and>
      mmgs_set_dparameter Ks h ia xa wp = (0, wp\<lparr>g_initialized_s := 1\<rparr>) \<and>
      mmgs_set_sol_size Ks h ia ib ic wp = (0, wp\<lparr>g_initialized_s := 1\<rparr>) \<and>
      mmgs_get_sol_size Ks h oa ob oc wp = ((0, oa, ob, oc), wp\<lparr>g_initialized_s := 1\<rparr>) \<and>
      mmgs_set_scalar_sols Ks h xs wp = (0, wp\<lparr>g_initialized_s := 1\<rparr>) \<and>
      mmgs_get_scalar_sols Ks fa h out wp = ((NULL, map_option (\<lambda>_. 0) out), wp\<lparr>g_initialized_s := 1\<rparr>) \<and>
      mmgs_set_tensor_sols Ks h xs wp = (0, wp\<lparr>g_initialized_s := 1\<rparr>) \<and>
      mmgs_get_tensor_sols Ks fa h out wp = ((NULL, map_option (\<lambda>_. 0) out), wp\<lparr>g_initialized_s := 1\<rparr>) \<and>
      mmgs_remesh Ks h wp = (- 1, wp\<lparr>g_initialized_s := 1\<rparr>) \<and>
      mmgs_load_mesh Ks h fname wp = (0, wp\<lparr>g_initialized_s := 1\<rparr>) \<and>
      mmgs_save_mesh Ks h fname wp = (0, wp\<lparr>g_initialized_s := 1\<rparr>) \<and>
      mmgs_load_sol Ks h fname wp = (0, wp\<lparr>g_initialized_s := 1\<rparr>) \<and>
      mmgs_save_sol Ks h fname wp = (0, wp\<lparr>g_initialized_s := 1\<rparr>) \<and>
      mmgs_get_triangle_quality Ks h k wp = (0, wp\<lparr>g_initialized_s := 1\<rparr>) \<and>
      mmgs_get_triangles_qualities Ks fa h out wp = ((NULL, map_option (\<lambda>_. 0) out), wp\<lparr>g_initialized_s := 1\<rparr>)))"
proof -
  have valid_2d: "g_initialized_2d wp = 1 \<and> is_active_2d wp h"
    if a: "mmg2d_init Kp w = (h, wa) \<and> 0 \<le> h \<and> In_2d (Free_2d h) \<notin> set cs"
  proof -
    from a have eq: "mmg2d_init Kp w = (h, wa)" and h: "0 \<le> h"
      and cs: "In_2d (Free_2d h) \<notin> set cs" by simp_all
    have wfa: "wf_world wa" using mmg2d_init_preserves_wf [OF wf, of Kp] eq by simp
    have flag: "g_initialized_2d wa = 1" using mmg2d_init_flag [OF wf, of Kp] eq by simp
    have act: "is_active_2d wa h" by (rule mmg2d_init_makes_active [OF wf eq h])
    show ?thesis
      unfolding run
      by (rule conjI [OF exec_all_flag_2d [OF wfa flag] exec_all_keeps_active_2d [OF wfa act cs]])
  qed
  have invalid_2d: "wf_world wp \<and> \<not> is_active_2d wp h"
    if a: "mmg2d_free Kp h w = (1, wa) \<and>
     (\<forall>i < length cs. cs ! i = In_2d Init_2d \<longrightarrow>
        fst (mmg2d_init Kp (exec_all Kp Kv Ks (take i cs) wa)) \<noteq> h)"
  proof -
    from a have eq: "mmg2d_free Kp h w = (1, wa)"
      and cs: "\<forall>i < length cs. cs ! i = In_2d Init_2d \<longrightarrow>
        fst (mmg2d_init Kp (exec_all Kp Kv Ks (take i cs) wa)) \<noteq> h" by simp_all
    have wfa: "wf_world wa" using mmg2d_free_preserves_wf [OF wf, of Kp h] eq by simp
    have off: "\<not> is_active_2d wa h" by (rule mmg2d_free_makes_inactive [OF wf eq])
    show ?thesis
      unfolding run
      by (rule conjI [OF exec_all_wf [OF wfa] exec_all_keeps_inactive_2d [OF wfa off cs]])
  qed
  have valid_3d: "g_initialized wp = 1 \<and> is_active_3d wp h"
    if a: "mmg3d_init Kv w = (h, wa) \<and> 0 \<le> h \<and> In_3d (Free_3d h) \<notin> set cs"
  proof -
    from a have eq: "mmg3d_init Kv w = (h, wa)" and h: "0 \<le> h"
      and cs: "In_3d (Free_3d h) \<notin> set cs" by simp_all
    have wfa: "wf_world wa" using mmg3d_init_preserves_wf [OF wf, of Kv] eq by simp
    have flag: "g_initialized wa = 1" using mmg3d_init_flag [OF wf, of Kv] eq by simp
    have act: "is_active_3d wa h" by (rule mmg3d_init_makes_active [OF wf eq h])
    show ?thesis
      unfolding run
      by (rule conjI [OF exec_all_flag_3d [OF wfa flag] exec_all_keeps_active_3d [OF wfa act cs]])
  qed
  have invalid_3d: "wf_world wp \<and> \<not> is_active_3d wp h"
    if a: "mmg3d_free Kv h w = (1, wa) \<and>
     (\<forall>i < length cs. cs ! i = In_3d Init_3d \<longrightarrow>
        fst (mmg3d_init Kv (exec_all Kp Kv Ks (take i cs) wa)) \<noteq> h)"
  proof -
    from a have eq: "mmg3d_free Kv h w = (1, wa)"
      and cs: "\<forall>i < length cs. cs ! i = In_3d Init_3d \<longrightarrow>
        fst (mmg3d_init Kv (exec_all Kp Kv Ks (take i cs) wa)) \<noteq> h" by simp_all
    have wfa: "wf_world wa" using mmg3d_free_preserves_wf [OF wf, of Kv h] eq by simp
    have off: "\<not> is_active_3d wa h" by (rule mmg3d_free_makes_inactive [OF wf eq])
    show ?thesis
      unfolding run
      by (rule conjI [OF exec_all_wf [OF wfa] exec_all_keeps_inactive_3d [OF wfa off cs]])
  qed
  have valid_s: "g_initialized_s wp = 1 \<and> is_active_s wp h"
    if a: "mmgs_init Ks w = (h, wa) \<and> 0 \<le> h \<and> In_s (Free_s h) \<notin> set cs"
  proof -
    from a have eq: "mmgs_init Ks w = (h, wa)" and h: "0 \<le> h"
      and cs: "In_s (Free_s h) \<notin> set cs" by simp_all
    have wfa: "wf_world wa" using mmgs_init_preserves_wf [OF wf, of Ks] eq by simp
    have flag: "g_initialized_s wa = 1" using mmgs_init_flag [OF wf, of Ks] eq by simp
    have act: "is_active_s wa h" by (rule mmgs_init_makes_active [OF wf eq h])
    show ?thesis
      unfolding run
      by (rule conjI [OF exec_all_flag_s [OF wfa flag] exec_all_keeps_active_s [OF wfa act cs]])
  qed
  have invalid_s: "wf_world wp \<and> \<not> is_active_s wp h"
    if a: "mmgs_free Ks h w = (1, wa) \<and>
     (\<forall>i < length cs. cs ! i = In_s Init_s \<longrightarrow>
        fst (mmgs_init Ks (exec_all Kp Kv Ks (take i cs) wa)) \<noteq> h)"
  proof -
    from a have eq: "mmgs_free Ks h w = (1, wa)"
      and cs: "\<forall>i < length cs. cs ! i = In_s Init_s \<longrightarrow>
        fst (mmgs_init Ks (exec_all Kp Kv Ks (take i cs) wa)) \<noteq> h" by simp_all
    have wfa: "wf_world wa" using mmgs_free_preserves_wf [OF wf, of Ks h] eq by simp
    have off: "\<not> is_active_s wa h" by (rule mmgs_free_makes_inactive [OF wf eq])
    show ?thesis
      unfolding run
      by (rule conjI [OF exec_all_wf [OF wfa] exec_all_keeps_inactive_s [OF wfa off cs]])
  qed
  show ?thesis
    by (intro conjI impI;
        (rule
        validate_handle_2d_accepts mmg2d_free_accepted mmg2d_set_mesh_size_accepted
        mmg2d_get_mesh_size_accepted mmg2d_set_vertex_accepted mmg2d_set_vertices_accepted
        mmg2d_get_vertices_accepted mmg2d_set_triangle_accepted mmg2d_set_triangles_accepted
        mmg2d_get_triangles_accepted mmg2d_set_edge_accepted mmg2d_set_edges_accepted
        mmg2d_get_edges_accepted mmg2d_set_iparameter_accepted mmg2d_set_dparameter_accepted
        mmg2d_set_sol_size_accepted mmg2d_get_sol_size_accepted mmg2d_set_scalar_sols_accepted
        mmg2d_get_scalar_sols_accepted mmg2d_set_tensor_sols_accepted
        mmg2d_get_tensor_sols_accepted mmg2d_remesh_accepted mmg2d_load_mesh_accepted
        mmg2d_save_mesh_accepted mmg2d_load_sol_accepted mmg2d_save_sol_accepted
        mmg2d_get_triangle_quality_accepted mmg2d_get_triangles_qualities_accepted
        validate_handle_2d_rejects mmg2d_free_inactive mmg2d_set_mesh_size_inactive
        mmg2d_get_mesh_size_inactive mmg2d_set_vertex_inactive mmg2d_set_vertices_inactive
        mmg2d_get_vertices_inactive mmg2d_set_triangle_inactive mmg2d_set_triangles_inactive
        mmg2d_get_triangles_inactive mmg2d_set_edge_inactive mmg2d_set_edges_inactive
        mmg2d_get_edges_inactive mmg2d_set_iparameter_inactive mmg2d_set_dparameter_inactive
        mmg2d_set_sol_size_inactive mmg2d_get_sol_size_inactive mmg2d_set_scalar_sols_inactive
        mmg2d_get_scalar_sols_inactive mmg2d_set_tensor_sols_inactive
        mmg2d_get_tensor_sols_inactive mmg2d_remesh_inactive mmg2d_load_mesh_inactive
        mmg2d_save_mesh_inactive mmg2d_load_sol_inactive mmg2d_save_sol_inactive
        mmg2d_get_triangle_quality_inactive mmg2d_get_triangles_qualities_inactive
        validate_handle_accepts mmg3d_free_accepted mmg3d_set_mesh_size_accepted
        mmg3d_get_mesh_size_accepted mmg3d_set_vertex_accepted mmg3d_set_vertices_accepted
        mmg3d_get_vertices_accepted mmg3d_set_tetrahedron_accepted mmg3d_set_tetrahedra_accepted
        mmg3d_get_tetrahedra_accepted mmg3d_set_triangle_accepted mmg3d_set_triangles_accepted
        mmg3d_get_triangles_accepted mmg3d_set_iparameter_accepted mmg3d_set_dparameter_accepted
        mmg3d_set_sol_size_accepted mmg3d_get_sol_size_accepted mmg3d_set_scalar_sols_accepted
        mmg3d_get_scalar_sols_accepted mmg3d_set_tensor_sols_accepted
        mmg3d_get_tensor_sols_accepted mmg3d_remesh_accepted mmg3d_load_mesh_accepted
        mmg3d_save_mesh_accepted mmg3d_load_sol_accepted mmg3d_save_sol_accepted
        mmg3d_get_tetrahedron_quality_accepted mmg3d_get_tetrahedra_qualities_accepted
        validate_handle_rejects mmg3d_free_inactive mmg3d_set_mesh_size_inactive
        mmg3d_get_mesh_size_inactive mmg3d_set_vertex_inactive mmg3d_set_vertices_inactive
        mmg3d_get_vertices_inactive mmg3d_set_tetrahedron_inactive mmg3d_set_tetrahedra_inactive
        mmg3d_get_tetrahedra_inactive mmg3d_set_triangle_inactive mmg3d_set_triangles_inactive
        mmg3d_get_triangles_inactive mmg3d_set_iparameter_inactive mmg3d_set_dparameter_inactive
        mmg3d_set_sol_size_inactive mmg3d_get_sol_size_inactive mmg3d_set_scalar_sols_inactive
        mmg3d_get_scalar_sols_inactive mmg3d_set_tensor_sols_inactive
        mmg3d_get_tensor_sols_inactive mmg3d_remesh_inactive mmg3d_load_mesh_inactive
        mmg3d_save_mesh_inactive mmg3d_load_sol_inactive mmg3d_save_sol_inactive
        mmg3d_get_tetrahedron_quality_inactive mmg3d_get_tetrahedra_qualities_inactive
        validate_handle_s_accepts mmgs_free_accepted mmgs_set_mesh_size_accepted
        mmgs_get_mesh_size_accepted mmgs_set_vertex_accepted mmgs_set_vertices_accepted
        mmgs_get_vertices_accepted mmgs_set_triangle_accepted mmgs_set_triangles_accepted
        mmgs_get_triangles_accepted mmgs_set_edge_accepted mmgs_set_edges_accepted
        mmgs_get_edges_accepted mmgs_set_iparameter_accepted mmgs_set_dparameter_accepted
        mmgs_set_sol_size_accepted mmgs_get_sol_size_accepted mmgs_set_scalar_sols_accepted
        mmgs_get_scalar_sols_accepted mmgs_set_tensor_sols_accepted
        mmgs_get_tensor_sols_accepted mmgs_remesh_accepted mmgs_load_mesh_accepted
        mmgs_save_mesh_accepted mmgs_load_sol_accepted mmgs_save_sol_accepted
        mmgs_get_triangle_quality_accepted mmgs_get_triangles_qualities_accepted
        validate_handle_s_rejects mmgs_free_inactive mmgs_set_mesh_size_inactive
        mmgs_get_mesh_size_inactive mmgs_set_vertex_inactive mmgs_set_vertices_inactive
        mmgs_get_vertices_inactive mmgs_set_triangle_inactive mmgs_set_triangles_inactive
        mmgs_get_triangles_inactive mmgs_set_edge_inactive mmgs_set_edges_inactive
        mmgs_get_edges_inactive mmgs_set_iparameter_inactive mmgs_set_dparameter_inactive
        mmgs_set_sol_size_inactive mmgs_get_sol_size_inactive mmgs_set_scalar_sols_inactive
        mmgs_get_scalar_sols_inactive mmgs_set_tensor_sols_inactive
        mmgs_get_tensor_sols_inactive mmgs_remesh_inactive mmgs_load_mesh_inactive
        mmgs_save_mesh_inactive mmgs_load_sol_inactive mmgs_save_sol_inactive
        mmgs_get_triangle_quality_inactive mmgs_get_triangles_qualities_inactive;
         (erule valid_2d [THEN conjunct1] valid_2d [THEN conjunct2]
            valid_3d [THEN conjunct1] valid_3d [THEN conjunct2]
            valid_s [THEN conjunct1] valid_s [THEN conjunct2]
            invalid_2d [THEN conjunct1] invalid_2d [THEN conjunct2]
            invalid_3d [THEN conjunct1] invalid_3d [THEN conjunct2]
            invalid_s [THEN conjunct1] invalid_s [THEN conjunct2])))
qed

theorem C5_handle_validity_witness:
  "fst (validate_handle_2d 1 (exec_all (demo_2d 2 1) (demo_3d 2 1) (demo_s 2 1) [In_2d (Remesh_2d 0), In_3d Init_3d, In_s (Get_triangles_qualities_s True 0 (Some 0)), In_2d (Free_2d 0), In_2d (Get_sol_size_2d 1 None None None)] (snd (mmg2d_init (demo_2d 2 1) demo_world)))) \<noteq> 0 \<and>
   fst (mmg2d_remesh (demo_2d 2 1) 1 (exec_all (demo_2d 2 1) (demo_3d 2 1) (demo_s 2 1) [In_2d (Remesh_2d 0), In_3d Init_3d, In_s (Get_triangles_qualities_s True 0 (Some 0)), In_2d (Free_2d 0), In_2d (Get_sol_size_2d 1 None None None)] (snd (mmg2d_init (demo_2d 2 1) demo_world)))) = 0 \<and>
   fst (mmg2d_get_triangle_quality (demo_2d 2 1) 1 2 (exec_all (demo_2d 2 1) (demo_3d 2 1) (demo_s 2 1) [In_2d (Remesh_2d 0), In_3d Init_3d, In_s (Get_triangles_qualities_s True 0 (Some 0)), In_2d (Free_2d 0), In_2d (Get_sol_size_2d 1 None None None)] (snd (mmg2d_init (demo_2d 2 1) demo_world)))) = 1 / 2 \<and>
   fst (validate_handle_2d 0 (exec_all (demo_2d 2 1) (demo_3d 2 1) (demo_s 2 1) [In_3d Init_3d, In_2d (Free_2d 3), In_2d (Remesh_2d 0), In_s (Free_s 0)] (snd (mmg2d_free (demo_2d 2 1) 0 demo_world)))) = 0 \<and>
   fst (mmg2d_free (demo_2d 2 1) 0 (exec_all (demo_2d 2 1) (demo_3d 2 1) (demo_s 2 1) [In_3d Init_3d, In_2d (Free_2d 3), In_2d (Remesh_2d 0), In_s (Free_s 0)] (snd (mmg2d_free (demo_2d 2 1) 0 demo_world)))) = 0 \<and>
   fst (mmg2d_remesh (demo_2d 2 1) 0 (exec_all (demo_2d 2 1) (demo_3d 2 1) (demo_s 2 1) [In_3d Init_3d, In_2d (Free_2d 3), In_2d (Remesh_2d 0), In_s (Free_s 0)] (snd (mmg2d_free (demo_2d 2 1) 0 demo_world)))) = - 1 \<and>
   fst (mmg2d_get_triangle_quality (demo_2d 2 1) 0 2 (exec_all (demo_2d 2 1) (demo_3d 2 1) (demo_s 2 1) [In_3d Init_3d, In_2d (Free_2d 3), In_2d (Remesh_2d 0), In_s (Free_s 0)] (snd (mmg2d_free (demo_2d 2 1) 0 demo_world)))) = 0 \<and>
   fst (validate_handle 1 (exec_all (demo_2d 2 1) (demo_3d 2 1) (demo_s 2 1) [In_2d (Remesh_2d 0), In_3d Init_3d, In_s (Get_triangles_qualities_s True 0 (Some 0)), In_3d (Free_3d 0), In_3d (Get_sol_size_3d 1 None None None)] (snd (mmg3d_init (demo_3d 2 1) demo_world)))) \<noteq> 0 \<and>
   fst (mmg3d_remesh (demo_3d 2 1) 1 (exec_all (demo_2d 2 1) (demo_3d 2 1) (demo_s 2 1) [In_2d (Remesh_2d 0), In_3d Init_3d, In_s (Get_triangles_qualities_s True 0 (Some 0)), In_3d (Free_3d 0), In_3d (Get_sol_size_3d 1 None None None)] (snd (mmg3d_init (demo_3d 2 1) demo_world)))) = 0 \<and>
   fst (mmg3d_get_tetrahedron_quality (demo_3d 2 1) 1 2 (exec_all (demo_2d 2 1) (demo_3d 2 1) (demo_s 2 1) [In_2d (Remesh_2d 0), In_3d Init_3d, In_s (Get_triangles_qualities_s True 0 (Some 0)), In_3d (Free_3d 0), In_3d (Get_sol_size_3d 1 None None None)] (snd (mmg3d_init (demo_3d 2 1) demo_world)))) = 1 / 2 \<and>
   fst (validate_handle 0 (exec_all (demo_2d 2 1) (demo_3d 2 1) (demo_s 2 1) [In_2d Init_2d, In_3d (Free_3d 3), In_3d (Remesh_3d 0), In_s (Free_s 0)] (snd (mmg3d_free (demo_3d 2 1) 0 demo_world)))) = 0 \<and>
   fst (mmg3d_free (demo_3d 2 1) 0 (exec_all (demo_2d 2 1) (demo_3d 2 1) (demo_s 2 1) [In_2d Init_2d, In_3d (Free_3d 3), In_3d (Remesh_3d 0), In_s (Free_s 0)] (snd (mmg3d_free (demo_3d 2 1) 0 demo_world)))) = 0 \<and>
   fst (mmg3d_remesh (demo_3d 2 1) 0 (exec_all (demo_2d 2 1) (demo_3d 2 1) (demo_s 2 1) [In_2d Init_2d, In_3d (Free_3d 3), In_3d (Remesh_3d 0), In_s (Free_s 0)] (snd (mmg3d_free (demo_3d 2 1) 0 demo_world)))) = - 1 \<and>
   fst (mmg3d_get_tetrahedron_quality (demo_3d 2 1) 0 2 (exec_all (demo_2d 2 1) (demo_3d 2 1) (demo_s 2 1) [In_2d Init_2d, In_3d (Free_3d 3), In_3d (Remesh_3d 0), In_s (Free_s 0)] (snd (mmg3d_free (demo_3d 2 1) 0 demo_world)))) = 0 \<and>
   fst (validate_handle_s 1 (exec_all (demo_2d 2 1) (demo_3d 2 1) (demo_s 2 1) [In_2d (Remesh_2d 0), In_3d Init_3d, In_s (Get_triangles_qualities_s True 0 (Some 0)), In_s (Free_s 0), In_s (Get_sol_size_s 1 None None None)] (snd (mmgs_init (demo_s 2 1) demo_world)))) \<noteq> 0 \<and>
   fst (mmgs_remesh (demo_s 2 1) 1 (exec_all (demo_2d 2 1) (demo_3d 2 1) (demo_s 2 1) [In_2d (Remesh_2d 0), In_3d Init_3d, In_s (Get_triangles_qualities_s True 0 (Some 0)), In_s (Free_s 0), In_s (Get_sol_size_s 1 None None None)] (snd (mmgs_init (demo_s 2 1) demo_world)))) = 0 \<and>
   fst (mmgs_get_triangle_quality (demo_s 2 1) 1 2 (exec_all (demo_2d 2 1) (demo_3d 2 1) (demo_s 2 1) [In_2d (Remesh_2d 0), In_3d Init_3d, In_s (Get_triangles_qualities_s True 0 (Some 0)), In_s (Free_s 0), In_s (Get_sol_size_s 1 None None None)] (snd (mmgs_init (demo_s 2 1) demo_world)))) = 1 / 2 \<and>
   fst (validate_handle_s 0 (exec_all (demo_2d 2 1) (demo_3d 2 1) (demo_s 2 1) [In_2d Init_2d, In_s (Free_s 3), In_s (Remesh_s 0), In_3d (Free_3d 0)] (snd (mmgs_free (demo_s 2 1) 0 demo_world)))) = 0 \<and>
   fst (mmgs_free (demo_s 2 1) 0 (exec_all (demo_2d 2 1) (demo_3d 2 1) (demo_s 2 1) [In_2d Init_2d, In_s (Free_s 3), In_s (Remesh_s 0), In_3d (Free_3d 0)] (snd (mmgs_free (demo_s 2 1) 0 demo_world)))) = 0 \<and>
   fst (mmgs_remesh (demo_s 2 1) 0 (exec_all (demo_2d 2 1) (demo_3d 2 1) (demo_s 2 1) [In_2d Init_2d, In_s (Free_s 3), In_s (Remesh_s 0), In_3d (Free_3d 0)] (snd (mmgs_free (demo_s 2 1) 0 demo_world)))) = - 1 \<and>
   fst (mmgs_get_triangle_quality (demo_s 2 1) 0 2 (exec_all (demo_2d 2 1) (demo_3d 2 1) (demo_s 2 1) [In_2d Init_2d, In_s (Free_s 3), In_s (Remesh_s 0), In_3d (Free_3d 0)] (snd (mmgs_free (demo_s 2 1) 0 demo_world)))) = 0"
proof -
  have init_2d: "mmg2d_init (demo_2d 2 1) demo_world = (1, snd (mmg2d_init (demo_2d 2 1) demo_world))"
  proof -
    have "fst (mmg2d_init (demo_2d 2 1) demo_world) = 1" by code_simp
    then show ?thesis by (simp add: prod_eq_iff)
  qed
  have free_2d: "mmg2d_free (demo_2d 2 1) 0 demo_world = (1, snd (mmg2d_free (demo_2d 2 1) 0 demo_world))"
    by (simp add: mmg2d_free_active [OF demo_world_wf demo_world_active(1)])
  have sane1_2d: "\<not> fault (exec_all (demo_2d 2 1) (demo_3d 2 1) (demo_s 2 1) [In_2d (Remesh_2d 0), In_3d Init_3d, In_s (Get_triangles_qualities_s True 0 (Some 0)), In_2d (Free_2d 0), In_2d (Get_sol_size_2d 1 None None None)] (snd (mmg2d_init (demo_2d 2 1) demo_world)))"
    by code_simp
  have sane2_2d: "\<not> fault (exec_all (demo_2d 2 1) (demo_3d 2 1) (demo_s 2 1) [In_3d Init_3d, In_2d (Free_2d 3), In_2d (Remesh_2d 0), In_s (Free_s 0)] (snd (mmg2d_free (demo_2d 2 1) 0 demo_world)))"
    by code_simp
  note a_2d = C5_handle_validity [where Kp = "demo_2d 2 1" and Kv = "demo_3d 2 1"
      and Ks = "demo_s 2 1" and h = 1 and wa = "snd (mmg2d_init (demo_2d 2 1) demo_world)"
      and cs = "[In_2d (Remesh_2d 0), In_3d Init_3d, In_s (Get_triangles_qualities_s True 0 (Some 0)), In_2d (Free_2d 0), In_2d (Get_sol_size_2d 1 None None None)]", OF demo_world_wf refl sane1_2d, THEN conjunct1, THEN conjunct1, THEN mp]
  note b_2d = C5_handle_validity [where Kp = "demo_2d 2 1" and Kv = "demo_3d 2 1"
      and Ks = "demo_s 2 1" and h = 0 and wa = "snd (mmg2d_free (demo_2d 2 1) 0 demo_world)"
      and cs = "[In_3d Init_3d, In_2d (Free_2d 3), In_2d (Remesh_2d 0), In_s (Free_s 0)]", OF demo_world_wf refl sane2_2d, THEN conjunct1, THEN conjunct2, THEN mp]
  have ante1_2d: "mmg2d_init (demo_2d 2 1) demo_world = (1, snd (mmg2d_init (demo_2d 2 1) demo_world)) \<and> (0::int) \<le> 1 \<and>
      In_2d (Free_2d 1) \<notin> set [In_2d (Remesh_2d 0), In_3d Init_3d, In_s (Get_triangles_qualities_s True 0 (Some 0)), In_2d (Free_2d 0), In_2d (Get_sol_size_2d 1 None None None)]"
    by (rule conjI [OF init_2d]) simp
  have ante2_2d: "mmg2d_free (demo_2d 2 1) 0 demo_world = (1, snd (mmg2d_free (demo_2d 2 1) 0 demo_world)) \<and>
      (\<forall>i < length [In_3d Init_3d, In_2d (Free_2d 3), In_2d (Remesh_2d 0), In_s (Free_s 0)]. [In_3d Init_3d, In_2d (Free_2d 3), In_2d (Remesh_2d 0), In_s (Free_s 0)] ! i = In_2d Init_2d \<longrightarrow>
         fst (mmg2d_init (demo_2d 2 1) (exec_all (demo_2d 2 1) (demo_3d 2 1) (demo_s 2 1) (take i [In_3d Init_3d, In_2d (Free_2d 3), In_2d (Remesh_2d 0), In_s (Free_s 0)]) (snd (mmg2d_free (demo_2d 2 1) 0 demo_world)))) \<noteq> 0)"
    by (rule conjI [OF free_2d]) (auto simp add: nth_Cons split: nat.splits)
  note valid_2d = a_2d [OF ante1_2d]
  note invalid_2d = b_2d [OF ante2_2d]
  have v1_2d: "fst (validate_handle_2d 1 (exec_all (demo_2d 2 1) (demo_3d 2 1) (demo_s 2 1) [In_2d (Remesh_2d 0), In_3d Init_3d, In_s (Get_triangles_qualities_s True 0 (Some 0)), In_2d (Free_2d 0), In_2d (Get_sol_size_2d 1 None None None)] (snd (mmg2d_init (demo_2d 2 1) demo_world)))) \<noteq> 0"
    by (rule valid_2d [THEN conjunct1])
  have v2_2d: "fst (mmg2d_remesh (demo_2d 2 1) 1 (exec_all (demo_2d 2 1) (demo_3d 2 1) (demo_s 2 1) [In_2d (Remesh_2d 0), In_3d Init_3d, In_s (Get_triangles_qualities_s True 0 (Some 0)), In_2d (Free_2d 0), In_2d (Get_sol_size_2d 1 None None None)] (snd (mmg2d_init (demo_2d 2 1) demo_world)))) = 0"
    unfolding valid_2d [THEN conjunct2, THEN conjunct2, THEN conjunct2, THEN conjunct2, THEN conjunct2, THEN conjunct2, THEN conjunct2, THEN conjunct2, THEN conjunct2, THEN conjunct2, THEN conjunct2, THEN conjunct2, THEN conjunct2, THEN conjunct2, THEN conjunct2, THEN conjunct2, THEN conjunct2, THEN conjunct2, THEN conjunct2, THEN conjunct2, THEN conjunct2, THEN conjunct1]
    by (simp add: demo_2d_def Let_def)
  have v3_2d: "fst (mmg2d_get_triangle_quality (demo_2d 2 1) 1 2 (exec_all (demo_2d 2 1) (demo_3d 2 1) (demo_s 2 1) [In_2d (Remesh_2d 0), In_3d Init_3d, In_s (Get_triangles_qualities_s True 0 (Some 0)), In_2d (Free_2d 0), In_2d (Get_sol_size_2d 1 None None None)] (snd (mmg2d_init (demo_2d 2 1) demo_world)))) = 1 / 2"
    unfolding valid_2d [THEN conjunct2, THEN conjunct2, THEN conjunct2, THEN conjunct2, THEN conjunct2, THEN conjunct2, THEN conjunct2, THEN conjunct2, THEN conjunct2, THEN conjunct2, THEN conjunct2, THEN conjunct2, THEN conjunct2, THEN conjunct2, THEN conjunct2, THEN conjunct2, THEN conjunct2, THEN conjunct2, THEN conjunct2, THEN conjunct2, THEN conjunct2, THEN conjunct2, THEN conjunct2, THEN conjunct2, THEN conjunct2, THEN conjunct2, THEN conjunct1]
    by (simp add: demo_2d_def Let_def)
  have i1_2d: "fst (validate_handle_2d 0 (exec_all (demo_2d 2 1) (demo_3d 2 1) (demo_s 2 1) [In_3d Init_3d, In_2d (Free_2d 3), In_2d (Remesh_2d 0), In_s (Free_s 0)] (snd (mmg2d_free (demo_2d 2 1) 0 demo_world)))) = 0"
    by (rule invalid_2d [THEN conjunct1])
  have i2_2d: "fst (mmg2d_free (demo_2d 2 1) 0 (exec_all (demo_2d 2 1) (demo_3d 2 1) (demo_s 2 1) [In_3d Init_3d, In_2d (Free_2d 3), In_2d (Remesh_2d 0), In_s (Free_s 0)] (snd (mmg2d_free (demo_2d 2 1) 0 demo_world)))) = 0"
    unfolding invalid_2d [THEN conjunct2, THEN conjunct1] by simp
  have i3_2d: "fst (mmg2d_remesh (demo_2d 2 1) 0 (exec_all (demo_2d 2 1) (demo_3d 2 1) (demo_s 2 1) [In_3d Init_3d, In_2d (Free_2d 3), In_2d (Remesh_2d 0), In_s (Free_s 0)] (snd (mmg2d_free (demo_2d 2 1) 0 demo_world)))) = - 1"
    unfolding invalid_2d [THEN conjunct2, THEN conjunct2, THEN conjunct2, THEN conjunct2, THEN conjunct2, THEN conjunct2, THEN conjunct2, THEN conjunct2, THEN conjunct2, THEN conjunct2, THEN conjunct2, THEN conjunct2, THEN conjunct2, THEN conjunct2, THEN conjunct2, THEN conjunct2, THEN conjunct2, THEN conjunct2, THEN conjunct2, THEN conjunct2, THEN conjunct2, THEN conjunct1] by simp
  have i4_2d: "fst (mmg2d_get_triangle_quality (demo_2d 2 1) 0 2 (exec_all (demo_2d 2 1) (demo_3d 2 1) (demo_s 2 1) [In_3d Init_3d, In_2d (Free_2d 3), In_2d (Remesh_2d 0), In_s (Free_s 0)] (snd (mmg2d_free (demo_2d 2 1) 0 demo_world)))) = 0"
    unfolding invalid_2d [THEN conjunct2, THEN conjunct2, THEN conjunct2, THEN conjunct2, THEN conjunct2, THEN conjunct2, THEN conjunct2, THEN conjunct2, THEN conjunct2, THEN conjunct2, THEN conjunct2, THEN conjunct2, THEN conjunct2, THEN conjunct2, THEN conjunct2, THEN conjunct2, THEN conjunct2, THEN conjunct2, THEN conjunct2, THEN conjunct2, THEN conjunct2, THEN conjunct2, THEN conjunct2, THEN conjunct2, THEN conjunct2, THEN conjunct2, THEN conjunct1] by simp
  have init_3d: "mmg3d_init (demo_3d 2 1) demo_world = (1, snd (mmg3d_init (demo_3d 2 1) demo_world))"
  proof -
    have "fst (mmg3d_init (demo_3d 2 1) demo_world) = 1" by code_simp
    then show ?thesis by (simp add: prod_eq_iff)
  qed
  have free_3d: "mmg3d_free (demo_3d 2 1) 0 demo_world = (1, snd (mmg3d_free (demo_3d 2 1) 0 demo_world))"
    by (simp add: mmg3d_free_active [OF demo_world_wf demo_world_active(2)])
  have sane1_3d: "\<not> fault (exec_all (demo_2d 2 1) (demo_3d 2 1) (demo_s 2 1) [In_2d (Remesh_2d 0), In_3d Init_3d, In_s (Get_triangles_qualities_s True 0 (Some 0)), In_3d (Free_3d 0), In_3d (Get_sol_size_3d 1 None None None)] (snd (mmg3d_init (demo_3d 2 1) demo_world)))"
    by code_simp
  have sane2_3d: "\<not> fault (exec_all (demo_2d 2 1) (demo_3d 2 1) (demo_s 2 1) [In_2d Init_2d, In_3d (Free_3d 3), In_3d (Remesh_3d 0), In_s (Free_s 0)] (snd (mmg3d_free (demo_3d 2 1) 0 demo_world)))"
    by code_simp
  note a_3d = C5_handle_validity [where Kp = "demo_2d 2 1" and Kv = "demo_3d 2 1"
      and Ks = "demo_s 2 1" and h = 1 and wa = "snd (mmg3d_init (demo_3d 2 1) demo_world)"
      and cs = "[In_2d (Remesh_2d 0), In_3d Init_3d, In_s (Get_triangles_qualities_s True 0 (Some 0)), In_3d (Free_3d 0), In_3d (Get_sol_size_3d 1 None None None)]", OF demo_world_wf refl sane1_3d, THEN conjunct2, THEN conjunct1, THEN conjunct1, THEN mp]
  note b_3d = C5_handle_validity [where Kp = "demo_2d 2 1" and Kv = "demo_3d 2 1"
      and Ks = "demo_s 2 1" and h = 0 and wa = "snd (mmg3d_free (demo_3d 2 1) 0 demo_world)"
      and cs = "[In_2d Init_2d, In_3d (Free_3d 3), In_3d (Remesh_3d 0), In_s (Free_s 0)]", OF demo_world_wf refl sane2_3d, THEN conjunct2, THEN conjunct1, THEN conjunct2, THEN mp]
  have ante1_3d: "mmg3d_init (demo_3d 2 1) demo_world = (1, snd (mmg3d_init (demo_3d 2 1) demo_world)) \<and> (0::int) \<le> 1 \<and>
      In_3d (Free_3d 1) \<notin> set [In_2d (Remesh_2d 0), In_3d Init_3d, In_s (Get_triangles_qualities_s True 0 (Some 0)), In_3d (Free_3d 0), In_3d (Get_sol_size_3d 1 None None None)]"
    by (rule conjI [OF init_3d]) simp
  have ante2_3d: "mmg3d_free (demo_3d 2 1) 0 demo_world = (1, snd (mmg3d_free (demo_3d 2 1) 0 demo_world)) \<and>
      (\<forall>i < length [In_2d Init_2d, In_3d (Free_3d 3), In_3d (Remesh_3d 0), In_s (Free_s 0)]. [In_2d Init_2d, In_3d (Free_3d 3), In_3d (Remesh_3d 0), In_s (Free_s 0)] ! i = In_3d Init_3d \<longrightarrow>
         fst (mmg3d_init (demo_3d 2 1) (exec_all (demo_2d 2 1) (demo_3d 2 1) (demo_s 2 1) (take i [In_2d Init_2d, In_3d (Free_3d 3), In_3d (Remesh_3d 0), In_s (Free_s 0)]) (snd (mmg3d_free (demo_3d 2 1) 0 demo_world)))) \<noteq> 0)"
    by (rule conjI [OF free_3d]) (auto simp add: nth_Cons split: nat.splits)
  note valid_3d = a_3d [OF ante1_3d]
  note invalid_3d = b_3d [OF ante2_3d]
  have v1_3d: "fst (validate_handle 1 (exec_all (demo_2d 2 1) (demo_3d 2 1) (demo_s 2 1) [In_2d (Remesh_2d 0), In_3d Init_3d, In_s (Get_triangles_qualities_s True 0 (Some 0)), In_3d (Free_3d 0), In_3d (Get_sol_size_3d 1 None None None)] (snd (mmg3d_init (demo_3d 2 1) demo_world)))) \<noteq> 0"
    by (rule valid_3d [THEN conjunct1])
  have v2_3d: "fst (mmg3d_remesh (demo_3d 2 1) 1 (exec_all (demo_2d 2 1) (demo_3d 2 1) (demo_s 2 1) [In_2d (Remesh_2d 0), In_3d Init_3d, In_s (Get_triangles_qualities_s True 0 (Some 0)), In_3d (Free_3d 0), In_3d (Get_sol_size_3d 1 None None None)] (snd (mmg3d_init (demo_3d 2 1) demo_world)))) = 0"
    unfolding valid_3d [THEN conjunct2, THEN conjunct2, THEN conjunct2, THEN conjunct2, THEN conjunct2, THEN conjunct2, THEN conjunct2, THEN conjunct2, THEN conjunct2, THEN conjunct2, THEN conjunct2, THEN conjunct2, THEN conjunct2, THEN conjunct2, THEN conjunct2, THEN conjunct2, THEN conjunct2, THEN conjunct2, THEN conjunct2, THEN conjunct2, THEN conjunct2, THEN conjunct1]
    by (simp add: demo_3d_def Let_def)
  have v3_3d: "fst (mmg3d_get_tetrahedron_quality (demo_3d 2 1) 1 2 (exec_all (demo_2d 2 1) (demo_3d 2 1) (demo_s 2 1) [In_2d (Remesh_2d 0), In_3d Init_3d, In_s (Get_triangles_qualities_s True 0 (Some 0)), In_3d (Free_3d 0), In_3d (Get_sol_size_3d 1 None None None)] (snd (mmg3d_init (demo_3d 2 1) demo_world)))) = 1 / 2"
    unfolding valid_3d [THEN conjunct2, THEN conjunct2, THEN conjunct2, THEN conjunct2, THEN conjunct2, THEN conjunct2, THEN conjunct2, THEN conjunct2, THEN conjunct2, THEN conjunct2, THEN conjunct2, THEN conjunct2, THEN conjunct2, THEN conjunct2, THEN conjunct2, THEN conjunct2, THEN conjunct2, THEN conjunct2, THEN conjunct2, THEN conjunct2, THEN conjunct2, THEN conjunct2, THEN conjunct2, THEN conjunct2, THEN conjunct2, THEN conjunct2, THEN conjunct1]
    by (simp add: demo_3d_def Let_def)
  have i1_3d: "fst (validate_handle 0 (exec_all (demo_2d 2 1) (demo_3d 2 1) (demo_s 2 1) [In_2d Init_2d, In_3d (Free_3d 3), In_3d (Remesh_3d 0), In_s (Free_s 0)] (snd (mmg3d_free (demo_3d 2 1) 0 demo_world)))) = 0"
    by (rule invalid_3d [THEN conjunct1])
  have i2_3d: "fst (mmg3d_free (demo_3d 2 1) 0 (exec_all (demo_2d 2 1) (demo_3d 2 1) (demo_s 2 1) [In_2d Init_2d, In_3d (Free_3d 3), In_3d (Remesh_3d 0), In_s (Free_s 0)] (snd (mmg3d_free (demo_3d 2 1) 0 demo_world)))) = 0"
    unfolding invalid_3d [THEN conjunct2, THEN conjunct1] by simp
  have i3_3d: "fst (mmg3d_remesh (demo_3d 2 1) 0 (exec_all (demo_2d 2 1) (demo_3d 2 1) (demo_s 2 1) [In_2d Init_2d, In_3d (Free_3d 3), In_3d (Remesh_3d 0), In_s (Free_s 0)] (snd (mmg3d_free (demo_3d 2 1) 0 demo_world)))) = - 1"
    unfolding invalid_3d [THEN conjunct2, THEN conjunct2, THEN conjunct2, THEN conjunct2, THEN conjunct2, THEN conjunct2, THEN conjunct2, THEN conjunct2, THEN conjunct2, THEN conjunct2, THEN conjunct2, THEN conjunct2, THEN conjunct2, THEN conjunct2, THEN conjunct2, THEN conjunct2, THEN conjunct2, THEN conjunct2, THEN conjunct2, THEN conjunct2, THEN conjunct2, THEN conjunct1] by simp
  have i4_3d: "fst (mmg3d_get_tetrahedron_quality (demo_3d 2 1) 0 2 (exec_all (demo_2d 2 1) (demo_3d 2 1) (demo_s 2 1) [In_2d Init_2d, In_3d (Free_3d 3), In_3d (Remesh_3d 0), In_s (Free_s 0)] (snd (mmg3d_free (demo_3d 2 1) 0 demo_world)))) = 0"
    unfolding invalid_3d [THEN conjunct2, THEN conjunct2, THEN conjunct2, THEN conjunct2, THEN conjunct2, THEN conjunct2, THEN conjunct2, THEN conjunct2, THEN conjunct2, THEN conjunct2, THEN conjunct2, THEN conjunct2, THEN conjunct2, THEN conjunct2, THEN conjunct2, THEN conjunct2, THEN conjunct2, THEN conjunct2, THEN conjunct2, THEN conjunct2, THEN conjunct2, THEN conjunct2, THEN conjunct2, THEN conjunct2, THEN conjunct2, THEN conjunct2, THEN conjunct1] by simp
  have init_s: "mmgs_init (demo_s 2 1) demo_world = (1, snd (mmgs_init (demo_s 2 1) demo_world))"
  proof -
    have "fst (mmgs_init (demo_s 2 1) demo_world) = 1" by code_simp
    then show ?thesis by (simp add: prod_eq_iff)
  qed
  have free_s: "mmgs_free (demo_s 2 1) 0 demo_world = (1, snd (mmgs_free (demo_s 2 1) 0 demo_world))"
    by (simp add: mmgs_free_active [OF demo_world_wf demo_world_active(3)])
  have sane1_s: "\<not> fault (exec_all (demo_2d 2 1) (demo_3d 2 1) (demo_s 2 1) [In_2d (Remesh_2d 0), In_3d Init_3d, In_s (Get_triangles_qualities_s True 0 (Some 0)), In_s (Free_s 0), In_s (Get_sol_size_s 1 None None None)] (snd (mmgs_init (demo_s 2 1) demo_world)))"
    by code_simp
  have sane2_s: "\<not> fault (exec_all (demo_2d 2 1) (demo_3d 2 1) (demo_s 2 1) [In_2d Init_2d, In_s (Free_s 3), In_s (Remesh_s 0), In_3d (Free_3d 0)] (snd (mmgs_free (demo_s 2 1) 0 demo_world)))"
    by code_simp
  note a_s = C5_handle_validity [where Kp = "demo_2d 2 1" and Kv = "demo_3d 2 1"
      and Ks = "demo_s 2 1" and h = 1 and wa = "snd (mmgs_init (demo_s 2 1) demo_world)"
      and cs = "[In_2d (Remesh_2d 0), In_3d Init_3d, In_s (Get_triangles_qualities_s True 0 (Some 0)), In_s (Free_s 0), In_s (Get_sol_size_s 1 None None None)]", OF demo_world_wf refl sane1_s, THEN conjunct2, THEN conjunct2, THEN conjunct1, THEN mp]
  note b_s = C5_handle_validity [where Kp = "demo_2d 2 1" and Kv = "demo_3d 2 1"
      and Ks = "demo_s 2 1" and h = 0 and wa = "snd (mmgs_free (demo_s 2 1) 0 demo_world)"
      and cs = "[In_2d Init_2d, In_s (Free_s 3), In_s (Remesh_s 0), In_3d (Free_3d 0)]", OF demo_world_wf refl sane2_s, THEN conjunct2, THEN conjunct2, THEN conjunct2, THEN mp]
  have ante1_s: "mmgs_init (demo_s 2 1) demo_world = (1, snd (mmgs_init (demo_s 2 1) demo_world)) \<and> (0::int) \<le> 1 \<and>
      In_s (Free_s 1) \<notin> set [In_2d (Remesh_2d 0), In_3d Init_3d, In_s (Get_triangles_qualities_s True 0 (Some 0)), In_s (Free_s 0), In_s (Get_sol_size_s 1 None None None)]"
    by (rule conjI [OF init_s]) simp
  have ante2_s: "mmgs_free (demo_s 2 1) 0 demo_world = (1, snd (mmgs_free (demo_s 2 1) 0 demo_world)) \<and>
      (\<forall>i < length [In_2d Init_2d, In_s (Free_s 3), In_s (Remesh_s 0), In_3d (Free_3d 0)]. [In_2d Init_2d, In_s (Free_s 3), In_s (Remesh_s 0), In_3d (Free_3d 0)] ! i = In_s Init_s \<longrightarrow>
         fst (mmgs_init (demo_s 2 1) (exec_all (demo_2d 2 1) (demo_3d 2 1) (demo_s 2 1) (take i [In_2d Init_2d, In_s (Free_s 3), In_s (Remesh_s 0), In_3d (Free_3d 0)]) (snd (mmgs_free (demo_s 2 1) 0 demo_world)))) \<noteq> 0)"
    by (rule conjI [OF free_s]) (auto simp add: nth_Cons split: nat.splits)
  note valid_s = a_s [OF ante1_s]
  note invalid_s = b_s [OF ante2_s]
  have v1_s: "fst (validate_handle_s 1 (exec_all (demo_2d 2 1) (demo_3d 2 1) (demo_s 2 1) [In_2d (Remesh_2d 0), In_3d Init_3d, In_s (Get_triangles_qualities_s True 0 (Some 0)), In_s (Free_s 0), In_s (Get_sol_size_s 1 None None None)] (snd (mmgs_init (demo_s 2 1) demo_world)))) \<noteq> 0"
    by (rule valid_s [THEN conjunct1])
  have v2_s: "fst (mmgs_remesh (demo_s 2 1) 1 (exec_all (demo_2d 2 1) (demo_3d 2 1) (demo_s 2 1) [In_2d (Remesh_2d 0), In_3d Init_3d, In_s (Get_triangles_qualities_s True 0 (Some 0)), In_s (Free_s 0), In_s (Get_sol_size_s 1 None None None)] (snd (mmgs_init (demo_s 2 1) demo_world)))) = 0"
    unfolding valid_s [THEN conjunct2, THEN conjunct2, THEN conjunct2, THEN conjunct2, THEN conjunct2, THEN conjunct2, THEN conjunct2, THEN conjunct2, THEN conjunct2, THEN conjunct2, THEN conjunct2, THEN conjunct2, THEN conjunct2, THEN conjunct2, THEN conjunct2, THEN conjunct2, THEN conjunct2, THEN conjunct2, THEN conjunct2, THEN conjunct2, THEN conjunct2, THEN conjunct1]
    by (simp add: demo_s_def Let_def)
  have v3_s: "fst (mmgs_get_triangle_quality (demo_s 2 1) 1 2 (exec_all (demo_2d 2 1) (demo_3d 2 1) (demo_s 2 1) [In_2d (Remesh_2d 0), In_3d Init_3d, In_s (Get_triangles_qualities_s True 0 (Some 0)), In_s (Free_s 0), In_s (Get_sol_size_s 1 None None None)] (snd (mmgs_init (demo_s 2 1) demo_world)))) = 1 / 2"
    unfolding valid_s [THEN conjunct2, THEN conjunct2, THEN conjunct2, THEN conjunct2, THEN conjunct2, THEN conjunct2, THEN conjunct2, THEN conjunct2, THEN conjunct2, THEN conjunct2, THEN conjunct2, THEN conjunct2, THEN conjunct2, THEN conjunct2, THEN conjunct2, THEN conjunct2, THEN conjunct2, THEN conjunct2, THEN conjunct2, THEN conjunct2, THEN conjunct2, THEN conjunct2, THEN conjunct2, THEN conjunct2, THEN conjunct2, THEN conjunct2, THEN conjunct1]
    by (simp add: demo_s_def Let_def)
  have i1_s: "fst (validate_handle_s 0 (exec_all (demo_2d 2 1) (demo_3d 2 1) (demo_s 2 1) [In_2d Init_2d, In_s (Free_s 3), In_s (Remesh_s 0), In_3d (Free_3d 0)] (snd (mmgs_free (demo_s 2 1) 0 demo_world)))) = 0"
    by (rule invalid_s [THEN conjunct1])
  have i2_s: "fst (mmgs_free (demo_s 2 1) 0 (exec_all (demo_2d 2 1) (demo_3d 2 1) (demo_s 2 1) [In_2d Init_2d, In_s (Free_s 3), In_s (Remesh_s 0), In_3d (Free_3d 0)] (snd (mmgs_free (demo_s 2 1) 0 demo_world)))) = 0"
    unfolding invalid_s [THEN conjunct2, THEN conjunct1] by simp
  have i3_s: "fst (mmgs_remesh (demo_s 2 1) 0 (exec_all (demo_2d 2 1) (demo_3d 2 1) (demo_s 2 1) [In_2d Init_2d, In_s (Free_s 3), In_s (Remesh_s 0), In_3d (Free_3d 0)] (snd (mmgs_free (demo_s 2 1) 0 demo_world)))) = - 1"
    unfolding invalid_s [THEN conjunct2, THEN conjunct2, THEN conjunct2, THEN conjunct2, THEN conjunct2, THEN conjunct2, THEN conjunct2, THEN conjunct2, THEN conjunct2, THEN conjunct2, THEN conjunct2, THEN conjunct2, THEN conjunct2, THEN conjunct2, THEN conjunct2, THEN conjunct2, THEN conjunct2, THEN conjunct2, THEN conjunct2, THEN conjunct2, THEN conjunct2, THEN conjunct1] by simp
  have i4_s: "fst (mmgs_get_triangle_quality (demo_s 2 1) 0 2 (exec_all (demo_2d 2 1) (demo_3d 2 1) (demo_s 2 1) [In_2d Init_2d, In_s (Free_s 3), In_s (Remesh_s 0), In_3d (Free_3d 0)] (snd (mmgs_free (demo_s 2 1) 0 demo_world)))) = 0"
    unfolding invalid_s [THEN conjunct2, THEN conjunct2, THEN conjunct2, THEN conjunct2, THEN conjunct2, THEN conjunct2, THEN conjunct2, THEN conjunct2, THEN conjunct2, THEN conjunct2, THEN conjunct2, THEN conjunct2, THEN conjunct2, THEN conjunct2, THEN conjunct2, THEN conjunct2, THEN conjunct2, THEN conjunct2, THEN conjunct2, THEN conjunct2, THEN conjunct2, THEN conjunct2, THEN conjunct2, THEN conjunct2, THEN conjunct2, THEN conjunct2, THEN conjunct1] by simp
  show ?thesis
    by (intro conjI)
      (rule v1_2d v2_2d v3_2d i1_2d i2_2d i3_2d i4_2d v1_3d v2_3d v3_3d i1_3d i2_3d i3_3d i4_3d v1_s v2_s v3_s i1_s i2_s i3_s i4_s)+
qed

subsection \<open>C6: init takes the first inactive slot\<close>

text \<open>
  C6 fails as it is stated: acquiring a slot marks nothing. \<open>find_free_handle\<close> returns
  the index of the first inactive slot and leaves the table as it is: the slot is
  written only once the construction has succeeded, and there is no pending state. In
  the state the program starts in, the slot 0 that was found is still the zeroed entry,
  and a second search finds it again.
\<close>

theorem C6_pending_mark_counterexample:
  "find_free_handle_2d (world0 (0::nat)) = (0, (world0 0)\<lparr>g_initialized_2d := 1\<rparr>) \<and>
   g_handles_2d (snd (find_free_handle_2d (world0 (0::nat)))) = g_handles_2d (world0 (0::nat)) \<and>
   g_handles_2d (snd (find_free_handle_2d (world0 (0::nat)))) ! 0 = zero_entry \<and>
   fst (find_free_handle_2d (snd (find_free_handle_2d (world0 (0::nat))))) = 0"
  by (simp add: find_free_handle_2d_def ensure_initialized_2d_def world0_def Let_def
      find_free_loop.simps [of 0] zero_entry_def)

text \<open>
  C6, amended. The premises name what the library's construction returns in the state
  \<open>w\<close>. When a slot of the table is inactive and the construction succeeds, \<^verbatim>\<open>init\<close>
  returns a handle between 0 and 63, the index of the first inactive slot: the slot is
  inactive and every slot before it is active. The search for it changes no slot. The
  state \<^verbatim>\<open>init\<close> leaves has the new instance in exactly that slot, marked active, and
  every other slot as it was. The handle depends on nothing but which slots are
  inactive: in any state with the same inactive slots, with any library whose
  construction succeeds, \<^verbatim>\<open>init\<close> returns the same handle.
\<close>

theorem C6_first_free_slot:
  assumes wf: "wf_world (w :: 'k world)"
    and init_2d: "MMG2D_Init_mesh Kp (native w) = ((pr, pm, ps), pk)"
    and init_3d: "MMG3D_Init_mesh Kv (native w) = ((vr, vm, vs), vk)"
    and init_s: "MMGS_Init_mesh Ks (native w) = ((sr, sm, ss), sk)"
  shows
  "((\<exists>i < MAX_HANDLES. active (g_handles_2d w ! i) = 0) \<and> pr = 1 \<and> pm \<noteq> NULL \<longrightarrow>
      0 \<le> fst (mmg2d_init Kp w) \<and> fst (mmg2d_init Kp w) \<le> 63 \<and>
      active (g_handles_2d w ! nat (fst (mmg2d_init Kp w))) = 0 \<and>
      (\<forall>j < nat (fst (mmg2d_init Kp w)). active (g_handles_2d w ! j) \<noteq> 0) \<and>
      find_free_handle_2d w = (fst (mmg2d_init Kp w), w\<lparr>g_initialized_2d := 1\<rparr>) \<and>
      snd (mmg2d_init Kp w) =
        w\<lparr>g_initialized_2d := 1, native := MMG2D_Init_parameters Kp pm pk,
          g_handles_2d := (g_handles_2d w)[nat (fst (mmg2d_init Kp w)) := \<lparr>mesh = pm, sol = ps, active = 1\<rparr>]\<rparr> \<and>
      (\<forall>(wb :: 'k world) Kb. wf_world wb \<and>
          (\<forall>j < MAX_HANDLES. (active (g_handles_2d wb ! j) = 0) = (active (g_handles_2d w ! j) = 0)) \<and>
          fst (fst (MMG2D_Init_mesh Kb (native wb))) = 1 \<and>
          fst (snd (fst (MMG2D_Init_mesh Kb (native wb)))) \<noteq> NULL \<longrightarrow>
          fst (mmg2d_init Kb wb) = fst (mmg2d_init Kp w))) \<and>
   ((\<exists>i < MAX_HANDLES. active (g_handles w ! i) = 0) \<and> vr = 1 \<and> vm \<noteq> NULL \<longrightarrow>
      0 \<le> fst (mmg3d_init Kv w) \<and> fst (mmg3d_init Kv w) \<le> 63 \<and>
      active (g_handles w ! nat (fst (mmg3d_init Kv w))) = 0 \<and>
      (\<forall>j < nat (fst (mmg3d_init Kv w)). active (g_handles w ! j) \<noteq> 0) \<and>
      find_free_handle w = (fst (mmg3d_init Kv w), w\<lparr>g_initialized := 1\<rparr>) \<and>
      snd (mmg3d_init Kv w) =
        w\<lparr>g_initialized := 1, native := MMG3D_Init_parameters Kv vm vk,
          g_handles := (g_handles w)[nat (fst (mmg3d_init Kv w)) := \<lparr>mesh = vm, sol = vs, active = 1\<rparr>]\<rparr> \<and>
      (\<forall>(wb :: 'k world) Kb. wf_world wb \<and>
          (\<forall>j < MAX_HANDLES. (active (g_handles wb ! j) = 0) = (active (g_handles w ! j) = 0)) \<and>
          fst (fst (MMG3D_Init_mesh Kb (native wb))) = 1 \<and>
          fst (snd (fst (MMG3D_Init_mesh Kb (native wb)))) \<noteq> NULL \<longrightarrow>
          fst (mmg3d_init Kb wb) = fst (mmg3d_init Kv w))) \<and>
   ((\<exists>i < MAX_HANDLES. active (g_handles_s w ! i) = 0) \<and> sr = 1 \<and> sm \<noteq> NULL \<longrightarrow>
      0 \<le> fst (mmgs_init Ks w) \<and> fst (mmgs_init Ks w) \<le> 63 \<and>
      active (g_handles_s w ! nat (fst (mmgs_init Ks w))) = 0 \<and>
      (\<forall>j < nat (fst (mmgs_init Ks w)). active (g_handles_s w ! j) \<noteq> 0) \<and>
      find_free_handle_s w = (fst (mmgs_init Ks w), w\<lparr>g_initialized_s := 1\<rparr>) \<and>
      snd (mmgs_init Ks w) =
        w\<lparr>g_initialized_s := 1, native := MMGS_Init_parameters Ks sm sk,
          g_handles_s := (g_handles_s w)[nat (fst (mmgs_init Ks w)) := \<lparr>mesh = sm, sol = ss, active = 1\<rparr>]\<rparr> \<and>
      (\<forall>(wb :: 'k world) Kb. wf_world wb \<and>
          (\<forall>j < MAX_HANDLES. (active (g_handles_s wb ! j) = 0) = (active (g_handles_s w ! j) = 0)) \<and>
          fst (fst (MMGS_Init_mesh Kb (native wb))) = 1 \<and>
          fst (snd (fst (MMGS_Init_mesh Kb (native wb)))) \<noteq> NULL \<longrightarrow>
          fst (mmgs_init Kb wb) = fst (mmgs_init Ks w)))"
proof -
  have part_2d: "(\<exists>i < MAX_HANDLES. active (g_handles_2d w ! i) = 0) \<and> pr = 1 \<and> pm \<noteq> NULL \<longrightarrow>
      0 \<le> fst (mmg2d_init Kp w) \<and> fst (mmg2d_init Kp w) \<le> 63 \<and>
      active (g_handles_2d w ! nat (fst (mmg2d_init Kp w))) = 0 \<and>
      (\<forall>j < nat (fst (mmg2d_init Kp w)). active (g_handles_2d w ! j) \<noteq> 0) \<and>
      find_free_handle_2d w = (fst (mmg2d_init Kp w), w\<lparr>g_initialized_2d := 1\<rparr>) \<and>
      snd (mmg2d_init Kp w) =
        w\<lparr>g_initialized_2d := 1, native := MMG2D_Init_parameters Kp pm pk,
          g_handles_2d := (g_handles_2d w)[nat (fst (mmg2d_init Kp w)) := \<lparr>mesh = pm, sol = ps, active = 1\<rparr>]\<rparr> \<and>
      (\<forall>(wb :: 'k world) Kb. wf_world wb \<and>
          (\<forall>j < MAX_HANDLES. (active (g_handles_2d wb ! j) = 0) = (active (g_handles_2d w ! j) = 0)) \<and>
          fst (fst (MMG2D_Init_mesh Kb (native wb))) = 1 \<and>
          fst (snd (fst (MMG2D_Init_mesh Kb (native wb)))) \<noteq> NULL \<longrightarrow>
          fst (mmg2d_init Kb wb) = fst (mmg2d_init Kp w))"
  proof (intro impI)
    assume a: "(\<exists>i < MAX_HANDLES. active (g_handles_2d w ! i) = 0) \<and> pr = 1 \<and> pm \<noteq> NULL"
    then have free: "\<exists>i < MAX_HANDLES. active (g_handles_2d w ! i) = 0"
      and ok: "fst (fst (MMG2D_Init_mesh Kp (native w))) = 1"
              "fst (snd (fst (MMG2D_Init_mesh Kp (native w)))) \<noteq> NULL"
      by (simp_all add: init_2d)
    note facts = first_free_2d [OF wf free ok]
    have h: "fst (mmg2d_init Kp w) = find_free_loop 0 (g_handles_2d w)"
      by (simp add: facts(1))
    have same: "\<forall>(wb :: 'k world) Kb. wf_world wb \<and>
          (\<forall>j < MAX_HANDLES. (active (g_handles_2d wb ! j) = 0) = (active (g_handles_2d w ! j) = 0)) \<and>
          fst (fst (MMG2D_Init_mesh Kb (native wb))) = 1 \<and>
          fst (snd (fst (MMG2D_Init_mesh Kb (native wb)))) \<noteq> NULL \<longrightarrow>
          fst (mmg2d_init Kb wb) = fst (mmg2d_init Kp w)"
    proof (intro allI impI)
      fix wb :: "'k world" and Kb :: "'k MMG2D"
      assume b: "wf_world wb \<and>
          (\<forall>j < MAX_HANDLES. (active (g_handles_2d wb ! j) = 0) = (active (g_handles_2d w ! j) = 0)) \<and>
          fst (fst (MMG2D_Init_mesh Kb (native wb))) = 1 \<and>
          fst (snd (fst (MMG2D_Init_mesh Kb (native wb)))) \<noteq> NULL"
      then have flags: "\<forall>j < MAX_HANDLES. (active (g_handles_2d wb ! j) = 0) = (active (g_handles_2d w ! j) = 0)"
        by simp
      with free have freeb: "\<exists>i < MAX_HANDLES. active (g_handles_2d wb ! i) = 0" by auto
      from b have "fst (mmg2d_init Kb wb) = find_free_loop 0 (g_handles_2d wb)"
        using first_free_2d (1) [OF _ freeb, of Kb] by simp
      also have "\<dots> = find_free_loop 0 (g_handles_2d w)"
        by (rule find_free_loop_flags [OF flags])
      finally show "fst (mmg2d_init Kb wb) = fst (mmg2d_init Kp w)" by (simp add: h)
    qed
    from facts(2-5) same show "0 \<le> fst (mmg2d_init Kp w) \<and> fst (mmg2d_init Kp w) \<le> 63 \<and>
      active (g_handles_2d w ! nat (fst (mmg2d_init Kp w))) = 0 \<and>
      (\<forall>j < nat (fst (mmg2d_init Kp w)). active (g_handles_2d w ! j) \<noteq> 0) \<and>
      find_free_handle_2d w = (fst (mmg2d_init Kp w), w\<lparr>g_initialized_2d := 1\<rparr>) \<and>
      snd (mmg2d_init Kp w) =
        w\<lparr>g_initialized_2d := 1, native := MMG2D_Init_parameters Kp pm pk,
          g_handles_2d := (g_handles_2d w)[nat (fst (mmg2d_init Kp w)) := \<lparr>mesh = pm, sol = ps, active = 1\<rparr>]\<rparr> \<and>
      (\<forall>(wb :: 'k world) Kb. wf_world wb \<and>
          (\<forall>j < MAX_HANDLES. (active (g_handles_2d wb ! j) = 0) = (active (g_handles_2d w ! j) = 0)) \<and>
          fst (fst (MMG2D_Init_mesh Kb (native wb))) = 1 \<and>
          fst (snd (fst (MMG2D_Init_mesh Kb (native wb)))) \<noteq> NULL \<longrightarrow>
          fst (mmg2d_init Kb wb) = fst (mmg2d_init Kp w))"
      unfolding h by (simp add: facts(1) find_free_handle_2d_wf [OF wf] init_2d)
  qed
  have part_3d: "(\<exists>i < MAX_HANDLES. active (g_handles w ! i) = 0) \<and> vr = 1 \<and> vm \<noteq> NULL \<longrightarrow>
      0 \<le> fst (mmg3d_init Kv w) \<and> fst (mmg3d_init Kv w) \<le> 63 \<and>
      active (g_handles w ! nat (fst (mmg3d_init Kv w))) = 0 \<and>
      (\<forall>j < nat (fst (mmg3d_init Kv w)). active (g_handles w ! j) \<noteq> 0) \<and>
      find_free_handle w = (fst (mmg3d_init Kv w), w\<lparr>g_initialized := 1\<rparr>) \<and>
      snd (mmg3d_init Kv w) =
        w\<lparr>g_initialized := 1, native := MMG3D_Init_parameters Kv vm vk,
          g_handles := (g_handles w)[nat (fst (mmg3d_init Kv w)) := \<lparr>mesh = vm, sol = vs, active = 1\<rparr>]\<rparr> \<and>
      (\<forall>(wb :: 'k world) Kb. wf_world wb \<and>
          (\<forall>j < MAX_HANDLES. (active (g_handles wb ! j) = 0) = (active (g_handles w ! j) = 0)) \<and>
          fst (fst (MMG3D_Init_mesh Kb (native wb))) = 1 \<and>
          fst (snd (fst (MMG3D_Init_mesh Kb (native wb)))) \<noteq> NULL \<longrightarrow>
          fst (mmg3d_init Kb wb) = fst (mmg3d_init Kv w))"
  proof (intro impI)
    assume a: "(\<exists>i < MAX_HANDLES. active (g_handles w ! i) = 0) \<and> vr = 1 \<and> vm \<noteq> NULL"
    then have free: "\<exists>i < MAX_HANDLES. active (g_handles w ! i) = 0"
      and ok: "fst (fst (MMG3D_Init_mesh Kv (native w))) = 1"
              "fst (snd (fst (MMG3D_Init_mesh Kv (native w)))) \<noteq> NULL"
      by (simp_all add: init_3d)
    note facts = first_free_3d [OF wf free ok]
    have h: "fst (mmg3d_init Kv w) = find_free_loop 0 (g_handles w)"
      by (simp add: facts(1))
    have same: "\<forall>(wb :: 'k world) Kb. wf_world wb \<and>
          (\<forall>j < MAX_HANDLES. (active (g_handles wb ! j) = 0) = (active (g_handles w ! j) = 0)) \<and>
          fst (fst (MMG3D_Init_mesh Kb (native wb))) = 1 \<and>
          fst (snd (fst (MMG3D_Init_mesh Kb (native wb)))) \<noteq> NULL \<longrightarrow>
          fst (mmg3d_init Kb wb) = fst (mmg3d_init Kv w)"
    proof (intro allI impI)
      fix wb :: "'k world" and Kb :: "'k MMG3D"
      assume b: "wf_world wb \<and>
          (\<forall>j < MAX_HANDLES. (active (g_handles wb ! j) = 0) = (active (g_handles w ! j) = 0)) \<and>
          fst (fst (MMG3D_Init_mesh Kb (native wb))) = 1 \<and>
          fst (snd (fst (MMG3D_Init_mesh Kb (native wb)))) \<noteq> NULL"
      then have flags: "\<forall>j < MAX_HANDLES. (active (g_handles wb ! j) = 0) = (active (g_handles w ! j) = 0)"
        by simp
      with free have freeb: "\<exists>i < MAX_HANDLES. active (g_handles wb ! i) = 0" by auto
      from b have "fst (mmg3d_init Kb wb) = find_free_loop 0 (g_handles wb)"
        using first_free_3d (1) [OF _ freeb, of Kb] by simp
      also have "\<dots> = find_free_loop 0 (g_handles w)"
        by (rule find_free_loop_flags [OF flags])
      finally show "fst (mmg3d_init Kb wb) = fst (mmg3d_init Kv w)" by (simp add: h)
    qed
    from facts(2-5) same show "0 \<le> fst (mmg3d_init Kv w) \<and> fst (mmg3d_init Kv w) \<le> 63 \<and>
      active (g_handles w ! nat (fst (mmg3d_init Kv w))) = 0 \<and>
      (\<forall>j < nat (fst (mmg3d_init Kv w)). active (g_handles w ! j) \<noteq> 0) \<and>
      find_free_handle w = (fst (mmg3d_init Kv w), w\<lparr>g_initialized := 1\<rparr>) \<and>
      snd (mmg3d_init Kv w) =
        w\<lparr>g_initialized := 1, native := MMG3D_Init_parameters Kv vm vk,
          g_handles := (g_handles w)[nat (fst (mmg3d_init Kv w)) := \<lparr>mesh = vm, sol = vs, active = 1\<rparr>]\<rparr> \<and>
      (\<forall>(wb :: 'k world) Kb. wf_world wb \<and>
          (\<forall>j < MAX_HANDLES. (active (g_handles wb ! j) = 0) = (active (g_handles w ! j) = 0)) \<and>
          fst (fst (MMG3D_Init_mesh Kb (native wb))) = 1 \<and>
          fst (snd (fst (MMG3D_Init_mesh Kb (native wb)))) \<noteq> NULL \<longrightarrow>
          fst (mmg3d_init Kb wb) = fst (mmg3d_init Kv w))"
      unfolding h by (simp add: facts(1) find_free_handle_wf [OF wf] init_3d)
  qed
  have part_s: "(\<exists>i < MAX_HANDLES. active (g_handles_s w ! i) = 0) \<and> sr = 1 \<and> sm \<noteq> NULL \<longrightarrow>
      0 \<le> fst (mmgs_init Ks w) \<and> fst (mmgs_init Ks w) \<le> 63 \<and>
      active (g_handles_s w ! nat (fst (mmgs_init Ks w))) = 0 \<and>
      (\<forall>j < nat (fst (mmgs_init Ks w)). active (g_handles_s w ! j) \<noteq> 0) \<and>
      find_free_handle_s w = (fst (mmgs_init Ks w), w\<lparr>g_initialized_s := 1\<rparr>) \<and>
      snd (mmgs_init Ks w) =
        w\<lparr>g_initialized_s := 1, native := MMGS_Init_parameters Ks sm sk,
          g_handles_s := (g_handles_s w)[nat (fst (mmgs_init Ks w)) := \<lparr>mesh = sm, sol = ss, active = 1\<rparr>]\<rparr> \<and>
      (\<forall>(wb :: 'k world) Kb. wf_world wb \<and>
          (\<forall>j < MAX_HANDLES. (active (g_handles_s wb ! j) = 0) = (active (g_handles_s w ! j) = 0)) \<and>
          fst (fst (MMGS_Init_mesh Kb (native wb))) = 1 \<and>
          fst (snd (fst (MMGS_Init_mesh Kb (native wb)))) \<noteq> NULL \<longrightarrow>
          fst (mmgs_init Kb wb) = fst (mmgs_init Ks w))"
  proof (intro impI)
    assume a: "(\<exists>i < MAX_HANDLES. active (g_handles_s w ! i) = 0) \<and> sr = 1 \<and> sm \<noteq> NULL"
    then have free: "\<exists>i < MAX_HANDLES. active (g_handles_s w ! i) = 0"
      and ok: "fst (fst (MMGS_Init_mesh Ks (native w))) = 1"
              "fst (snd (fst (MMGS_Init_mesh Ks (native w)))) \<noteq> NULL"
      by (simp_all add: init_s)
    note facts = first_free_s [OF wf free ok]
    have h: "fst (mmgs_init Ks w) = find_free_loop 0 (g_handles_s w)"
      by (simp add: facts(1))
    have same: "\<forall>(wb :: 'k world) Kb. wf_world wb \<and>
          (\<forall>j < MAX_HANDLES. (active (g_handles_s wb ! j) = 0) = (active (g_handles_s w ! j) = 0)) \<and>
          fst (fst (MMGS_Init_mesh Kb (native wb))) = 1 \<and>
          fst (snd (fst (MMGS_Init_mesh Kb (native wb)))) \<noteq> NULL \<longrightarrow>
          fst (mmgs_init Kb wb) = fst (mmgs_init Ks w)"
    proof (intro allI impI)
      fix wb :: "'k world" and Kb :: "'k MMGS"
      assume b: "wf_world wb \<and>
          (\<forall>j < MAX_HANDLES. (active (g_handles_s wb ! j) = 0) = (active (g_handles_s w ! j) = 0)) \<and>
          fst (fst (MMGS_Init_mesh Kb (native wb))) = 1 \<and>
          fst (snd (fst (MMGS_Init_mesh Kb (native wb)))) \<noteq> NULL"
      then have flags: "\<forall>j < MAX_HANDLES. (active (g_handles_s wb ! j) = 0) = (active (g_handles_s w ! j) = 0)"
        by simp
      with free have freeb: "\<exists>i < MAX_HANDLES. active (g_handles_s wb ! i) = 0" by auto
      from b have "fst (mmgs_init Kb wb) = find_free_loop 0 (g_handles_s wb)"
        using first_free_s (1) [OF _ freeb, of Kb] by simp
      also have "\<dots> = find_free_loop 0 (g_handles_s w)"
        by (rule find_free_loop_flags [OF flags])
      finally show "fst (mmgs_init Kb wb) = fst (mmgs_init Ks w)" by (simp add: h)
    qed
    from facts(2-5) same show "0 \<le> fst (mmgs_init Ks w) \<and> fst (mmgs_init Ks w) \<le> 63 \<and>
      active (g_handles_s w ! nat (fst (mmgs_init Ks w))) = 0 \<and>
      (\<forall>j < nat (fst (mmgs_init Ks w)). active (g_handles_s w ! j) \<noteq> 0) \<and>
      find_free_handle_s w = (fst (mmgs_init Ks w), w\<lparr>g_initialized_s := 1\<rparr>) \<and>
      snd (mmgs_init Ks w) =
        w\<lparr>g_initialized_s := 1, native := MMGS_Init_parameters Ks sm sk,
          g_handles_s := (g_handles_s w)[nat (fst (mmgs_init Ks w)) := \<lparr>mesh = sm, sol = ss, active = 1\<rparr>]\<rparr> \<and>
      (\<forall>(wb :: 'k world) Kb. wf_world wb \<and>
          (\<forall>j < MAX_HANDLES. (active (g_handles_s wb ! j) = 0) = (active (g_handles_s w ! j) = 0)) \<and>
          fst (fst (MMGS_Init_mesh Kb (native wb))) = 1 \<and>
          fst (snd (fst (MMGS_Init_mesh Kb (native wb)))) \<noteq> NULL \<longrightarrow>
          fst (mmgs_init Kb wb) = fst (mmgs_init Ks w))"
      unfolding h by (simp add: facts(1) find_free_handle_s_wf [OF wf] init_s)
  qed
  show ?thesis
    by (rule conjI, rule part_2d, rule conjI, rule part_3d, rule part_s)
qed

theorem C6_first_free_slot_witness:
  "fst (mmg2d_init (demo_2d 2 1) demo_world) = 1 \<and>
   active (g_handles_2d demo_world ! 0) \<noteq> 0 \<and> active (g_handles_2d demo_world ! 1) = 0 \<and>
   find_free_handle_2d demo_world = (1, demo_world\<lparr>g_initialized_2d := 1\<rparr>) \<and>
   snd (mmg2d_init (demo_2d 2 1) demo_world) =
     demo_world\<lparr>g_initialized_2d := 1, native := 5,
       g_handles_2d := (g_handles_2d demo_world)[1 := \<lparr>mesh = 8, sol = 9, active = 1\<rparr>]\<rparr> \<and>
   fst (mmg3d_init (demo_3d 2 1) demo_world) = 1 \<and>
   active (g_handles demo_world ! 0) \<noteq> 0 \<and> active (g_handles demo_world ! 1) = 0 \<and>
   find_free_handle demo_world = (1, demo_world\<lparr>g_initialized := 1\<rparr>) \<and>
   snd (mmg3d_init (demo_3d 2 1) demo_world) =
     demo_world\<lparr>g_initialized := 1, native := 5,
       g_handles := (g_handles demo_world)[1 := \<lparr>mesh = 8, sol = 9, active = 1\<rparr>]\<rparr> \<and>
   fst (mmgs_init (demo_s 2 1) demo_world) = 1 \<and>
   active (g_handles_s demo_world ! 0) \<noteq> 0 \<and> active (g_handles_s demo_world ! 1) = 0 \<and>
   find_free_handle_s demo_world = (1, demo_world\<lparr>g_initialized_s := 1\<rparr>) \<and>
   snd (mmgs_init (demo_s 2 1) demo_world) =
     demo_world\<lparr>g_initialized_s := 1, native := 5,
       g_handles_s := (g_handles_s demo_world)[1 := \<lparr>mesh = 8, sol = 9, active = 1\<rparr>]\<rparr>"
proof -
  have inits:
    "MMG2D_Init_mesh (demo_2d 2 1) (native demo_world) = ((1, 8, 9), 5)"
    "MMG3D_Init_mesh (demo_3d 2 1) (native demo_world) = ((1, 8, 9), 5)"
    "MMGS_Init_mesh (demo_s 2 1) (native demo_world) = ((1, 8, 9), 5)"
    by (simp_all add: demo_2d_def demo_3d_def demo_s_def demo_world_eq)
  have free:
    "\<exists>i < MAX_HANDLES. active (g_handles_2d demo_world ! i) = 0"
    "\<exists>i < MAX_HANDLES. active (g_handles demo_world ! i) = 0"
    "\<exists>i < MAX_HANDLES. active (g_handles_s demo_world ! i) = 0"
    by (rule exI [of _ 1], simp add: demo_world_eq zero_entry_def)+
  have handles:
    "fst (mmg2d_init (demo_2d 2 1) demo_world) = 1"
    "fst (mmg3d_init (demo_3d 2 1) demo_world) = 1"
    "fst (mmgs_init (demo_s 2 1) demo_world) = 1"
    by code_simp+
  have slots:
    "active (g_handles_2d demo_world ! 0) \<noteq> 0" "active (g_handles_2d demo_world ! 1) = 0"
    "active (g_handles demo_world ! 0) \<noteq> 0" "active (g_handles demo_world ! 1) = 0"
    "active (g_handles_s demo_world ! 0) \<noteq> 0" "active (g_handles_s demo_world ! 1) = 0"
    by (simp_all add: demo_world_eq zero_entry_def)
  have ip:
    "MMG2D_Init_parameters (demo_2d 2 1) 8 5 = 5"
    "MMG3D_Init_parameters (demo_3d 2 1) 8 5 = 5"
    "MMGS_Init_parameters (demo_s 2 1) 8 5 = 5"
    by (simp_all add: demo_2d_def demo_3d_def demo_s_def)
  note t = C6_first_free_slot [OF demo_world_wf inits]
  have ante_2d: "(\<exists>i < MAX_HANDLES. active (g_handles_2d demo_world ! i) = 0) \<and> (1::int) = 1 \<and> (8::ptr) \<noteq> NULL"
    using free(1) by simp
  note r_2d = t [THEN conjunct1, THEN mp, OF ante_2d]
  have res_2d: "find_free_handle_2d demo_world = (1, demo_world\<lparr>g_initialized_2d := 1\<rparr>) \<and>
      snd (mmg2d_init (demo_2d 2 1) demo_world) =
        demo_world\<lparr>g_initialized_2d := 1, native := 5,
          g_handles_2d := (g_handles_2d demo_world)[1 := \<lparr>mesh = 8, sol = 9, active = 1\<rparr>]\<rparr>"
    using r_2d [THEN conjunct2, THEN conjunct2, THEN conjunct2, THEN conjunct2, THEN conjunct1]
      r_2d [THEN conjunct2, THEN conjunct2, THEN conjunct2, THEN conjunct2, THEN conjunct2,
        THEN conjunct1]
    unfolding handles ip by simp
  have ante_3d: "(\<exists>i < MAX_HANDLES. active (g_handles demo_world ! i) = 0) \<and> (1::int) = 1 \<and> (8::ptr) \<noteq> NULL"
    using free(2) by simp
  note r_3d = t [THEN conjunct2, THEN conjunct1, THEN mp, OF ante_3d]
  have res_3d: "find_free_handle demo_world = (1, demo_world\<lparr>g_initialized := 1\<rparr>) \<and>
      snd (mmg3d_init (demo_3d 2 1) demo_world) =
        demo_world\<lparr>g_initialized := 1, native := 5,
          g_handles := (g_handles demo_world)[1 := \<lparr>mesh = 8, sol = 9, active = 1\<rparr>]\<rparr>"
    using r_3d [THEN conjunct2, THEN conjunct2, THEN conjunct2, THEN conjunct2, THEN conjunct1]
      r_3d [THEN conjunct2, THEN conjunct2, THEN conjunct2, THEN conjunct2, THEN conjunct2,
        THEN conjunct1]
    unfolding handles ip by simp
  have ante_s: "(\<exists>i < MAX_HANDLES. active (g_handles_s demo_world ! i) = 0) \<and> (1::int) = 1 \<and> (8::ptr) \<noteq> NULL"
    using free(3) by simp
  note r_s = t [THEN conjunct2, THEN conjunct2, THEN mp, OF ante_s]
  have res_s: "find_free_handle_s demo_world = (1, demo_world\<lparr>g_initialized_s := 1\<rparr>) \<and>
      snd (mmgs_init (demo_s 2 1) demo_world) =
        demo_world\<lparr>g_initialized_s := 1, native := 5,
          g_handles_s := (g_handles_s demo_world)[1 := \<lparr>mesh = 8, sol = 9, active = 1\<rparr>]\<rparr>"
    using r_s [THEN conjunct2, THEN conjunct2, THEN conjunct2, THEN conjunct2, THEN conjunct1]
      r_s [THEN conjunct2, THEN conjunct2, THEN conjunct2, THEN conjunct2, THEN conjunct2,
        THEN conjunct1]
    unfolding handles ip by simp
  from handles slots res_2d res_3d res_s show ?thesis
    by (intro conjI) (elim conjE, assumption)+
qed

subsection \<open>C7: a bulk get on a mesh without entities of the kind asked for\<close>

text \<open>
  C7. The premises name what the library reports for the mesh and the solution of the
  handle. For an active handle, each of the 18 bulk getters (of an entity kind, of
  the scalar or tensor field, of the qualities) whose count is 0 returns the null pointer
  with the count set to 0, whether or not an allocation would have succeeded; the heap
  is as it was, so no buffer was allocated or kept. The result is the one every failing
  path returns: the case has no value of its own.
\<close>

theorem C7_empty_bulk_get:
  assumes "wf_world w"
    and "MMG2D_Get_meshSize Kp (mesh (g_handles_2d w ! nat h)) (native w) = (pr, pnp, pnt, pnquad, pna)"
    and "MMG2D_Get_solSize Kp (mesh (g_handles_2d w ! nat h)) (sol (g_handles_2d w ! nat h)) (native w) = (psr, pste, psn, psty)"
    and "MMG3D_Get_meshSize Kv (mesh (g_handles w ! nat h)) (native w) = (vr, vnp, vne, vnprism, vnt, vnquad, vna)"
    and "MMG3D_Get_solSize Kv (mesh (g_handles w ! nat h)) (sol (g_handles w ! nat h)) (native w) = (vsr, vste, vsn, vsty)"
    and "MMGS_Get_meshSize Ks (mesh (g_handles_s w ! nat h)) (native w) = (sr, snp, snt, sna)"
    and "MMGS_Get_solSize Ks (mesh (g_handles_s w ! nat h)) (sol (g_handles_s w ! nat h)) (native w) = (ssr, sste, ssn, ssty)"
  shows
  "(is_active_2d w h \<and> pnp = 0 \<longrightarrow>
      mmg2d_get_vertices Kp fa fb fc fd h out w = ((NULL, map_option (\<lambda>_. 0) out), w\<lparr>g_initialized_2d := 1\<rparr>)) \<and>
   (is_active_2d w h \<and> pnt = 0 \<longrightarrow>
      mmg2d_get_triangles Kp fa fb fc h out w = ((NULL, map_option (\<lambda>_. 0) out), w\<lparr>g_initialized_2d := 1\<rparr>)) \<and>
   (is_active_2d w h \<and> pna = 0 \<longrightarrow>
      mmg2d_get_edges Kp fa fb fc fd h out w = ((NULL, map_option (\<lambda>_. 0) out), w\<lparr>g_initialized_2d := 1\<rparr>)) \<and>
   (is_active_2d w h \<and> psn = 0 \<longrightarrow>
      mmg2d_get_scalar_sols Kp fa h out w = ((NULL, map_option (\<lambda>_. 0) out), w\<lparr>g_initialized_2d := 1\<rparr>)) \<and>
   (is_active_2d w h \<and> psn = 0 \<longrightarrow>
      mmg2d_get_tensor_sols Kp fa h out w = ((NULL, map_option (\<lambda>_. 0) out), w\<lparr>g_initialized_2d := 1\<rparr>)) \<and>
   (is_active_2d w h \<and> pnt = 0 \<longrightarrow>
      mmg2d_get_triangles_qualities Kp fa h out w = ((NULL, map_option (\<lambda>_. 0) out), w\<lparr>g_initialized_2d := 1\<rparr>)) \<and>
   (is_active_3d w h \<and> vnp = 0 \<longrightarrow>
      mmg3d_get_vertices Kv fa fb fc fd h out w = ((NULL, map_option (\<lambda>_. 0) out), w\<lparr>g_initialized := 1\<rparr>)) \<and>
   (is_active_3d w h \<and> vne = 0 \<longrightarrow>
      mmg3d_get_tetrahedra Kv fa fb fc h out w = ((NULL, map_option (\<lambda>_. 0) out), w\<lparr>g_initialized := 1\<rparr>)) \<and>
   (is_active_3d w h \<and> vnt = 0 \<longrightarrow>
      mmg3d_get_triangles Kv fa fb fc h out w = ((NULL, map_option (\<lambda>_. 0) out), w\<lparr>g_initialized := 1\<rparr>)) \<and>
   (is_active_3d w h \<and> vsn = 0 \<longrightarrow>
      mmg3d_get_scalar_sols Kv fa h out w = ((NULL, map_option (\<lambda>_. 0) out), w\<lparr>g_initialized := 1\<rparr>)) \<and>
   (is_active_3d w h \<and> vsn = 0 \<longrightarrow>
      mmg3d_get_tensor_sols Kv fa h out w = ((NULL, map_option (\<lambda>_. 0) out), w\<lparr>g_initialized := 1\<rparr>)) \<and>
   (is_active_3d w h \<and> vne = 0 \<longrightarrow>
      mmg3d_get_tetrahedra_qualities Kv fa h out w = ((NULL, map_option (\<lambda>_. 0) out), w\<lparr>g_initialized := 1\<rparr>)) \<and>
   (is_active_s w h \<and> snp = 0 \<longrightarrow>
      mmgs_get_vertices Ks fa fb fc fd h out w = ((NULL, map_option (\<lambda>_. 0) out), w\<lparr>g_initialized_s := 1\<rparr>)) \<and>
   (is_active_s w h \<and> snt = 0 \<longrightarrow>
      mmgs_get_triangles Ks fa fb fc h out w = ((NULL, map_option (\<lambda>_. 0) out), w\<lparr>g_initialized_s := 1\<rparr>)) \<and>
   (is_active_s w h \<and> sna = 0 \<longrightarrow>
      mmgs_get_edges Ks fa fb fc fd h out w = ((NULL, map_option (\<lambda>_. 0) out), w\<lparr>g_initialized_s := 1\<rparr>)) \<and>
   (is_active_s w h \<and> ssn = 0 \<longrightarrow>
      mmgs_get_scalar_sols Ks fa h out w = ((NULL, map_option (\<lambda>_. 0) out), w\<lparr>g_initialized_s := 1\<rparr>)) \<and>
   (is_active_s w h \<and> ssn = 0 \<longrightarrow>
      mmgs_get_tensor_sols Ks fa h out w = ((NULL, map_option (\<lambda>_. 0) out), w\<lparr>g_initialized_s := 1\<rparr>)) \<and>
   (is_active_s w h \<and> snt = 0 \<longrightarrow>
      mmgs_get_triangles_qualities Ks fa h out w = ((NULL, map_option (\<lambda>_. 0) out), w\<lparr>g_initialized_s := 1\<rparr>))"
  by (intro conjI impI;
      rule mmg2d_get_vertices_empty [OF assms(1)]
        mmg2d_get_triangles_empty [OF assms(1)]
        mmg2d_get_edges_empty [OF assms(1)]
        mmg2d_get_scalar_sols_empty [OF assms(1)]
        mmg2d_get_tensor_sols_empty [OF assms(1)]
        mmg2d_get_triangles_qualities_empty [OF assms(1)]
        mmg3d_get_vertices_empty [OF assms(1)]
        mmg3d_get_tetrahedra_empty [OF assms(1)]
        mmg3d_get_triangles_empty [OF assms(1)]
        mmg3d_get_scalar_sols_empty [OF assms(1)]
        mmg3d_get_tensor_sols_empty [OF assms(1)]
        mmg3d_get_tetrahedra_qualities_empty [OF assms(1)]
        mmgs_get_vertices_empty [OF assms(1)]
        mmgs_get_triangles_empty [OF assms(1)]
        mmgs_get_edges_empty [OF assms(1)]
        mmgs_get_scalar_sols_empty [OF assms(1)]
        mmgs_get_tensor_sols_empty [OF assms(1)]
        mmgs_get_triangles_qualities_empty [OF assms(1)];
      simp add: assms)

theorem C7_empty_bulk_get_witness:
  "mmg2d_get_vertices (demo_2d 0 1) True True True True 0 (Some 7) demo_world = ((NULL, map_option (\<lambda>_. 0) (Some 7)), demo_world\<lparr>g_initialized_2d := 1\<rparr>) \<and>
   mmg2d_get_triangles (demo_2d 0 1) True True True 0 (Some 7) demo_world = ((NULL, map_option (\<lambda>_. 0) (Some 7)), demo_world\<lparr>g_initialized_2d := 1\<rparr>) \<and>
   mmg2d_get_edges (demo_2d 0 1) True True True True 0 (Some 7) demo_world = ((NULL, map_option (\<lambda>_. 0) (Some 7)), demo_world\<lparr>g_initialized_2d := 1\<rparr>) \<and>
   mmg2d_get_scalar_sols (demo_2d 0 1) True 0 (Some 7) demo_world = ((NULL, map_option (\<lambda>_. 0) (Some 7)), demo_world\<lparr>g_initialized_2d := 1\<rparr>) \<and>
   mmg2d_get_tensor_sols (demo_2d 0 1) True 0 (Some 7) demo_world = ((NULL, map_option (\<lambda>_. 0) (Some 7)), demo_world\<lparr>g_initialized_2d := 1\<rparr>) \<and>
   mmg2d_get_triangles_qualities (demo_2d 0 1) True 0 (Some 7) demo_world = ((NULL, map_option (\<lambda>_. 0) (Some 7)), demo_world\<lparr>g_initialized_2d := 1\<rparr>) \<and>
   mmg3d_get_vertices (demo_3d 0 1) True True True True 0 (Some 7) demo_world = ((NULL, map_option (\<lambda>_. 0) (Some 7)), demo_world\<lparr>g_initialized := 1\<rparr>) \<and>
   mmg3d_get_tetrahedra (demo_3d 0 1) True True True 0 (Some 7) demo_world = ((NULL, map_option (\<lambda>_. 0) (Some 7)), demo_world\<lparr>g_initialized := 1\<rparr>) \<and>
   mmg3d_get_triangles (demo_3d 0 1) True True True 0 (Some 7) demo_world = ((NULL, map_option (\<lambda>_. 0) (Some 7)), demo_world\<lparr>g_initialized := 1\<rparr>) \<and>
   mmg3d_get_scalar_sols (demo_3d 0 1) True 0 (Some 7) demo_world = ((NULL, map_option (\<lambda>_. 0) (Some 7)), demo_world\<lparr>g_initialized := 1\<rparr>) \<and>
   mmg3d_get_tensor_sols (demo_3d 0 1) True 0 (Some 7) demo_world = ((NULL, map_option (\<lambda>_. 0) (Some 7)), demo_world\<lparr>g_initialized := 1\<rparr>) \<and>
   mmg3d_get_tetrahedra_qualities (demo_3d 0 1) True 0 (Some 7) demo_world = ((NULL, map_option (\<lambda>_. 0) (Some 7)), demo_world\<lparr>g_initialized := 1\<rparr>) \<and>
   mmgs_get_vertices (demo_s 0 1) True True True True 0 (Some 7) demo_world = ((NULL, map_option (\<lambda>_. 0) (Some 7)), demo_world\<lparr>g_initialized_s := 1\<rparr>) \<and>
   mmgs_get_triangles (demo_s 0 1) True True True 0 (Some 7) demo_world = ((NULL, map_option (\<lambda>_. 0) (Some 7)), demo_world\<lparr>g_initialized_s := 1\<rparr>) \<and>
   mmgs_get_edges (demo_s 0 1) True True True True 0 (Some 7) demo_world = ((NULL, map_option (\<lambda>_. 0) (Some 7)), demo_world\<lparr>g_initialized_s := 1\<rparr>) \<and>
   mmgs_get_scalar_sols (demo_s 0 1) True 0 (Some 7) demo_world = ((NULL, map_option (\<lambda>_. 0) (Some 7)), demo_world\<lparr>g_initialized_s := 1\<rparr>) \<and>
   mmgs_get_tensor_sols (demo_s 0 1) True 0 (Some 7) demo_world = ((NULL, map_option (\<lambda>_. 0) (Some 7)), demo_world\<lparr>g_initialized_s := 1\<rparr>) \<and>
   mmgs_get_triangles_qualities (demo_s 0 1) True 0 (Some 7) demo_world = ((NULL, map_option (\<lambda>_. 0) (Some 7)), demo_world\<lparr>g_initialized_s := 1\<rparr>)"
proof -
  have sizes:
    "MMG2D_Get_meshSize (demo_2d 0 1) (mesh (g_handles_2d demo_world ! nat 0)) (native demo_world) = (1, 0, 0, 0, 0)"
    "MMG2D_Get_solSize (demo_2d 0 1) (mesh (g_handles_2d demo_world ! nat 0)) (sol (g_handles_2d demo_world ! nat 0)) (native demo_world) = (1, 1, 0, 1)"
    "MMG3D_Get_meshSize (demo_3d 0 1) (mesh (g_handles demo_world ! nat 0)) (native demo_world) = (1, 0, 0, 0, 0, 0, 0)"
    "MMG3D_Get_solSize (demo_3d 0 1) (mesh (g_handles demo_world ! nat 0)) (sol (g_handles demo_world ! nat 0)) (native demo_world) = (1, 1, 0, 1)"
    "MMGS_Get_meshSize (demo_s 0 1) (mesh (g_handles_s demo_world ! nat 0)) (native demo_world) = (1, 0, 0, 0)"
    "MMGS_Get_solSize (demo_s 0 1) (mesh (g_handles_s demo_world ! nat 0)) (sol (g_handles_s demo_world ! nat 0)) (native demo_world) = (1, 1, 0, 1)"
    by (simp_all add: demo_2d_def demo_3d_def demo_s_def)
  show ?thesis
    using C7_empty_bulk_get [OF demo_world_wf sizes, where fa = True and fb = True
        and fc = True and fd = True and out = "Some 7"]
      demo_world_active
    by simp
qed

subsection \<open>C8: the quality of one element and of all of them\<close>

text \<open>
  C8 fails as it is stated, in two ways. With a valid handle and a positive element
  count the bulk form returns no buffer when its allocation fails: on the mesh of
  handle 0 of \<open>demo_world\<close>, which has two triangles, it then returns the null pointer
  and sets the count to 0. And the byte count of the allocation is computed in 32 bits:
  for a mesh of \<open>2 ^ 29\<close> triangles it is \<open>2 ^ 32\<close>, which wraps around to 0, so the block
  has no room for a quality and the first assignment of the loop is outside of it.
\<close>

theorem C8_bulk_quality_counterexample:
  "is_active_2d demo_world 0 \<and>
   MMG2D_Get_meshSize (demo_2d 2 1) (mesh (g_handles_2d demo_world ! nat 0)) (native demo_world) =
     (1, 2, 2, 2, 2) \<and>
   mmg2d_get_triangles_qualities (demo_2d 2 1) False 0 (Some 7) demo_world =
     ((NULL, Some 0), demo_world\<lparr>g_initialized_2d := 1\<rparr>) \<and>
   MMG2D_Get_meshSize (demo_2d 536870912 1) (mesh (g_handles_2d demo_world ! nat 0))
       (native demo_world) =
     (1, 536870912, 536870912, 536870912, 536870912) \<and>
   size_t (536870912 * 8) = 0 \<and>
   mmg2d_get_triangles_qualities (demo_2d 536870912 1) True 0 (Some 7) demo_world =
     ((1, Some 536870912),
      demo_world\<lparr>g_initialized_2d := 1, heap := [(1, [])], fault := True\<rparr>)"
proof -
  have heap: "heap demo_world = []" by (simp add: demo_world_eq)
  have wrap: "size_t (536870912 * 8) = 0" by (simp add: size_t_def)
  have sizes: "MMG2D_Get_meshSize (demo_2d 536870912 1) (mesh (g_handles_2d demo_world ! nat 0))
       (native demo_world) = (1, 536870912, 536870912, 536870912, 536870912)"
    by (simp add: demo_2d_def)
  have over: "mmg2d_get_triangles_qualities (demo_2d 536870912 1) True 0 (Some 7) demo_world =
     ((1, Some 536870912),
      demo_world\<lparr>g_initialized_2d := 1, heap := [(1, [])], fault := True\<rparr>)"
    unfolding mmg2d_get_triangles_qualities_def validate_handle_2d_wf [OF demo_world_wf]
    using demo_world_active(1) sizes wrap
    by (simp add: heap highest_def qualities_loop_overrun is_active_2d_def)
  from over wrap sizes show ?thesis
    using mmg2d_get_triangles_qualities_nomem [OF demo_world_wf, of "demo_2d 2 1" 0 "Some 7"]
    by (simp add: demo_world_active demo_2d_def)
qed

text \<open>
  C8, amended. The premises name what the library reports for the mesh of the handle.
  The single form returns 0 on an inactive handle and the library's quality of the
  element on an active one, which is in [0, 1] when the library's qualities are. For an
  active handle whose mesh has \<open>n > 0\<close> elements (the size query returning 1) with
  \<open>8 * n < 2 ^ 32\<close>, so that the byte count of the buffer does not wrap around, the bulk
  form, when its allocation succeeds, returns a block that was not live before, sets the
  count to \<open>n\<close>, and the block holds at \<open>k - 1\<close> what the single form returns for \<open>k\<close>, for
  every \<open>k\<close> from 1 to \<open>n\<close>; no assignment falls outside of the block. With
  \<open>8 * n \<ge> 2 ^ 32\<close> the byte count wraps around, the block is too small for \<open>n\<close>
  qualities, and the loop writes outside of it. When the allocation fails the bulk form
  returns the null pointer, sets the count to 0 and leaves the heap as it was.
\<close>

theorem C8_quality:
  assumes wf: "wf_world w"
    and size_2d: "MMG2D_Get_meshSize Kp (mesh (g_handles_2d w ! nat h)) (native w) = (pr, pnp, pnt, pnquad, pna)"
    and size_3d: "MMG3D_Get_meshSize Kv (mesh (g_handles w ! nat h)) (native w) = (vr, vnp, vne, vnprism, vnt, vnquad, vna)"
    and size_s: "MMGS_Get_meshSize Ks (mesh (g_handles_s w ! nat h)) (native w) = (sr, snp, snt, sna)"
  shows
  "((\<not> is_active_2d w h \<longrightarrow> mmg2d_get_triangle_quality Kp h k w = (0, w\<lparr>g_initialized_2d := 1\<rparr>)) \<and>
    (is_active_2d w h \<longrightarrow>
      mmg2d_get_triangle_quality Kp h k w =
        (MMG2D_Get_triangleQuality Kp (mesh (g_handles_2d w ! nat h)) (sol (g_handles_2d w ! nat h)) k (native w),
         w\<lparr>g_initialized_2d := 1\<rparr>)) \<and>
    (is_active_2d w h \<and>
     (\<forall>m s j st. 0 \<le> MMG2D_Get_triangleQuality Kp m s j st \<and> MMG2D_Get_triangleQuality Kp m s j st \<le> 1) \<longrightarrow>
      0 \<le> fst (mmg2d_get_triangle_quality Kp h k w) \<and> fst (mmg2d_get_triangle_quality Kp h k w) \<le> 1) \<and>
    (is_active_2d w h \<and> pr = 1 \<and> 0 < pnt \<and> pnt * 8 < 4294967296 \<longrightarrow>
      mmg2d_get_triangles_qualities Kp True h out w =
        ((fresh (heap w), map_option (\<lambda>_. pnt) out),
         w\<lparr>g_initialized_2d := 1,
           heap := (fresh (heap w), map (\<lambda>j. D (fst (mmg2d_get_triangle_quality Kp h j w))) [1..pnt]) # heap w\<rparr>) \<and>
      fresh (heap w) \<noteq> NULL \<and> block_at (heap w) (fresh (heap w)) = None \<and>
      (\<forall>j. 1 \<le> j \<and> j \<le> pnt \<longrightarrow>
         map (\<lambda>j. D (fst (mmg2d_get_triangle_quality Kp h j w))) [1..pnt] ! nat (j - 1) =
           D (fst (mmg2d_get_triangle_quality Kp h j w)))) \<and>
    (is_active_2d w h \<and> pr = 1 \<and> 4294967296 \<le> pnt * 8 \<longrightarrow>
      fault (snd (mmg2d_get_triangles_qualities Kp True h out w))) \<and>
    mmg2d_get_triangles_qualities Kp False h out w = ((NULL, map_option (\<lambda>_. 0) out), w\<lparr>g_initialized_2d := 1\<rparr>)) \<and>
   ((\<not> is_active_3d w h \<longrightarrow> mmg3d_get_tetrahedron_quality Kv h k w = (0, w\<lparr>g_initialized := 1\<rparr>)) \<and>
    (is_active_3d w h \<longrightarrow>
      mmg3d_get_tetrahedron_quality Kv h k w =
        (MMG3D_Get_tetrahedronQuality Kv (mesh (g_handles w ! nat h)) (sol (g_handles w ! nat h)) k (native w),
         w\<lparr>g_initialized := 1\<rparr>)) \<and>
    (is_active_3d w h \<and>
     (\<forall>m s j st. 0 \<le> MMG3D_Get_tetrahedronQuality Kv m s j st \<and> MMG3D_Get_tetrahedronQuality Kv m s j st \<le> 1) \<longrightarrow>
      0 \<le> fst (mmg3d_get_tetrahedron_quality Kv h k w) \<and> fst (mmg3d_get_tetrahedron_quality Kv h k w) \<le> 1) \<and>
    (is_active_3d w h \<and> vr = 1 \<and> 0 < vne \<and> vne * 8 < 4294967296 \<longrightarrow>
      mmg3d_get_tetrahedra_qualities Kv True h out w =
        ((fresh (heap w), map_option (\<lambda>_. vne) out),
         w\<lparr>g_initialized := 1,
           heap := (fresh (heap w), map (\<lambda>j. D (fst (mmg3d_get_tetrahedron_quality Kv h j w))) [1..vne]) # heap w\<rparr>) \<and>
      fresh (heap w) \<noteq> NULL \<and> block_at (heap w) (fresh (heap w)) = None \<and>
      (\<forall>j. 1 \<le> j \<and> j \<le> vne \<longrightarrow>
         map (\<lambda>j. D (fst (mmg3d_get_tetrahedron_quality Kv h j w))) [1..vne] ! nat (j - 1) =
           D (fst (mmg3d_get_tetrahedron_quality Kv h j w)))) \<and>
    (is_active_3d w h \<and> vr = 1 \<and> 4294967296 \<le> vne * 8 \<longrightarrow>
      fault (snd (mmg3d_get_tetrahedra_qualities Kv True h out w))) \<and>
    mmg3d_get_tetrahedra_qualities Kv False h out w = ((NULL, map_option (\<lambda>_. 0) out), w\<lparr>g_initialized := 1\<rparr>)) \<and>
   ((\<not> is_active_s w h \<longrightarrow> mmgs_get_triangle_quality Ks h k w = (0, w\<lparr>g_initialized_s := 1\<rparr>)) \<and>
    (is_active_s w h \<longrightarrow>
      mmgs_get_triangle_quality Ks h k w =
        (MMGS_Get_triangleQuality Ks (mesh (g_handles_s w ! nat h)) (sol (g_handles_s w ! nat h)) k (native w),
         w\<lparr>g_initialized_s := 1\<rparr>)) \<and>
    (is_active_s w h \<and>
     (\<forall>m s j st. 0 \<le> MMGS_Get_triangleQuality Ks m s j st \<and> MMGS_Get_triangleQuality Ks m s j st \<le> 1) \<longrightarrow>
      0 \<le> fst (mmgs_get_triangle_quality Ks h k w) \<and> fst (mmgs_get_triangle_quality Ks h k w) \<le> 1) \<and>
    (is_active_s w h \<and> sr = 1 \<and> 0 < snt \<and> snt * 8 < 4294967296 \<longrightarrow>
      mmgs_get_triangles_qualities Ks True h out w =
        ((fresh (heap w), map_option (\<lambda>_. snt) out),
         w\<lparr>g_initialized_s := 1,
           heap := (fresh (heap w), map (\<lambda>j. D (fst (mmgs_get_triangle_quality Ks h j w))) [1..snt]) # heap w\<rparr>) \<and>
      fresh (heap w) \<noteq> NULL \<and> block_at (heap w) (fresh (heap w)) = None \<and>
      (\<forall>j. 1 \<le> j \<and> j \<le> snt \<longrightarrow>
         map (\<lambda>j. D (fst (mmgs_get_triangle_quality Ks h j w))) [1..snt] ! nat (j - 1) =
           D (fst (mmgs_get_triangle_quality Ks h j w)))) \<and>
    (is_active_s w h \<and> sr = 1 \<and> 4294967296 \<le> snt * 8 \<longrightarrow>
      fault (snd (mmgs_get_triangles_qualities Ks True h out w))) \<and>
    mmgs_get_triangles_qualities Ks False h out w = ((NULL, map_option (\<lambda>_. 0) out), w\<lparr>g_initialized_s := 1\<rparr>))"
proof -
  have part_2d: "(\<not> is_active_2d w h \<longrightarrow> mmg2d_get_triangle_quality Kp h k w = (0, w\<lparr>g_initialized_2d := 1\<rparr>)) \<and>
    (is_active_2d w h \<longrightarrow>
      mmg2d_get_triangle_quality Kp h k w =
        (MMG2D_Get_triangleQuality Kp (mesh (g_handles_2d w ! nat h)) (sol (g_handles_2d w ! nat h)) k (native w),
         w\<lparr>g_initialized_2d := 1\<rparr>)) \<and>
    (is_active_2d w h \<and>
     (\<forall>m s j st. 0 \<le> MMG2D_Get_triangleQuality Kp m s j st \<and> MMG2D_Get_triangleQuality Kp m s j st \<le> 1) \<longrightarrow>
      0 \<le> fst (mmg2d_get_triangle_quality Kp h k w) \<and> fst (mmg2d_get_triangle_quality Kp h k w) \<le> 1) \<and>
    (is_active_2d w h \<and> pr = 1 \<and> 0 < pnt \<and> pnt * 8 < 4294967296 \<longrightarrow>
      mmg2d_get_triangles_qualities Kp True h out w =
        ((fresh (heap w), map_option (\<lambda>_. pnt) out),
         w\<lparr>g_initialized_2d := 1,
           heap := (fresh (heap w), map (\<lambda>j. D (fst (mmg2d_get_triangle_quality Kp h j w))) [1..pnt]) # heap w\<rparr>) \<and>
      fresh (heap w) \<noteq> NULL \<and> block_at (heap w) (fresh (heap w)) = None \<and>
      (\<forall>j. 1 \<le> j \<and> j \<le> pnt \<longrightarrow>
         map (\<lambda>j. D (fst (mmg2d_get_triangle_quality Kp h j w))) [1..pnt] ! nat (j - 1) =
           D (fst (mmg2d_get_triangle_quality Kp h j w)))) \<and>
    (is_active_2d w h \<and> pr = 1 \<and> 4294967296 \<le> pnt * 8 \<longrightarrow>
      fault (snd (mmg2d_get_triangles_qualities Kp True h out w))) \<and>
    mmg2d_get_triangles_qualities Kp False h out w = ((NULL, map_option (\<lambda>_. 0) out), w\<lparr>g_initialized_2d := 1\<rparr>)"
  proof (intro conjI impI allI)
    assume "\<not> is_active_2d w h"
    then show "mmg2d_get_triangle_quality Kp h k w = (0, w\<lparr>g_initialized_2d := 1\<rparr>)"
      by (rule mmg2d_get_triangle_quality_inactive [OF wf])
  next
    assume "is_active_2d w h"
    then show "mmg2d_get_triangle_quality Kp h k w =
        (MMG2D_Get_triangleQuality Kp (mesh (g_handles_2d w ! nat h)) (sol (g_handles_2d w ! nat h)) k (native w),
         w\<lparr>g_initialized_2d := 1\<rparr>)"
      by (rule mmg2d_get_triangle_quality_active [OF wf])
  next
    assume a: "is_active_2d w h \<and>
     (\<forall>m s j st. 0 \<le> MMG2D_Get_triangleQuality Kp m s j st \<and> MMG2D_Get_triangleQuality Kp m s j st \<le> 1)"
    then show "0 \<le> fst (mmg2d_get_triangle_quality Kp h k w)" and "fst (mmg2d_get_triangle_quality Kp h k w) \<le> 1"
      by (simp_all add: mmg2d_get_triangle_quality_active [OF wf])
  next
    assume a: "is_active_2d w h \<and> pr = 1 \<and> 0 < pnt \<and> pnt * 8 < 4294967296"
    then have act: "is_active_2d w h" by simp
    have single: "\<And>j. fst (mmg2d_get_triangle_quality Kp h j w) =
        MMG2D_Get_triangleQuality Kp (mesh (g_handles_2d w ! nat h)) (sol (g_handles_2d w ! nat h)) j (native w)"
      by (simp add: mmg2d_get_triangle_quality_active [OF wf act])
    from a show "mmg2d_get_triangles_qualities Kp True h out w =
        ((fresh (heap w), map_option (\<lambda>_. pnt) out),
         w\<lparr>g_initialized_2d := 1,
           heap := (fresh (heap w), map (\<lambda>j. D (fst (mmg2d_get_triangle_quality Kp h j w))) [1..pnt]) # heap w\<rparr>)"
      using mmg2d_get_triangles_qualities_filled [OF wf act, of Kp out] by (simp add: single size_2d)
    show "fresh (heap w) \<noteq> NULL" by (rule fresh_not_NULL)
    show "block_at (heap w) (fresh (heap w)) = None" by (rule block_at_fresh)
    fix j assume "1 \<le> j \<and> j \<le> pnt"
    then show "map (\<lambda>j. D (fst (mmg2d_get_triangle_quality Kp h j w))) [1..pnt] ! nat (j - 1) =
           D (fst (mmg2d_get_triangle_quality Kp h j w))"
      by (simp add: nth_upto)
  next
    assume a: "is_active_2d w h \<and> pr = 1 \<and> 4294967296 \<le> pnt * 8"
    then have act: "is_active_2d w h" by simp
    from a show "fault (snd (mmg2d_get_triangles_qualities Kp True h out w))"
      by (intro mmg2d_get_triangles_qualities_overrun [OF wf act]) (simp_all add: size_2d)
  next
    show "mmg2d_get_triangles_qualities Kp False h out w = ((NULL, map_option (\<lambda>_. 0) out), w\<lparr>g_initialized_2d := 1\<rparr>)"
      by (rule mmg2d_get_triangles_qualities_nomem [OF wf])
  qed
  have part_3d: "(\<not> is_active_3d w h \<longrightarrow> mmg3d_get_tetrahedron_quality Kv h k w = (0, w\<lparr>g_initialized := 1\<rparr>)) \<and>
    (is_active_3d w h \<longrightarrow>
      mmg3d_get_tetrahedron_quality Kv h k w =
        (MMG3D_Get_tetrahedronQuality Kv (mesh (g_handles w ! nat h)) (sol (g_handles w ! nat h)) k (native w),
         w\<lparr>g_initialized := 1\<rparr>)) \<and>
    (is_active_3d w h \<and>
     (\<forall>m s j st. 0 \<le> MMG3D_Get_tetrahedronQuality Kv m s j st \<and> MMG3D_Get_tetrahedronQuality Kv m s j st \<le> 1) \<longrightarrow>
      0 \<le> fst (mmg3d_get_tetrahedron_quality Kv h k w) \<and> fst (mmg3d_get_tetrahedron_quality Kv h k w) \<le> 1) \<and>
    (is_active_3d w h \<and> vr = 1 \<and> 0 < vne \<and> vne * 8 < 4294967296 \<longrightarrow>
      mmg3d_get_tetrahedra_qualities Kv True h out w =
        ((fresh (heap w), map_option (\<lambda>_. vne) out),
         w\<lparr>g_initialized := 1,
           heap := (fresh (heap w), map (\<lambda>j. D (fst (mmg3d_get_tetrahedron_quality Kv h j w))) [1..vne]) # heap w\<rparr>) \<and>
      fresh (heap w) \<noteq> NULL \<and> block_at (heap w) (fresh (heap w)) = None \<and>
      (\<forall>j. 1 \<le> j \<and> j \<le> vne \<longrightarrow>
         map (\<lambda>j. D (fst (mmg3d_get_tetrahedron_quality Kv h j w))) [1..vne] ! nat (j - 1) =
           D (fst (mmg3d_get_tetrahedron_quality Kv h j w)))) \<and>
    (is_active_3d w h \<and> vr = 1 \<and> 4294967296 \<le> vne * 8 \<longrightarrow>
      fault (snd (mmg3d_get_tetrahedra_qualities Kv True h out w))) \<and>
    mmg3d_get_tetrahedra_qualities Kv False h out w = ((NULL, map_option (\<lambda>_. 0) out), w\<lparr>g_initialized := 1\<rparr>)"
  proof (intro conjI impI allI)
    assume "\<not> is_active_3d w h"
    then show "mmg3d_get_tetrahedron_quality Kv h k w = (0, w\<lparr>g_initialized := 1\<rparr>)"
      by (rule mmg3d_get_tetrahedron_quality_inactive [OF wf])
  next
    assume "is_active_3d w h"
    then show "mmg3d_get_tetrahedron_quality Kv h k w =
        (MMG3D_Get_tetrahedronQuality Kv (mesh (g_handles w ! nat h)) (sol (g_handles w ! nat h)) k (native w),
         w\<lparr>g_initialized := 1\<rparr>)"
      by (rule mmg3d_get_tetrahedron_quality_active [OF wf])
  next
    assume a: "is_active_3d w h \<and>
     (\<forall>m s j st. 0 \<le> MMG3D_Get_tetrahedronQuality Kv m s j st \<and> MMG3D_Get_tetrahedronQuality Kv m s j st \<le> 1)"
    then show "0 \<le> fst (mmg3d_get_tetrahedron_quality Kv h k w)" and "fst (mmg3d_get_tetrahedron_quality Kv h k w) \<le> 1"
      by (simp_all add: mmg3d_get_tetrahedron_quality_active [OF wf])
  next
    assume a: "is_active_3d w h \<and> vr = 1 \<and> 0 < vne \<and> vne * 8 < 4294967296"
    then have act: "is_active_3d w h" by simp
    have single: "\<And>j. fst (mmg3d_get_tetrahedron_quality Kv h j w) =
        MMG3D_Get_tetrahedronQuality Kv (mesh (g_handles w ! nat h)) (sol (g_handles w ! nat h)) j (native w)"
      by (simp add: mmg3d_get_tetrahedron_quality_active [OF wf act])
    from a show "mmg3d_get_tetrahedra_qualities Kv True h out w =
        ((fresh (heap w), map_option (\<lambda>_. vne) out),
         w\<lparr>g_initialized := 1,
           heap := (fresh (heap w), map (\<lambda>j. D (fst (mmg3d_get_tetrahedron_quality Kv h j w))) [1..vne]) # heap w\<rparr>)"
      using mmg3d_get_tetrahedra_qualities_filled [OF wf act, of Kv out] by (simp add: single size_3d)
    show "fresh (heap w) \<noteq> NULL" by (rule fresh_not_NULL)
    show "block_at (heap w) (fresh (heap w)) = None" by (rule block_at_fresh)
    fix j assume "1 \<le> j \<and> j \<le> vne"
    then show "map (\<lambda>j. D (fst (mmg3d_get_tetrahedron_quality Kv h j w))) [1..vne] ! nat (j - 1) =
           D (fst (mmg3d_get_tetrahedron_quality Kv h j w))"
      by (simp add: nth_upto)
  next
    assume a: "is_active_3d w h \<and> vr = 1 \<and> 4294967296 \<le> vne * 8"
    then have act: "is_active_3d w h" by simp
    from a show "fault (snd (mmg3d_get_tetrahedra_qualities Kv True h out w))"
      by (intro mmg3d_get_tetrahedra_qualities_overrun [OF wf act]) (simp_all add: size_3d)
  next
    show "mmg3d_get_tetrahedra_qualities Kv False h out w = ((NULL, map_option (\<lambda>_. 0) out), w\<lparr>g_initialized := 1\<rparr>)"
      by (rule mmg3d_get_tetrahedra_qualities_nomem [OF wf])
  qed
  have part_s: "(\<not> is_active_s w h \<longrightarrow> mmgs_get_triangle_quality Ks h k w = (0, w\<lparr>g_initialized_s := 1\<rparr>)) \<and>
    (is_active_s w h \<longrightarrow>
      mmgs_get_triangle_quality Ks h k w =
        (MMGS_Get_triangleQuality Ks (mesh (g_handles_s w ! nat h)) (sol (g_handles_s w ! nat h)) k (native w),
         w\<lparr>g_initialized_s := 1\<rparr>)) \<and>
    (is_active_s w h \<and>
     (\<forall>m s j st. 0 \<le> MMGS_Get_triangleQuality Ks m s j st \<and> MMGS_Get_triangleQuality Ks m s j st \<le> 1) \<longrightarrow>
      0 \<le> fst (mmgs_get_triangle_quality Ks h k w) \<and> fst (mmgs_get_triangle_quality Ks h k w) \<le> 1) \<and>
    (is_active_s w h \<and> sr = 1 \<and> 0 < snt \<and> snt * 8 < 4294967296 \<longrightarrow>
      mmgs_get_triangles_qualities Ks True h out w =
        ((fresh (heap w), map_option (\<lambda>_. snt) out),
         w\<lparr>g_initialized_s := 1,
           heap := (fresh (heap w), map (\<lambda>j. D (fst (mmgs_get_triangle_quality Ks h j w))) [1..snt]) # heap w\<rparr>) \<and>
      fresh (heap w) \<noteq> NULL \<and> block_at (heap w) (fresh (heap w)) = None \<and>
      (\<forall>j. 1 \<le> j \<and> j \<le> snt \<longrightarrow>
         map (\<lambda>j. D (fst (mmgs_get_triangle_quality Ks h j w))) [1..snt] ! nat (j - 1) =
           D (fst (mmgs_get_triangle_quality Ks h j w)))) \<and>
    (is_active_s w h \<and> sr = 1 \<and> 4294967296 \<le> snt * 8 \<longrightarrow>
      fault (snd (mmgs_get_triangles_qualities Ks True h out w))) \<and>
    mmgs_get_triangles_qualities Ks False h out w = ((NULL, map_option (\<lambda>_. 0) out), w\<lparr>g_initialized_s := 1\<rparr>)"
  proof (intro conjI impI allI)
    assume "\<not> is_active_s w h"
    then show "mmgs_get_triangle_quality Ks h k w = (0, w\<lparr>g_initialized_s := 1\<rparr>)"
      by (rule mmgs_get_triangle_quality_inactive [OF wf])
  next
    assume "is_active_s w h"
    then show "mmgs_get_triangle_quality Ks h k w =
        (MMGS_Get_triangleQuality Ks (mesh (g_handles_s w ! nat h)) (sol (g_handles_s w ! nat h)) k (native w),
         w\<lparr>g_initialized_s := 1\<rparr>)"
      by (rule mmgs_get_triangle_quality_active [OF wf])
  next
    assume a: "is_active_s w h \<and>
     (\<forall>m s j st. 0 \<le> MMGS_Get_triangleQuality Ks m s j st \<and> MMGS_Get_triangleQuality Ks m s j st \<le> 1)"
    then show "0 \<le> fst (mmgs_get_triangle_quality Ks h k w)" and "fst (mmgs_get_triangle_quality Ks h k w) \<le> 1"
      by (simp_all add: mmgs_get_triangle_quality_active [OF wf])
  next
    assume a: "is_active_s w h \<and> sr = 1 \<and> 0 < snt \<and> snt * 8 < 4294967296"
    then have act: "is_active_s w h" by simp
    have single: "\<And>j. fst (mmgs_get_triangle_quality Ks h j w) =
        MMGS_Get_triangleQuality Ks (mesh (g_handles_s w ! nat h)) (sol (g_handles_s w ! nat h)) j (native w)"
      by (simp add: mmgs_get_triangle_quality_active [OF wf act])
    from a show "mmgs_get_triangles_qualities Ks True h out w =
        ((fresh (heap w), map_option (\<lambda>_. snt) out),
         w\<lparr>g_initialized_s := 1,
           heap := (fresh (heap w), map (\<lambda>j. D (fst (mmgs_get_triangle_quality Ks h j w))) [1..snt]) # heap w\<rparr>)"
      using mmgs_get_triangles_qualities_filled [OF wf act, of Ks out] by (simp add: single size_s)
    show "fresh (heap w) \<noteq> NULL" by (rule fresh_not_NULL)
    show "block_at (heap w) (fresh (heap w)) = None" by (rule block_at_fresh)
    fix j assume "1 \<le> j \<and> j \<le> snt"
    then show "map (\<lambda>j. D (fst (mmgs_get_triangle_quality Ks h j w))) [1..snt] ! nat (j - 1) =
           D (fst (mmgs_get_triangle_quality Ks h j w))"
      by (simp add: nth_upto)
  next
    assume a: "is_active_s w h \<and> sr = 1 \<and> 4294967296 \<le> snt * 8"
    then have act: "is_active_s w h" by simp
    from a show "fault (snd (mmgs_get_triangles_qualities Ks True h out w))"
      by (intro mmgs_get_triangles_qualities_overrun [OF wf act]) (simp_all add: size_s)
  next
    show "mmgs_get_triangles_qualities Ks False h out w = ((NULL, map_option (\<lambda>_. 0) out), w\<lparr>g_initialized_s := 1\<rparr>)"
      by (rule mmgs_get_triangles_qualities_nomem [OF wf])
  qed
  show ?thesis
    by (rule conjI, rule part_2d, rule conjI, rule part_3d, rule part_s)
qed

theorem C8_quality_witness:
  "mmg2d_get_triangle_quality (demo_2d 2 1) (- 1) 1 demo_world = (0, demo_world\<lparr>g_initialized_2d := 1\<rparr>) \<and>
   mmg2d_get_triangle_quality (demo_2d 2 1) 0 2 demo_world = (1 / 2, demo_world\<lparr>g_initialized_2d := 1\<rparr>) \<and>
   0 \<le> fst (mmg2d_get_triangle_quality (demo_2d 2 1) 0 2 demo_world) \<and>
   fst (mmg2d_get_triangle_quality (demo_2d 2 1) 0 2 demo_world) \<le> 1 \<and>
   mmg2d_get_triangles_qualities (demo_2d 2 1) True 0 (Some 7) demo_world =
     ((1, Some 2), demo_world\<lparr>g_initialized_2d := 1, heap := [(1, [D 1, D (1 / 2)])]\<rparr>) \<and>
   mmg2d_get_triangles_qualities (demo_2d 2 1) False 0 (Some 7) demo_world =
     ((NULL, Some 0), demo_world\<lparr>g_initialized_2d := 1\<rparr>) \<and>
   fault (snd (mmg2d_get_triangles_qualities (demo_2d 536870912 1) True 0 (Some 7) demo_world)) \<and>
   mmg3d_get_tetrahedron_quality (demo_3d 2 1) (- 1) 1 demo_world = (0, demo_world\<lparr>g_initialized := 1\<rparr>) \<and>
   mmg3d_get_tetrahedron_quality (demo_3d 2 1) 0 2 demo_world = (1 / 2, demo_world\<lparr>g_initialized := 1\<rparr>) \<and>
   0 \<le> fst (mmg3d_get_tetrahedron_quality (demo_3d 2 1) 0 2 demo_world) \<and>
   fst (mmg3d_get_tetrahedron_quality (demo_3d 2 1) 0 2 demo_world) \<le> 1 \<and>
   mmg3d_get_tetrahedra_qualities (demo_3d 2 1) True 0 (Some 7) demo_world =
     ((1, Some 2), demo_world\<lparr>g_initialized := 1, heap := [(1, [D 1, D (1 / 2)])]\<rparr>) \<and>
   mmg3d_get_tetrahedra_qualities (demo_3d 2 1) False 0 (Some 7) demo_world =
     ((NULL, Some 0), demo_world\<lparr>g_initialized := 1\<rparr>) \<and>
   fault (snd (mmg3d_get_tetrahedra_qualities (demo_3d 536870912 1) True 0 (Some 7) demo_world)) \<and>
   mmgs_get_triangle_quality (demo_s 2 1) (- 1) 1 demo_world = (0, demo_world\<lparr>g_initialized_s := 1\<rparr>) \<and>
   mmgs_get_triangle_quality (demo_s 2 1) 0 2 demo_world = (1 / 2, demo_world\<lparr>g_initialized_s := 1\<rparr>) \<and>
   0 \<le> fst (mmgs_get_triangle_quality (demo_s 2 1) 0 2 demo_world) \<and>
   fst (mmgs_get_triangle_quality (demo_s 2 1) 0 2 demo_world) \<le> 1 \<and>
   mmgs_get_triangles_qualities (demo_s 2 1) True 0 (Some 7) demo_world =
     ((1, Some 2), demo_world\<lparr>g_initialized_s := 1, heap := [(1, [D 1, D (1 / 2)])]\<rparr>) \<and>
   mmgs_get_triangles_qualities (demo_s 2 1) False 0 (Some 7) demo_world =
     ((NULL, Some 0), demo_world\<lparr>g_initialized_s := 1\<rparr>) \<and>
   fault (snd (mmgs_get_triangles_qualities (demo_s 536870912 1) True 0 (Some 7) demo_world))"
proof -
  have sizes:
    "MMG2D_Get_meshSize (demo_2d 2 1) (mesh (g_handles_2d demo_world ! nat 0)) (native demo_world) = (1, 2, 2, 2, 2)"
    "MMG3D_Get_meshSize (demo_3d 2 1) (mesh (g_handles demo_world ! nat 0)) (native demo_world) = (1, 2, 2, 2, 2, 2, 2)"
    "MMGS_Get_meshSize (demo_s 2 1) (mesh (g_handles_s demo_world ! nat 0)) (native demo_world) = (1, 2, 2, 2)"
    by (simp_all add: demo_2d_def demo_3d_def demo_s_def)
  have sizes_neg:
    "MMG2D_Get_meshSize (demo_2d 2 1) (mesh (g_handles_2d demo_world ! nat (- 1))) (native demo_world) = (1, 2, 2, 2, 2)"
    "MMG3D_Get_meshSize (demo_3d 2 1) (mesh (g_handles demo_world ! nat (- 1))) (native demo_world) = (1, 2, 2, 2, 2, 2, 2)"
    "MMGS_Get_meshSize (demo_s 2 1) (mesh (g_handles_s demo_world ! nat (- 1))) (native demo_world) = (1, 2, 2, 2)"
    by (simp_all add: demo_2d_def demo_3d_def demo_s_def)
  have heap: "heap demo_world = []" by (simp add: demo_world_eq)
  have contract:
    "\<forall>m s j st. 0 \<le> MMG2D_Get_triangleQuality (demo_2d 2 1) m s j st \<and>
                 MMG2D_Get_triangleQuality (demo_2d 2 1) m s j st \<le> 1"
    "\<forall>m s j st. 0 \<le> MMG3D_Get_tetrahedronQuality (demo_3d 2 1) m s j st \<and>
                 MMG3D_Get_tetrahedronQuality (demo_3d 2 1) m s j st \<le> 1"
    "\<forall>m s j st. 0 \<le> MMGS_Get_triangleQuality (demo_s 2 1) m s j st \<and>
                 MMGS_Get_triangleQuality (demo_s 2 1) m s j st \<le> 1"
    by (simp_all add: demo_2d_def demo_3d_def demo_s_def)
  have quality:
    "MMG2D_Get_triangleQuality (demo_2d 2 1) = (\<lambda>m s i k. if even i then 1 / 2 else 1)"
    "MMG3D_Get_tetrahedronQuality (demo_3d 2 1) = (\<lambda>m s i k. if even i then 1 / 2 else 1)"
    "MMGS_Get_triangleQuality (demo_s 2 1) = (\<lambda>m s i k. if even i then 1 / 2 else 1)"
    by (simp_all add: demo_2d_def demo_3d_def demo_s_def)
  have upto: "[1..2] = [1, 2::int]" by (simp add: upto.simps)
  note inactive = C8_quality [OF demo_world_wf sizes_neg, where k = 1 and out = "Some 7"]
  note at = C8_quality [OF demo_world_wf sizes, where k = 2 and out = "Some 7"]
  note first = C8_quality [OF demo_world_wf sizes, where k = 1 and out = "Some 7"]
  have sizes_big:
    "MMG2D_Get_meshSize (demo_2d 536870912 1) (mesh (g_handles_2d demo_world ! nat 0)) (native demo_world) = (1, 536870912, 536870912, 536870912, 536870912)"
    "MMG3D_Get_meshSize (demo_3d 536870912 1) (mesh (g_handles demo_world ! nat 0)) (native demo_world) = (1, 536870912, 536870912, 536870912, 536870912, 536870912, 536870912)"
    "MMGS_Get_meshSize (demo_s 536870912 1) (mesh (g_handles_s demo_world ! nat 0)) (native demo_world) = (1, 536870912, 536870912, 536870912)"
    by (simp_all add: demo_2d_def demo_3d_def demo_s_def)
  note over = C8_quality [OF demo_world_wf sizes_big, where k = 1 and out = "Some 7"]
  have big:
    "fault (snd (mmg2d_get_triangles_qualities (demo_2d 536870912 1) True 0 (Some 7) demo_world))"
    "fault (snd (mmg3d_get_tetrahedra_qualities (demo_3d 536870912 1) True 0 (Some 7) demo_world))"
    "fault (snd (mmgs_get_triangles_qualities (demo_s 536870912 1) True 0 (Some 7) demo_world))"
    using over demo_world_active by simp_all
  show ?thesis
    using inactive at first demo_world_active demo_world_inactive contract big
    by (simp add: heap fresh_def highest_def quality upto)
qed

subsection \<open>C9: the solution getters check the declared type\<close>

text \<open>
  C9. The premises name what the library reports for the solution of the handle: its
  result, the entity type, the count and the solution type. When the type is not 1
  (scalar) the bulk get of the scalar field returns the null pointer with the count set
  to 0, and when it is not 3 (tensor) the bulk get of the tensor field does, whatever
  the count is and whatever the library would have returned for the field itself; no
  buffer is allocated.
\<close>

theorem C9_solution_type_guard:
  assumes "wf_world w"
    and "MMG2D_Get_solSize Kp (mesh (g_handles_2d w ! nat h)) (sol (g_handles_2d w ! nat h)) (native w) = (psr, pste, psn, psty)"
    and "MMG3D_Get_solSize Kv (mesh (g_handles w ! nat h)) (sol (g_handles w ! nat h)) (native w) = (vsr, vste, vsn, vsty)"
    and "MMGS_Get_solSize Ks (mesh (g_handles_s w ! nat h)) (sol (g_handles_s w ! nat h)) (native w) = (ssr, sste, ssn, ssty)"
  shows
  "(psty \<noteq> 1 \<longrightarrow>
      mmg2d_get_scalar_sols Kp fa h out w = ((NULL, map_option (\<lambda>_. 0) out), w\<lparr>g_initialized_2d := 1\<rparr>)) \<and>
   (psty \<noteq> 3 \<longrightarrow>
      mmg2d_get_tensor_sols Kp fa h out w = ((NULL, map_option (\<lambda>_. 0) out), w\<lparr>g_initialized_2d := 1\<rparr>)) \<and>
   (vsty \<noteq> 1 \<longrightarrow>
      mmg3d_get_scalar_sols Kv fa h out w = ((NULL, map_option (\<lambda>_. 0) out), w\<lparr>g_initialized := 1\<rparr>)) \<and>
   (vsty \<noteq> 3 \<longrightarrow>
      mmg3d_get_tensor_sols Kv fa h out w = ((NULL, map_option (\<lambda>_. 0) out), w\<lparr>g_initialized := 1\<rparr>)) \<and>
   (ssty \<noteq> 1 \<longrightarrow>
      mmgs_get_scalar_sols Ks fa h out w = ((NULL, map_option (\<lambda>_. 0) out), w\<lparr>g_initialized_s := 1\<rparr>)) \<and>
   (ssty \<noteq> 3 \<longrightarrow>
      mmgs_get_tensor_sols Ks fa h out w = ((NULL, map_option (\<lambda>_. 0) out), w\<lparr>g_initialized_s := 1\<rparr>))"
  by (intro conjI impI;
      rule mmg2d_get_scalar_sols_guard [OF assms(1)]
        mmg2d_get_tensor_sols_guard [OF assms(1)]
        mmg3d_get_scalar_sols_guard [OF assms(1)]
        mmg3d_get_tensor_sols_guard [OF assms(1)]
        mmgs_get_scalar_sols_guard [OF assms(1)]
        mmgs_get_tensor_sols_guard [OF assms(1)];
      simp add: assms)

theorem C9_solution_type_guard_witness:
  "mmg2d_get_scalar_sols (demo_2d 2 2) True 0 (Some 7) demo_world = ((NULL, map_option (\<lambda>_. 0) (Some 7)), demo_world\<lparr>g_initialized_2d := 1\<rparr>) \<and>
   mmg2d_get_tensor_sols (demo_2d 2 2) True 0 (Some 7) demo_world = ((NULL, map_option (\<lambda>_. 0) (Some 7)), demo_world\<lparr>g_initialized_2d := 1\<rparr>) \<and>
   mmg3d_get_scalar_sols (demo_3d 2 2) True 0 (Some 7) demo_world = ((NULL, map_option (\<lambda>_. 0) (Some 7)), demo_world\<lparr>g_initialized := 1\<rparr>) \<and>
   mmg3d_get_tensor_sols (demo_3d 2 2) True 0 (Some 7) demo_world = ((NULL, map_option (\<lambda>_. 0) (Some 7)), demo_world\<lparr>g_initialized := 1\<rparr>) \<and>
   mmgs_get_scalar_sols (demo_s 2 2) True 0 (Some 7) demo_world = ((NULL, map_option (\<lambda>_. 0) (Some 7)), demo_world\<lparr>g_initialized_s := 1\<rparr>) \<and>
   mmgs_get_tensor_sols (demo_s 2 2) True 0 (Some 7) demo_world = ((NULL, map_option (\<lambda>_. 0) (Some 7)), demo_world\<lparr>g_initialized_s := 1\<rparr>)"
proof -
  have sizes:
    "MMG2D_Get_solSize (demo_2d 2 2) (mesh (g_handles_2d demo_world ! nat 0)) (sol (g_handles_2d demo_world ! nat 0)) (native demo_world) = (1, 1, 2, 2)"
    "MMG3D_Get_solSize (demo_3d 2 2) (mesh (g_handles demo_world ! nat 0)) (sol (g_handles demo_world ! nat 0)) (native demo_world) = (1, 1, 2, 2)"
    "MMGS_Get_solSize (demo_s 2 2) (mesh (g_handles_s demo_world ! nat 0)) (sol (g_handles_s demo_world ! nat 0)) (native demo_world) = (1, 1, 2, 2)"
    by (simp_all add: demo_2d_def demo_3d_def demo_s_def)
  show ?thesis
    using C9_solution_type_guard [OF demo_world_wf sizes, where fa = True and out = "Some 7"]
    by simp
qed

end
